(* ===== verification/Prelude.thy ===== *)
theory Prelude
  imports Main "HOL-Library.Word"
begin

text \<open>
  Shared vocabulary of the development: the outcome of running a C++ member function (normal
  return, exception, undefined behaviour), the state-and-outcome programs the component theories
  are written in, the C integer types of the wrapper classes, and the rules that let the
  simplifier run such programs.
\<close>

section \<open>Outcomes\<close>

text \<open>
  Every kind of undefined behaviour the model distinguishes.  The wrapper code never checks for
  these; the model stops at the first one.  \<open>OutOfFuel\<close> is no behaviour of the program: it is the
  answer of a loop over the library that has not ended within the model's bound, and the theorems
  on such a loop show how much fuel rules it out.
\<close>

datatype ub =
    NullDeref
  | UninitRead
  | DoubleFree
  | UseAfterFree
  | InvalidFree
  | OutOfBounds
  | SignedOverflow
  | BufferOverflow
  | OutOfFuel

datatype ('e, 'a) outcome = Ret 'a | Throw 'e | Undef ub

type_synonym ('s, 'e, 'a) prog = "'s \<Rightarrow> ('e, 'a) outcome \<times> 's"

named_theorems prog_simps \<open>rules that run a program on a state\<close>
named_theorems method_defs \<open>definitions of the modelled member functions\<close>

fun is_undef :: "('e, 'a) outcome \<Rightarrow> bool" where
  "is_undef (Undef u) = True"
| "is_undef r = False"

fun is_ret :: "('e, 'a) outcome \<Rightarrow> bool" where
  "is_ret (Ret a) = True"
| "is_ret r = False"

section \<open>Programs\<close>

definition ret :: "'a \<Rightarrow> ('s, 'e, 'a) prog" where
  "ret a s = (Ret a, s)"

definition throw :: "'e \<Rightarrow> ('s, 'e, 'a) prog" where
  "throw e s = (Throw e, s)"

definition undef :: "ub \<Rightarrow> ('s, 'e, 'a) prog" where
  "undef u s = (Undef u, s)"

definition bindP :: "('s, 'e, 'a) prog \<Rightarrow> ('a \<Rightarrow> ('s, 'e, 'b) prog) \<Rightarrow> ('s, 'e, 'b) prog" where
  "bindP p k s =
     (case p s of
        (Ret a, s') \<Rightarrow> k a s'
      | (Throw e, s') \<Rightarrow> (Throw e, s')
      | (Undef u, s') \<Rightarrow> (Undef u, s'))"

definition seqP :: "('s, 'e, 'a) prog \<Rightarrow> ('s, 'e, 'b) prog \<Rightarrow> ('s, 'e, 'b) prog" where
  "seqP p q = bindP p (\<lambda>_. q)"

text \<open>\<open>try { p } catch (...) {}\<close>: exceptions are swallowed, undefined behaviour is not.\<close>

definition catch_all :: "('s, 'e, unit) prog \<Rightarrow> ('s, 'e, unit) prog" where
  "catch_all p s = (case p s of (Throw e, s') \<Rightarrow> (Ret (), s') | r \<Rightarrow> r)"

text \<open>
  Member functions run on a pair of the object (\<open>*this\<close>) and the machine (the library with the
  memory it owns).
\<close>

definition get_this :: "('o \<times> 'm, 'e, 'o) prog" where
  "get_this s = (Ret (fst s), s)"

definition upd_this :: "('o \<Rightarrow> 'o) \<Rightarrow> ('o \<times> 'm, 'e, unit) prog" where
  "upd_this f s = (Ret (), (f (fst s), snd s))"

text \<open>Lift a program over the machine to one over an object and the machine.\<close>

definition on_mach :: "('m, 'e, 'a) prog \<Rightarrow> ('o \<times> 'm, 'e, 'a) prog" where
  "on_mach p s = (case p (snd s) of (r, m') \<Rightarrow> (r, (fst s, m')))"

text \<open>
  A local object \<open>x\<close> of automatic storage: the body runs on it, then its destructor, on return
  and on exception alike.  A destructor that throws here would terminate the program; the ones
  modelled never do, and an undefined destructor is undefined behaviour.
\<close>

definition with_local ::
  "('o \<times> 'm, 'e, unit) prog \<Rightarrow> 'o \<Rightarrow> ('o \<times> 'm, 'e, 'a) prog \<Rightarrow> ('d \<times> 'm, 'e, 'a) prog" where
  "with_local dtor x body s =
     (case body (x, snd s) of
        (r, (x', m')) \<Rightarrow>
          (if is_undef r then (r, (fst s, m'))
           else (case dtor (x', m') of
                   (Undef u, (_, m'')) \<Rightarrow> (Undef u, (fst s, m''))
                 | (_, (_, m'')) \<Rightarrow> (r, (fst s, m'')))))"

lemma ret_run [simp, prog_simps]: "ret a s = (Ret a, s)"
  by (simp add: ret_def)

lemma throw_run [simp, prog_simps]: "throw e s = (Throw e, s)"
  by (simp add: throw_def)

lemma undef_run [simp, prog_simps]: "undef u s = (Undef u, s)"
  by (simp add: undef_def)

lemma get_this_run [simp, prog_simps]: "get_this (x, m) = (Ret x, (x, m))"
  by (simp add: get_this_def)

lemma upd_this_run [simp, prog_simps]: "upd_this f (x, m) = (Ret (), (f x, m))"
  by (simp add: upd_this_def)

lemma bindP_Ret [prog_simps]: "p s = (Ret a, s') \<Longrightarrow> bindP p k s = k a s'"
  by (simp add: bindP_def)

lemma bindP_False [prog_simps]: "p s = (Ret False, s') \<Longrightarrow> bindP p k s = k False s'"
  by (simp add: bindP_def)

lemma bindP_Throw [prog_simps]: "p s = (Throw e, s') \<Longrightarrow> bindP p k s = (Throw e, s')"
  by (simp add: bindP_def)

lemma bindP_Undef [prog_simps]: "p s = (Undef u, s') \<Longrightarrow> bindP p k s = (Undef u, s')"
  by (simp add: bindP_def)

lemma bindP_if [prog_simps]:
  "bindP (if b then p else q) k = (if b then bindP p k else bindP q k)"
  by simp

lemma seqP_run [prog_simps]: "seqP p q s = bindP p (\<lambda>_. q) s"
  by (simp add: seqP_def)

lemma on_mach_run [prog_simps]: "p m = (r, m') \<Longrightarrow> on_mach p (x, m) = (r, (x, m'))"
  by (simp add: on_mach_def)

lemma catch_all_Ret [prog_simps]: "p s = (Ret (), s') \<Longrightarrow> catch_all p s = (Ret (), s')"
  by (simp add: catch_all_def)

lemma catch_all_Throw [prog_simps]: "p s = (Throw e, s') \<Longrightarrow> catch_all p s = (Ret (), s')"
  by (simp add: catch_all_def)

lemma catch_all_Undef [prog_simps]: "p s = (Undef u, s') \<Longrightarrow> catch_all p s = (Undef u, s')"
  by (simp add: catch_all_def)

lemma catch_all_no_throw: "catch_all p s = (r, s') \<Longrightarrow> r = Ret () \<or> (\<exists>u. r = Undef u)"
  by (auto simp: catch_all_def split: prod.splits outcome.splits)

lemma bindP_assoc: "bindP (bindP p f) g = bindP p (\<lambda>a. bindP (f a) g)"
  by (rule ext) (simp add: bindP_def split: prod.split outcome.split)

lemma seqP_assoc: "seqP (seqP p q) r = seqP p (seqP q r)"
  by (simp add: seqP_def bindP_assoc)

lemma seqP_ret_unit: "seqP p (ret ()) = p"
  by (rule ext) (simp add: seqP_def bindP_def split: prod.split outcome.split)

lemma bindP_RetE:
  assumes "bindP p k s = (Ret b, t)"
  obtains a s' where "p s = (Ret a, s')" and "k a s' = (Ret b, t)"
  using assms by (auto simp: bindP_def split: prod.splits outcome.splits)

section \<open>Members no constructor sets\<close>

datatype 'a cell = Uninit | Init 'a

definition read_cell :: "'a cell \<Rightarrow> ('s, 'e, 'a) prog" where
  "read_cell c = (case c of Uninit \<Rightarrow> undef UninitRead | Init a \<Rightarrow> ret a)"

lemma read_cell_run [prog_simps]:
  "read_cell (Init a) s = (Ret a, s)" "read_cell Uninit s = (Undef UninitRead, s)"
  by (simp_all add: read_cell_def)

section \<open>C integers\<close>

text \<open>
  \<open>int\<close> is 32 bits wide: a value of the code's type \<open>int\<close> is an Isabelle integer, arithmetic on
  it is checked (signed overflow is undefined) and conversions to it wrap.  \<open>unsigned long\<close> is the
  64-bit word of the LP64 Linux builds, \<open>unsigned int\<close> a 32-bit word.
\<close>

type_synonym ulong = "64 word"
type_synonym uint32 = "32 word"
type_synonym cdouble = "64 word" \<comment> \<open>the bit pattern of a \<open>double\<close>, only passed through\<close>

definition INT_MIN :: int where "INT_MIN = - 2147483648"

definition INT_MAX :: int where "INT_MAX = 2147483647"

definition in_int :: "int \<Rightarrow> bool" where
  "in_int x \<longleftrightarrow> INT_MIN \<le> x \<and> x \<le> INT_MAX"

definition int_arith :: "int \<Rightarrow> ('s, 'e, int) prog" where
  "int_arith x = (if in_int x then ret x else undef SignedOverflow)"

definition ulong_to_int :: "ulong \<Rightarrow> int" where
  "ulong_to_int w = sint (ucast w :: 32 word)"

definition int_to_ulong :: "int \<Rightarrow> ulong" where
  "int_to_ulong i = word_of_int i"

definition uint_to_int :: "uint32 \<Rightarrow> int" where
  "uint_to_int w = sint w"

lemma int_arith_ok [prog_simps]: "in_int x \<Longrightarrow> int_arith x s = (Ret x, s)"
  by (simp add: int_arith_def)

lemma int_arith_overflow [prog_simps]: "\<not> in_int x \<Longrightarrow> int_arith x s = (Undef SignedOverflow, s)"
  by (simp add: int_arith_def)

lemma in_int_of_nat: "int n \<le> INT_MAX \<Longrightarrow> in_int (int n)"
  by (simp add: in_int_def INT_MIN_def)

lemma ulong_to_int_of_nat:
  assumes "int n \<le> INT_MAX"
  shows "ulong_to_int (of_nat n) = int n"
proof -
  have n: "int n < 2 ^ 31" using assms by (simp add: INT_MAX_def)
  have "sint (ucast (of_nat n :: 64 word) :: 32 word) = signed_take_bit 31 (int n)"
    using n
    by (simp add: sint_uint unsigned_ucast_eq unsigned_of_nat take_bit_take_bit
        take_bit_nat_eq_self)
  also have "\<dots> = int n"
    using n by (simp add: signed_take_bit_int_eq_self)
  finally show ?thesis by (simp add: ulong_to_int_def)
qed

lemma ulong_to_int_minus_one: "ulong_to_int (- 1) = - 1"
proof -
  have "(ucast (- 1 :: 64 word) :: 32 word) = - 1"
    by (rule bit_word_eqI) (simp add: bit_simps)
  then show ?thesis by (simp add: ulong_to_int_def)
qed

section \<open>Lists\<close>

lemma drop_eq_Cons_nth: "k < length xs \<Longrightarrow> drop k xs = xs ! k # drop (Suc k) xs"
  by (simp add: Cons_nth_drop_Suc)

text \<open>The least index at which a name occurs.\<close>

fun least_index :: "string \<Rightarrow> string list \<Rightarrow> nat option" where
  "least_index f [] = None"
| "least_index f (x # xs) = (if f = x then Some 0 else map_option Suc (least_index f xs))"

lemma least_index_Some:
  "least_index f xs = Some k \<Longrightarrow> k < length xs \<and> xs ! k = f \<and> (\<forall>j < k. xs ! j \<noteq> f)"
proof (induction xs arbitrary: k)
  case (Cons x xs)
  show ?case
  proof (cases "f = x")
    case False
    then obtain z where z: "least_index f xs = Some z" "k = Suc z"
      using Cons.prems by auto
    then have "\<forall>j < Suc z. (x # xs) ! j \<noteq> f"
      using Cons.IH[OF z(1)] False by (auto simp: less_Suc_eq_0_disj)
    with z Cons.IH[OF z(1)] show ?thesis by simp
  qed (use Cons.prems in simp)
qed simp

lemma least_index_None: "least_index f xs = None \<longleftrightarrow> f \<notin> set xs"
  by (induction xs) auto

lemma least_index_drop:
  "k < length xs \<Longrightarrow>
   least_index f (drop k xs) =
     (if f = xs ! k then Some 0 else map_option Suc (least_index f (drop (Suc k) xs)))"
  by (simp add: drop_eq_Cons_nth)

lemma unat_plus_one:
  fixes i n :: "'a::len word"
  assumes "i < n"
  shows "unat (i + 1) = Suc (unat i)"
proof -
  have "unat n < 2 ^ LENGTH('a)" by (rule unsigned_less)
  then have "Suc (unat i) < 2 ^ LENGTH('a)" using assms unfolding word_less_nat_alt by linarith
  then show ?thesis by (simp add: unat_word_ariths(1))
qed

end
