(* ===== verification/MysqlBytes.thy ===== *)
theory MysqlBytes
  imports Prelude
begin

text \<open>
  The byte order macros of \<open>include/MySQL/my_global.h\<close>: integers and floating point numbers are read
  from and written to memory with the low byte first, once byte by byte for any machine and once
  with a machine word for IA-32 and Win32 (suffix \<open>_ia32\<close>).  Memory is the list of the bytes behind
  the pointer; \<open>None\<close> is an access behind its end.  Arithmetic is the two's complement of the
  compilers; \<open>int\<close>, and \<open>long\<close> on IA-32 and Win32, have 32 bits.  Here: both sets are the little endian
  reading and writing of numbers, except that the IA-32 \<open>uint3korr\<close> reads one byte more.
\<close>

unbundle bit_operations_syntax

type_synonym memory = "8 word list"

section \<open>The macros for any machine\<close>

definition sint2korr :: "memory \<Rightarrow> 16 word option" where
  "sint2korr A =
     (case A of a0 # a1 # _ \<Rightarrow> Some (ucast (ucast a0 + push_bit 8 (ucast a1) :: 32 word)) | _ \<Rightarrow> None)"

definition sint3korr :: "memory \<Rightarrow> 32 word option" where
  "sint3korr A =
     (case A of
        a0 # a1 # a2 # _ \<Rightarrow>
          Some (if a2 AND 128 \<noteq> 0
                then push_bit 24 255 OR push_bit 16 (ucast a2) OR push_bit 8 (ucast a1) OR ucast a0
                else push_bit 16 (ucast a2) OR push_bit 8 (ucast a1) OR ucast a0)
      | _ \<Rightarrow> None)"

definition sint4korr :: "memory \<Rightarrow> 32 word option" where
  "sint4korr A =
     (case A of
        a0 # a1 # a2 # a3 # _ \<Rightarrow>
          Some (ucast a0 + push_bit 8 (ucast a1) + push_bit 16 (ucast a2) + push_bit 24 (ucast a3))
      | _ \<Rightarrow> None)"

definition uint2korr :: "memory \<Rightarrow> 16 word option" where
  "uint2korr A =
     (case A of a0 # a1 # _ \<Rightarrow> Some (ucast (ucast a0 + push_bit 8 (ucast a1) :: 32 word)) | _ \<Rightarrow> None)"

definition uint3korr :: "memory \<Rightarrow> 32 word option" where
  "uint3korr A =
     (case A of
        a0 # a1 # a2 # _ \<Rightarrow> Some (ucast a0 + push_bit 8 (ucast a1) + push_bit 16 (ucast a2))
      | _ \<Rightarrow> None)"

definition uint4korr :: "memory \<Rightarrow> 32 word option" where
  "uint4korr A =
     (case A of
        a0 # a1 # a2 # a3 # _ \<Rightarrow>
          Some (ucast a0 + push_bit 8 (ucast a1) + push_bit 16 (ucast a2) + push_bit 24 (ucast a3))
      | _ \<Rightarrow> None)"

text \<open>The low four bytes are added with 32 bits and widened, the others with 64.\<close>

definition low_word :: "8 word \<Rightarrow> 8 word \<Rightarrow> 8 word \<Rightarrow> 8 word \<Rightarrow> 32 word" where
  "low_word a0 a1 a2 a3 = ucast a0 + push_bit 8 (ucast a1) + push_bit 16 (ucast a2) + push_bit 24 (ucast a3)"

definition uint5korr :: "memory \<Rightarrow> 64 word option" where
  "uint5korr A =
     (case A of
        a0 # a1 # a2 # a3 # a4 # _ \<Rightarrow> Some (ucast (low_word a0 a1 a2 a3) + push_bit 32 (ucast a4))
      | _ \<Rightarrow> None)"

definition uint6korr :: "memory \<Rightarrow> 64 word option" where
  "uint6korr A =
     (case A of
        a0 # a1 # a2 # a3 # a4 # a5 # _ \<Rightarrow>
          Some (ucast (low_word a0 a1 a2 a3) + push_bit 32 (ucast a4) + push_bit 40 (ucast a5))
      | _ \<Rightarrow> None)"

definition uint8korr :: "memory \<Rightarrow> 64 word option" where
  "uint8korr A =
     (case A of
        a0 # a1 # a2 # a3 # a4 # a5 # a6 # a7 # _ \<Rightarrow>
          Some (ucast (low_word a0 a1 a2 a3) + push_bit 32 (ucast (low_word a4 a5 a6 a7)))
      | _ \<Rightarrow> None)"

definition sint8korr :: "memory \<Rightarrow> 64 word option" where
  "sint8korr A = uint8korr A"

text \<open>The macros that write: the memory after the assignments.\<close>

definition int2store :: "memory \<Rightarrow> 32 word \<Rightarrow> memory option" where
  "int2store T A = (case T of _ # _ # r \<Rightarrow> Some (ucast A # ucast (drop_bit 8 A) # r) | _ \<Rightarrow> None)"

definition int3store :: "memory \<Rightarrow> 32 word \<Rightarrow> memory option" where
  "int3store T A =
     (case T of
        _ # _ # _ # r \<Rightarrow> Some (ucast A # ucast (drop_bit 8 A) # ucast (drop_bit 16 A) # r)
      | _ \<Rightarrow> None)"

definition int4store :: "memory \<Rightarrow> 32 word \<Rightarrow> memory option" where
  "int4store T A =
     (case T of
        _ # _ # _ # _ # r \<Rightarrow>
          Some (ucast A # ucast (drop_bit 8 A) # ucast (drop_bit 16 A) # ucast (drop_bit 24 A) # r)
      | _ \<Rightarrow> None)"

definition int5store :: "memory \<Rightarrow> 64 word \<Rightarrow> memory option" where
  "int5store T A =
     (case T of
        _ # _ # _ # _ # _ # r \<Rightarrow>
          Some (ucast A # ucast (drop_bit 8 A) # ucast (drop_bit 16 A) # ucast (drop_bit 24 A) #
                ucast (drop_bit 32 A) # r)
      | _ \<Rightarrow> None)"

definition int6store :: "memory \<Rightarrow> 64 word \<Rightarrow> memory option" where
  "int6store T A =
     (case T of
        _ # _ # _ # _ # _ # _ # r \<Rightarrow>
          Some (ucast A # ucast (drop_bit 8 A) # ucast (drop_bit 16 A) # ucast (drop_bit 24 A) #
                ucast (drop_bit 32 A) # ucast (drop_bit 40 A) # r)
      | _ \<Rightarrow> None)"

definition int8store :: "memory \<Rightarrow> 64 word \<Rightarrow> memory option" where
  "int8store T A =
     (let def_temp = ucast A; def_temp2 = ucast (drop_bit 32 A)
      in case int4store T def_temp of
           None \<Rightarrow> None
         | Some T' \<Rightarrow> map_option (\<lambda>high. take 4 T' @ high) (int4store (drop 4 T') def_temp2))"

text \<open>From network byte order.\<close>

definition int4net :: "memory \<Rightarrow> 32 word option" where
  "int4net A =
     (case A of
        a0 # a1 # a2 # a3 # _ \<Rightarrow>
          Some (ucast a3 OR push_bit 8 (ucast a2) OR push_bit 16 (ucast a1) OR push_bit 24 (ucast a0))
      | _ \<Rightarrow> None)"

section \<open>The macros for IA-32 and Win32\<close>

text \<open>The number a little endian machine finds in some bytes, and the bytes of a number.\<close>

fun le_value :: "memory \<Rightarrow> nat" where
  "le_value [] = 0"
| "le_value (b # bs) = unat b + 256 * le_value bs"

fun le_bytes :: "nat \<Rightarrow> nat \<Rightarrow> memory" where
  "le_bytes 0 v = []"
| "le_bytes (Suc n) v = of_nat v # le_bytes n (v div 256)"

text \<open>A load and a store of a machine word of \<open>n\<close> bytes through a cast pointer.\<close>

definition load_le :: "nat \<Rightarrow> memory \<Rightarrow> 'a::len word option" where
  "load_le n A = (if n \<le> length A then Some (of_nat (le_value (take n A))) else None)"

definition store_le :: "nat \<Rightarrow> memory \<Rightarrow> 'a::len word \<Rightarrow> memory option" where
  "store_le n T v = (if n \<le> length T then Some (le_bytes n (unat v) @ drop n T) else None)"

definition sint2korr_ia32 :: "memory \<Rightarrow> 16 word option" where "sint2korr_ia32 A = load_le 2 A"
definition sint3korr_ia32 :: "memory \<Rightarrow> 32 word option" where
  "sint3korr_ia32 A =
     (case A of
        a0 # a1 # a2 # _ \<Rightarrow>
          Some (if a2 AND 128 \<noteq> 0
                then push_bit 24 255 OR push_bit 16 (ucast a2) OR push_bit 8 (ucast a1) OR ucast a0
                else push_bit 16 (ucast a2) OR push_bit 8 (ucast a1) OR ucast a0)
      | _ \<Rightarrow> None)"
definition sint4korr_ia32 :: "memory \<Rightarrow> 32 word option" where "sint4korr_ia32 A = load_le 4 A"
definition uint2korr_ia32 :: "memory \<Rightarrow> 16 word option" where "uint2korr_ia32 A = load_le 2 A"
definition uint3korr_ia32 :: "memory \<Rightarrow> 32 word option" where
  "uint3korr_ia32 A = map_option (\<lambda>v. v AND 0xFFFFFF) (load_le 4 A)"
definition uint4korr_ia32 :: "memory \<Rightarrow> 32 word option" where "uint4korr_ia32 A = load_le 4 A"
definition uint5korr_ia32 :: "memory \<Rightarrow> 64 word option" where
  "uint5korr_ia32 A =
     (case A of
        a0 # a1 # a2 # a3 # a4 # _ \<Rightarrow> Some (ucast (low_word a0 a1 a2 a3) + push_bit 32 (ucast a4))
      | _ \<Rightarrow> None)"
definition uint6korr_ia32 :: "memory \<Rightarrow> 64 word option" where
  "uint6korr_ia32 A =
     (case A of
        a0 # a1 # a2 # a3 # a4 # a5 # _ \<Rightarrow>
          Some (ucast (low_word a0 a1 a2 a3) + push_bit 32 (ucast a4) + push_bit 40 (ucast a5))
      | _ \<Rightarrow> None)"
definition uint8korr_ia32 :: "memory \<Rightarrow> 64 word option" where "uint8korr_ia32 A = load_le 8 A"
definition sint8korr_ia32 :: "memory \<Rightarrow> 64 word option" where "sint8korr_ia32 A = load_le 8 A"

definition int2store_ia32 :: "memory \<Rightarrow> 32 word \<Rightarrow> memory option" where
  "int2store_ia32 T A = store_le 2 T (ucast A :: 16 word)"
definition int3store_ia32 :: "memory \<Rightarrow> 32 word \<Rightarrow> memory option" where
  "int3store_ia32 T A =
     (case T of
        _ # _ # _ # r \<Rightarrow> Some (ucast A # ucast (drop_bit 8 A) # ucast (drop_bit 16 A) # r)
      | _ \<Rightarrow> None)"
definition int4store_ia32 :: "memory \<Rightarrow> 32 word \<Rightarrow> memory option" where
  "int4store_ia32 T A = store_le 4 T A"
definition int5store_ia32 :: "memory \<Rightarrow> 64 word \<Rightarrow> memory option" where
  "int5store_ia32 T A =
     (case T of
        _ # _ # _ # _ # _ # r \<Rightarrow>
          Some (ucast A # ucast (drop_bit 8 A) # ucast (drop_bit 16 A) # ucast (drop_bit 24 A) #
                ucast (drop_bit 32 A) # r)
      | _ \<Rightarrow> None)"
definition int6store_ia32 :: "memory \<Rightarrow> 64 word \<Rightarrow> memory option" where
  "int6store_ia32 T A =
     (case T of
        _ # _ # _ # _ # _ # _ # r \<Rightarrow>
          Some (ucast A # ucast (drop_bit 8 A) # ucast (drop_bit 16 A) # ucast (drop_bit 24 A) #
                ucast (drop_bit 32 A) # ucast (drop_bit 40 A) # r)
      | _ \<Rightarrow> None)"
definition int8store_ia32 :: "memory \<Rightarrow> 64 word \<Rightarrow> memory option" where
  "int8store_ia32 T A = store_le 8 T A"

section \<open>Numbers as bytes\<close>

lemma byte_less: "unat (b :: 8 word) < 256"
  using unsigned_less[of b, where 'a = nat] by simp

lemma le_value_less: "le_value bs < 256 ^ length bs"
proof (induction bs)
  case (Cons b bs)
  have "unat b + 256 * le_value bs < 256 * Suc (le_value bs)" using byte_less[of b] by simp
  also have "\<dots> \<le> 256 * 256 ^ length bs" using Cons by (intro mult_le_mono2) simp
  finally show ?case by simp
qed simp

lemma le_value_bytes: "le_value (le_bytes n v) = v mod 256 ^ n"
proof (induction n arbitrary: v)
  case (Suc n)
  have "v mod (256 * 256 ^ n) = 256 * (v div 256 mod 256 ^ n) + v mod 256" by (rule mod_mult2_eq)
  then show ?case using Suc by (simp add: unsigned_of_nat take_bit_eq_mod)
qed simp

lemma length_le_bytes [simp]: "length (le_bytes n v) = n"
  by (induction n arbitrary: v) simp_all

lemma byte_of_sum: "(of_nat (unat b + 256 * n) :: 8 word) = b"
proof -
  have "(of_nat (256 * n) :: 8 word) = of_nat 256 * of_nat n" by (rule of_nat_mult)
  also have "(of_nat 256 :: 8 word) = 0" by simp
  finally show ?thesis by (simp only: of_nat_add) simp
qed

lemma le_bytes_value: "le_bytes (length bs) (le_value bs) = bs"
proof (induction bs)
  case (Cons b bs)
  have "(unat b + 256 * le_value bs) div 256 = le_value bs" using byte_less[of b] by simp
  then show ?case using Cons byte_of_sum[of b] by simp
qed simp

text \<open>A store followed by a load gives the low bytes.\<close>

lemma load_store_le:
  "Option.bind (store_le n T v) (load_le n) = (if n \<le> length T then Some (of_nat (unat v mod 256 ^ n)) else None)"
  by (simp add: store_le_def load_le_def le_value_bytes)

lemma ucast_of_nat_narrow:
  "LENGTH('b) \<le> LENGTH('a) \<Longrightarrow> ucast (of_nat n :: 'a::len word) = (of_nat n :: 'b::len word)"
  by (simp add: unsigned_of_nat word_of_nat_eq_iff take_bit_take_bit)

lemma ucast_of_nat_widen:
  "n < 2 ^ LENGTH('a) \<Longrightarrow> ucast (of_nat n :: 'a::len word) = (of_nat n :: 'b::len word)"
  by (simp add: unsigned_of_nat take_bit_nat_eq_self)

section \<open>The macros as loads and stores\<close>

text \<open>The sums of the reading macros.\<close>

lemma sum_bytes:
  "(ucast (a0 :: 8 word) + push_bit 8 (ucast (a1 :: 8 word)) :: 'a::len word) = of_nat (le_value [a0, a1])"
  "(ucast a0 + push_bit 8 (ucast a1) + push_bit 16 (ucast (a2 :: 8 word)) :: 'a word) = of_nat (le_value [a0, a1, a2])"
  "(ucast a0 + push_bit 8 (ucast a1) + push_bit 16 (ucast a2) + push_bit 24 (ucast (a3 :: 8 word)) :: 'a word) =
   of_nat (le_value [a0, a1, a2, a3])"
  by (simp_all add: push_bit_eq_mult algebra_simps)

lemma take_bytes:
  "take 2 (a0 # a1 # r) = [a0, a1]" "take 3 (a0 # a1 # a2 # r) = [a0, a1, a2]"
  "take 4 (a0 # a1 # a2 # a3 # r) = [a0, a1, a2, a3]" "take 5 (a0 # a1 # a2 # a3 # a4 # r) = [a0, a1, a2, a3, a4]"
  "take 6 (a0 # a1 # a2 # a3 # a4 # a5 # r) = [a0, a1, a2, a3, a4, a5]"
  "take 8 (a0 # a1 # a2 # a3 # a4 # a5 # a6 # a7 # r) = [a0, a1, a2, a3, a4, a5, a6, a7]"
  by (simp_all add: eval_nat_numeral)

lemmas load_simps = load_le_def take_bytes push_bit_eq_mult algebra_simps

lemma korr2_narrow: "(ucast (ucast a0 + push_bit 8 (ucast a1) :: 32 word) :: 16 word) = of_nat (le_value [a0, a1])"
  unfolding sum_bytes(1) by (rule ucast_of_nat_narrow) simp

lemma korr2_le: "uint2korr A = load_le 2 A" "sint2korr A = load_le 2 A"
  by (auto simp: load_le_def uint2korr_def sint2korr_def take_bytes korr2_narrow simp del: le_value.simps split: list.split)

lemma korr34_le: "uint3korr A = load_le 3 A" "uint4korr A = load_le 4 A" "sint4korr A = load_le 4 A"
  by (auto simp: load_simps uint3korr_def uint4korr_def sint4korr_def split: list.split)

lemma low_word_wide: "(ucast (low_word a0 a1 a2 a3) :: 64 word) = of_nat (le_value [a0, a1, a2, a3])"
  unfolding low_word_def sum_bytes(3)
  using le_value_less[of "[a0, a1, a2, a3]"] by (intro ucast_of_nat_widen) simp

lemma korr568_le: "uint5korr A = load_le 5 A" "uint6korr A = load_le 6 A" "uint8korr A = load_le 8 A"
  by (auto simp: load_simps uint5korr_def uint6korr_def uint8korr_def low_word_wide split: list.split)

text \<open>The bytes of the writing macros.\<close>

lemma byte_drop: "(ucast (drop_bit k (A :: 'a::len word)) :: 8 word) = of_nat (unat A div 2 ^ k)"
  by (metis drop_bit_eq_div of_nat_unat unat_drop_bit_eq)

lemma le_bytes_numeral [simp]:
  "le_bytes (numeral k) v = of_nat v # le_bytes (pred_numeral k) (v div 256)"
  unfolding numeral_eq_Suc[of k] by simp

lemma le_bytes_mod: "le_bytes n (v mod 256 ^ n) = le_bytes n v"
  by (metis le_bytes_value le_value_bytes length_le_bytes)

lemma le_bytes_add: "le_bytes (m + n) v = le_bytes m v @ le_bytes n (v div 256 ^ m)"
  by (induction m arbitrary: v) (simp_all add: div_mult2_eq)

lemma unat_ucast_mod: "unat (ucast (A :: 'a::len word) :: 'b::len word) = unat A mod 2 ^ LENGTH('b)"
  by (simp add: unsigned_ucast_eq take_bit_eq_mod)

lemma store_le_ucast:
  "2 ^ LENGTH('b) = (256 :: nat) ^ n \<Longrightarrow> store_le n T (ucast (A :: 'a::len word) :: 'b::len word) = store_le n T A"
  by (simp add: store_le_def unat_ucast_mod le_bytes_mod)

lemma stores_le:
  "int2store T A = store_le 2 T A" "int3store T A = store_le 3 T A" "int4store T A = store_le 4 T A"
  "int5store T B = store_le 5 T B" "int6store T B = store_le 6 T B"
  by (auto simp: store_le_def byte_drop int2store_def int3store_def int4store_def int5store_def int6store_def
      div_mult2_eq[symmetric] split: list.split)

lemma store8_le: "int8store T B = store_le 8 T B"
proof -
  have split: "le_bytes 8 (unat B) = le_bytes 4 (unat B) @ le_bytes 4 (unat B div 256 ^ 4)"
    using le_bytes_add[of 4 4 "unat B"] by (simp del: le_bytes_numeral)
  have "le_bytes 4 (unat (ucast B :: 32 word)) = le_bytes 4 (unat B)"
    using le_bytes_mod[of 4 "unat B"] by (simp add: unat_ucast_mod del: le_bytes_numeral)
  moreover have "le_bytes 4 (unat (ucast (drop_bit 32 B) :: 32 word)) = le_bytes 4 (unat B div 256 ^ 4)"
  proof -
    have "unat (drop_bit 32 B) = unat B div 256 ^ 4" by (subst unat_drop_bit_eq) (simp add: drop_bit_eq_div)
    then show ?thesis
      using le_bytes_mod[of 4 "unat B div 256 ^ 4"] by (simp only: unat_ucast_mod) simp
  qed
  ultimately show ?thesis
    by (auto simp: int8store_def Let_def stores_le store_le_def split simp del: le_bytes_numeral)
qed

text \<open>The bytes do not overlap, so that adding them is joining their bits.\<close>

lemma byte_bit: "8 \<le> k \<Longrightarrow> \<not> bit (a :: 8 word) k"
  using bit_imp_le_length[of a k] by auto

lemma byte_sum_or:
  fixes a0 a1 a2 a3 :: "8 word"
  shows "ucast a0 + push_bit 8 (ucast a1) + push_bit 16 (ucast a2) =
           (push_bit 16 (ucast a2) OR push_bit 8 (ucast a1) OR ucast a0 :: 32 word)"
    and "ucast a0 + push_bit 8 (ucast a1) + push_bit 16 (ucast a2) + push_bit 24 (ucast a3) =
           (ucast a0 OR push_bit 8 (ucast a1) OR push_bit 16 (ucast a2) OR push_bit 24 (ucast a3) :: 32 word)"
proof -
  have "ucast a0 + push_bit 8 (ucast a1) = (ucast a0 OR push_bit 8 (ucast a1) :: 32 word)"
    by (rule disjunctive_add_eq_or, rule bit_word_eqI) (auto simp: bit_simps byte_bit)
  moreover have "(ucast a0 OR push_bit 8 (ucast a1)) + push_bit 16 (ucast a2) =
      ((ucast a0 OR push_bit 8 (ucast a1)) OR push_bit 16 (ucast a2) :: 32 word)"
    by (rule disjunctive_add_eq_or, rule bit_word_eqI) (auto simp: bit_simps byte_bit)
  moreover have "(ucast a0 OR push_bit 8 (ucast a1) OR push_bit 16 (ucast a2)) + push_bit 24 (ucast a3) =
      ((ucast a0 OR push_bit 8 (ucast a1) OR push_bit 16 (ucast a2)) OR push_bit 24 (ucast a3) :: 32 word)"
    by (rule disjunctive_add_eq_or, rule bit_word_eqI) (auto simp: bit_simps byte_bit)
  ultimately show "ucast a0 + push_bit 8 (ucast a1) + push_bit 16 (ucast a2) =
           (push_bit 16 (ucast a2) OR push_bit 8 (ucast a1) OR ucast a0 :: 32 word)"
    and "ucast a0 + push_bit 8 (ucast a1) + push_bit 16 (ucast a2) + push_bit 24 (ucast a3) =
           (ucast a0 OR push_bit 8 (ucast a1) OR push_bit 16 (ucast a2) OR push_bit 24 (ucast a3) :: 32 word)"
    by (simp_all add: ac_simps)
qed

text \<open>\<open>sint3korr\<close> extends the sign of the 24 bit number.\<close>

lemma and_128: "(a AND 128 \<noteq> 0) = bit (a :: 8 word) 7"
  using and_exp_eq_0_iff_not_bit[of a 7] by simp

lemma sint3korr_eq: "sint3korr A = map_option (signed_take_bit 23) (uint3korr A)"
proof -
  have "(if bit a2 7 then push_bit 24 255 OR push_bit 16 (ucast a2) OR push_bit 8 (ucast a1) OR ucast a0
         else push_bit 16 (ucast a2) OR push_bit 8 (ucast a1) OR ucast a0) =
      signed_take_bit 23 (push_bit 16 (ucast a2) OR push_bit 8 (ucast a1) OR ucast a0 :: 32 word)"
    for a0 a1 a2 :: "8 word"
  proof -
    have m: "(255 :: 32 word) = mask 8" by (simp add: mask_eq_exp_minus_1)
    show ?thesis
    proof (rule bit_word_eqI)
      fix n assume "n < LENGTH(32)"
      then show "bit (if bit a2 7 then push_bit 24 255 OR push_bit 16 (ucast a2) OR push_bit 8 (ucast a1) OR ucast a0
          else push_bit 16 (ucast a2) OR push_bit 8 (ucast a1) OR ucast a0 :: 32 word) n =
        bit (signed_take_bit 23 (push_bit 16 (ucast a2) OR push_bit 8 (ucast a1) OR ucast a0 :: 32 word)) n"
        unfolding m using less_linear[of n 23]
        by (elim disjE) (simp_all add: bit_simps byte_bit min_def less_diff_conv2 not_less)
    qed
  qed
  then show ?thesis
    by (auto simp: sint3korr_def uint3korr_def and_128 byte_sum_or(1) split: list.split)
qed


section \<open>Writing and reading back\<close>

lemma take_bit_of_nat: "of_nat (unat (v :: 'a::len word) mod 2 ^ n) = take_bit n v"
  by (metis of_nat_take_bit of_nat_unat take_bit_eq_mod ucast_id)

lemma load_store_word:
  "Option.bind (store_le n T v) (load_le n) = (if n \<le> length T then Some (take_bit (8 * n) v) else None)"
  by (simp add: load_store_le take_bit_of_nat[symmetric] power_mult)

lemma of_nat_mod_16: "(of_nat (n mod 65536) :: 16 word) = of_nat n"
  by (simp add: word_of_nat_eq_iff take_bit_eq_mod)

lemma load_store_16:
  "Option.bind (store_le 2 T (v :: 32 word)) (load_le 2) = (if 2 \<le> length T then Some (ucast v :: 16 word) else None)"
  unfolding load_store_le by (simp add: of_nat_mod_16)

lemma signed_take_bit_self:
  assumes "- (2 ^ 23) \<le> sint (a :: 32 word)" and "sint a < 2 ^ 23"
  shows "signed_take_bit 23 a = a"
proof -
  have "bit (signed_take_bit 23 (sint a)) n = bit (sint a) n" for n
    using assms by (simp add: signed_take_bit_int_eq_self)
  then have "bit a (min 31 (min 23 n)) = bit a (min 31 n)" for n
    by (simp add: bit_simps)
  moreover have "min 31 (min 23 n) = min 23 n" for n :: nat by (simp add: min_def)
  moreover have "min 31 n = n" if "n < 32" for n :: nat using that by (simp add: min_def)
  ultimately have "bit a (min 23 n) = bit a n" if "n < 32" for n
    using that by metis
  then show ?thesis by (intro bit_word_eqI) (simp add: bit_simps)
qed

lemma le_value_take:
  assumes "n \<le> length bs"
  shows "le_value (take n bs) = le_value bs mod 256 ^ n"
proof -
  have "bs = le_bytes n (le_value bs) @ le_bytes (length bs - n) (le_value bs div 256 ^ n)"
    using le_bytes_add[of n "length bs - n" "le_value bs"] le_bytes_value[of bs] assms by simp
  then have "take n bs = le_bytes n (le_value bs)" by (metis append_eq_conv_conj length_le_bytes)
  then show ?thesis by (simp add: le_value_bytes)
qed

section \<open>IA-32\<close>

lemma load3_of_4:
  assumes "4 \<le> length A"
  shows "map_option (\<lambda>v. v AND 0xFFFFFF) (load_le 4 A) = (load_le 3 A :: 32 word option)"
proof -
  have m: "(0xFFFFFF :: 32 word) = mask 24" by (simp add: mask_eq_exp_minus_1)
  have "le_value (take 3 A) = le_value (take 4 A) mod 2 ^ 24"
    using assms le_value_take[of 3 "take 4 A"] by simp
  moreover have "take_bit 24 (of_nat n :: 32 word) = of_nat (n mod 2 ^ 24)" for n
    by (simp only: of_nat_take_bit[symmetric] take_bit_eq_mod[symmetric])
  ultimately show ?thesis
    using assms unfolding load_le_def m take_bit_eq_mask[symmetric] by simp
qed

lemmas korr_le = korr2_le korr34_le korr568_le sint8korr_def

lemma ia32_same:
  "uint2korr_ia32 A = uint2korr A" "sint2korr_ia32 A = sint2korr A" "sint3korr_ia32 A = sint3korr A"
  "uint4korr_ia32 A = uint4korr A" "sint4korr_ia32 A = sint4korr A" "uint5korr_ia32 A = uint5korr A"
  "uint6korr_ia32 A = uint6korr A" "uint8korr_ia32 A = uint8korr A" "sint8korr_ia32 A = sint8korr A"
  by (simp_all add: korr_le uint2korr_ia32_def sint2korr_ia32_def uint4korr_ia32_def sint4korr_ia32_def
      uint8korr_ia32_def sint8korr_ia32_def)
     (simp_all add: korr_le[symmetric] uint5korr_ia32_def uint6korr_ia32_def sint3korr_ia32_def uint5korr_def
      uint6korr_def sint3korr_def)

lemma ia32_store_same:
  "int2store_ia32 T A = int2store T A" "int3store_ia32 T A = int3store T A" "int4store_ia32 T A = int4store T A"
  "int5store_ia32 T B = int5store T B" "int6store_ia32 T B = int6store T B" "int8store_ia32 T B = int8store T B"
  by (simp_all only: int3store_ia32_def int3store_def int5store_ia32_def int5store_def int6store_ia32_def int6store_def)
     (simp_all add: int2store_ia32_def int4store_ia32_def int8store_ia32_def stores_le store8_le store_le_ucast
      del: le_bytes_numeral)

lemma ia32_uint3korr: "uint3korr_ia32 A = (if length A = 3 then None else uint3korr A)"
proof (cases "4 \<le> length A")
  case True
  then show ?thesis using load3_of_4[OF True] by (simp add: uint3korr_ia32_def korr_le)
next
  case False
  then show ?thesis by (simp add: uint3korr_ia32_def korr_le load_le_def)
qed

lemma store_uint3korr:
  "Option.bind (int3store T v) uint3korr = (if 3 \<le> length T then Some (take_bit 24 v) else None)"
  unfolding stores_le korr_le by (simp add: load_store_word)

lemma store_sint3korr:
  assumes "- (2 ^ 23) \<le> sint a" and "sint a < 2 ^ 23"
  shows "Option.bind (int3store T a) sint3korr = (if 3 \<le> length T then Some a else None)"
proof -
  have "Option.bind (int3store T a) sint3korr = map_option (signed_take_bit 23) (Option.bind (int3store T a) uint3korr)"
    by (cases "int3store T a") (simp_all add: sint3korr_eq)
  moreover have "signed_take_bit 23 (take_bit 24 a) = a"
    using signed_take_bit_self[OF assms] by (simp add: signed_take_bit_take_bit)
  ultimately show ?thesis by (simp add: store_uint3korr)
qed

lemma int4net_rev: "length A = 4 \<Longrightarrow> int4net (rev A) = sint4korr A"
proof -
  assume "length A = 4"
  then obtain a0 a1 a2 a3 where "A = [a0, a1, a2, a3]"
    by (auto simp: eval_nat_numeral length_Suc_conv)
  then show ?thesis by (simp add: int4net_def sint4korr_def byte_sum_or(2))
qed

section \<open>Floating point numbers\<close>

text \<open>
  The bytes of a \<open>float\<close> or \<open>double\<close> are copied in the other order by big endian machines, and with the
  two words of a \<open>double\<close> exchanged where these are stored high word first.  \<open>V\<close> is the memory of the
  variable.
\<close>

definition float4store_be :: "memory \<Rightarrow> memory \<Rightarrow> memory option" where
  "float4store_be T V =
     (case (T, V) of
        (_ # _ # _ # _ # r, [v0, v1, v2, v3]) \<Rightarrow> Some (v3 # v2 # v1 # v0 # r)
      | _ \<Rightarrow> None)"

definition float4get_be :: "memory \<Rightarrow> memory option" where
  "float4get_be M = (case M of m0 # m1 # m2 # m3 # _ \<Rightarrow> Some [m3, m2, m1, m0] | _ \<Rightarrow> None)"

definition float8store_be :: "memory \<Rightarrow> memory \<Rightarrow> memory option" where
  "float8store_be T V =
     (case (T, V) of
        (_ # _ # _ # _ # _ # _ # _ # _ # r, [v0, v1, v2, v3, v4, v5, v6, v7]) \<Rightarrow>
          Some (v7 # v6 # v5 # v4 # v3 # v2 # v1 # v0 # r)
      | _ \<Rightarrow> None)"

definition float8get_be :: "memory \<Rightarrow> memory option" where
  "float8get_be M =
     (case M of
        m0 # m1 # m2 # m3 # m4 # m5 # m6 # m7 # _ \<Rightarrow> Some [m7, m6, m5, m4, m3, m2, m1, m0]
      | _ \<Rightarrow> None)"

definition doublestore_mixed :: "memory \<Rightarrow> memory \<Rightarrow> memory option" where
  "doublestore_mixed T V =
     (case (T, V) of
        (_ # _ # _ # _ # _ # _ # _ # _ # r, [v0, v1, v2, v3, v4, v5, v6, v7]) \<Rightarrow>
          Some (v4 # v5 # v6 # v7 # v0 # v1 # v2 # v3 # r)
      | _ \<Rightarrow> None)"

definition doubleget_mixed :: "memory \<Rightarrow> memory option" where
  "doubleget_mixed M =
     (case M of
        m0 # m1 # m2 # m3 # m4 # m5 # m6 # m7 # _ \<Rightarrow> Some [m4, m5, m6, m7, m0, m1, m2, m3]
      | _ \<Rightarrow> None)"

lemma list4: "length V = 4 \<Longrightarrow> \<exists>v0 v1 v2 v3. V = [v0, v1, v2, v3]"
  by (auto simp: eval_nat_numeral length_Suc_conv)

lemma list8: "length V = 8 \<Longrightarrow> \<exists>v0 v1 v2 v3 v4 v5 v6 v7. V = [v0, v1, v2, v3, v4, v5, v6, v7]"
  by (auto simp: eval_nat_numeral length_Suc_conv)

lemma float_store_get:
  "length V = 4 \<Longrightarrow> Option.bind (float4store_be T V) float4get_be = (if 4 \<le> length T then Some V else None)"
  "length V = 8 \<Longrightarrow> Option.bind (float8store_be T V) float8get_be = (if 8 \<le> length T then Some V else None)"
  "length V = 8 \<Longrightarrow> Option.bind (doublestore_mixed T V) doubleget_mixed = (if 8 \<le> length T then Some V else None)"
  by (auto dest!: list4 list8 simp: float4store_be_def float4get_be_def float8store_be_def float8get_be_def
      doublestore_mixed_def doubleget_mixed_def split: list.split)

end
