(* ===== verification/MysqlErrors.thy ===== *)
theory MysqlErrors
  imports MysqlErrorTable "HOL-Library.Sublist"
begin

text \<open>
  The error codes of the MySQL client library (\<open>include/MySQL/errmsg.h\<close>) and the SQLSTATE and ODBC states
  of the server's errors (\<open>include/MySQL/sql_state.h\<close>).
\<close>

section \<open>Client errors\<close>

definition CR_MIN_ERROR :: int where "CR_MIN_ERROR = 2000"
definition CR_MAX_ERROR :: int where "CR_MAX_ERROR = 2999"
definition CR_ERROR_FIRST :: int where "CR_ERROR_FIRST = 2000"
definition CR_ERROR_LAST :: int where "CR_ERROR_LAST = 2057"

definition client_error_codes :: "(string \<times> int) list" where
  "client_error_codes =
     [(''CR_UNKNOWN_ERROR'', 2000), (''CR_SOCKET_CREATE_ERROR'', 2001), (''CR_CONNECTION_ERROR'', 2002),
      (''CR_CONN_HOST_ERROR'', 2003), (''CR_IPSOCK_ERROR'', 2004), (''CR_UNKNOWN_HOST'', 2005),
      (''CR_SERVER_GONE_ERROR'', 2006), (''CR_VERSION_ERROR'', 2007), (''CR_OUT_OF_MEMORY'', 2008),
      (''CR_WRONG_HOST_INFO'', 2009), (''CR_LOCALHOST_CONNECTION'', 2010), (''CR_TCP_CONNECTION'', 2011),
      (''CR_SERVER_HANDSHAKE_ERR'', 2012), (''CR_SERVER_LOST'', 2013), (''CR_COMMANDS_OUT_OF_SYNC'', 2014),
      (''CR_NAMEDPIPE_CONNECTION'', 2015), (''CR_NAMEDPIPEWAIT_ERROR'', 2016),
      (''CR_NAMEDPIPEOPEN_ERROR'', 2017), (''CR_NAMEDPIPESETSTATE_ERROR'', 2018),
      (''CR_CANT_READ_CHARSET'', 2019), (''CR_NET_PACKET_TOO_LARGE'', 2020),
      (''CR_EMBEDDED_CONNECTION'', 2021), (''CR_PROBE_SLAVE_STATUS'', 2022), (''CR_PROBE_SLAVE_HOSTS'', 2023),
      (''CR_PROBE_SLAVE_CONNECT'', 2024), (''CR_PROBE_MASTER_CONNECT'', 2025),
      (''CR_SSL_CONNECTION_ERROR'', 2026), (''CR_MALFORMED_PACKET'', 2027), (''CR_WRONG_LICENSE'', 2028),
      (''CR_NULL_POINTER'', 2029), (''CR_NO_PREPARE_STMT'', 2030), (''CR_PARAMS_NOT_BOUND'', 2031),
      (''CR_DATA_TRUNCATED'', 2032), (''CR_NO_PARAMETERS_EXISTS'', 2033), (''CR_INVALID_PARAMETER_NO'', 2034),
      (''CR_INVALID_BUFFER_USE'', 2035), (''CR_UNSUPPORTED_PARAM_TYPE'', 2036),
      (''CR_SHARED_MEMORY_CONNECTION'', 2037), (''CR_SHARED_MEMORY_CONNECT_REQUEST_ERROR'', 2038),
      (''CR_SHARED_MEMORY_CONNECT_ANSWER_ERROR'', 2039), (''CR_SHARED_MEMORY_CONNECT_FILE_MAP_ERROR'', 2040),
      (''CR_SHARED_MEMORY_CONNECT_MAP_ERROR'', 2041), (''CR_SHARED_MEMORY_FILE_MAP_ERROR'', 2042),
      (''CR_SHARED_MEMORY_MAP_ERROR'', 2043), (''CR_SHARED_MEMORY_EVENT_ERROR'', 2044),
      (''CR_SHARED_MEMORY_CONNECT_ABANDONED_ERROR'', 2045), (''CR_SHARED_MEMORY_CONNECT_SET_ERROR'', 2046),
      (''CR_CONN_UNKNOW_PROTOCOL'', 2047), (''CR_INVALID_CONN_HANDLE'', 2048), (''CR_SECURE_AUTH'', 2049),
      (''CR_FETCH_CANCELED'', 2050), (''CR_NO_DATA'', 2051), (''CR_NO_STMT_METADATA'', 2052),
      (''CR_NO_RESULT_SET'', 2053), (''CR_NOT_IMPLEMENTED'', 2054), (''CR_SERVER_LOST_EXTENDED'', 2055),
      (''CR_STMT_CLOSED'', 2056), (''CR_NEW_STMT_METADATA'', 2057)]"

text \<open>The index of \<open>client_errors[(X) - CR_MIN_ERROR]\<close> in the macro \<open>ER\<close>.\<close>

definition ER_index :: "int \<Rightarrow> int" where
  "ER_index X = X - CR_MIN_ERROR"

section \<open>States\<close>

definition sql_states_1 :: "(string \<times> string \<times> string) list" where
  "sql_states_1 =
     [(''ER_DUP_KEY'', ''23000'', []), (''ER_OUTOFMEMORY'', ''HY001'', ''S1001''),
      (''ER_OUT_OF_SORTMEMORY'', ''HY001'', ''S1001''), (''ER_CON_COUNT_ERROR'', ''08004'', []),
      (''ER_BAD_HOST_ERROR'', ''08S01'', []), (''ER_HANDSHAKE_ERROR'', ''08S01'', []),
      (''ER_DBACCESS_DENIED_ERROR'', ''42000'', []), (''ER_ACCESS_DENIED_ERROR'', ''28000'', []),
      (''ER_NO_DB_ERROR'', ''3D000'', []), (''ER_UNKNOWN_COM_ERROR'', ''08S01'', []),
      (''ER_BAD_NULL_ERROR'', ''23000'', []), (''ER_BAD_DB_ERROR'', ''42000'', []),
      (''ER_TABLE_EXISTS_ERROR'', ''42S01'', []), (''ER_BAD_TABLE_ERROR'', ''42S02'', []),
      (''ER_NON_UNIQ_ERROR'', ''23000'', []), (''ER_SERVER_SHUTDOWN'', ''08S01'', []),
      (''ER_BAD_FIELD_ERROR'', ''42S22'', ''S0022''), (''ER_WRONG_FIELD_WITH_GROUP'', ''42000'', ''S1009''),
      (''ER_WRONG_GROUP_FIELD'', ''42000'', ''S1009''), (''ER_WRONG_SUM_SELECT'', ''42000'', ''S1009''),
      (''ER_WRONG_VALUE_COUNT'', ''21S01'', []), (''ER_TOO_LONG_IDENT'', ''42000'', ''S1009''),
      (''ER_DUP_FIELDNAME'', ''42S21'', ''S1009''), (''ER_DUP_KEYNAME'', ''42000'', ''S1009''),
      (''ER_DUP_ENTRY'', ''23000'', ''S1009''), (''ER_WRONG_FIELD_SPEC'', ''42000'', ''S1009''),
      (''ER_PARSE_ERROR'', ''42000'', ''s1009''), (''ER_EMPTY_QUERY'', ''42000'', []),
      (''ER_NONUNIQ_TABLE'', ''42000'', ''S1009''), (''ER_INVALID_DEFAULT'', ''42000'', ''S1009''),
      (''ER_MULTIPLE_PRI_KEY'', ''42000'', ''S1009''), (''ER_TOO_MANY_KEYS'', ''42000'', ''S1009''),
      (''ER_TOO_MANY_KEY_PARTS'', ''42000'', ''S1009''), (''ER_TOO_LONG_KEY'', ''42000'', ''S1009''),
      (''ER_KEY_COLUMN_DOES_NOT_EXITS'', ''42000'', ''S1009''),
      (''ER_BLOB_USED_AS_KEY'', ''42000'', ''S1009''), (''ER_TOO_BIG_FIELDLENGTH'', ''42000'', ''S1009''),
      (''ER_WRONG_AUTO_KEY'', ''42000'', ''S1009''), (''ER_FORCING_CLOSE'', ''08S01'', []),
      (''ER_IPSOCK_ERROR'', ''08S01'', []), (''ER_NO_SUCH_INDEX'', ''42S12'', ''S1009''),
      (''ER_WRONG_FIELD_TERMINATORS'', ''42000'', ''S1009''),
      (''ER_BLOBS_AND_NO_TERMINATED'', ''42000'', ''S1009''), (''ER_CANT_REMOVE_ALL_FIELDS'', ''42000'', []),
      (''ER_CANT_DROP_FIELD_OR_KEY'', ''42000'', []), (''ER_BLOB_CANT_HAVE_DEFAULT'', ''42000'', []),
      (''ER_WRONG_DB_NAME'', ''42000'', []), (''ER_WRONG_TABLE_NAME'', ''42000'', []),
      (''ER_TOO_BIG_SELECT'', ''42000'', []), (''ER_UNKNOWN_PROCEDURE'', ''42000'', []),
      (''ER_WRONG_PARAMCOUNT_TO_PROCEDURE'', ''42000'', []), (''ER_UNKNOWN_TABLE'', ''42S02'', []),
      (''ER_FIELD_SPECIFIED_TWICE'', ''42000'', []), (''ER_UNSUPPORTED_EXTENSION'', ''42000'', []),
      (''ER_TABLE_MUST_HAVE_COLUMNS'', ''42000'', []), (''ER_UNKNOWN_CHARACTER_SET'', ''42000'', []),
      (''ER_TOO_BIG_ROWSIZE'', ''42000'', []), (''ER_WRONG_OUTER_JOIN'', ''42000'', []),
      (''ER_NULL_COLUMN_IN_INDEX'', ''42000'', [])]"

definition sql_states_2 :: "(string \<times> string \<times> string) list" where
  "sql_states_2 =
     [(''ER_PASSWORD_ANONYMOUS_USER'', ''42000'', []), (''ER_PASSWORD_NOT_ALLOWED'', ''42000'', []),
      (''ER_PASSWORD_NO_MATCH'', ''42000'', []), (''ER_WRONG_VALUE_COUNT_ON_ROW'', ''21S01'', []),
      (''ER_INVALID_USE_OF_NULL'', ''22004'', []), (''ER_REGEXP_ERROR'', ''42000'', []),
      (''ER_MIX_OF_GROUP_FUNC_AND_FIELDS'', ''42000'', []), (''ER_NONEXISTING_GRANT'', ''42000'', []),
      (''ER_TABLEACCESS_DENIED_ERROR'', ''42000'', []), (''ER_COLUMNACCESS_DENIED_ERROR'', ''42000'', []),
      (''ER_ILLEGAL_GRANT_FOR_TABLE'', ''42000'', []), (''ER_GRANT_WRONG_HOST_OR_USER'', ''42000'', []),
      (''ER_NO_SUCH_TABLE'', ''42S02'', []), (''ER_NONEXISTING_TABLE_GRANT'', ''42000'', []),
      (''ER_NOT_ALLOWED_COMMAND'', ''42000'', []), (''ER_SYNTAX_ERROR'', ''42000'', []),
      (''ER_ABORTING_CONNECTION'', ''08S01'', []), (''ER_NET_PACKET_TOO_LARGE'', ''08S01'', []),
      (''ER_NET_READ_ERROR_FROM_PIPE'', ''08S01'', []), (''ER_NET_FCNTL_ERROR'', ''08S01'', []),
      (''ER_NET_PACKETS_OUT_OF_ORDER'', ''08S01'', []), (''ER_NET_UNCOMPRESS_ERROR'', ''08S01'', []),
      (''ER_NET_READ_ERROR'', ''08S01'', []), (''ER_NET_READ_INTERRUPTED'', ''08S01'', []),
      (''ER_NET_ERROR_ON_WRITE'', ''08S01'', []), (''ER_NET_WRITE_INTERRUPTED'', ''08S01'', []),
      (''ER_TOO_LONG_STRING'', ''42000'', []), (''ER_TABLE_CANT_HANDLE_BLOB'', ''42000'', []),
      (''ER_TABLE_CANT_HANDLE_AUTO_INCREMENT'', ''42000'', []), (''ER_WRONG_COLUMN_NAME'', ''42000'', []),
      (''ER_WRONG_KEY_COLUMN'', ''42000'', []), (''ER_DUP_UNIQUE'', ''23000'', []),
      (''ER_BLOB_KEY_WITHOUT_LENGTH'', ''42000'', []), (''ER_PRIMARY_CANT_HAVE_NULL'', ''42000'', []),
      (''ER_TOO_MANY_ROWS'', ''42000'', []), (''ER_REQUIRES_PRIMARY_KEY'', ''42000'', []),
      (''ER_KEY_DOES_NOT_EXITS'', ''42000'', ''S1009''), (''ER_CHECK_NO_SUCH_TABLE'', ''42000'', []),
      (''ER_CHECK_NOT_IMPLEMENTED'', ''42000'', []),
      (''ER_CANT_DO_THIS_DURING_AN_TRANSACTION'', ''25000'', []),
      (''ER_NEW_ABORTING_CONNECTION'', ''08S01'', []), (''ER_MASTER_NET_READ'', ''08S01'', []),
      (''ER_MASTER_NET_WRITE'', ''08S01'', []), (''ER_TOO_MANY_USER_CONNECTIONS'', ''42000'', []),
      (''ER_READ_ONLY_TRANSACTION'', ''25000'', []), (''ER_NO_PERMISSION_TO_CREATE_USER'', ''42000'', []),
      (''ER_LOCK_DEADLOCK'', ''40001'', []), (''ER_NO_REFERENCED_ROW'', ''23000'', []),
      (''ER_ROW_IS_REFERENCED'', ''23000'', []), (''ER_CONNECT_TO_MASTER'', ''08S01'', []),
      (''ER_WRONG_NUMBER_OF_COLUMNS_IN_SELECT'', ''21000'', []), (''ER_USER_LIMIT_REACHED'', ''42000'', []),
      (''ER_SPECIFIC_ACCESS_DENIED_ERROR'', ''42000'', []), (''ER_NO_DEFAULT'', ''42000'', []),
      (''ER_WRONG_VALUE_FOR_VAR'', ''42000'', []), (''ER_WRONG_TYPE_FOR_VAR'', ''42000'', []),
      (''ER_CANT_USE_OPTION_HERE'', ''42000'', []), (''ER_NOT_SUPPORTED_YET'', ''42000'', []),
      (''ER_WRONG_FK_DEF'', ''42000'', []), (''ER_OPERAND_COLUMNS'', ''21000'', []),
      (''ER_SUBQUERY_NO_1_ROW'', ''21000'', []), (''ER_ILLEGAL_REFERENCE'', ''42S22'', []),
      (''ER_DERIVED_MUST_HAVE_ALIAS'', ''42000'', []), (''ER_SELECT_REDUCED'', ''01000'', []),
      (''ER_TABLENAME_NOT_ALLOWED_HERE'', ''42000'', []), (''ER_NOT_SUPPORTED_AUTH_MODE'', ''08004'', []),
      (''ER_SPATIAL_CANT_HAVE_NULL'', ''42000'', []), (''ER_COLLATION_CHARSET_MISMATCH'', ''42000'', [])]"

definition sql_states_3 :: "(string \<times> string \<times> string) list" where
  "sql_states_3 =
     [(''ER_WARN_TOO_FEW_RECORDS'', ''01000'', []), (''ER_WARN_TOO_MANY_RECORDS'', ''01000'', []),
      (''ER_WARN_NULL_TO_NOTNULL'', ''22004'', []), (''ER_WARN_DATA_OUT_OF_RANGE'', ''22003'', []),
      (''WARN_DATA_TRUNCATED'', ''01000'', []), (''ER_WRONG_NAME_FOR_INDEX'', ''42000'', []),
      (''ER_WRONG_NAME_FOR_CATALOG'', ''42000'', []), (''ER_UNKNOWN_STORAGE_ENGINE'', ''42000'', []),
      (''ER_TRUNCATED_WRONG_VALUE'', ''22007'', []), (''ER_SP_NO_RECURSIVE_CREATE'', ''2F003'', []),
      (''ER_SP_ALREADY_EXISTS'', ''42000'', []), (''ER_SP_DOES_NOT_EXIST'', ''42000'', []),
      (''ER_SP_LILABEL_MISMATCH'', ''42000'', []), (''ER_SP_LABEL_REDEFINE'', ''42000'', []),
      (''ER_SP_LABEL_MISMATCH'', ''42000'', []), (''ER_SP_UNINIT_VAR'', ''01000'', []),
      (''ER_SP_BADSELECT'', ''0A000'', []), (''ER_SP_BADRETURN'', ''42000'', []),
      (''ER_SP_BADSTATEMENT'', ''0A000'', []), (''ER_UPDATE_LOG_DEPRECATED_IGNORED'', ''42000'', []),
      (''ER_UPDATE_LOG_DEPRECATED_TRANSLATED'', ''42000'', []), (''ER_QUERY_INTERRUPTED'', ''70100'', []),
      (''ER_SP_WRONG_NO_OF_ARGS'', ''42000'', []), (''ER_SP_COND_MISMATCH'', ''42000'', []),
      (''ER_SP_NORETURN'', ''42000'', []), (''ER_SP_NORETURNEND'', ''2F005'', []),
      (''ER_SP_BAD_CURSOR_QUERY'', ''42000'', []), (''ER_SP_BAD_CURSOR_SELECT'', ''42000'', []),
      (''ER_SP_CURSOR_MISMATCH'', ''42000'', []), (''ER_SP_CURSOR_ALREADY_OPEN'', ''24000'', []),
      (''ER_SP_CURSOR_NOT_OPEN'', ''24000'', []), (''ER_SP_UNDECLARED_VAR'', ''42000'', []),
      (''ER_SP_FETCH_NO_DATA'', ''02000'', []), (''ER_SP_DUP_PARAM'', ''42000'', []),
      (''ER_SP_DUP_VAR'', ''42000'', []), (''ER_SP_DUP_COND'', ''42000'', []),
      (''ER_SP_DUP_CURS'', ''42000'', []), (''ER_SP_SUBSELECT_NYI'', ''0A000'', []),
      (''ER_STMT_NOT_ALLOWED_IN_SF_OR_TRG'', ''0A000'', []),
      (''ER_SP_VARCOND_AFTER_CURSHNDLR'', ''42000'', []), (''ER_SP_CURSOR_AFTER_HANDLER'', ''42000'', []),
      (''ER_SP_CASE_NOT_FOUND'', ''20000'', []), (''ER_DIVISION_BY_ZERO'', ''22012'', []),
      (''ER_ILLEGAL_VALUE_FOR_TYPE'', ''22007'', []), (''ER_PROCACCESS_DENIED_ERROR'', ''42000'', [])]"

definition sql_states_4 :: "(string \<times> string \<times> string) list" where
  "sql_states_4 =
     [(''ER_XAER_NOTA'', ''XAE04'', []), (''ER_XAER_INVAL'', ''XAE05'', []),
      (''ER_XAER_RMFAIL'', ''XAE07'', []), (''ER_XAER_OUTSIDE'', ''XAE09'', []),
      (''ER_XAER_RMERR'', ''XAE03'', []), (''ER_XA_RBROLLBACK'', ''XA100'', []),
      (''ER_NONEXISTING_PROC_GRANT'', ''42000'', []), (''ER_DATA_TOO_LONG'', ''22001'', []),
      (''ER_SP_BAD_SQLSTATE'', ''42000'', []), (''ER_CANT_CREATE_USER_WITH_GRANT'', ''42000'', []),
      (''ER_SP_DUP_HANDLER'', ''42000'', []), (''ER_SP_NOT_VAR_ARG'', ''42000'', []),
      (''ER_SP_NO_RETSET'', ''0A000'', []), (''ER_CANT_CREATE_GEOMETRY_OBJECT'', ''22003'', []),
      (''ER_TOO_BIG_SCALE'', ''42000'', ''S1009''), (''ER_TOO_BIG_PRECISION'', ''42000'', ''S1009''),
      (''ER_M_BIGGER_THAN_D'', ''42000'', ''S1009''), (''ER_TOO_LONG_BODY'', ''42000'', ''S1009''),
      (''ER_TOO_BIG_DISPLAYWIDTH'', ''42000'', ''S1009''), (''ER_XAER_DUPID'', ''XAE08'', []),
      (''ER_DATETIME_FUNCTION_OVERFLOW'', ''22008'', []), (''ER_ROW_IS_REFERENCED_2'', ''23000'', []),
      (''ER_NO_REFERENCED_ROW_2'', ''23000'', []), (''ER_SP_BAD_VAR_SHADOW'', ''42000'', []),
      (''ER_SP_WRONG_NAME'', ''42000'', []), (''ER_SP_NO_AGGREGATE'', ''42000'', []),
      (''ER_MAX_PREPARED_STMT_COUNT_REACHED'', ''42000'', []), (''ER_NON_GROUPING_FIELD_USED'', ''42000'', [])]"

definition sql_states_5 :: "(string \<times> string \<times> string) list" where
  "sql_states_5 =
     [(''ER_FOREIGN_DUPLICATE_KEY'', ''23000'', ''S1009''), (''ER_CANT_CHANGE_TX_ISOLATION'', ''25001'', []),
      (''ER_WRONG_PARAMCOUNT_TO_NATIVE_FCT'', ''42000'', []),
      (''ER_WRONG_PARAMETERS_TO_NATIVE_FCT'', ''42000'', []),
      (''ER_WRONG_PARAMETERS_TO_STORED_FCT'', ''42000'', []),
      (''ER_DUP_ENTRY_WITH_KEY_NAME'', ''23000'', ''S1009''), (''ER_XA_RBTIMEOUT'', ''XA106'', []),
      (''ER_XA_RBDEADLOCK'', ''XA102'', []), (''ER_FUNC_INEXISTENT_NAME_COLLISION'', ''42000'', [])]"

definition sql_states :: "(string \<times> string \<times> string) list" where
  "sql_states = sql_states_1 @ sql_states_2 @ sql_states_3 @ sql_states_4 @ sql_states_5"

section \<open>The tables fit together\<close>

lemma states_in_order_1: "subseq (map fst sql_states_1) (map fst mysqld_errors_1)"
  by code_simp

lemma states_in_order_2: "subseq (map fst sql_states_2) (map fst mysqld_errors_2)"
  by code_simp

lemma states_in_order_3: "subseq (map fst sql_states_3) (map fst mysqld_errors_3)"
  by code_simp

lemma states_in_order_4: "subseq (map fst sql_states_4) (map fst mysqld_errors_4)"
  by code_simp

lemma states_in_order_5: "subseq (map fst sql_states_5) (map fst mysqld_errors_5)"
  by code_simp

text \<open>Every row of \<open>sql_state.h\<close> is for an error of \<open>mysqld_error.h\<close>, once, in the order of the codes.\<close>

lemma states_in_order: "subseq (map fst sql_states) (map fst mysqld_errors)"
  unfolding sql_states_def mysqld_errors_def map_append
  by (intro list_emb_append_mono states_in_order_1 states_in_order_2 states_in_order_3 states_in_order_4
      states_in_order_5)

lemma state_lengths: "list_all (\<lambda>(n, s, od). length s = 5 \<and> (od = [] \<or> length od = 5)) sql_states"
  by code_simp

text \<open>States are made of digits and capital letters, but for one.\<close>

definition state_char :: "char \<Rightarrow> bool" where
  "state_char c = (let n = (of_char c :: nat) in 48 \<le> n \<and> n \<le> 57 \<or> 65 \<le> n \<and> n \<le> 90)"

lemma states_spelled:
  "filter (\<lambda>(n, s, od). \<not> list_all state_char (s @ od)) sql_states = [(''ER_PARSE_ERROR'', ''42000'', ''s1009'')]"
  by code_simp

lemma client_codes: "map snd client_error_codes = [CR_ERROR_FIRST..CR_ERROR_LAST]"
  by (simp add: client_error_codes_def CR_ERROR_FIRST_def CR_ERROR_LAST_def upto_rec_numeral)

lemma ER_index_codes: "map (\<lambda>e. ER_index (snd e)) client_error_codes = [0..CR_ERROR_LAST - CR_MIN_ERROR]"
  by (simp add: client_error_codes_def ER_index_def CR_MIN_ERROR_def CR_ERROR_LAST_def upto_rec1[of 0] upto_rec1[of 1] upto_rec_numeral)

lemma server_code_range: "(n, c) \<in> set mysqld_errors \<Longrightarrow> ER_ERROR_FIRST \<le> c \<and> c \<le> ER_ERROR_LAST"
  using mysqld_error_codes set_map[of snd mysqld_errors] by (metis atLeastAtMost_iff imageI set_upto snd_conv)

lemma client_code_range: "(n, c) \<in> set client_error_codes \<Longrightarrow> CR_ERROR_FIRST \<le> c \<and> c \<le> CR_ERROR_LAST"
  using client_codes set_map[of snd client_error_codes] by (metis atLeastAtMost_iff imageI set_upto snd_conv)

end
