(* ===== verification/CStrings.thy ===== *)
theory CStrings
  imports Prelude
begin

text \<open>
  The parts of the C and C++ string library the sources use: character arrays that are only partly
  initialised, \<open>snprintf\<close> in its C99 and Microsoft forms, \<open>sprintf\<close>, \<open>isspace\<close>, \<open>atoi\<close> and
  the decimal output of \<open>%d\<close>.  A C string is the list of its characters before the terminating
  NUL; a \<open>const char*\<close> that may be NULL is an option of it.
\<close>

section \<open>Character arrays\<close>

text \<open>A cell of a \<open>char\<close> array is \<open>None\<close> until something is stored in it.\<close>

type_synonym cbuf = "char option list"

definition NUL :: char where "NUL = CHR 0x00"

definition cstring :: "string \<Rightarrow> bool" where
  "cstring s \<longleftrightarrow> NUL \<notin> set s"

definition uninit_buf :: "nat \<Rightarrow> cbuf" where
  "uninit_buf n = replicate n None"

definition zeroed_buf :: "nat \<Rightarrow> cbuf" where
  "zeroed_buf n = replicate n (Some NUL)"

definition write_prefix :: "string \<Rightarrow> cbuf \<Rightarrow> cbuf" where
  "write_prefix xs buf = map Some xs @ drop (length xs) buf"

text \<open>Reading a C string out of an array: the characters before the first NUL.\<close>

fun read_cstr :: "cbuf \<Rightarrow> ('e, string) outcome" where
  "read_cstr [] = Undef OutOfBounds"
| "read_cstr (None # bs) = Undef UninitRead"
| "read_cstr (Some c # bs) =
     (if c = NUL then Ret []
      else (case read_cstr bs of
              Ret s \<Rightarrow> Ret (c # s)
            | Throw e \<Rightarrow> Throw e
            | Undef u \<Rightarrow> Undef u))"

definition lift_outcome :: "('e, 'a) outcome \<Rightarrow> ('s, 'e, 'a) prog" where
  "lift_outcome r s = (r, s)"

lemma lift_outcome_run [simp, prog_simps]: "lift_outcome r s = (r, s)"
  by (simp add: lift_outcome_def)

lemma cstring_simps [simp]:
  "cstring []" "cstring (c # s) \<longleftrightarrow> c \<noteq> NUL \<and> cstring s"
  "cstring (s @ t) \<longleftrightarrow> cstring s \<and> cstring t"
  by (auto simp: cstring_def)

lemma cstring_take [simp]: "cstring s \<Longrightarrow> cstring (take n s)"
  using set_take_subset by (fastforce simp: cstring_def)

lemma read_cstr_prefix:
  "cstring s \<Longrightarrow> read_cstr (map Some s @ Some NUL # bs) = Ret s"
  by (induction s) auto

lemma read_cstr_uninit:
  "cstring s \<Longrightarrow> read_cstr (map Some s @ None # bs) = Undef UninitRead"
  by (induction s) auto

lemma length_write_prefix [simp]:
  "length xs \<le> length buf \<Longrightarrow> length (write_prefix xs buf) = length buf"
  by (simp add: write_prefix_def)

section \<open>Formatted output\<close>

text \<open>
  \<open>snprintf(buf, n, ...)\<close> under C99 writes at most \<open>n - 1\<close> characters and always a NUL;
  Microsoft's \<open>_snprintf\<close>, which the source substitutes when \<open>_MSC_VER\<close> is defined, writes up to
  \<open>n\<close> characters and adds the NUL only where there is room for it.
\<close>

datatype platform = C99 | MSVC

fun snprintf :: "platform \<Rightarrow> nat \<Rightarrow> string \<Rightarrow> cbuf \<Rightarrow> cbuf" where
  "snprintf C99 n str buf =
     (if n = 0 then buf else write_prefix (take (n - 1) str @ [NUL]) buf)"
| "snprintf MSVC n str buf =
     (if length str < n then write_prefix (str @ [NUL]) buf
      else write_prefix (take n str) buf)"

definition sprintf :: "string \<Rightarrow> cbuf \<Rightarrow> ('s, 'e, cbuf) prog" where
  "sprintf str buf =
     (if length str < length buf then ret (write_prefix (str @ [NUL]) buf)
      else undef BufferOverflow)"

text \<open>How many characters of the text the platform's \<open>snprintf(buf, n, ...)\<close> keeps.\<close>

fun snprintf_keeps :: "platform \<Rightarrow> nat \<Rightarrow> nat" where
  "snprintf_keeps C99 n = n - 1"
| "snprintf_keeps MSVC n = n"

lemma snprintf_length:
  "n \<le> length buf \<Longrightarrow> length (snprintf p n str buf) = length buf"
  by (cases p) auto

text \<open>Into a zeroed array one cell larger than \<open>n\<close> the result is always terminated.\<close>

lemma read_snprintf_zeroed:
  assumes "cstring str" and "0 < n"
  shows "read_cstr (snprintf p n str (zeroed_buf (Suc n))) = Ret (take (snprintf_keeps p n) str)"
proof (cases p)
  case C99
  with assms show ?thesis
    using read_cstr_prefix[of "take (n - 1) str"]
    by (simp add: write_prefix_def zeroed_buf_def)
next
  case MSVC
  show ?thesis
  proof (cases "length str < n")
    case True
    with MSVC assms show ?thesis
      using read_cstr_prefix[of str] by (simp add: write_prefix_def zeroed_buf_def)
  next
    case False
    then have "drop n (zeroed_buf (Suc n)) = [Some NUL]"
      unfolding zeroed_buf_def drop_replicate by simp
    moreover have "min (length str) n = n"
      using False by simp
    ultimately show ?thesis
      using False MSVC assms read_cstr_prefix[of "take n str" "[]"]
      by (simp add: write_prefix_def)
  qed
qed

text \<open>
  Into an uninitialised array the C99 function still terminates what it writes; Microsoft's does
  not once the text fills the \<open>n\<close> characters.
\<close>

lemma read_snprintf_C99_uninit:
  "cstring str \<Longrightarrow> 0 < n \<Longrightarrow> read_cstr (snprintf C99 n str (uninit_buf m)) = Ret (take (n - 1) str)"
  using read_cstr_prefix[of "take (n - 1) str"] by (simp add: write_prefix_def)

lemma read_snprintf_MSVC_uninit:
  assumes "cstring str" and "n < m"
  shows "read_cstr (snprintf MSVC n str (uninit_buf m)) =
           (if length str < n then Ret str else Undef UninitRead)"
proof (cases "length str < n")
  case True
  with assms show ?thesis
    using read_cstr_prefix[of str] by (simp add: write_prefix_def)
next
  case False
  have "drop n (uninit_buf m) = None # uninit_buf (m - Suc n)"
    using assms(2) by (simp add: uninit_buf_def Suc_diff_Suc flip: replicate_Suc)
  moreover have "min (length str) n = n"
    using False by simp
  ultimately show ?thesis
    using False assms read_cstr_uninit[of "take n str"] by (simp add: write_prefix_def)
qed

lemma read_sprintf:
  "cstring str \<Longrightarrow> read_cstr (write_prefix (str @ [NUL]) buf) = Ret str"
  using read_cstr_prefix[of str] by (simp add: write_prefix_def)

section \<open>Numbers\<close>

definition isspace :: "char \<Rightarrow> bool" where
  "isspace c \<longleftrightarrow> (let n = (of_char c :: nat) in n = 32 \<or> 9 \<le> n \<and> n \<le> 13)"

definition isdigit :: "char \<Rightarrow> bool" where
  "isdigit c \<longleftrightarrow> (let n = (of_char c :: nat) in 48 \<le> n \<and> n \<le> 57)"

definition digit_value :: "char \<Rightarrow> nat" where
  "digit_value c = of_char c - 48"

fun decimal :: "nat \<Rightarrow> string \<Rightarrow> nat" where
  "decimal acc [] = acc"
| "decimal acc (c # cs) = (if isdigit c then decimal (10 * acc + digit_value c) cs else acc)"

text \<open>
  \<open>atoi\<close>: white space, an optional sign, digits up to the first other character.  A value outside
  \<open>int\<close> is undefined behaviour.
\<close>

definition strtol10 :: "string \<Rightarrow> int" where
  "strtol10 s =
     (case dropWhile isspace s of
        [] \<Rightarrow> 0
      | c # cs \<Rightarrow>
          (if c = CHR ''-'' then - int (decimal 0 cs)
           else if c = CHR ''+'' then int (decimal 0 cs)
           else int (decimal 0 (c # cs))))"

definition atoi :: "string \<Rightarrow> ('s, 'e, int) prog" where
  "atoi s = int_arith (strtol10 s)"

text \<open>The output of \<open>%d\<close>.\<close>

definition digit_char :: "nat \<Rightarrow> char" where
  "digit_char d = char_of (48 + d)"

fun show_nat :: "nat \<Rightarrow> string" where
  "show_nat n = (if n < 10 then [digit_char n] else show_nat (n div 10) @ [digit_char (n mod 10)])"

declare show_nat.simps [simp del]

definition show_int :: "int \<Rightarrow> string" where
  "show_int i = (if i < 0 then CHR ''-'' # show_nat (nat (- i)) else show_nat (nat i))"

lemma digit_chars:
  "digit_char 0 = CHR ''0''" "digit_char 1 = CHR ''1''" "digit_char 2 = CHR ''2''" "digit_char 3 = CHR ''3''"
  "digit_char 4 = CHR ''4''" "digit_char 5 = CHR ''5''" "digit_char 6 = CHR ''6''" "digit_char 7 = CHR ''7''"
  "digit_char 8 = CHR ''8''" "digit_char 9 = CHR ''9''"
  by (simp_all add: digit_char_def char_of_def bit_simps)

lemma of_char_digit [simp]: "d < 10 \<Longrightarrow> (of_char (digit_char d) :: nat) = 48 + d"
  by (simp add: digit_char_def)

lemma isdigit_digit_char [simp]: "d < 10 \<Longrightarrow> isdigit (digit_char d)"
  by (simp add: isdigit_def)

lemma digit_value_digit_char [simp]: "d < 10 \<Longrightarrow> digit_value (digit_char d) = d"
  by (simp add: digit_value_def)

lemma decimal_append:
  "\<forall>c \<in> set xs. isdigit c \<Longrightarrow> decimal acc (xs @ ys) = decimal (decimal acc xs) ys"
  by (induction xs arbitrary: acc) auto

lemma show_nat_digits: "c \<in> set (show_nat n) \<Longrightarrow> isdigit c"
proof (induction n rule: show_nat.induct)
  case (1 n)
  then show ?case
    using show_nat.simps[of n] by (auto split: if_splits)
qed

lemma show_nat_nonempty: "show_nat n \<noteq> []"
  by (subst show_nat.simps) simp

lemma decimal_show_nat: "decimal 0 (show_nat n) = n"
proof (induction n rule: show_nat.induct)
  case (1 n)
  show ?case
  proof (cases "n < 10")
    case True
    then show ?thesis by (subst show_nat.simps) simp
  next
    case False
    then have "decimal 0 (show_nat n) = decimal (n div 10) [digit_char (n mod 10)]"
      using 1 by (subst show_nat.simps) (simp add: decimal_append show_nat_digits)
    then show ?thesis by simp
  qed
qed

lemma isdigit_not_space: "isdigit c \<Longrightarrow> \<not> isspace c"
  by (auto simp: isdigit_def isspace_def Let_def)

lemma isdigit_not_sign: "isdigit c \<Longrightarrow> c \<noteq> CHR ''-'' \<and> c \<noteq> CHR ''+''"
  by (auto simp: isdigit_def Let_def)

lemma strtol10_show_nat: "strtol10 (show_nat n) = int n"
proof -
  obtain c cs where c: "show_nat n = c # cs"
    using show_nat_nonempty by (cases "show_nat n") auto
  then have "isdigit c" using show_nat_digits[of c n] by simp
  then show ?thesis
    using c isdigit_not_space isdigit_not_sign decimal_show_nat[of n]
    by (simp add: strtol10_def)
qed

lemma strtol10_show_int: "strtol10 (show_int i) = i"
proof (cases "i < 0")
  case True
  then show ?thesis
    by (simp add: show_int_def strtol10_def isspace_def decimal_show_nat)
next
  case False
  then show ?thesis by (simp add: show_int_def strtol10_show_nat)
qed

lemma atoi_show_int: "in_int i \<Longrightarrow> atoi (show_int i) s = (Ret i, s)"
  by (simp add: atoi_def strtol10_show_int int_arith_ok)

end
