(* ===== verification/DatabaseLayer.thy ===== *)
theory DatabaseLayer
  imports CStrings
begin

text \<open>
  The interfaces of \<open>include/DatabaseLayer.h\<close> as laws: a forward cursor over rows
  (\<open>DatabaseQuery\<close>: \<open>eof\<close>, a read of the current row, \<open>nextRow\<close>) and a cursor that can also be
  moved to a row number (\<open>DatabaseResultSet\<close>: \<open>seekRow\<close>).  The client loops of the demo program
  are defined here once, over any such cursor, and proved once inside the locales; the SQLite and
  MySQL classes interpret the locales in their own theories.
\<close>

section \<open>Client loops\<close>

text \<open>\<open>for (fld = 0; fld < n; fld++) f(fld)\<close>, with the results in order.\<close>

fun mapP :: "('i \<Rightarrow> ('s, 'e, 'a) prog) \<Rightarrow> 'i list \<Rightarrow> ('s, 'e, 'a list) prog" where
  "mapP f [] = ret []"
| "mapP f (i # is) = bindP (f i) (\<lambda>a. bindP (mapP f is) (\<lambda>as. ret (a # as)))"

text \<open>
  \<open>while (!q.eof()) { read the fields; q.nextRow(); }\<close> of \<open>Demos/CppDBDemo.cpp\<close>, with fuel: the
  result is \<open>None\<close> when the loop has not ended after that many iterations.
\<close>

fun fetch_all ::
  "nat \<Rightarrow> ('s, 'e, bool) prog \<Rightarrow> ('s, 'e, 'r) prog \<Rightarrow> ('s, 'e, unit) prog \<Rightarrow> 's \<Rightarrow>
   (('e, 'r list) outcome \<times> 's) option" where
  "fetch_all 0 eof row nextRow s = None"
| "fetch_all (Suc fuel) eof row nextRow s =
     (case eof s of
        (Ret b, s1) \<Rightarrow>
          (if b then Some (Ret [], s1)
           else
             (case bindP row (\<lambda>r. seqP nextRow (ret r)) s1 of
                (Ret r, s2) \<Rightarrow>
                  map_option (map_prod (map_outcome id ((#) r)) id)
                    (fetch_all fuel eof row nextRow s2)
              | (Throw e, s2) \<Rightarrow> Some (Throw e, s2)
              | (Undef u, s2) \<Rightarrow> Some (Undef u, s2)))
      | (Throw e, s1) \<Rightarrow> Some (Throw e, s1)
      | (Undef u, s1) \<Rightarrow> Some (Undef u, s1))"

text \<open>
  \<open>for (row = 0; row < n; row++) { t.seekRow(row); read the fields; }\<close> of the demo: the list is
  the row numbers the loop runs through.
\<close>

fun fetch_rows ::
  "(nat \<Rightarrow> ('s, 'e, 'i) prog) \<Rightarrow> ('s, 'e, 'r) prog \<Rightarrow> nat list \<Rightarrow> ('s, 'e, 'r list) prog" where
  "fetch_rows seekRow row [] = ret []"
| "fetch_rows seekRow row (k # ks) =
     bindP (seekRow k) (\<lambda>_. bindP row (\<lambda>r. bindP (fetch_rows seekRow row ks) (\<lambda>rs. ret (r # rs))))"

lemma mapP_const_state:
  "\<forall>i \<in> set is. f i s = (Ret (g i), s) \<Longrightarrow> mapP f is s = (Ret (map g is), s)"
  by (induction "is") (auto simp: prog_simps)

lemma map_upto_nth: "map (\<lambda>i. f (xs ! nat i)) [0..int (length xs) - 1] = map f xs"
  by (rule nth_equalityI) (auto simp: nth_upto)

text \<open>More fuel never changes a result.\<close>

lemma fetch_all_mono:
  "fetch_all fuel eof row nextRow s = Some r \<Longrightarrow> fetch_all (Suc fuel) eof row nextRow s = Some r"
proof (induction fuel arbitrary: s r)
  case 0
  then show ?case by simp
next
  case (Suc fuel)
  show ?case
    using Suc.prems
    by (subst fetch_all.simps(2), subst (asm) fetch_all.simps(2))
       (auto simp del: fetch_all.simps split: prod.split_asm outcome.split_asm if_split_asm
         dest!: Suc.IH)
qed

section \<open>Forward cursors\<close>

locale cursor =
  fixes eof :: "('s, 'e, bool) prog"
    and row :: "('s, 'e, 'r) prog"
    and nextRow :: "('s, 'e, unit) prog"
    and pending :: "'s \<Rightarrow> 'r list \<Rightarrow> bool"
  assumes eof_at_end: "pending s [] \<Longrightarrow> eof s = (Ret True, s)"
    and eof_before_end: "pending s (r # rs) \<Longrightarrow> eof s = (Ret False, s)"
    and fetch_current:
      "pending s (r # rs) \<Longrightarrow>
       \<exists>s'. bindP row (\<lambda>r. seqP nextRow (ret r)) s = (Ret r, s') \<and> pending s' rs"
begin

lemma fetch_all_pending:
  "pending s rs \<Longrightarrow> length rs < fuel \<Longrightarrow>
   \<exists>s'. fetch_all fuel eof row nextRow s = Some (Ret rs, s') \<and> pending s' []"
proof (induction rs arbitrary: s fuel)
  case Nil
  then obtain f where "fuel = Suc f" by (cases fuel) auto
  with Nil show ?case by (simp add: eof_at_end)
next
  case (Cons r rs)
  then obtain f where f: "fuel = Suc f" "length rs < f" by (cases fuel) auto
  obtain s3 where s3: "bindP row (\<lambda>r. seqP nextRow (ret r)) s = (Ret r, s3)" "pending s3 rs"
    using fetch_current Cons.prems(1) by blast
  from Cons.IH[OF s3(2) f(2)] show ?case
    using f(1) eof_before_end[OF Cons.prems(1)] s3(1) by auto
qed

text \<open>The loop ends, whatever the number of pending rows.\<close>

lemma fetch_all_terminates: "pending s rs \<Longrightarrow> \<exists>fuel r. fetch_all fuel eof row nextRow s = Some r"
  using fetch_all_pending[of s rs "Suc (length rs)"] by blast

end

section \<open>Cursors with random access\<close>

locale scrollable = cursor eof row nextRow pending
  for eof :: "('s, 'e, bool) prog" and row :: "('s, 'e, 'r) prog"
    and nextRow :: "('s, 'e, unit) prog" and pending :: "'s \<Rightarrow> 'r list \<Rightarrow> bool" +
  fixes seekRow :: "nat \<Rightarrow> ('s, 'e, 'i) prog"
    and rows :: "'s \<Rightarrow> 'r list"
  assumes seek_valid:
      "pending s rs \<Longrightarrow> k < length (rows s) \<Longrightarrow>
       \<exists>i s'. seekRow k s = (Ret i, s') \<and> pending s' (drop k (rows s)) \<and> rows s' = rows s"
    and row_stable:
      "pending s (r # rs) \<Longrightarrow>
       \<exists>s'. row s = (Ret r, s') \<and> pending s' (r # rs) \<and> rows s' = rows s"
begin

lemma seek_then_row:
  assumes "pending s rs" and "k < length (rows s)"
  shows "\<exists>s'. bindP (seekRow k) (\<lambda>_. row) s = (Ret (rows s ! k), s') \<and> rows s' = rows s
           \<and> pending s' (drop k (rows s))"
proof -
  obtain i s1 where s1: "seekRow k s = (Ret i, s1)" "pending s1 (drop k (rows s))" "rows s1 = rows s"
    using seek_valid assms by blast
  then have d: "pending s1 (rows s ! k # drop (Suc k) (rows s))"
    using drop_eq_Cons_nth[OF assms(2)] by simp
  obtain s2 where s2: "row s1 = (Ret (rows s ! k), s2)" "pending s2 (drop k (rows s))"
      "rows s2 = rows s1"
    using row_stable[OF d] drop_eq_Cons_nth[OF assms(2)] by auto
  with s1 show ?thesis by (simp add: bindP_def)
qed

text \<open>Reading rows by number, in any order and with repetitions, reads exactly those rows.\<close>

lemma fetch_rows_any_order:
  "pending s rs \<Longrightarrow> \<forall>k \<in> set ks. k < length (rows s) \<Longrightarrow>
   \<exists>s' rs'. fetch_rows seekRow row ks s = (Ret (map ((!) (rows s)) ks), s') \<and> rows s' = rows s
     \<and> pending s' rs'"
proof (induction ks arbitrary: s rs)
  case Nil
  then show ?case by auto
next
  case (Cons k ks)
  obtain s1 where s1: "bindP (seekRow k) (\<lambda>_. row) s = (Ret (rows s ! k), s1)"
      "rows s1 = rows s" "pending s1 (drop k (rows s))"
    using seek_then_row Cons.prems by force
  obtain s' rs' where "fetch_rows seekRow row ks s1 = (Ret (map ((!) (rows s)) ks), s')"
      "rows s' = rows s" "pending s' rs'"
    using Cons.IH[OF s1(3)] Cons.prems(2) s1(2) by auto
  with s1(1) show ?case
    by (auto simp: bindP_assoc[symmetric] prog_simps)
qed

text \<open>Rewinding and running the forward loop again reads every row.\<close>

lemma rewind_fetch_all:
  assumes "pending s rs" and "rows s \<noteq> []" and "length (rows s) < fuel"
  shows "\<exists>i s1 s2. seekRow 0 s = (Ret i, s1) \<and>
           fetch_all fuel eof row nextRow s1 = Some (Ret (rows s), s2) \<and> pending s2 []"
proof -
  obtain i s1 where s1: "seekRow 0 s = (Ret i, s1)" "pending s1 (drop 0 (rows s))"
    using seek_valid[OF assms(1), of 0] assms(2) by auto
  then show ?thesis using fetch_all_pending[of s1 "rows s" fuel] assms(3) by auto
qed

end

section \<open>Transactions\<close>

text \<open>
  The three calls of the transaction interface, and the two readings of a sequence of them: a server
  where a start always begins a new transaction and an end always ends it, and one that refuses a
  start inside a transaction and an end outside one.
\<close>

datatype tx_op = TxStart | TxCommit | TxRollback

fun tx_state :: "bool \<Rightarrow> tx_op list \<Rightarrow> bool" where
  "tx_state b [] = b"
| "tx_state b (op # ops) = tx_state (op = TxStart) ops"

definition tx_valid :: "bool \<Rightarrow> tx_op \<Rightarrow> bool" where
  "tx_valid b op \<longleftrightarrow> (op = TxStart) = (\<not> b)"

fun tx_strict :: "bool \<Rightarrow> tx_op list \<Rightarrow> bool list \<times> bool" where
  "tx_strict b [] = ([], b)"
| "tx_strict b (op # ops) =
     (let ok = tx_valid b op; (oks, b') = tx_strict (if ok then \<not> b else b) ops in (ok # oks, b'))"

text \<open>Running a call and noting whether it returned or threw.\<close>

definition attempt :: "('s, 'e, unit) prog \<Rightarrow> ('s, 'e, bool) prog" where
  "attempt p s =
     (case p s of
        (Ret _, s') \<Rightarrow> (Ret True, s')
      | (Throw _, s') \<Rightarrow> (Ret False, s')
      | (Undef u, s') \<Rightarrow> (Undef u, s'))"

lemma attempt_run [prog_simps]:
  "p s = (Ret (), s') \<Longrightarrow> attempt p s = (Ret True, s')"
  "p s = (Throw e, s') \<Longrightarrow> attempt p s = (Ret False, s')"
  by (simp_all add: attempt_def)

end
