(* ===== verification/Ownership.thy ===== *)
theory Ownership
  imports DatabaseLayer
begin

text \<open>
  "Only one object can own the handle": the copy constructors and assignments of the query, result
  set and statement classes take the handle away from their source.  This theory runs any number
  of such objects at distinct addresses as a step relation, states what a class has to promise as
  a locale, and proves once that every reachable store has at most one owner per handle, that no
  owner dangles and that no operation is undefined; for the classes whose assignment releases the
  handle it overwrites, also that nothing leaks.
\<close>

type_synonym ('o, 'm) store = "(nat \<rightharpoonup> 'o) \<times> 'm"

text \<open>
  The operations of a class, as functions of the object values: the copy constructor returns the
  new object and the changed source, the assignment the two changed objects; its first argument tells
  whether both are the same object (\<open>this == &r\<close>).
\<close>

record ('o, 'm, 'e) class_ops =
  op_copy :: "'o \<Rightarrow> 'o \<times> 'o"
  op_assign :: "bool \<Rightarrow> 'o \<Rightarrow> 'o \<Rightarrow> ('m, 'e, 'o \<times> 'o) prog"
  op_clear :: "('o \<times> 'm, 'e, unit) prog"

text \<open>
  Steps of a client program: construct an object around a handle the library has just returned,
  copy-construct, assign, assign to itself, clear, and destroy (\<open>clear\<close> inside
  \<open>try { } catch (...) { }\<close>).
\<close>

inductive store_step ::
  "('o, 'm, 'e) class_ops \<Rightarrow> ('m \<Rightarrow> 'o \<Rightarrow> 'm \<Rightarrow> bool) \<Rightarrow> ('o, 'm) store \<Rightarrow> ('o, 'm) store \<Rightarrow> bool"
  for cls acquires where
  acquire: "objs a = None \<Longrightarrow> acquires m x m' \<Longrightarrow>
      store_step cls acquires (objs, m) (objs(a \<mapsto> x), m')"
| copy: "objs a = Some x \<Longrightarrow> objs b = None \<Longrightarrow> op_copy cls x = (n, x') \<Longrightarrow>
      store_step cls acquires (objs, m) (objs(a \<mapsto> x', b \<mapsto> n), m)"
| assign: "a \<noteq> b \<Longrightarrow> objs a = Some x \<Longrightarrow> objs b = Some y \<Longrightarrow>
      op_assign cls False x y m = (Ret (x', y'), m') \<Longrightarrow>
      store_step cls acquires (objs, m) (objs(a \<mapsto> x', b \<mapsto> y'), m')"
| self_assign: "objs a = Some x \<Longrightarrow> op_assign cls True x x m = (Ret (x', y'), m') \<Longrightarrow>
      store_step cls acquires (objs, m) (objs(a \<mapsto> x'), m')"
| clear: "objs a = Some x \<Longrightarrow> op_clear cls (x, m) = (r, (x', m')) \<Longrightarrow> \<not> is_undef r \<Longrightarrow>
      store_step cls acquires (objs, m) (objs(a \<mapsto> x'), m')"
| destroy: "objs a = Some x \<Longrightarrow> catch_all (op_clear cls) (x, m) = (Ret (), (x', m')) \<Longrightarrow>
      store_step cls acquires (objs, m) (objs(a := None), m')"

inductive_cases store_stepE: "store_step cls acquires (objs, m) st"

text \<open>An operation on existing objects that is undefined in this store.\<close>

inductive store_fault :: "('o, 'm, 'e) class_ops \<Rightarrow> ('o, 'm) store \<Rightarrow> ub \<Rightarrow> bool"
  for cls where
  assign_fault: "a \<noteq> b \<Longrightarrow> objs a = Some x \<Longrightarrow> objs b = Some y \<Longrightarrow>
      op_assign cls False x y m = (Undef u, m') \<Longrightarrow> store_fault cls (objs, m) u"
| self_assign_fault: "objs a = Some x \<Longrightarrow> op_assign cls True x x m = (Undef u, m') \<Longrightarrow>
      store_fault cls (objs, m) u"
| clear_fault: "objs a = Some x \<Longrightarrow> op_clear cls (x, m) = (Undef u, s') \<Longrightarrow>
      store_fault cls (objs, m) u"

inductive_simps store_fault_iff: "store_fault cls (objs, m) u"

inductive reachable_store ::
  "('o, 'm, 'e) class_ops \<Rightarrow> ('m \<Rightarrow> 'o \<Rightarrow> 'm \<Rightarrow> bool) \<Rightarrow> 'm \<Rightarrow> ('o, 'm) store \<Rightarrow> bool"
  for cls acquires m0 where
  start: "reachable_store cls acquires m0 (Map.empty, m0)"
| step: "reachable_store cls acquires m0 st \<Longrightarrow> store_step cls acquires st st' \<Longrightarrow>
      reachable_store cls acquires m0 st'"

text \<open>The shortest histories: one object constructed, then copied to another address.\<close>

lemma reachable_acquire:
  "acquires m0 x m' \<Longrightarrow> reachable_store cls acquires m0 ([a \<mapsto> x], m')"
  by (rule reachable_store.step[OF reachable_store.start], rule store_step.acquire) simp_all

lemma reachable_copy:
  assumes "reachable_store cls acquires m0 ([a \<mapsto> x], m)" and "a \<noteq> b" and "op_copy cls x = (n, x')"
  shows "reachable_store cls acquires m0 ([a \<mapsto> x', b \<mapsto> n], m)"
  using reachable_store.step[OF assms(1) store_step.copy[of "[a \<mapsto> x]" a x b cls n x' acquires m]] assms(2,3)
  by simp

section \<open>Invariants\<close>

text \<open>
  An object owns a set of handles.  Every owned handle is live and has one owner; in a store that
  does not leak, every live handle above the initial ones has an owner.
\<close>

definition owned :: "('o \<Rightarrow> 'h set) \<Rightarrow> (nat \<rightharpoonup> 'o) \<Rightarrow> nat \<Rightarrow> 'h set" where
  "owned hnd objs a = (case objs a of None \<Rightarrow> {} | Some x \<Rightarrow> hnd x)"

definition owners_ok :: "('o \<Rightarrow> 'h set) \<Rightarrow> ('m \<Rightarrow> 'h set) \<Rightarrow> ('o, 'm) store \<Rightarrow> bool" where
  "owners_ok hnd live st \<longleftrightarrow>
     (\<forall>a. owned hnd (fst st) a \<subseteq> live (snd st)) \<and>
     (\<forall>a b. a \<noteq> b \<longrightarrow> owned hnd (fst st) a \<inter> owned hnd (fst st) b = {})"

definition no_leak :: "('o \<Rightarrow> 'h set) \<Rightarrow> ('m \<Rightarrow> 'h set) \<Rightarrow> 'm \<Rightarrow> ('o, 'm) store \<Rightarrow> bool" where
  "no_leak hnd live m0 st \<longleftrightarrow> live (snd st) \<subseteq> live m0 \<union> (\<Union>a. owned hnd (fst st) a)"

lemma owned_upd [simp]:
  "owned hnd (objs(a \<mapsto> x)) = (owned hnd objs)(a := hnd x)"
  "owned hnd (objs(a := None)) = (owned hnd objs)(a := {})"
  by (simp_all add: owned_def fun_eq_iff)

lemma owned_empty [simp]: "owned hnd Map.empty a = {}"
  by (simp add: owned_def)

lemma owned_Some: "objs a = Some x \<Longrightarrow> owned hnd objs a = hnd x"
  by (simp add: owned_def)

lemma owned_None: "objs a = None \<Longrightarrow> owned hnd objs a = {}"
  by (simp add: owned_def)

lemma owners_ok_empty: "owners_ok hnd live (Map.empty, m)"
  by (simp add: owners_ok_def)

lemma owners_okI:
  "(\<And>b. owned hnd objs b \<subseteq> live m) \<Longrightarrow>
   (\<And>b c. b \<noteq> c \<Longrightarrow> owned hnd objs b \<inter> owned hnd objs c = {}) \<Longrightarrow> owners_ok hnd live (objs, m)"
  by (simp add: owners_ok_def)

lemma owners_okD:
  assumes "owners_ok hnd live (objs, m)"
  shows "owned hnd objs b \<subseteq> live m" and "b \<noteq> c \<Longrightarrow> owned hnd objs b \<inter> owned hnd objs c = {}"
  using assms by (simp_all add: owners_ok_def)

text \<open>The ways a step changes the owners, each keeping the invariant.\<close>

lemma owners_ok_acquire:
  assumes "owners_ok hnd live (objs, m)" and "hnd x \<inter> live m = {}" and "live m' = live m \<union> hnd x"
  shows "owners_ok hnd live (objs(a \<mapsto> x), m')"
proof (rule owners_okI)
  note live = owners_okD(1)[OF assms(1)] and sep = owners_okD(2)[OF assms(1)]
  show "owned hnd (objs(a \<mapsto> x)) b \<subseteq> live m'" for b
    using live[of b] assms(3) by auto
  show "owned hnd (objs(a \<mapsto> x)) b \<inter> owned hnd (objs(a \<mapsto> x)) c = {}" if "b \<noteq> c" for b c
    using live[of b] live[of c] sep[OF that] assms(2) that by auto
qed

text \<open>Handles move from one address to another; what is freed was owned by the target.\<close>

lemma owners_ok_move:
  assumes "owners_ok hnd live (objs, m)" and "owned hnd objs' b \<subseteq> owned hnd objs a"
    and "owned hnd objs' a = {}" and "a \<noteq> b"
    and "\<And>c. c \<noteq> a \<Longrightarrow> c \<noteq> b \<Longrightarrow> owned hnd objs' c = owned hnd objs c"
    and "live m - owned hnd objs b \<subseteq> live m'"
  shows "owners_ok hnd live (objs', m')"
proof (rule owners_okI)
  note live = owners_okD(1)[OF assms(1)] and sep = owners_okD(2)[OF assms(1)]
  show "owned hnd objs' c \<subseteq> live m'" for c
    using live[of c] live[of a] sep[of c b] sep[OF assms(4)] assms(2,3,6) assms(5)[of c]
    by (cases "c = a"; cases "c = b") fastforce+
  show "owned hnd objs' c \<inter> owned hnd objs' d = {}" if "c \<noteq> d" for c d
    using sep[OF that] sep[of c a] sep[of d a] assms(2,3) assms(5)[of c] assms(5)[of d] that
    by (cases "c = a"; cases "c = b"; cases "d = a"; cases "d = b") auto
qed

lemma owners_ok_release:
  assumes "owners_ok hnd live (objs, m)" and "owned hnd objs' a = {}"
    and "\<And>c. c \<noteq> a \<Longrightarrow> owned hnd objs' c = owned hnd objs c"
    and "live m - owned hnd objs a \<subseteq> live m'"
  shows "owners_ok hnd live (objs', m')"
proof (rule owners_okI)
  note live = owners_okD(1)[OF assms(1)] and sep = owners_okD(2)[OF assms(1)]
  show "owned hnd objs' c \<subseteq> live m'" for c
    using live[of c] sep[of c a] assms(2,4) assms(3)[of c] by (cases "c = a") auto
  show "owned hnd objs' c \<inter> owned hnd objs' d = {}" if "c \<noteq> d" for c d
    using sep[OF that] assms(2) assms(3)[of c] assms(3)[of d] by (cases "c = a"; cases "d = a") auto
qed

lemma no_leakI:
  "(\<And>h. h \<in> live m \<Longrightarrow> h \<notin> live m0 \<Longrightarrow> \<exists>a. h \<in> owned hnd objs a) \<Longrightarrow> no_leak hnd live m0 (objs, m)"
  by (auto simp: no_leak_def)

lemma no_leakE:
  assumes "no_leak hnd live m0 (objs, m)" and "h \<in> live m" and "h \<notin> live m0"
  obtains a where "h \<in> owned hnd objs a"
  using assms by (auto simp: no_leak_def)

lemma no_leak_acquire:
  assumes "no_leak hnd live m0 (objs, m)" and "objs a = None" and "live m' = live m \<union> hnd x"
  shows "no_leak hnd live m0 (objs(a \<mapsto> x), m')"
proof (rule no_leakI)
  fix h assume h: "h \<in> live m'" "h \<notin> live m0"
  show "\<exists>b. h \<in> owned hnd (objs(a \<mapsto> x)) b"
  proof (cases "h \<in> hnd x")
    case True
    then show ?thesis by (intro exI[of _ a]) simp
  next
    case False
    with h assms(3) obtain b where b: "h \<in> owned hnd objs b" by (auto elim: no_leakE[OF assms(1)])
    then have "b \<noteq> a" using owned_None[of objs a hnd] assms(2) by auto
    with b show ?thesis by (intro exI[of _ b]) simp
  qed
qed

lemma no_leak_move:
  assumes "no_leak hnd live m0 (objs, m)" and "owned hnd objs' b = owned hnd objs a"
    and "\<And>c. c \<noteq> a \<Longrightarrow> c \<noteq> b \<Longrightarrow> owned hnd objs' c = owned hnd objs c"
    and "live m' = live m - owned hnd objs b"
  shows "no_leak hnd live m0 (objs', m')"
proof (rule no_leakI)
  fix h assume h: "h \<in> live m'" "h \<notin> live m0"
  then obtain c where c: "h \<in> owned hnd objs c" using assms(4) by (auto elim: no_leakE[OF assms(1)])
  have "c \<noteq> b" using h(1) c assms(4) by auto
  then show "\<exists>d. h \<in> owned hnd objs' d"
    using c assms(2) assms(3)[of c] by (cases "c = a") auto
qed

lemma no_leak_release:
  assumes "no_leak hnd live m0 (objs, m)"
    and "\<And>c. c \<noteq> a \<Longrightarrow> owned hnd objs' c = owned hnd objs c"
    and "live m' = live m - owned hnd objs a"
  shows "no_leak hnd live m0 (objs', m')"
proof (rule no_leakI)
  fix h assume h: "h \<in> live m'" "h \<notin> live m0"
  then obtain c where c: "h \<in> owned hnd objs c" using assms(3) by (auto elim: no_leakE[OF assms(1)])
  have "c \<noteq> a" using h(1) c assms(3) by auto
  then show "\<exists>d. h \<in> owned hnd objs' d"
    using c assms(2)[of c] by auto
qed

section \<open>What a class promises\<close>

text \<open>
  \<open>good\<close> is what the laws assume of the machine (and its library), \<open>live\<close> the handles that may
  be used.
\<close>

locale handle_class =
  fixes cls :: "('o, 'm, 'e) class_ops"
    and acquires :: "'m \<Rightarrow> 'o \<Rightarrow> 'm \<Rightarrow> bool"
    and hnd :: "'o \<Rightarrow> 'h set"
    and live :: "'m \<Rightarrow> 'h set"
    and good :: "'m \<Rightarrow> bool"
  assumes acquire_fresh:
      "good m \<Longrightarrow> acquires m x m' \<Longrightarrow>
       good m' \<and> hnd x \<inter> live m = {} \<and> live m' = live m \<union> hnd x"
    and copy_moves: "op_copy cls x = (n, x') \<Longrightarrow> hnd n = hnd x \<and> hnd x' = {}"
    and assign_self: "op_assign cls True x x m = (Ret (x, x), m)"
    and assign_moves:
      "good m \<Longrightarrow> hnd x \<subseteq> live m \<Longrightarrow> hnd y \<subseteq> live m \<Longrightarrow> hnd x \<inter> hnd y = {} \<Longrightarrow>
       \<exists>x' y' m'. op_assign cls False x y m = (Ret (x', y'), m') \<and> good m' \<and> hnd x' = hnd y \<and> hnd y' = {}
         \<and> live m' \<subseteq> live m \<and> live m - hnd x \<subseteq> live m'"
    and clear_releases:
      "good m \<Longrightarrow> hnd x \<subseteq> live m \<Longrightarrow>
       \<exists>r x' m'. op_clear cls (x, m) = (r, (x', m')) \<and> \<not> is_undef r \<and> good m' \<and> hnd x' = {}
         \<and> live m' = live m - hnd x"
begin

lemma owned_live:
  "owners_ok hnd live (objs, m) \<Longrightarrow> objs a = Some x \<Longrightarrow> hnd x \<subseteq> live m"
  using owned_Some[of objs a x hnd] by (auto simp: owners_ok_def)

lemma owned_apart:
  "owners_ok hnd live (objs, m) \<Longrightarrow> objs a = Some x \<Longrightarrow> objs b = Some y \<Longrightarrow> a \<noteq> b \<Longrightarrow> hnd x \<inter> hnd y = {}"
  using owners_okD(2)[of hnd live objs m a b] owned_Some[of objs a x hnd] owned_Some[of objs b y hnd]
  by simp

lemma assign_works:
  assumes "good m" and "owners_ok hnd live (objs, m)" and "objs a = Some x" and "objs b = Some y"
    and "a \<noteq> b"
  shows "\<exists>x' y' m'. op_assign cls False x y m = (Ret (x', y'), m') \<and> good m' \<and> hnd x' = hnd y \<and> hnd y' = {}
           \<and> live m' \<subseteq> live m \<and> live m - hnd x \<subseteq> live m'"
  by (rule assign_moves[OF assms(1) owned_live[OF assms(2,3)] owned_live[OF assms(2,4)]
      owned_apart[OF assms(2-5)]])

lemma no_fault:
  assumes "good m" and "owners_ok hnd live (objs, m)"
  shows "\<not> store_fault cls (objs, m) u"
proof
  assume "store_fault cls (objs, m) u"
  then show False
  proof (cases rule: store_fault.cases)
    case (assign_fault a b x y m')
    then show False
      using assign_works[OF assms, of a x b y] by auto
  next
    case (self_assign_fault a x m')
    then show False by (simp add: assign_self)
  next
    case (clear_fault a x s')
    then show False
      using clear_releases[OF assms(1) owned_live[OF assms(2)], of a x] by auto
  qed
qed

lemma destroy_is_clear:
  assumes "good m" and "hnd x \<subseteq> live m"
    and "catch_all (op_clear cls) (x, m) = (Ret (), (x', m'))"
  shows "good m' \<and> hnd x' = {} \<and> live m' = live m - hnd x"
proof -
  obtain r x'' m'' where c: "op_clear cls (x, m) = (r, (x'', m''))" "\<not> is_undef r" "good m''"
      "hnd x'' = {}" "live m'' = live m - hnd x"
    using clear_releases[OF assms(1,2)] by auto
  then show ?thesis using assms(3) by (cases r) (auto simp: catch_all_def)
qed

lemma step_keeps_owners:
  assumes "good m" and "owners_ok hnd live (objs, m)" and "store_step cls acquires (objs, m) (objs', m')"
  shows "good m' \<and> owners_ok hnd live (objs', m')"
  using assms(3)
proof (cases rule: store_step.cases)
  case (acquire a x)
  then show ?thesis
    using acquire_fresh[OF assms(1)] owners_ok_acquire[OF assms(2)] by blast
next
  case (copy a x b n x')
  have "a \<noteq> b" using copy by auto
  then have "owners_ok hnd live (objs(a \<mapsto> x', b \<mapsto> n), m)"
    using copy(3,4) copy_moves[OF copy(5)] owned_Some[of objs a x hnd]
    by (intro owners_ok_move[OF assms(2), where a = a and b = b]) auto
  then show ?thesis using copy assms(1) by simp
next
  case (assign a b x y x' y')
  have w: "good m' \<and> hnd x' = hnd y \<and> hnd y' = {} \<and> live m - hnd x \<subseteq> live m'"
    using assign_works[OF assms(1,2), of a x b y] assign by auto
  then have "owners_ok hnd live (objs(a \<mapsto> x', b \<mapsto> y'), m')"
    using assign(2-4) owned_Some[of objs a x hnd] owned_Some[of objs b y hnd]
    by (intro owners_ok_move[OF assms(2), where a = b and b = a]) auto
  then show ?thesis using assign w by simp
next
  case (self_assign a x x' y')
  then show ?thesis using assms by (simp add: assign_self fun_upd_idem)
next
  case (clear a x r x')
  have w: "good m' \<and> hnd x' = {} \<and> live m' = live m - hnd x"
    using clear_releases[OF assms(1) owned_live[OF assms(2)], of a x] clear by auto
  then have "owners_ok hnd live (objs(a \<mapsto> x'), m')"
    using clear(2) owned_Some[of objs a x hnd]
    by (intro owners_ok_release[OF assms(2), where a = a]) auto
  then show ?thesis using clear w by simp
next
  case (destroy a x x')
  have w: "good m' \<and> hnd x' = {} \<and> live m' = live m - hnd x"
    using destroy_is_clear[OF assms(1) owned_live[OF assms(2)], of a x] destroy by auto
  then have "owners_ok hnd live (objs(a := None), m')"
    using destroy(2) owned_Some[of objs a x hnd]
    by (intro owners_ok_release[OF assms(2), where a = a]) auto
  then show ?thesis using destroy w by simp
qed

lemma reachable_owners:
  assumes "good m0" and "reachable_store cls acquires m0 st"
  shows "good (snd st) \<and> owners_ok hnd live st"
  using assms(2)
proof (induction rule: reachable_store.induct)
  case start
  then show ?case using assms(1) by (simp add: owners_ok_empty)
next
  case (step st st')
  then show ?case using step_keeps_owners[of "snd st" "fst st" "fst st'" "snd st'"] by simp
qed

text \<open>No reachable store has a faulting operation, and no handle has two owners.\<close>

lemma reachable_safe:
  "good m0 \<Longrightarrow> reachable_store cls acquires m0 st \<Longrightarrow> \<not> store_fault cls st u"
  using reachable_owners[of m0 st] no_fault[of "snd st" "fst st" u] by simp

end

text \<open>A class whose assignment also releases the handle it overwrites.\<close>

locale releasing_class = handle_class cls acquires hnd live good
  for cls :: "('o, 'm, 'e) class_ops" and acquires :: "'m \<Rightarrow> 'o \<Rightarrow> 'm \<Rightarrow> bool"
    and hnd :: "'o \<Rightarrow> 'h set" and live :: "'m \<Rightarrow> 'h set" and good :: "'m \<Rightarrow> bool" +
  assumes assign_releases:
      "good m \<Longrightarrow> hnd x \<subseteq> live m \<Longrightarrow> hnd y \<subseteq> live m \<Longrightarrow> hnd x \<inter> hnd y = {} \<Longrightarrow>
       op_assign cls False x y m = (Ret (x', y'), m') \<Longrightarrow> live m' = live m - hnd x"
begin

lemma step_no_leak:
  assumes "good m" and "owners_ok hnd live (objs, m)" and "no_leak hnd live m0 (objs, m)"
    and "store_step cls acquires (objs, m) (objs', m')"
  shows "no_leak hnd live m0 (objs', m')"
  using assms(4)
proof (cases rule: store_step.cases)
  case (acquire a x)
  then show ?thesis
    using acquire_fresh[OF assms(1), of x m'] no_leak_acquire[OF assms(3), of a m' x] by simp
next
  case (copy a x b n x')
  then show ?thesis
    using copy_moves[OF copy(5)] owned_Some[of objs a x hnd] owned_None[of objs b hnd]
    by (intro no_leak_move[OF assms(3), where a = a and b = b]) auto
next
  case (assign a b x y x' y')
  have w: "hnd x' = hnd y \<and> live m' = live m - hnd x"
    using assign_works[OF assms(1,2), of a x b y] assign
      assign_releases[OF assms(1) owned_live[OF assms(2)] owned_live[OF assms(2)]
        owned_apart[OF assms(2)], of a x b y a b x' y' m'] by auto
  then show ?thesis
    using assign owned_Some[of objs a x hnd] owned_Some[of objs b y hnd]
    by (intro no_leak_move[OF assms(3), where a = b and b = a]) auto
next
  case (self_assign a x x' y')
  then show ?thesis using assms by (simp add: assign_self fun_upd_idem)
next
  case (clear a x r x')
  then show ?thesis
    using clear_releases[OF assms(1) owned_live[OF assms(2)], of a x] owned_Some[of objs a x hnd]
    by (intro no_leak_release[OF assms(3), where a = a]) auto
next
  case (destroy a x x')
  then show ?thesis
    using destroy_is_clear[OF assms(1) owned_live[OF assms(2)], of a x] owned_Some[of objs a x hnd]
    by (intro no_leak_release[OF assms(3), where a = a]) auto
qed

lemma reachable_no_leak:
  assumes "good m0" and "reachable_store cls acquires m0 st"
  shows "no_leak hnd live m0 st"
  using assms(2)
proof (induction rule: reachable_store.induct)
  case start
  then show ?case by (simp add: no_leak_def)
next
  case (step st st')
  then show ?case
    using step_no_leak[of "snd st" "fst st" m0 "fst st'" "snd st'"] reachable_owners[OF assms(1)]
    by simp
qed

text \<open>Once every object is destroyed, only the handles of the start are live.\<close>

lemma all_destroyed:
  "good m0 \<Longrightarrow> reachable_store cls acquires m0 (Map.empty, m) \<Longrightarrow> live m \<subseteq> live m0"
  using reachable_no_leak[of m0 "(Map.empty, m)"] by (auto simp: no_leak_def)

end

section \<open>Classes with one handle\<close>

text \<open>
  The same statements for a class whose objects hold at most one handle: a handle that an object
  holds is live and held by no other object, and a live handle above the initial ones is held.
\<close>

definition single_owner :: "('o \<Rightarrow> 'h option) \<Rightarrow> 'h set \<Rightarrow> (nat \<rightharpoonup> 'o) \<Rightarrow> bool" where
  "single_owner f live objs \<longleftrightarrow>
     (\<forall>a x h. objs a = Some x \<and> f x = Some h \<longrightarrow>
        h \<in> live \<and> (\<forall>b y. objs b = Some y \<and> f y = Some h \<longrightarrow> b = a))"

definition all_held :: "('o \<Rightarrow> 'h option) \<Rightarrow> 'h set \<Rightarrow> (nat \<rightharpoonup> 'o) \<Rightarrow> bool" where
  "all_held f live objs \<longleftrightarrow> (\<forall>h \<in> live. \<exists>a x. objs a = Some x \<and> f x = Some h)"

lemma owned_option_iff:
  "h \<in> owned (\<lambda>x. set_option (f x)) objs a \<longleftrightarrow> (\<exists>x. objs a = Some x \<and> f x = Some h)"
  by (simp add: owned_def split: option.split)

lemma single_ownerI:
  assumes "owners_ok (\<lambda>x. set_option (f x)) live (objs, m)"
  shows "single_owner f (live m) objs"
  unfolding single_owner_def
proof (intro allI impI conjI)
  fix a x h assume a: "objs a = Some x \<and> f x = Some h"
  then have h: "h \<in> owned (\<lambda>x. set_option (f x)) objs a" by (simp add: owned_option_iff)
  then show "h \<in> live m" using owners_okD(1)[OF assms, of a] by blast
  fix b y assume "objs b = Some y \<and> f y = Some h"
  then have "h \<in> owned (\<lambda>x. set_option (f x)) objs b" by (simp add: owned_option_iff)
  then show "b = a" using h owners_okD(2)[OF assms, of b a] by blast
qed

lemma all_heldI:
  assumes "no_leak (\<lambda>x. set_option (f x)) live m0 (objs, m)"
  shows "all_held f (live m - live m0) objs"
  unfolding all_held_def
proof
  fix h assume "h \<in> live m - live m0"
  then obtain a where "h \<in> owned (\<lambda>x. set_option (f x)) objs a"
    using assms by (auto simp: no_leak_def)
  then show "\<exists>a x. objs a = Some x \<and> f x = Some h" by (auto simp: owned_option_iff)
qed

end
