(* ===== verification/SqliteApi.thy ===== *)
theory SqliteApi
  imports Ownership
begin

text \<open>
  The SQLite library as \<open>src/CppSQLite3.cpp\<close> sees it.  The library is a parameter: a record with
  one function per API routine the wrapper calls, each over an opaque library state \<open>'w\<close>.  What
  the model adds is the memory the caller shares with the library: which connections, statements,
  result tables and \<open>sqlite3_malloc\<close>ed messages are live, so that a use after release, a double
  release or an invalid \<open>sqlite3_free\<close> is an undefined outcome.  Handles are numbers the machine
  hands out; a NULL pointer is \<open>None\<close>.
\<close>

section \<open>Constants of \<open>sqlite3.h\<close>\<close>

definition SQLITE_OK :: int where "SQLITE_OK = 0"
definition SQLITE_ERROR :: int where "SQLITE_ERROR = 1"
definition SQLITE_BUSY :: int where "SQLITE_BUSY = 5"
definition SQLITE_MISUSE :: int where "SQLITE_MISUSE = 21"
definition SQLITE_ROW :: int where "SQLITE_ROW = 100"
definition SQLITE_DONE :: int where "SQLITE_DONE = 101"

definition SQLITE_INTEGER :: int where "SQLITE_INTEGER = 1"
definition SQLITE_FLOAT :: int where "SQLITE_FLOAT = 2"
definition SQLITE_TEXT :: int where "SQLITE_TEXT = 3"
definition SQLITE_BLOB :: int where "SQLITE_BLOB = 4"
definition SQLITE_NULL :: int where "SQLITE_NULL = 5"

lemmas sqlite_codes =
  SQLITE_OK_def SQLITE_ERROR_def SQLITE_BUSY_def SQLITE_MISUSE_def SQLITE_ROW_def SQLITE_DONE_def
  SQLITE_INTEGER_def SQLITE_FLOAT_def SQLITE_TEXT_def SQLITE_BLOB_def SQLITE_NULL_def

section \<open>The library as a parameter\<close>

type_synonym bytes = "8 word list"

text \<open>
  \<open>sqlite3_open\<close> and \<open>sqlite3_prepare_v2\<close> get the number of the handle they may return and say
  whether they return it or NULL.  \<open>sqlite3_exec\<close> and \<open>sqlite3_get_table\<close> return the error text
  they leave in fresh memory, if any.
\<close>

record 'w sqlite3_lib =
  build :: platform
  sqlite3_open :: "string \<Rightarrow> nat \<Rightarrow> 'w \<Rightarrow> (int \<times> bool) \<times> 'w"
  sqlite3_close :: "nat \<Rightarrow> 'w \<Rightarrow> int \<times> 'w"
  sqlite3_exec :: "nat \<Rightarrow> string \<Rightarrow> 'w \<Rightarrow> (int \<times> string option) \<times> 'w"
  sqlite3_changes :: "nat \<Rightarrow> 'w \<Rightarrow> int \<times> 'w"
  sqlite3_get_table ::
    "nat \<Rightarrow> string \<Rightarrow> 'w \<Rightarrow> (int \<times> string option list option \<times> int \<times> int \<times> string option) \<times> 'w"
  sqlite3_prepare_v2 :: "nat \<Rightarrow> string \<Rightarrow> nat \<Rightarrow> 'w \<Rightarrow> (int \<times> bool) \<times> 'w"
  sqlite3_step :: "nat option \<Rightarrow> 'w \<Rightarrow> int \<times> 'w"
  sqlite3_finalize :: "nat option \<Rightarrow> 'w \<Rightarrow> int \<times> 'w"
  sqlite3_reset :: "nat \<Rightarrow> 'w \<Rightarrow> int \<times> 'w"
  sqlite3_errmsg :: "nat option \<Rightarrow> 'w \<Rightarrow> string \<times> 'w"
  sqlite3_get_autocommit :: "nat \<Rightarrow> 'w \<Rightarrow> int \<times> 'w"
  sqlite3_busy_timeout :: "nat option \<Rightarrow> int \<Rightarrow> 'w \<Rightarrow> int \<times> 'w"
  sqlite3_column_count :: "nat \<Rightarrow> 'w \<Rightarrow> int \<times> 'w"
  sqlite3_column_name :: "nat \<Rightarrow> int \<Rightarrow> 'w \<Rightarrow> string option \<times> 'w"
  sqlite3_column_type :: "nat \<Rightarrow> int \<Rightarrow> 'w \<Rightarrow> int \<times> 'w"
  sqlite3_column_text :: "nat \<Rightarrow> int \<Rightarrow> 'w \<Rightarrow> string option \<times> 'w"
  sqlite3_column_int :: "nat \<Rightarrow> int \<Rightarrow> 'w \<Rightarrow> int \<times> 'w"
  sqlite3_column_double :: "nat \<Rightarrow> int \<Rightarrow> 'w \<Rightarrow> cdouble \<times> 'w"
  sqlite3_column_bytes :: "nat \<Rightarrow> int \<Rightarrow> 'w \<Rightarrow> int \<times> 'w"
  sqlite3_column_blob :: "nat \<Rightarrow> int \<Rightarrow> 'w \<Rightarrow> bytes option \<times> 'w"
  sqlite3_bind_text :: "nat \<Rightarrow> int \<Rightarrow> string option \<Rightarrow> 'w \<Rightarrow> int \<times> 'w"
  sqlite3_bind_int :: "nat \<Rightarrow> int \<Rightarrow> int \<Rightarrow> 'w \<Rightarrow> int \<times> 'w"
  sqlite3_bind_double :: "nat \<Rightarrow> int \<Rightarrow> cdouble \<Rightarrow> 'w \<Rightarrow> int \<times> 'w"
  sqlite3_bind_blob :: "nat \<Rightarrow> int \<Rightarrow> bytes option \<Rightarrow> int \<Rightarrow> 'w \<Rightarrow> int \<times> 'w"
  sqlite3_bind_null :: "nat \<Rightarrow> int \<Rightarrow> 'w \<Rightarrow> int \<times> 'w"

section \<open>The machine\<close>

record 'w sq_mach =
  lib :: 'w
  next_id :: nat
  live_db :: "nat set"
  live_stmt :: "nat set"
  tables :: "nat \<rightharpoonup> string option list"
  live_msg :: "nat set"

definition ids_fresh :: "'w sq_mach \<Rightarrow> bool" where
  "ids_fresh m \<longleftrightarrow>
     (\<forall>i \<in> live_db m \<union> live_stmt m \<union> dom (tables m) \<union> live_msg m. i < next_id m)"

text \<open>A message pointer: NULL, memory of the library or of the program, or a \<open>sqlite3_malloc\<close>ed block.\<close>

datatype cmsg = NullMsg | BorrowedMsg string | OwnedMsg nat string

fun msg_text :: "cmsg \<Rightarrow> string option" where
  "msg_text NullMsg = None"
| "msg_text (BorrowedMsg s) = Some s"
| "msg_text (OwnedMsg i s) = Some s"

subsection \<open>Calls that allocate nothing\<close>

definition lib_call :: "('w \<Rightarrow> 'r \<times> 'w) \<Rightarrow> ('w sq_mach, 'e, 'r) prog" where
  "lib_call f m = (case f (lib m) of (r, w') \<Rightarrow> (Ret r, m\<lparr>lib := w'\<rparr>))"

definition db_call :: "nat option \<Rightarrow> (nat \<Rightarrow> 'w \<Rightarrow> 'r \<times> 'w) \<Rightarrow> ('w sq_mach, 'e, 'r) prog" where
  "db_call p f m =
     (case p of
        None \<Rightarrow> (Undef NullDeref, m)
      | Some d \<Rightarrow> (if d \<in> live_db m then lib_call (f d) m else (Undef UseAfterFree, m)))"

definition stmt_call :: "nat option \<Rightarrow> (nat \<Rightarrow> 'w \<Rightarrow> 'r \<times> 'w) \<Rightarrow> ('w sq_mach, 'e, 'r) prog" where
  "stmt_call p f m =
     (case p of
        None \<Rightarrow> (Undef NullDeref, m)
      | Some h \<Rightarrow> (if h \<in> live_stmt m then lib_call (f h) m else (Undef UseAfterFree, m)))"

text \<open>\<open>sqlite3_step\<close> accepts NULL and leaves the answer to the library.\<close>

definition call_step :: "'w sqlite3_lib \<Rightarrow> nat option \<Rightarrow> ('w sq_mach, 'e, int) prog" where
  "call_step lb p m =
     (if set_option p \<subseteq> live_stmt m then lib_call (sqlite3_step lb p) m
      else (Undef UseAfterFree, m))"

text \<open>The message of a connection belongs to the library.\<close>

definition call_errmsg :: "'w sqlite3_lib \<Rightarrow> nat option \<Rightarrow> ('w sq_mach, 'e, cmsg) prog" where
  "call_errmsg lb p m =
     (if set_option p \<subseteq> live_db m
      then bindP (lib_call (sqlite3_errmsg lb p)) (\<lambda>s. ret (BorrowedMsg s)) m
      else (Undef UseAfterFree, m))"

subsection \<open>Calls that allocate or release\<close>

definition fresh_id :: "('w sq_mach, 'e, nat) prog" where
  "fresh_id m = (Ret (next_id m), m\<lparr>next_id := Suc (next_id m)\<rparr>)"

definition alloc_msg :: "string option \<Rightarrow> ('w sq_mach, 'e, cmsg) prog" where
  "alloc_msg t m =
     (case t of
        None \<Rightarrow> (Ret NullMsg, m)
      | Some s \<Rightarrow>
          (Ret (OwnedMsg (next_id m) s),
           m\<lparr>next_id := Suc (next_id m), live_msg := insert (next_id m) (live_msg m)\<rparr>))"

definition call_free :: "cmsg \<Rightarrow> ('w sq_mach, 'e, unit) prog" where
  "call_free p m =
     (case p of
        NullMsg \<Rightarrow> (Ret (), m)
      | BorrowedMsg s \<Rightarrow> (Undef InvalidFree, m)
      | OwnedMsg i s \<Rightarrow>
          (if i \<in> live_msg m then (Ret (), m\<lparr>live_msg := live_msg m - {i}\<rparr>)
           else (Undef DoubleFree, m)))"

definition call_open :: "'w sqlite3_lib \<Rightarrow> string \<Rightarrow> ('w sq_mach, 'e, int \<times> nat option) prog" where
  "call_open lb szFile =
     bindP fresh_id (\<lambda>d.
     bindP (lib_call (sqlite3_open lb szFile d)) (\<lambda>(rc, some).
     (\<lambda>m. if some then (Ret (rc, Some d), m\<lparr>live_db := insert d (live_db m)\<rparr>)
           else (Ret (rc, None), m))))"

definition call_close :: "'w sqlite3_lib \<Rightarrow> nat option \<Rightarrow> ('w sq_mach, 'e, int) prog" where
  "call_close lb p =
     bindP (db_call p (sqlite3_close lb)) (\<lambda>rc.
     (\<lambda>m. (Ret rc, if rc = SQLITE_OK then m\<lparr>live_db := live_db m - set_option p\<rparr> else m)))"

definition call_exec ::
  "'w sqlite3_lib \<Rightarrow> nat option \<Rightarrow> string \<Rightarrow> ('w sq_mach, 'e, int \<times> cmsg) prog" where
  "call_exec lb p sql =
     bindP (db_call p (\<lambda>d. sqlite3_exec lb d sql)) (\<lambda>(rc, err).
     bindP (alloc_msg err) (\<lambda>msg. ret (rc, msg)))"

definition call_get_table ::
  "'w sqlite3_lib \<Rightarrow> nat option \<Rightarrow> string \<Rightarrow> ('w sq_mach, 'e, int \<times> nat option \<times> int \<times> int \<times> cmsg) prog" where
  "call_get_table lb p sql =
     bindP (db_call p (\<lambda>d. sqlite3_get_table lb d sql)) (\<lambda>(rc, cells, nRows, nCols, err).
     bindP (alloc_msg err) (\<lambda>msg.
     (\<lambda>m. (case cells of
             None \<Rightarrow> (Ret (rc, None, nRows, nCols, msg), m)
           | Some cs \<Rightarrow>
               (Ret (rc, Some (next_id m), nRows, nCols, msg),
                m\<lparr>next_id := Suc (next_id m), tables := (tables m)(next_id m \<mapsto> cs)\<rparr>)))))"

definition call_free_table :: "nat option \<Rightarrow> ('w sq_mach, 'e, unit) prog" where
  "call_free_table p m =
     (case p of
        None \<Rightarrow> (Ret (), m)
      | Some t \<Rightarrow>
          (if t \<in> dom (tables m) then (Ret (), m\<lparr>tables := (tables m)(t := None)\<rparr>)
           else (Undef DoubleFree, m)))"

text \<open>Reading \<open>m_paszResults[i]\<close>.\<close>

definition table_cell :: "nat option \<Rightarrow> int \<Rightarrow> ('w sq_mach, 'e, string option) prog" where
  "table_cell p i m =
     (case p of
        None \<Rightarrow> (Undef NullDeref, m)
      | Some t \<Rightarrow>
          (case tables m t of
             None \<Rightarrow> (Undef UseAfterFree, m)
           | Some cs \<Rightarrow>
               (if 0 \<le> i \<and> i < int (length cs) then (Ret (cs ! nat i), m)
                else (Undef OutOfBounds, m))))"

definition call_prepare ::
  "'w sqlite3_lib \<Rightarrow> nat option \<Rightarrow> string \<Rightarrow> ('w sq_mach, 'e, int \<times> nat option) prog" where
  "call_prepare lb p sql =
     bindP fresh_id (\<lambda>h.
     bindP (db_call p (\<lambda>d. sqlite3_prepare_v2 lb d sql h)) (\<lambda>(rc, some).
     (\<lambda>m. if some then (Ret (rc, Some h), m\<lparr>live_stmt := insert h (live_stmt m)\<rparr>)
           else (Ret (rc, None), m))))"

definition call_finalize :: "'w sqlite3_lib \<Rightarrow> nat option \<Rightarrow> ('w sq_mach, 'e, int) prog" where
  "call_finalize lb p m =
     (if set_option p \<subseteq> live_stmt m
      then bindP (lib_call (sqlite3_finalize lb p))
             (\<lambda>rc m. (Ret rc, m\<lparr>live_stmt := live_stmt m - set_option p\<rparr>)) m
      else (Undef DoubleFree, m))"

subsection \<open>Running the calls\<close>

lemma lib_call_run [prog_simps]: "f (lib m) = (r, w') \<Longrightarrow> lib_call f m = (Ret r, m\<lparr>lib := w'\<rparr>)"
  by (simp add: lib_call_def)

lemma lib_call_cases:
  obtains r w' where "f (lib m) = (r, w')" and "lib_call f m = (Ret r, m\<lparr>lib := w'\<rparr>)"
  by (cases "f (lib m)") (simp add: lib_call_def)

lemma db_call_live [prog_simps]: "d \<in> live_db m \<Longrightarrow> db_call (Some d) f m = lib_call (f d) m"
  by (simp add: db_call_def)

lemma db_call_null [prog_simps]: "db_call None f m = (Undef NullDeref, m)"
  by (simp add: db_call_def)

lemma db_call_dead [prog_simps]: "d \<notin> live_db m \<Longrightarrow> db_call (Some d) f m = (Undef UseAfterFree, m)"
  by (simp add: db_call_def)

lemma stmt_call_live [prog_simps]: "h \<in> live_stmt m \<Longrightarrow> stmt_call (Some h) f m = lib_call (f h) m"
  by (simp add: stmt_call_def)

lemma stmt_call_null [prog_simps]: "stmt_call None f m = (Undef NullDeref, m)"
  by (simp add: stmt_call_def)

lemma stmt_call_dead [prog_simps]:
  "h \<notin> live_stmt m \<Longrightarrow> stmt_call (Some h) f m = (Undef UseAfterFree, m)"
  by (simp add: stmt_call_def)

lemma call_step_live [prog_simps]:
  "h \<in> live_stmt m \<Longrightarrow> call_step lb (Some h) m = lib_call (sqlite3_step lb (Some h)) m"
  by (simp add: call_step_def)

lemma call_step_null [prog_simps]: "call_step lb None m = lib_call (sqlite3_step lb None) m"
  by (simp add: call_step_def)

lemma call_step_dead [prog_simps]:
  "h \<notin> live_stmt m \<Longrightarrow> call_step lb (Some h) m = (Undef UseAfterFree, m)"
  by (simp add: call_step_def)

lemma call_errmsg_run [prog_simps]:
  "set_option p \<subseteq> live_db m \<Longrightarrow> sqlite3_errmsg lb p (lib m) = (s, w') \<Longrightarrow>
   call_errmsg lb p m = (Ret (BorrowedMsg s), m\<lparr>lib := w'\<rparr>)"
  by (simp add: call_errmsg_def prog_simps)

lemma call_finalize_run [prog_simps]:
  "set_option p \<subseteq> live_stmt m \<Longrightarrow> sqlite3_finalize lb p (lib m) = (rc, w') \<Longrightarrow>
   call_finalize lb p m = (Ret rc, m\<lparr>lib := w', live_stmt := live_stmt m - set_option p\<rparr>)"
  by (simp add: call_finalize_def prog_simps)

lemma call_finalize_dead [prog_simps]:
  "\<not> set_option p \<subseteq> live_stmt m \<Longrightarrow> call_finalize lb p m = (Undef DoubleFree, m)"
  by (simp add: call_finalize_def)

lemma call_free_run [prog_simps]:
  "call_free NullMsg m = (Ret (), m)"
  "call_free (BorrowedMsg s) m = (Undef InvalidFree, m)"
  "i \<in> live_msg m \<Longrightarrow> call_free (OwnedMsg i s) m = (Ret (), m\<lparr>live_msg := live_msg m - {i}\<rparr>)"
  "i \<notin> live_msg m \<Longrightarrow> call_free (OwnedMsg i s) m = (Undef DoubleFree, m)"
  by (simp_all add: call_free_def)

lemma alloc_msg_run [prog_simps]:
  "alloc_msg None m = (Ret NullMsg, m)"
  "alloc_msg (Some s) m =
     (Ret (OwnedMsg (next_id m) s),
      m\<lparr>next_id := Suc (next_id m), live_msg := insert (next_id m) (live_msg m)\<rparr>)"
  by (simp_all add: alloc_msg_def)

lemma fresh_id_run [prog_simps]: "fresh_id m = (Ret (next_id m), m\<lparr>next_id := Suc (next_id m)\<rparr>)"
  by (simp add: fresh_id_def)

lemma table_cell_run [prog_simps]:
  "tables m t = Some cs \<Longrightarrow> 0 \<le> i \<Longrightarrow> i < int (length cs) \<Longrightarrow>
     table_cell (Some t) i m = (Ret (cs ! nat i), m)"
  by (simp add: table_cell_def)

lemma table_cell_outside [prog_simps]:
  "tables m t = Some cs \<Longrightarrow> i < 0 \<or> int (length cs) \<le> i \<Longrightarrow>
     table_cell (Some t) i m = (Undef OutOfBounds, m)"
  by (auto simp: table_cell_def)

lemma call_free_table_run [prog_simps]:
  "call_free_table None m = (Ret (), m)"
  "t \<in> dom (tables m) \<Longrightarrow> call_free_table (Some t) m = (Ret (), m\<lparr>tables := (tables m)(t := None)\<rparr>)"
  "t \<notin> dom (tables m) \<Longrightarrow> call_free_table (Some t) m = (Undef DoubleFree, m)"
  by (simp_all add: call_free_table_def)

end
