(* ===== verification/SqliteException.thy ===== *)
theory SqliteException
  imports SqliteApi
begin

text \<open>
  \<open>CppSQLite3Exception\<close> of \<open>src/CppSQLite3.cpp\<close>: an error code and a 256-byte message array,
  filled by \<open>snprintf\<close>, with the \<open>isSqlite3_free\<close> flag that hands a message back to
  \<open>sqlite3_free\<close>.  Here: what the message is on each platform, and when constructing the exception
  is itself undefined behaviour.
\<close>

section \<open>The class\<close>

definition CPPQLITE3_DB_ERROR :: int where "CPPQLITE3_DB_ERROR = 5001"
definition CPPQLITE3L_QUERY_ERROR :: int where "CPPQLITE3L_QUERY_ERROR = 5002"
definition CPPQLITE3_RESULTSET_ERROR :: int where "CPPQLITE3_RESULTSET_ERROR = 5003"
definition CPPQLITE3_STATEMENT_ERROR :: int where "CPPQLITE3_STATEMENT_ERROR = 5004"

lemmas sq_error_codes =
  CPPQLITE3_DB_ERROR_def CPPQLITE3L_QUERY_ERROR_def CPPQLITE3_RESULTSET_ERROR_def
  CPPQLITE3_STATEMENT_ERROR_def

definition BUF_SIZE :: nat where "BUF_SIZE = 256"

record sq_exn =
  sqe_m_nErrCode :: int
  sqe_m_aszErrMess :: cbuf

text \<open>The \<open>switch\<close> of the constructor: the class name that goes into the brackets.\<close>

definition sq_class_name :: "int \<Rightarrow> string" where
  "sq_class_name nErrCode =
     (if nErrCode = CPPQLITE3_DB_ERROR then ''CppSQLite3DB''
      else if nErrCode = CPPQLITE3L_QUERY_ERROR then ''CppSQLite3Query''
      else if nErrCode = CPPQLITE3_RESULTSET_ERROR then ''CppSQLite3ResultSet''
      else if nErrCode = CPPQLITE3_STATEMENT_ERROR then ''CppSQLite3Statement''
      else ''sqlite3'')"

definition sq_own_code :: "int \<Rightarrow> bool" where
  "sq_own_code nErrCode \<longleftrightarrow>
     nErrCode \<in> {CPPQLITE3_DB_ERROR, CPPQLITE3L_QUERY_ERROR, CPPQLITE3_RESULTSET_ERROR,
                 CPPQLITE3_STATEMENT_ERROR}"

text \<open>The macro \<open>GET_ERROR_MESSAGE\<close>: the text handed to \<open>snprintf\<close>.\<close>

definition GET_ERROR_MESSAGE :: "string \<Rightarrow> string option \<Rightarrow> string" where
  "GET_ERROR_MESSAGE CLASSS_NAME szErrMess =
     (case szErrMess of
        Some msg \<Rightarrow> ''['' @ CLASSS_NAME @ ''] '' @ msg
      | None \<Rightarrow> ''['' @ CLASSS_NAME @ ''] '')"

definition CppSQLite3Exception ::
  "'w sqlite3_lib \<Rightarrow> int \<Rightarrow> cmsg \<Rightarrow> bool \<Rightarrow> ('w sq_mach, sq_exn, sq_exn) prog" where
  "CppSQLite3Exception lb nErrCode szErrMess isSqlite3_free =
     (let buf = zeroed_buf BUF_SIZE;
          buf' = snprintf (build lb) (BUF_SIZE - 1)
                   (GET_ERROR_MESSAGE (sq_class_name nErrCode) (msg_text szErrMess)) buf;
          e = \<lparr>sqe_m_nErrCode = nErrCode, sqe_m_aszErrMess = buf'\<rparr>
      in if \<not> sq_own_code nErrCode \<and> isSqlite3_free \<and> szErrMess \<noteq> NullMsg
         then seqP (call_free szErrMess) (ret e)
         else ret e)"

definition CppSQLite3Exception_copy :: "sq_exn \<Rightarrow> sq_exn" where
  "CppSQLite3Exception_copy e =
     \<lparr>sqe_m_nErrCode = sqe_m_nErrCode e, sqe_m_aszErrMess = take BUF_SIZE (sqe_m_aszErrMess e)\<rparr>"

text \<open>\<open>*this = e\<close>, given whether \<open>this == &e\<close>.\<close>

definition CppSQLite3Exception_assign :: "bool \<Rightarrow> sq_exn \<Rightarrow> sq_exn \<Rightarrow> sq_exn" where
  "CppSQLite3Exception_assign same this e =
     (if same then this
      else this\<lparr>sqe_m_nErrCode := sqe_m_nErrCode e,
                sqe_m_aszErrMess := take BUF_SIZE (sqe_m_aszErrMess e)\<rparr>)"

definition CppSQLite3Exception_errorCode :: "sq_exn \<Rightarrow> int" where
  "CppSQLite3Exception_errorCode e = sqe_m_nErrCode e"

definition CppSQLite3Exception_errorMessage :: "sq_exn \<Rightarrow> (sq_exn, string) outcome" where
  "CppSQLite3Exception_errorMessage e = read_cstr (sqe_m_aszErrMess e)"

text \<open>\<open>throw CppSQLite3Exception(...)\<close>.\<close>

definition throw_sq ::
  "'w sqlite3_lib \<Rightarrow> int \<Rightarrow> cmsg \<Rightarrow> bool \<Rightarrow> ('w sq_mach, sq_exn, 'a) prog" where
  "throw_sq lb nErrCode szErrMess isSqlite3_free =
     bindP (CppSQLite3Exception lb nErrCode szErrMess isSqlite3_free) throw"

text \<open>The exception value an error with this code and text gives.\<close>

definition sq_error :: "'w sqlite3_lib \<Rightarrow> int \<Rightarrow> string option \<Rightarrow> sq_exn" where
  "sq_error lb nErrCode msg =
     \<lparr>sqe_m_nErrCode = nErrCode,
      sqe_m_aszErrMess =
        snprintf (build lb) (BUF_SIZE - 1) (GET_ERROR_MESSAGE (sq_class_name nErrCode) msg)
          (zeroed_buf BUF_SIZE)\<rparr>"

section \<open>Throwing\<close>

lemma CppSQLite3Exception_plain [prog_simps]:
  "\<not> isFree \<or> sq_own_code n \<or> msg = NullMsg \<Longrightarrow>
   CppSQLite3Exception lb n msg isFree m = (Ret (sq_error lb n (msg_text msg)), m)"
  by (auto simp: CppSQLite3Exception_def sq_error_def Let_def)

lemma throw_sq_plain [prog_simps]:
  "\<not> isFree \<or> sq_own_code n \<or> msg = NullMsg \<Longrightarrow>
   throw_sq lb n msg isFree m = (Throw (sq_error lb n (msg_text msg)), m)"
  by (simp add: throw_sq_def CppSQLite3Exception_plain bindP_Ret)

lemma throw_sq_frees [prog_simps]:
  "\<not> sq_own_code n \<Longrightarrow> i \<in> live_msg m \<Longrightarrow>
   throw_sq lb n (OwnedMsg i s) True m =
     (Throw (sq_error lb n (Some s)), m\<lparr>live_msg := live_msg m - {i}\<rparr>)"
  by (simp add: throw_sq_def CppSQLite3Exception_def sq_error_def Let_def prog_simps)

text \<open>The flag on a message of the library corrupts memory.\<close>

lemma throw_sq_borrowed [prog_simps]:
  "\<not> sq_own_code n \<Longrightarrow> throw_sq lb n (BorrowedMsg s) True m = (Undef InvalidFree, m)"
  by (simp add: throw_sq_def CppSQLite3Exception_def Let_def prog_simps)

lemma sq_own_code_simps [simp]:
  "sq_own_code CPPQLITE3_DB_ERROR" "sq_own_code CPPQLITE3L_QUERY_ERROR"
  "sq_own_code CPPQLITE3_RESULTSET_ERROR" "sq_own_code CPPQLITE3_STATEMENT_ERROR"
  by (simp_all add: sq_own_code_def)

lemma sq_error_code [simp]: "sqe_m_nErrCode (sq_error lb n msg) = n"
  by (simp add: sq_error_def)

section \<open>The message\<close>

lemma cstring_sq_class_name [simp]: "cstring (sq_class_name n)"
  by (simp add: sq_class_name_def NUL_def)

lemma cstring_GET_ERROR_MESSAGE:
  "cstring c \<Longrightarrow> (\<And>s. msg = Some s \<Longrightarrow> cstring s) \<Longrightarrow> cstring (GET_ERROR_MESSAGE c msg)"
  by (cases msg) (auto simp: GET_ERROR_MESSAGE_def NUL_def)

lemma errorMessage_sq_error:
  assumes "\<And>s. msg = Some s \<Longrightarrow> cstring s"
  shows "CppSQLite3Exception_errorMessage (sq_error lb n msg) =
           Ret (take (snprintf_keeps (build lb) 255) (GET_ERROR_MESSAGE (sq_class_name n) msg))"
  using read_snprintf_zeroed[OF cstring_GET_ERROR_MESSAGE[OF cstring_sq_class_name assms],
      where n = 255]
  by (simp add: CppSQLite3Exception_errorMessage_def sq_error_def BUF_SIZE_def)

lemma length_sq_error [simp]: "length (sqe_m_aszErrMess (sq_error lb n msg)) = BUF_SIZE"
  by (simp add: sq_error_def snprintf_length zeroed_buf_def BUF_SIZE_def)

end
