(* ===== verification/SqliteCodes.thy ===== *)
theory SqliteCodes
  imports SqliteException "HOL-Library.Sublist"
begin

text \<open>
  The result codes of \<open>sqlite3.h\<close>, which \<open>sqlite3_exec\<close>, \<open>sqlite3_step\<close> and the others return and
  \<open>CppSQLite3Exception\<close> carries: the primary codes, and the extended codes, which have more in their higher
  bits.  Here: the low byte of an extended code is the primary code it is named after, and no code is one
  of the wrapper's own.
\<close>

section \<open>The codes\<close>

unbundle bit_operations_syntax

definition SQLITE_INTERNAL :: int where "SQLITE_INTERNAL = 2"
definition SQLITE_PERM :: int where "SQLITE_PERM = 3"
definition SQLITE_ABORT :: int where "SQLITE_ABORT = 4"
definition SQLITE_LOCKED :: int where "SQLITE_LOCKED = 6"
definition SQLITE_NOMEM :: int where "SQLITE_NOMEM = 7"
definition SQLITE_READONLY :: int where "SQLITE_READONLY = 8"
definition SQLITE_INTERRUPT :: int where "SQLITE_INTERRUPT = 9"
definition SQLITE_IOERR :: int where "SQLITE_IOERR = 10"
definition SQLITE_CORRUPT :: int where "SQLITE_CORRUPT = 11"
definition SQLITE_NOTFOUND :: int where "SQLITE_NOTFOUND = 12"
definition SQLITE_FULL :: int where "SQLITE_FULL = 13"
definition SQLITE_CANTOPEN :: int where "SQLITE_CANTOPEN = 14"
definition SQLITE_PROTOCOL :: int where "SQLITE_PROTOCOL = 15"
definition SQLITE_EMPTY :: int where "SQLITE_EMPTY = 16"
definition SQLITE_SCHEMA :: int where "SQLITE_SCHEMA = 17"
definition SQLITE_TOOBIG :: int where "SQLITE_TOOBIG = 18"
definition SQLITE_CONSTRAINT :: int where "SQLITE_CONSTRAINT = 19"
definition SQLITE_MISMATCH :: int where "SQLITE_MISMATCH = 20"
definition SQLITE_NOLFS :: int where "SQLITE_NOLFS = 22"
definition SQLITE_AUTH :: int where "SQLITE_AUTH = 23"
definition SQLITE_FORMAT :: int where "SQLITE_FORMAT = 24"
definition SQLITE_RANGE :: int where "SQLITE_RANGE = 25"
definition SQLITE_NOTADB :: int where "SQLITE_NOTADB = 26"
definition SQLITE_NOTICE :: int where "SQLITE_NOTICE = 27"
definition SQLITE_WARNING :: int where "SQLITE_WARNING = 28"

definition sqlite_result_codes :: "(string \<times> int) list" where
  "sqlite_result_codes =
     [(''SQLITE_OK'', SQLITE_OK), (''SQLITE_ERROR'', SQLITE_ERROR), (''SQLITE_INTERNAL'', SQLITE_INTERNAL),
      (''SQLITE_PERM'', SQLITE_PERM), (''SQLITE_ABORT'', SQLITE_ABORT), (''SQLITE_BUSY'', SQLITE_BUSY),
      (''SQLITE_LOCKED'', SQLITE_LOCKED), (''SQLITE_NOMEM'', SQLITE_NOMEM),
      (''SQLITE_READONLY'', SQLITE_READONLY), (''SQLITE_INTERRUPT'', SQLITE_INTERRUPT),
      (''SQLITE_IOERR'', SQLITE_IOERR), (''SQLITE_CORRUPT'', SQLITE_CORRUPT),
      (''SQLITE_NOTFOUND'', SQLITE_NOTFOUND), (''SQLITE_FULL'', SQLITE_FULL),
      (''SQLITE_CANTOPEN'', SQLITE_CANTOPEN), (''SQLITE_PROTOCOL'', SQLITE_PROTOCOL),
      (''SQLITE_EMPTY'', SQLITE_EMPTY), (''SQLITE_SCHEMA'', SQLITE_SCHEMA), (''SQLITE_TOOBIG'', SQLITE_TOOBIG),
      (''SQLITE_CONSTRAINT'', SQLITE_CONSTRAINT), (''SQLITE_MISMATCH'', SQLITE_MISMATCH),
      (''SQLITE_MISUSE'', SQLITE_MISUSE), (''SQLITE_NOLFS'', SQLITE_NOLFS), (''SQLITE_AUTH'', SQLITE_AUTH),
      (''SQLITE_FORMAT'', SQLITE_FORMAT), (''SQLITE_RANGE'', SQLITE_RANGE), (''SQLITE_NOTADB'', SQLITE_NOTADB),
      (''SQLITE_NOTICE'', SQLITE_NOTICE), (''SQLITE_WARNING'', SQLITE_WARNING), (''SQLITE_ROW'', SQLITE_ROW),
      (''SQLITE_DONE'', SQLITE_DONE)]"

definition sqlite_extended_codes :: "(string \<times> int) list" where
  "sqlite_extended_codes =
     [(''SQLITE_IOERR_READ'', SQLITE_IOERR OR push_bit 8 1),
      (''SQLITE_IOERR_SHORT_READ'', SQLITE_IOERR OR push_bit 8 2),
      (''SQLITE_IOERR_WRITE'', SQLITE_IOERR OR push_bit 8 3),
      (''SQLITE_IOERR_FSYNC'', SQLITE_IOERR OR push_bit 8 4),
      (''SQLITE_IOERR_DIR_FSYNC'', SQLITE_IOERR OR push_bit 8 5),
      (''SQLITE_IOERR_TRUNCATE'', SQLITE_IOERR OR push_bit 8 6),
      (''SQLITE_IOERR_FSTAT'', SQLITE_IOERR OR push_bit 8 7),
      (''SQLITE_IOERR_UNLOCK'', SQLITE_IOERR OR push_bit 8 8),
      (''SQLITE_IOERR_RDLOCK'', SQLITE_IOERR OR push_bit 8 9),
      (''SQLITE_IOERR_DELETE'', SQLITE_IOERR OR push_bit 8 10),
      (''SQLITE_IOERR_BLOCKED'', SQLITE_IOERR OR push_bit 8 11),
      (''SQLITE_IOERR_NOMEM'', SQLITE_IOERR OR push_bit 8 12),
      (''SQLITE_IOERR_ACCESS'', SQLITE_IOERR OR push_bit 8 13),
      (''SQLITE_IOERR_CHECKRESERVEDLOCK'', SQLITE_IOERR OR push_bit 8 14),
      (''SQLITE_IOERR_LOCK'', SQLITE_IOERR OR push_bit 8 15),
      (''SQLITE_IOERR_CLOSE'', SQLITE_IOERR OR push_bit 8 16),
      (''SQLITE_IOERR_DIR_CLOSE'', SQLITE_IOERR OR push_bit 8 17),
      (''SQLITE_IOERR_SHMOPEN'', SQLITE_IOERR OR push_bit 8 18),
      (''SQLITE_IOERR_SHMSIZE'', SQLITE_IOERR OR push_bit 8 19),
      (''SQLITE_IOERR_SHMLOCK'', SQLITE_IOERR OR push_bit 8 20),
      (''SQLITE_IOERR_SHMMAP'', SQLITE_IOERR OR push_bit 8 21),
      (''SQLITE_IOERR_SEEK'', SQLITE_IOERR OR push_bit 8 22),
      (''SQLITE_IOERR_DELETE_NOENT'', SQLITE_IOERR OR push_bit 8 23),
      (''SQLITE_IOERR_MMAP'', SQLITE_IOERR OR push_bit 8 24),
      (''SQLITE_IOERR_GETTEMPPATH'', SQLITE_IOERR OR push_bit 8 25),
      (''SQLITE_IOERR_CONVPATH'', SQLITE_IOERR OR push_bit 8 26),
      (''SQLITE_LOCKED_SHAREDCACHE'', SQLITE_LOCKED OR push_bit 8 1),
      (''SQLITE_BUSY_RECOVERY'', SQLITE_BUSY OR push_bit 8 1),
      (''SQLITE_BUSY_SNAPSHOT'', SQLITE_BUSY OR push_bit 8 2),
      (''SQLITE_CANTOPEN_NOTEMPDIR'', SQLITE_CANTOPEN OR push_bit 8 1),
      (''SQLITE_CANTOPEN_ISDIR'', SQLITE_CANTOPEN OR push_bit 8 2),
      (''SQLITE_CANTOPEN_FULLPATH'', SQLITE_CANTOPEN OR push_bit 8 3),
      (''SQLITE_CANTOPEN_CONVPATH'', SQLITE_CANTOPEN OR push_bit 8 4),
      (''SQLITE_CORRUPT_VTAB'', SQLITE_CORRUPT OR push_bit 8 1),
      (''SQLITE_READONLY_RECOVERY'', SQLITE_READONLY OR push_bit 8 1),
      (''SQLITE_READONLY_CANTLOCK'', SQLITE_READONLY OR push_bit 8 2),
      (''SQLITE_READONLY_ROLLBACK'', SQLITE_READONLY OR push_bit 8 3),
      (''SQLITE_READONLY_DBMOVED'', SQLITE_READONLY OR push_bit 8 4),
      (''SQLITE_ABORT_ROLLBACK'', SQLITE_ABORT OR push_bit 8 2),
      (''SQLITE_CONSTRAINT_CHECK'', SQLITE_CONSTRAINT OR push_bit 8 1),
      (''SQLITE_CONSTRAINT_COMMITHOOK'', SQLITE_CONSTRAINT OR push_bit 8 2),
      (''SQLITE_CONSTRAINT_FOREIGNKEY'', SQLITE_CONSTRAINT OR push_bit 8 3),
      (''SQLITE_CONSTRAINT_FUNCTION'', SQLITE_CONSTRAINT OR push_bit 8 4),
      (''SQLITE_CONSTRAINT_NOTNULL'', SQLITE_CONSTRAINT OR push_bit 8 5),
      (''SQLITE_CONSTRAINT_PRIMARYKEY'', SQLITE_CONSTRAINT OR push_bit 8 6),
      (''SQLITE_CONSTRAINT_TRIGGER'', SQLITE_CONSTRAINT OR push_bit 8 7),
      (''SQLITE_CONSTRAINT_UNIQUE'', SQLITE_CONSTRAINT OR push_bit 8 8),
      (''SQLITE_CONSTRAINT_VTAB'', SQLITE_CONSTRAINT OR push_bit 8 9),
      (''SQLITE_CONSTRAINT_ROWID'', SQLITE_CONSTRAINT OR push_bit 8 10),
      (''SQLITE_NOTICE_RECOVER_WAL'', SQLITE_NOTICE OR push_bit 8 1),
      (''SQLITE_NOTICE_RECOVER_ROLLBACK'', SQLITE_NOTICE OR push_bit 8 2),
      (''SQLITE_WARNING_AUTOINDEX'', SQLITE_WARNING OR push_bit 8 1)]"

lemmas sqlite_code_defs =
  SQLITE_OK_def SQLITE_ERROR_def SQLITE_INTERNAL_def SQLITE_PERM_def SQLITE_ABORT_def
  SQLITE_BUSY_def SQLITE_LOCKED_def SQLITE_NOMEM_def SQLITE_READONLY_def SQLITE_INTERRUPT_def
  SQLITE_IOERR_def SQLITE_CORRUPT_def SQLITE_NOTFOUND_def SQLITE_FULL_def SQLITE_CANTOPEN_def
  SQLITE_PROTOCOL_def SQLITE_EMPTY_def SQLITE_SCHEMA_def SQLITE_TOOBIG_def SQLITE_CONSTRAINT_def
  SQLITE_MISMATCH_def SQLITE_MISUSE_def SQLITE_NOLFS_def SQLITE_AUTH_def SQLITE_FORMAT_def
  SQLITE_RANGE_def SQLITE_NOTADB_def SQLITE_NOTICE_def SQLITE_WARNING_def SQLITE_ROW_def
  SQLITE_DONE_def

text \<open>The primary code of any code: its low byte.\<close>

lemma extended_low_byte:
  "list_all (\<lambda>(n, c). list_ex (\<lambda>(p, d). d = c AND 255 \<and> prefix (p @ ''_'') n) sqlite_result_codes) sqlite_extended_codes"
  by code_simp

lemma codes_distinct: "distinct (map snd (sqlite_result_codes @ sqlite_extended_codes))"
  by code_simp

lemma codes_not_own:
  "list_all (\<lambda>(n, c). \<not> sq_own_code c) (sqlite_result_codes @ sqlite_extended_codes)"
  by (simp add: sqlite_extended_codes_def sqlite_result_codes_def sqlite_code_defs sq_own_code_def sq_error_codes)

end
