(* ===== verification/MysqlApi.thy ===== *)
theory MysqlApi
  imports Ownership
begin

text \<open>
  The MySQL client library as \<open>src/CppMySQL.cpp\<close> sees it, a parameter like the SQLite library: a
  record with one function per routine over an opaque state \<open>'w\<close>.  The machine adds the handles
  that are live, the file-scope variables of \<open>CppMySQL.cpp\<close>, the objects it allocates with \<open>new\<close>
  and the client's strings that parameters are bound to.  Pointers are numbers, NULL is \<open>None\<close>.
\<close>

section \<open>The library\<close>

text \<open>The options of \<open>enum mysql_option\<close> the wrapper sets itself.\<close>

datatype mysql_option = MYSQL_OPT_COMPRESS | MYSQL_OPT_RECONNECT | MYSQL_SET_CHARSET_NAME | OtherOption nat

text \<open>The values of \<open>enum enum_field_types\<close> the wrapper uses.\<close>

definition MYSQL_TYPE_LONG :: int where "MYSQL_TYPE_LONG = 3"
definition MYSQL_TYPE_DOUBLE :: int where "MYSQL_TYPE_DOUBLE = 5"
definition MYSQL_TYPE_STRING :: int where "MYSQL_TYPE_STRING = 254"

text \<open>Where a \<open>MYSQL_BIND\<close> points: the two static variables or a string of the client.\<close>

datatype my_buffer = AtIntStatic | AtDoubleStatic | AtString nat

record my_bind =
  buffer_type :: int
  buffer :: my_buffer
  buffer_length :: int

text \<open>A value the library reads out of a bound buffer when a statement is executed.\<close>

datatype my_value = IntValue int | DoubleValue cdouble | StringValue string

text \<open>A result field: its name, which may be NULL, and its type.\<close>

type_synonym my_fielddef = "string option \<times> int"

record 'w mysql_lib =
  mysql_init :: "nat \<Rightarrow> 'w \<Rightarrow> bool \<times> 'w"
  mysql_real_connect ::
    "nat \<Rightarrow> string \<Rightarrow> string \<Rightarrow> string \<Rightarrow> string option \<Rightarrow> uint32 \<Rightarrow> ulong \<Rightarrow> 'w \<Rightarrow> bool \<times> 'w"
  mysql_errno :: "nat \<Rightarrow> 'w \<Rightarrow> uint32 \<times> 'w"
  mysql_error :: "nat \<Rightarrow> 'w \<Rightarrow> string \<times> 'w"
  mysql_select_db :: "nat \<Rightarrow> string \<Rightarrow> 'w \<Rightarrow> int \<times> 'w"
  mysql_close :: "nat \<Rightarrow> 'w \<Rightarrow> unit \<times> 'w"
  mysql_real_query :: "nat \<Rightarrow> string \<Rightarrow> nat \<Rightarrow> 'w \<Rightarrow> int \<times> 'w"
  mysql_affected_rows :: "nat \<Rightarrow> 'w \<Rightarrow> ulong \<times> 'w"
  mysql_store_result :: "nat \<Rightarrow> nat \<Rightarrow> 'w \<Rightarrow> bool \<times> 'w"
  mysql_commit :: "nat \<Rightarrow> 'w \<Rightarrow> bool \<times> 'w"
  mysql_rollback :: "nat \<Rightarrow> 'w \<Rightarrow> bool \<times> 'w"
  mysql_ping :: "nat \<Rightarrow> 'w \<Rightarrow> int \<times> 'w"
  mysql_set_character_set :: "nat \<Rightarrow> string \<Rightarrow> 'w \<Rightarrow> int \<times> 'w"
  mysql_character_set_name :: "nat \<Rightarrow> 'w \<Rightarrow> string \<times> 'w"
  mysql_options :: "nat \<Rightarrow> mysql_option \<Rightarrow> string option \<Rightarrow> 'w \<Rightarrow> int \<times> 'w"
  conn_db :: "nat \<Rightarrow> 'w \<Rightarrow> string option" \<comment> \<open>the member \<open>db\<close> of \<open>struct st_mysql\<close>\<close>
  mysql_data_seek :: "nat \<Rightarrow> ulong \<Rightarrow> 'w \<Rightarrow> unit \<times> 'w"
  mysql_fetch_row :: "nat \<Rightarrow> 'w \<Rightarrow> string option list option \<times> 'w"
  mysql_num_rows :: "nat \<Rightarrow> 'w \<Rightarrow> ulong \<times> 'w"
  mysql_num_fields :: "nat \<Rightarrow> 'w \<Rightarrow> uint32 \<times> 'w"
  mysql_field_seek :: "nat \<Rightarrow> uint32 \<Rightarrow> 'w \<Rightarrow> uint32 \<times> 'w"
  mysql_fetch_field :: "nat \<Rightarrow> 'w \<Rightarrow> my_fielddef option \<times> 'w"
  mysql_fetch_fields :: "nat \<Rightarrow> 'w \<Rightarrow> my_fielddef list \<times> 'w"
  mysql_free_result :: "nat \<Rightarrow> 'w \<Rightarrow> unit \<times> 'w"
  mysql_stmt_init :: "nat \<Rightarrow> nat \<Rightarrow> 'w \<Rightarrow> bool \<times> 'w"
  mysql_stmt_prepare :: "nat \<Rightarrow> string \<Rightarrow> nat \<Rightarrow> 'w \<Rightarrow> int \<times> 'w"
  mysql_stmt_param_count :: "nat \<Rightarrow> 'w \<Rightarrow> ulong \<times> 'w"
  mysql_stmt_bind_param :: "nat \<Rightarrow> my_bind list \<Rightarrow> 'w \<Rightarrow> int \<times> 'w"
  mysql_stmt_execute :: "nat \<Rightarrow> (my_buffer \<Rightarrow> my_value) \<Rightarrow> 'w \<Rightarrow> int \<times> 'w"
  mysql_stmt_affected_rows :: "nat \<Rightarrow> 'w \<Rightarrow> ulong \<times> 'w"
  mysql_stmt_errno :: "nat \<Rightarrow> 'w \<Rightarrow> uint32 \<times> 'w"
  mysql_stmt_error :: "nat \<Rightarrow> 'w \<Rightarrow> string \<times> 'w"
  mysql_stmt_reset :: "nat \<Rightarrow> 'w \<Rightarrow> bool \<times> 'w"
  mysql_stmt_close :: "nat \<Rightarrow> 'w \<Rightarrow> bool \<times> 'w"
  atof :: "string \<Rightarrow> cdouble"

section \<open>The machine\<close>

record 'w my_mach =
  mlib :: 'w
  my_next :: nat
  live_conn :: "nat set"
  live_res :: "nat set"
  live_mstmt :: "nat set"
  s_DBName :: string
  s_nValue :: int
  s_dwValue :: cdouble
  client_str :: "nat \<Rightarrow> string"
  heap_str :: "nat \<rightharpoonup> string" \<comment> \<open>\<open>new std::string\<close> of the exceptions\<close>
  heap_rows :: "nat \<rightharpoonup> string list list" \<comment> \<open>\<open>new vector<vector<string> >\<close>\<close>
  heap_map :: "nat \<rightharpoonup> (int \<times> string) list" \<comment> \<open>\<open>new map<int, string>\<close>, in key order\<close>
  heap_bind :: "nat \<rightharpoonup> my_bind list" \<comment> \<open>\<open>new vector<MYSQL_BIND>\<close>\<close>

text \<open>Every number in use is below the next one.\<close>

definition my_fresh :: "'w my_mach \<Rightarrow> bool" where
  "my_fresh m \<longleftrightarrow>
     (\<forall>i \<in> live_conn m \<union> live_res m \<union> live_mstmt m \<union> dom (heap_str m) \<union> dom (heap_rows m) \<union>
           dom (heap_map m) \<union> dom (heap_bind m). i < my_next m)"

text \<open>What the library finds in a buffer.\<close>

definition read_buffer :: "'w my_mach \<Rightarrow> my_buffer \<Rightarrow> my_value" where
  "read_buffer m b =
     (case b of
        AtIntStatic \<Rightarrow> IntValue (s_nValue m)
      | AtDoubleStatic \<Rightarrow> DoubleValue (s_dwValue m)
      | AtString p \<Rightarrow> StringValue (client_str m p))"

subsection \<open>Calls\<close>

definition my_call :: "('w \<Rightarrow> 'r \<times> 'w) \<Rightarrow> ('w my_mach, 'e, 'r) prog" where
  "my_call f m = (case f (mlib m) of (r, w') \<Rightarrow> (Ret r, m\<lparr>mlib := w'\<rparr>))"

text \<open>A call on a handle that must be live; \<open>live\<close> selects the handles of its kind.\<close>

definition live_call ::
  "('w my_mach \<Rightarrow> nat set) \<Rightarrow> nat option \<Rightarrow> (nat \<Rightarrow> 'w \<Rightarrow> 'r \<times> 'w) \<Rightarrow> ('w my_mach, 'e, 'r) prog" where
  "live_call live p f m =
     (case p of
        None \<Rightarrow> (Undef NullDeref, m)
      | Some h \<Rightarrow> (if h \<in> live m then my_call (f h) m else (Undef UseAfterFree, m)))"

definition my_fresh_id :: "('w my_mach, 'e, nat) prog" where
  "my_fresh_id m = (Ret (my_next m), m\<lparr>my_next := Suc (my_next m)\<rparr>)"

definition call_init :: "'w mysql_lib \<Rightarrow> ('w my_mach, 'e, nat option) prog" where
  "call_init lb =
     bindP my_fresh_id (\<lambda>h.
     bindP (my_call (mysql_init lb h)) (\<lambda>some.
     (\<lambda>m. if some then (Ret (Some h), m\<lparr>live_conn := insert h (live_conn m)\<rparr>) else (Ret None, m))))"

definition call_mysql_close :: "'w mysql_lib \<Rightarrow> nat option \<Rightarrow> ('w my_mach, 'e, unit) prog" where
  "call_mysql_close lb p =
     bindP (live_call live_conn p (mysql_close lb)) (\<lambda>_.
     (\<lambda>m. (Ret (), m\<lparr>live_conn := live_conn m - set_option p\<rparr>)))"

definition call_store_result ::
  "'w mysql_lib \<Rightarrow> nat option \<Rightarrow> ('w my_mach, 'e, nat option) prog" where
  "call_store_result lb p =
     bindP my_fresh_id (\<lambda>h.
     bindP (live_call live_conn p (\<lambda>c. mysql_store_result lb c h)) (\<lambda>some.
     (\<lambda>m. if some then (Ret (Some h), m\<lparr>live_res := insert h (live_res m)\<rparr>) else (Ret None, m))))"

definition call_free_result :: "'w mysql_lib \<Rightarrow> nat option \<Rightarrow> ('w my_mach, 'e, unit) prog" where
  "call_free_result lb p m =
     (case p of
        None \<Rightarrow> (Ret (), m)
      | Some h \<Rightarrow>
          (if h \<in> live_res m
           then bindP (my_call (mysql_free_result lb h))
                  (\<lambda>_ m. (Ret (), m\<lparr>live_res := live_res m - {h}\<rparr>)) m
           else (Undef DoubleFree, m)))"

definition call_stmt_init ::
  "'w mysql_lib \<Rightarrow> nat option \<Rightarrow> ('w my_mach, 'e, nat option) prog" where
  "call_stmt_init lb p =
     bindP my_fresh_id (\<lambda>h.
     bindP (live_call live_conn p (\<lambda>c. mysql_stmt_init lb c h)) (\<lambda>some.
     (\<lambda>m. if some then (Ret (Some h), m\<lparr>live_mstmt := insert h (live_mstmt m)\<rparr>) else (Ret None, m))))"

definition call_stmt_close :: "'w mysql_lib \<Rightarrow> nat option \<Rightarrow> ('w my_mach, 'e, unit) prog" where
  "call_stmt_close lb p m =
     (case p of
        None \<Rightarrow> (Undef NullDeref, m)
      | Some h \<Rightarrow>
          (if h \<in> live_mstmt m
           then bindP (my_call (mysql_stmt_close lb h))
                  (\<lambda>_ m. (Ret (), m\<lparr>live_mstmt := live_mstmt m - {h}\<rparr>)) m
           else (Undef DoubleFree, m)))"

text \<open>\<open>mysql_stmt_execute\<close> reads the bound buffers as they are now.\<close>

definition call_stmt_execute :: "'w mysql_lib \<Rightarrow> nat option \<Rightarrow> ('w my_mach, 'e, int) prog" where
  "call_stmt_execute lb p m = live_call live_mstmt p (\<lambda>h. mysql_stmt_execute lb h (read_buffer m)) m"

subsection \<open>Objects on the heap\<close>

definition new_str :: "string \<Rightarrow> ('w my_mach, 'e, nat) prog" where
  "new_str s m = (Ret (my_next m), m\<lparr>my_next := Suc (my_next m), heap_str := (heap_str m)(my_next m \<mapsto> s)\<rparr>)"

definition delete_str :: "nat option \<Rightarrow> ('w my_mach, 'e, unit) prog" where
  "delete_str p m =
     (case p of
        None \<Rightarrow> (Ret (), m)
      | Some a \<Rightarrow> (if a \<in> dom (heap_str m) then (Ret (), m\<lparr>heap_str := (heap_str m)(a := None)\<rparr>)
                  else (Undef DoubleFree, m)))"

definition new_rows :: "string list list \<Rightarrow> ('w my_mach, 'e, nat) prog" where
  "new_rows r m = (Ret (my_next m), m\<lparr>my_next := Suc (my_next m), heap_rows := (heap_rows m)(my_next m \<mapsto> r)\<rparr>)"

definition delete_rows :: "nat option \<Rightarrow> ('w my_mach, 'e, unit) prog" where
  "delete_rows p m =
     (case p of
        None \<Rightarrow> (Ret (), m)
      | Some a \<Rightarrow> (if a \<in> dom (heap_rows m) then (Ret (), m\<lparr>heap_rows := (heap_rows m)(a := None)\<rparr>)
                  else (Undef DoubleFree, m)))"

definition new_map :: "(int \<times> string) list \<Rightarrow> ('w my_mach, 'e, nat) prog" where
  "new_map r m = (Ret (my_next m), m\<lparr>my_next := Suc (my_next m), heap_map := (heap_map m)(my_next m \<mapsto> r)\<rparr>)"

definition delete_map :: "nat option \<Rightarrow> ('w my_mach, 'e, unit) prog" where
  "delete_map p m =
     (case p of
        None \<Rightarrow> (Ret (), m)
      | Some a \<Rightarrow> (if a \<in> dom (heap_map m) then (Ret (), m\<lparr>heap_map := (heap_map m)(a := None)\<rparr>)
                  else (Undef DoubleFree, m)))"

definition new_bind :: "('w my_mach, 'e, nat) prog" where
  "new_bind m = (Ret (my_next m), m\<lparr>my_next := Suc (my_next m), heap_bind := (heap_bind m)(my_next m \<mapsto> [])\<rparr>)"

definition delete_bind :: "nat option \<Rightarrow> ('w my_mach, 'e, unit) prog" where
  "delete_bind p m =
     (case p of
        None \<Rightarrow> (Ret (), m)
      | Some a \<Rightarrow> (if a \<in> dom (heap_bind m) then (Ret (), m\<lparr>heap_bind := (heap_bind m)(a := None)\<rparr>)
                  else (Undef DoubleFree, m)))"

text \<open>Reading and changing an object through a pointer.\<close>

definition deref :: "('m \<Rightarrow> nat \<rightharpoonup> 'a) \<Rightarrow> nat option \<Rightarrow> ('m, 'e, 'a) prog" where
  "deref heap p m =
     (case p of
        None \<Rightarrow> (Undef NullDeref, m)
      | Some a \<Rightarrow> (case heap m a of None \<Rightarrow> (Undef UseAfterFree, m) | Some x \<Rightarrow> (Ret x, m)))"

definition store_bind :: "nat option \<Rightarrow> my_bind list \<Rightarrow> ('w my_mach, 'e, unit) prog" where
  "store_bind p bs =
     bindP (deref heap_bind p) (\<lambda>_.
     (\<lambda>m. (Ret (), m\<lparr>heap_bind := (heap_bind m)(the p \<mapsto> bs)\<rparr>)))"

text \<open>\<open>(*v)[i]\<close> of a vector: no bounds check.\<close>

definition vector_at :: "'a list \<Rightarrow> nat \<Rightarrow> ('s, 'e, 'a) prog" where
  "vector_at xs i = (if i < length xs then ret (xs ! i) else undef OutOfBounds)"

subsection \<open>Running the calls\<close>

lemma my_call_run [prog_simps]: "f (mlib m) = (r, w') \<Longrightarrow> my_call f m = (Ret r, m\<lparr>mlib := w'\<rparr>)"
  by (simp add: my_call_def)

lemma live_call_run [prog_simps]:
  "h \<in> live m \<Longrightarrow> live_call live (Some h) f m = my_call (f h) m"
  "h \<notin> live m \<Longrightarrow> live_call live (Some h) f m = (Undef UseAfterFree, m)"
  "live_call live None f m = (Undef NullDeref, m)"
  by (simp_all add: live_call_def)

lemma my_fresh_id_run [prog_simps]: "my_fresh_id m = (Ret (my_next m), m\<lparr>my_next := Suc (my_next m)\<rparr>)"
  by (simp add: my_fresh_id_def)

lemma call_free_result_run [prog_simps]:
  "h \<in> live_res m \<Longrightarrow> mysql_free_result lb h (mlib m) = ((), w') \<Longrightarrow>
   call_free_result lb (Some h) m = (Ret (), m\<lparr>mlib := w', live_res := live_res m - {h}\<rparr>)"
  "h \<notin> live_res m \<Longrightarrow> call_free_result lb (Some h) m = (Undef DoubleFree, m)"
  by (simp_all add: call_free_result_def prog_simps)

lemma call_stmt_close_run [prog_simps]:
  "h \<in> live_mstmt m \<Longrightarrow> mysql_stmt_close lb h (mlib m) = (r, w') \<Longrightarrow>
   call_stmt_close lb (Some h) m = (Ret (), m\<lparr>mlib := w', live_mstmt := live_mstmt m - {h}\<rparr>)"
  "h \<notin> live_mstmt m \<Longrightarrow> call_stmt_close lb (Some h) m = (Undef DoubleFree, m)"
  by (simp_all add: call_stmt_close_def prog_simps)

lemma call_stmt_execute_run [prog_simps]:
  "h \<in> live_mstmt m \<Longrightarrow> mysql_stmt_execute lb h (read_buffer m) (mlib m) = (rc, w') \<Longrightarrow>
   call_stmt_execute lb (Some h) m = (Ret rc, m\<lparr>mlib := w'\<rparr>)"
  by (simp add: call_stmt_execute_def prog_simps)

lemma heap_run [prog_simps]:
  "new_str s m = (Ret (my_next m), m\<lparr>my_next := Suc (my_next m), heap_str := (heap_str m)(my_next m \<mapsto> s)\<rparr>)"
  "new_rows r m = (Ret (my_next m), m\<lparr>my_next := Suc (my_next m), heap_rows := (heap_rows m)(my_next m \<mapsto> r)\<rparr>)"
  "new_map r2 m = (Ret (my_next m), m\<lparr>my_next := Suc (my_next m), heap_map := (heap_map m)(my_next m \<mapsto> r2)\<rparr>)"
  "new_bind m = (Ret (my_next m), m\<lparr>my_next := Suc (my_next m), heap_bind := (heap_bind m)(my_next m \<mapsto> [])\<rparr>)"
  by (simp_all add: new_str_def new_rows_def new_map_def new_bind_def)

lemma delete_null [prog_simps]:
  "delete_str None m = (Ret (), m)" "delete_rows None m = (Ret (), m)"
  "delete_map None m = (Ret (), m)" "delete_bind None m = (Ret (), m)"
  by (simp_all add: delete_str_def delete_rows_def delete_map_def delete_bind_def)

lemma delete_live [prog_simps]:
  "a \<in> dom (heap_str m) \<Longrightarrow> delete_str (Some a) m = (Ret (), m\<lparr>heap_str := (heap_str m)(a := None)\<rparr>)"
  "a \<in> dom (heap_rows m) \<Longrightarrow> delete_rows (Some a) m = (Ret (), m\<lparr>heap_rows := (heap_rows m)(a := None)\<rparr>)"
  "a \<in> dom (heap_map m) \<Longrightarrow> delete_map (Some a) m = (Ret (), m\<lparr>heap_map := (heap_map m)(a := None)\<rparr>)"
  "a \<in> dom (heap_bind m) \<Longrightarrow> delete_bind (Some a) m = (Ret (), m\<lparr>heap_bind := (heap_bind m)(a := None)\<rparr>)"
  by (simp_all add: delete_str_def delete_rows_def delete_map_def delete_bind_def)

lemma deref_run [prog_simps]:
  "heap m a = Some x \<Longrightarrow> deref heap (Some a) m = (Ret x, m)"
  "heap m a = None \<Longrightarrow> deref heap (Some a) m = (Undef UseAfterFree, m)"
  "deref heap None m = (Undef NullDeref, m)"
  by (simp_all add: deref_def)

lemma store_bind_run [prog_simps]:
  "heap_bind m a = Some x \<Longrightarrow>
   store_bind (Some a) bs m = (Ret (), m\<lparr>heap_bind := (heap_bind m)(a \<mapsto> bs)\<rparr>)"
  by (simp add: store_bind_def prog_simps)

lemma vector_at_run [prog_simps]:
  "i < length xs \<Longrightarrow> vector_at xs i s = (Ret (xs ! i), s)"
  "\<not> i < length xs \<Longrightarrow> vector_at xs i s = (Undef OutOfBounds, s)"
  by (simp_all add: vector_at_def)

end
