(* ===== verification/MysqlException.thy ===== *)
theory MysqlException
  imports MysqlApi
begin

text \<open>
  \<open>CppMySQLException\<close> of \<open>src/CppMySQL.cpp\<close>: an error code and a pointer to a string on the heap.
  The copy constructor tests, and deletes, a pointer no constructor has set.
\<close>

section \<open>The class\<close>

definition CPPMYSQL_DB_ERROR :: int where "CPPMYSQL_DB_ERROR = 4001"
definition CPPMYSQL_QUERY_ERROR :: int where "CPPMYSQL_QUERY_ERROR = 4002"
definition CPPMYSQL_RESULTSET_ERROR :: int where "CPPMYSQL_RESULTSET_ERROR = 4003"
definition CPPMYSQL_STATEMENT_ERROR :: int where "CPPMYSQL_STATEMENT_ERROR = 4004"

lemmas my_error_codes =
  CPPMYSQL_DB_ERROR_def CPPMYSQL_QUERY_ERROR_def CPPMYSQL_RESULTSET_ERROR_def
  CPPMYSQL_STATEMENT_ERROR_def

record my_exn =
  mye_m_nErrCode :: int
  mye_m_pErrMess :: "nat option"

definition my_class_name :: "int \<Rightarrow> string" where
  "my_class_name nErrCode =
     (if nErrCode = CPPMYSQL_DB_ERROR then ''CppMySQLDB''
      else if nErrCode = CPPMYSQL_QUERY_ERROR then ''CppMySQLQuery''
      else if nErrCode = CPPMYSQL_RESULTSET_ERROR then ''CppMySQLResultSet''
      else if nErrCode = CPPMYSQL_STATEMENT_ERROR then ''CppMySQLStatement''
      else ''MySQL'')"

definition my_message :: "int \<Rightarrow> string option \<Rightarrow> string" where
  "my_message nErrCode szErrMess =
     ''['' @ my_class_name nErrCode @ ''] '' @ (case szErrMess of None \<Rightarrow> [] | Some s \<Rightarrow> s)"

definition CppMySQLException :: "int \<Rightarrow> string option \<Rightarrow> ('w my_mach, 'e, my_exn) prog" where
  "CppMySQLException nErrCode szErrMess =
     bindP (new_str (my_message nErrCode szErrMess)) (\<lambda>p.
     ret \<lparr>mye_m_nErrCode = nErrCode, mye_m_pErrMess = Some p\<rparr>)"

text \<open>
  The copy constructor; \<open>before\<close> is what the storage of the new object holds, \<open>None\<close> for
  indeterminate bytes.  The result is the new object and the source.
\<close>

definition CppMySQLException_copy ::
  "nat option option \<Rightarrow> my_exn \<Rightarrow> ('w my_mach, 'e, my_exn \<times> my_exn) prog" where
  "CppMySQLException_copy before e =
     (case before of
        None \<Rightarrow> undef UninitRead
      | Some p \<Rightarrow>
          seqP (delete_str p)
          (ret (\<lparr>mye_m_nErrCode = mye_m_nErrCode e, mye_m_pErrMess = mye_m_pErrMess e\<rparr>,
                e\<lparr>mye_m_pErrMess := None\<rparr>)))"

text \<open>\<open>*this = e\<close>, given whether \<open>this == &e\<close>.\<close>

definition CppMySQLException_assign ::
  "bool \<Rightarrow> my_exn \<Rightarrow> my_exn \<Rightarrow> ('w my_mach, 'e, my_exn \<times> my_exn) prog" where
  "CppMySQLException_assign same this e =
     (if same then ret (this, e)
      else seqP (delete_str (mye_m_pErrMess this))
     (ret (this\<lparr>mye_m_nErrCode := mye_m_nErrCode e, mye_m_pErrMess := mye_m_pErrMess e\<rparr>,
           e\<lparr>mye_m_pErrMess := None\<rparr>)))"

definition CppMySQLException_destroy :: "(my_exn \<times> 'w my_mach, 'e, unit) prog" where
  "CppMySQLException_destroy =
     bindP get_this (\<lambda>e.
     if mye_m_pErrMess e \<noteq> None
     then seqP (on_mach (delete_str (mye_m_pErrMess e))) (upd_this (mye_m_pErrMess_update (\<lambda>_. None)))
     else ret ())"

definition CppMySQLException_errorCode :: "my_exn \<Rightarrow> int" where
  "CppMySQLException_errorCode e = mye_m_nErrCode e"

definition CppMySQLException_errorMessage :: "my_exn \<Rightarrow> ('w my_mach, 'e, string) prog" where
  "CppMySQLException_errorMessage e =
     (if mye_m_pErrMess e \<noteq> None then deref heap_str (mye_m_pErrMess e) else ret [])"

text \<open>\<open>throw CppMySQLException(...)\<close>; the exception object is constructed in place.\<close>

definition throw_my :: "int \<Rightarrow> string option \<Rightarrow> ('w my_mach, my_exn, 'a) prog" where
  "throw_my nErrCode szErrMess = bindP (CppMySQLException nErrCode szErrMess) throw"

text \<open>\<open>throw CppMySQLException(mysql_errno(m_pDB), mysql_error(m_pDB))\<close>.\<close>

definition throw_conn_error :: "'w mysql_lib \<Rightarrow> nat option \<Rightarrow> ('w my_mach, my_exn, 'a) prog" where
  "throw_conn_error lb p =
     bindP (live_call live_conn p (mysql_errno lb)) (\<lambda>n.
     bindP (live_call live_conn p (mysql_error lb)) (\<lambda>s. throw_my (uint_to_int n) (Some s)))"

section \<open>Throwing\<close>

text \<open>The exception and the machine after throwing it.\<close>

definition my_error :: "'w my_mach \<Rightarrow> int \<Rightarrow> my_exn" where
  "my_error m n = \<lparr>mye_m_nErrCode = n, mye_m_pErrMess = Some (my_next m)\<rparr>"

definition after_throw :: "int \<Rightarrow> string option \<Rightarrow> 'w my_mach \<Rightarrow> 'w my_mach" where
  "after_throw n s m =
     m\<lparr>my_next := Suc (my_next m), heap_str := (heap_str m)(my_next m \<mapsto> my_message n s)\<rparr>"

lemma throw_my_run [prog_simps]: "throw_my n s m = (Throw (my_error m n), after_throw n s m)"
  by (simp add: throw_my_def CppMySQLException_def my_error_def after_throw_def prog_simps)

lemma after_throw_fields [simp]:
  "mlib (after_throw n s m) = mlib m" "live_res (after_throw n s m) = live_res m"
  "live_conn (after_throw n s m) = live_conn m" "live_mstmt (after_throw n s m) = live_mstmt m"
  "heap_rows (after_throw n s m) = heap_rows m" "heap_map (after_throw n s m) = heap_map m"
  "heap_bind (after_throw n s m) = heap_bind m" "s_DBName (after_throw n s m) = s_DBName m"
  by (simp_all add: after_throw_def)

text \<open>What a handler reads out of an exception that reached it, and that it does not leak.\<close>

lemma errorMessage_run:
  "CppMySQLException_errorMessage (my_error m n) (after_throw n s m) = (Ret (my_message n s), after_throw n s m)"
  by (simp add: CppMySQLException_errorMessage_def my_error_def after_throw_def prog_simps)

lemma exception_destroy_run:
  "my_next m \<notin> dom (heap_str m) \<Longrightarrow>
   \<exists>e' m'. CppMySQLException_destroy (my_error m n, after_throw n s m) = (Ret (), (e', m')) \<and>
           heap_str m' = heap_str m"
  by (auto simp: CppMySQLException_destroy_def my_error_def after_throw_def prog_simps fun_eq_iff)

lemma throw_conn_error_run [prog_simps]:
  "h \<in> live_conn m \<Longrightarrow> mysql_errno lb h (mlib m) = (n, w1) \<Longrightarrow> mysql_error lb h w1 = (s, w2) \<Longrightarrow>
   throw_conn_error lb (Some h) m =
     (Throw (my_error m (uint_to_int n)), after_throw (uint_to_int n) (Some s) (m\<lparr>mlib := w2\<rparr>))"
  by (simp add: throw_conn_error_def prog_simps) (simp add: my_error_def)

end
