(* ===== verification/HeaderProperties.thy ===== *)
theory HeaderProperties
  imports MysqlBytes MysqlErrors SqliteCodes MysqlException
begin

text \<open>
  Properties of the headers of the two libraries: the byte order macros of \<open>my_global.h\<close>, the tables of
  error codes, and what the exceptions of the wrapper say for the codes in them.
\<close>

section \<open>Error codes\<close>


text \<open>
  The low byte of every extended result code of SQLite is the primary code it is named after, and the
  numbers of all codes are different.
\<close>

theorem extended_codes_primary:
  "list_all (\<lambda>(n, c). list_ex (\<lambda>(p, d). d = c AND 255 \<and> prefix (p @ ''_'') n) sqlite_result_codes) sqlite_extended_codes \<and>
   distinct (map snd (sqlite_result_codes @ sqlite_extended_codes))"
  using extended_low_byte codes_distinct by blast


section \<open>Byte order\<close>

text \<open>
  C33: what the storing macros write, the reading macros of the same width read, cut to that width; both
  need as many bytes as the width says.
\<close>

theorem store_korr:
  "Option.bind (int2store T v) uint2korr = (if 2 \<le> length T then Some (ucast v) else None) \<and>
   Option.bind (int3store T v) uint3korr = (if 3 \<le> length T then Some (take_bit 24 v) else None) \<and>
   Option.bind (int4store T v) uint4korr = (if 4 \<le> length T then Some v else None) \<and>
   Option.bind (int5store T w) uint5korr = (if 5 \<le> length T then Some (take_bit 40 w) else None) \<and>
   Option.bind (int6store T w) uint6korr = (if 6 \<le> length T then Some (take_bit 48 w) else None) \<and>
   Option.bind (int8store T w) uint8korr = (if 8 \<le> length T then Some w else None)"
  unfolding stores_le store8_le korr_le
  by (simp add: load_store_word load_store_16 take_bit_word_eq_self)

text \<open>
  C34: the macros for IA-32 and Win32, which load and store machine words, do the same as those for any
  machine, but for \<open>uint3korr\<close>: it reads a fourth byte, and so behind the end of three bytes.
\<close>

theorem korr_ia32:
  "uint2korr_ia32 A = uint2korr A \<and> sint2korr_ia32 A = sint2korr A \<and> sint3korr_ia32 A = sint3korr A \<and>
   uint4korr_ia32 A = uint4korr A \<and> sint4korr_ia32 A = sint4korr A \<and> uint5korr_ia32 A = uint5korr A \<and>
   uint6korr_ia32 A = uint6korr A \<and> uint8korr_ia32 A = uint8korr A \<and> sint8korr_ia32 A = sint8korr A \<and>
   uint3korr_ia32 A = (if length A = 3 then None else uint3korr A) \<and>
   int2store_ia32 A v = int2store A v \<and> int3store_ia32 A v = int3store A v \<and> int4store_ia32 A v = int4store A v \<and>
   int5store_ia32 A w = int5store A w \<and> int6store_ia32 A w = int6store A w \<and> int8store_ia32 A w = int8store A w"
  by (simp add: ia32_same ia32_store_same ia32_uint3korr)

end
