(* ===== verification/SqliteResultSet.thy ===== *)
theory SqliteResultSet
  imports SqliteException
begin

text \<open>
  \<open>CppSQLite3ResultSet\<close> of \<open>src/CppSQLite3.cpp\<close>: the whole table \<open>sqlite3_get_table\<close> returns, one
  row of column names followed by the data, read through a current row number.  The record has
  the class's four members; index arithmetic is \<open>int\<close> arithmetic and a read outside the table is
  undefined.
\<close>

section \<open>The class\<close>

record sq_rset =
  rs_m_nCols :: int
  rs_m_nRows :: ulong
  rs_m_nCurrentRow :: int
  rs_m_paszResults :: "nat option"

type_synonym 'w sq_rst = "sq_rset \<times> 'w sq_mach"

definition CppSQLite3ResultSet_default :: sq_rset where
  "CppSQLite3ResultSet_default =
     \<lparr>rs_m_nCols = 0, rs_m_nRows = 0, rs_m_nCurrentRow = 0, rs_m_paszResults = None\<rparr>"

definition CppSQLite3ResultSet_copy :: "sq_rset \<Rightarrow> sq_rset \<times> sq_rset" where
  "CppSQLite3ResultSet_copy rResultSet =
     (\<lparr>rs_m_nCols = rs_m_nCols rResultSet, rs_m_nRows = rs_m_nRows rResultSet,
       rs_m_nCurrentRow = rs_m_nCurrentRow rResultSet, rs_m_paszResults = rs_m_paszResults rResultSet\<rparr>,
      rResultSet\<lparr>rs_m_paszResults := None\<rparr>)"

definition CppSQLite3ResultSet_new :: "nat option \<Rightarrow> ulong \<Rightarrow> int \<Rightarrow> sq_rset" where
  "CppSQLite3ResultSet_new paszResults nRows nCols =
     \<lparr>rs_m_nCols = nCols, rs_m_nRows = nRows, rs_m_nCurrentRow = 0, rs_m_paszResults = paszResults\<rparr>"

definition CppSQLite3ResultSet_clear :: "('w sq_rst, sq_exn, unit) prog" where
  "CppSQLite3ResultSet_clear =
     bindP get_this (\<lambda>t.
     if rs_m_paszResults t \<noteq> None
     then seqP (on_mach (call_free_table (rs_m_paszResults t)))
            (upd_this (rs_m_paszResults_update (\<lambda>_. None)))
     else ret ())"

definition CppSQLite3ResultSet_destroy :: "('w sq_rst, sq_exn, unit) prog" where
  "CppSQLite3ResultSet_destroy = catch_all CppSQLite3ResultSet_clear"

text \<open>\<open>*this = rResultSet\<close>, given whether \<open>this == &rResultSet\<close>.\<close>

definition CppSQLite3ResultSet_assign ::
  "bool \<Rightarrow> sq_rset \<Rightarrow> sq_rset \<Rightarrow> ('w sq_mach, sq_exn, sq_rset \<times> sq_rset) prog" where
  "CppSQLite3ResultSet_assign same this rResultSet m =
     (if same then (Ret (this, rResultSet), m)
      else case catch_all CppSQLite3ResultSet_clear (this, m) of
        (Ret _, (this', m')) \<Rightarrow>
          (Ret (this'\<lparr>rs_m_paszResults := rs_m_paszResults rResultSet, rs_m_nRows := rs_m_nRows rResultSet,
                      rs_m_nCols := rs_m_nCols rResultSet,
                      rs_m_nCurrentRow := rs_m_nCurrentRow rResultSet\<rparr>,
                rResultSet\<lparr>rs_m_paszResults := None\<rparr>), m')
      | (Throw e, (_, m')) \<Rightarrow> (Throw e, m')
      | (Undef u, (_, m')) \<Rightarrow> (Undef u, m'))"

definition CppSQLite3ResultSet_checkResults :: "'w sqlite3_lib \<Rightarrow> ('w sq_rst, sq_exn, unit) prog" where
  "CppSQLite3ResultSet_checkResults lb =
     bindP get_this (\<lambda>t.
     if rs_m_paszResults t = None
     then on_mach (throw_sq lb CPPQLITE3_RESULTSET_ERROR (BorrowedMsg ''Null Results pointer'') False)
     else ret ())"

definition CppSQLite3ResultSet_numFields :: "'w sqlite3_lib \<Rightarrow> ('w sq_rst, sq_exn, int) prog" where
  "CppSQLite3ResultSet_numFields lb =
     seqP (CppSQLite3ResultSet_checkResults lb) (bindP get_this (\<lambda>t. ret (rs_m_nCols t)))"

definition CppSQLite3ResultSet_numRows :: "'w sqlite3_lib \<Rightarrow> ('w sq_rst, sq_exn, ulong) prog" where
  "CppSQLite3ResultSet_numRows lb =
     seqP (CppSQLite3ResultSet_checkResults lb) (bindP get_this (\<lambda>t. ret (rs_m_nRows t)))"

text \<open>\<open>m_paszResults[i]\<close>.\<close>

definition rset_cell :: "int \<Rightarrow> ('w sq_rst, sq_exn, string option) prog" where
  "rset_cell i = bindP get_this (\<lambda>t. on_mach (table_cell (rs_m_paszResults t) i))"

text \<open>The loop of \<open>FieldColIndex\<close>, from column \<open>nField\<close>.\<close>

function CppSQLite3ResultSet_FieldColIndex_loop ::
  "'w sqlite3_lib \<Rightarrow> string \<Rightarrow> int \<Rightarrow> int \<Rightarrow> ('w sq_rst, sq_exn, int) prog" where
  "CppSQLite3ResultSet_FieldColIndex_loop lb szField nCols nField =
     (if nField < nCols
      then bindP (rset_cell nField) (\<lambda>szTemp.
           case szTemp of
             None \<Rightarrow> undef NullDeref
           | Some name \<Rightarrow>
               (if szField = name then ret nField
                else CppSQLite3ResultSet_FieldColIndex_loop lb szField nCols (nField + 1)))
      else on_mach (throw_sq lb CPPQLITE3_RESULTSET_ERROR
             (BorrowedMsg ''Invalid field name requested'') False))"
  by pat_completeness auto
termination
  by (relation "measure (\<lambda>(lb, szField, nCols, nField). nat (nCols - nField))") auto

declare CppSQLite3ResultSet_FieldColIndex_loop.simps [simp del]

definition CppSQLite3ResultSet_FieldColIndex ::
  "'w sqlite3_lib \<Rightarrow> string option \<Rightarrow> ('w sq_rst, sq_exn, int) prog" where
  "CppSQLite3ResultSet_FieldColIndex lb szField =
     seqP (CppSQLite3ResultSet_checkResults lb)
     (case szField of
        Some f \<Rightarrow> bindP get_this (\<lambda>t. CppSQLite3ResultSet_FieldColIndex_loop lb f (rs_m_nCols t) 0)
      | None \<Rightarrow>
          on_mach (throw_sq lb CPPQLITE3_RESULTSET_ERROR
            (BorrowedMsg ''Invalid field name requested'') False))"

definition CppSQLite3ResultSet_fieldName ::
  "'w sqlite3_lib \<Rightarrow> int \<Rightarrow> ('w sq_rst, sq_exn, string option) prog" where
  "CppSQLite3ResultSet_fieldName lb nCol =
     seqP (CppSQLite3ResultSet_checkResults lb)
     (bindP get_this (\<lambda>t.
      bindP (int_arith (rs_m_nCols t - 1)) (\<lambda>last.
      if nCol < 0 \<or> nCol > last
      then on_mach (throw_sq lb CPPQLITE3_RESULTSET_ERROR
             (BorrowedMsg ''Invalid field index requested'') False)
      else rset_cell nCol)))"

text \<open>\<open>(m_nCurrentRow * m_nCols) + m_nCols + nField\<close>.\<close>

definition rset_index :: "int \<Rightarrow> ('w sq_rst, sq_exn, int) prog" where
  "rset_index nField =
     bindP get_this (\<lambda>t.
     bindP (int_arith (rs_m_nCurrentRow t * rs_m_nCols t)) (\<lambda>a.
     bindP (int_arith (a + rs_m_nCols t)) (\<lambda>b.
     int_arith (b + nField))))"

text \<open>\<open>fieldRealIndex(int)\<close>; the guard is \<open>nField >= 0 || nField <= m_nCols-1\<close>, as written.\<close>

definition CppSQLite3ResultSet_fieldRealIndex ::
  "'w sqlite3_lib \<Rightarrow> int \<Rightarrow> ('w sq_rst, sq_exn, int) prog" where
  "CppSQLite3ResultSet_fieldRealIndex lb nField =
     seqP (CppSQLite3ResultSet_checkResults lb)
     (bindP get_this (\<lambda>t.
      bindP (if nField \<ge> 0 then ret True
             else bindP (int_arith (rs_m_nCols t - 1)) (\<lambda>last. ret (nField \<le> last))) (\<lambda>ok.
      if ok then rset_index nField
      else on_mach (throw_sq lb CPPQLITE3_RESULTSET_ERROR
             (BorrowedMsg ''Invalid field index requested'') False))))"

definition CppSQLite3ResultSet_fieldRealIndex_by_name ::
  "'w sqlite3_lib \<Rightarrow> string option \<Rightarrow> ('w sq_rst, sq_exn, int) prog" where
  "CppSQLite3ResultSet_fieldRealIndex_by_name lb szField =
     seqP (CppSQLite3ResultSet_checkResults lb)
     (if szField \<noteq> None
      then bindP (CppSQLite3ResultSet_FieldColIndex lb szField) rset_index
      else on_mach (throw_sq lb CPPQLITE3_RESULTSET_ERROR
             (BorrowedMsg ''Invalid field name requested'') False))"

definition CppSQLite3ResultSet_fieldValue ::
  "'w sqlite3_lib \<Rightarrow> int \<Rightarrow> ('w sq_rst, sq_exn, string option) prog" where
  "CppSQLite3ResultSet_fieldValue lb nField =
     bindP (CppSQLite3ResultSet_fieldRealIndex lb nField) rset_cell"

definition CppSQLite3ResultSet_fieldValue_by_name ::
  "'w sqlite3_lib \<Rightarrow> string option \<Rightarrow> ('w sq_rst, sq_exn, string option) prog" where
  "CppSQLite3ResultSet_fieldValue_by_name lb szField =
     bindP (CppSQLite3ResultSet_fieldRealIndex_by_name lb szField) rset_cell"

definition CppSQLite3ResultSet_fieldDataIsNull ::
  "'w sqlite3_lib \<Rightarrow> int \<Rightarrow> ('w sq_rst, sq_exn, bool) prog" where
  "CppSQLite3ResultSet_fieldDataIsNull lb nField =
     seqP (CppSQLite3ResultSet_checkResults lb)
     (bindP (CppSQLite3ResultSet_fieldRealIndex lb nField) (\<lambda>i.
      bindP (rset_cell i) (\<lambda>c. ret (c = None))))"

definition CppSQLite3ResultSet_eof :: "('w sq_rst, sq_exn, bool) prog" where
  "CppSQLite3ResultSet_eof =
     bindP get_this (\<lambda>t. ret (rs_m_nCurrentRow t = ulong_to_int (rs_m_nRows t)))"

definition CppSQLite3ResultSet_nextRow :: "('w sq_rst, sq_exn, unit) prog" where
  "CppSQLite3ResultSet_nextRow =
     bindP get_this (\<lambda>t.
     bindP (int_arith (rs_m_nCurrentRow t + 1)) (\<lambda>n.
     upd_this (rs_m_nCurrentRow_update (\<lambda>_. n))))"

text \<open>\<open>seekRow\<close>: \<open>m_nRows - 1\<close> is unsigned and wraps when there is no row.\<close>

definition CppSQLite3ResultSet_seekRow :: "ulong \<Rightarrow> ('w sq_rst, sq_exn, int) prog" where
  "CppSQLite3ResultSet_seekRow nRow =
     bindP get_this (\<lambda>t.
     let nRow' = (if nRow \<ge> rs_m_nRows t then rs_m_nRows t - 1 else nRow)
     in seqP (upd_this (rs_m_nCurrentRow_update (\<lambda>_. ulong_to_int nRow')))
          (bindP get_this (\<lambda>t'. ret (rs_m_nCurrentRow t'))))"

section \<open>The layout of the table\<close>

text \<open>
  A result set on a table of \<open>sqlite3_get_table\<close>: the names, then the rows, all of the same length;
  the whole table is indexed by \<open>int\<close>.
\<close>

definition rset_on :: "'w sq_rst \<Rightarrow> string list \<Rightarrow> string option list list \<Rightarrow> bool" where
  "rset_on s names rows \<longleftrightarrow>
     (\<exists>t. rs_m_paszResults (fst s) = Some t \<and>
          tables (snd s) t = Some (map Some names @ concat rows)) \<and>
     (\<forall>r \<in> set rows. length r = length names) \<and>
     rs_m_nCols (fst s) = int (length names) \<and>
     rs_m_nRows (fst s) = of_nat (length rows) \<and>
     int ((length rows + 1) * length names) \<le> INT_MAX \<and> int (length rows) < INT_MAX"

lemma concat_nth:
  "\<forall>r \<in> set rows. length r = n \<Longrightarrow> k < length rows \<Longrightarrow> i < n \<Longrightarrow>
   concat rows ! (k * n + i) = rows ! k ! i"
  by (induction rows arbitrary: k) (auto simp: nth_append nth_Cons' less_Suc_eq_0_disj
      diff_mult_distrib split: nat_diff_split)

lemma length_concat_rows: "\<forall>r \<in> set rows. length r = n \<Longrightarrow> length (concat rows) = length rows * n"
  by (induction rows) auto

lemma checkResults_open [prog_simps]:
  "rs_m_paszResults t = Some i \<Longrightarrow> CppSQLite3ResultSet_checkResults lb (t, m) = (Ret (), (t, m))"
  by (simp add: CppSQLite3ResultSet_checkResults_def prog_simps)

lemma checkResults_closed [prog_simps]:
  "rs_m_paszResults t = None \<Longrightarrow>
   CppSQLite3ResultSet_checkResults lb (t, m) =
     (Throw (sq_error lb CPPQLITE3_RESULTSET_ERROR (Some ''Null Results pointer'')), (t, m))"
  by (simp add: CppSQLite3ResultSet_checkResults_def prog_simps)

lemma rset_on_open: "rset_on (t, m) names rows \<Longrightarrow> \<exists>i. rs_m_paszResults t = Some i"
  by (auto simp: rset_on_def)

lemma rset_numFields_run [prog_simps]:
  "rset_on (t, m) names rows \<Longrightarrow>
   CppSQLite3ResultSet_numFields lb (t, m) = (Ret (int (length names)), (t, m))"
  by (auto simp: CppSQLite3ResultSet_numFields_def rset_on_def prog_simps)

lemma rset_cell_name:
  "rset_on (t, m) names rows \<Longrightarrow> k < length names \<Longrightarrow>
   rset_cell (int k) (t, m) = (Ret (Some (names ! k)), (t, m))"
  by (auto simp: rset_cell_def rset_on_def nth_append prog_simps)

lemma rset_cell_value:
  assumes "rset_on (t, m) names rows" and "k < length rows" and "i < length names"
  shows "rset_cell (int (k * length names + length names + i)) (t, m) =
           (Ret (rows ! k ! i), (t, m))"
proof -
  have r: "\<forall>r \<in> set rows. length r = length names" using assms(1) by (simp add: rset_on_def)
  obtain p where p: "rs_m_paszResults t = Some p" "tables m p = Some (map Some names @ concat rows)"
    using assms(1) by (auto simp: rset_on_def)
  have "k * length names + i < length (concat rows)"
    using mult_le_mono1[of "Suc k" "length rows" "length names"] assms(2,3)
    by (simp add: length_concat_rows[OF r])
  then show ?thesis
    using p concat_nth[OF r assms(2,3)]
    by (simp add: rset_cell_def table_cell_def nth_append prog_simps nat_add_distrib
        flip: of_nat_add of_nat_mult)
qed

lemma rset_index_int:
  assumes "rset_on (t, m) names rows" and "rs_m_nCurrentRow t = int k"
    and "int (k * length names + length names + i) \<le> INT_MAX"
  shows "rset_index (int i) (t, m) = (Ret (int (k * length names + length names + i)), (t, m))"
proof -
  have c: "rs_m_nCols t = int (length names)" using assms(1) by (simp add: rset_on_def)
  have "in_int (int (k * length names))" "in_int (int (k * length names + length names))"
      "in_int (int (k * length names + length names + i))"
    using assms(3) by (auto intro!: in_int_of_nat simp del: of_nat_add of_nat_mult)
  then show ?thesis
    using assms(2) c by (simp add: rset_index_def prog_simps)
qed

lemma rset_index_run:
  assumes "rset_on (t, m) names rows" and "rs_m_nCurrentRow t = int k" and "k < length rows"
    and "i < length names"
  shows "rset_index (int i) (t, m) = (Ret (int (k * length names + length names + i)), (t, m))"
proof -
  have "k * length names + length names + i < (length rows + 1) * length names"
    using mult_le_mono1[of "Suc k" "length rows" "length names"] assms(3,4) by simp
  moreover have "int ((length rows + 1) * length names) \<le> INT_MAX"
    using assms(1) by (simp add: rset_on_def)
  ultimately have "int (k * length names + length names + i) \<le> INT_MAX" by linarith
  from rset_index_int[OF assms(1,2) this] show ?thesis .
qed

text \<open>
  A column number behind the last column passes the guard of \<open>fieldRealIndex\<close>: it reads the row
  after, or leaves the table.
\<close>

lemma rset_fieldValue_behind:
  assumes "rset_on (t, m) names rows" and "rs_m_nCurrentRow t = int k" and "k < length rows"
    and "i < length names" and "int ((length rows + 2) * length names) \<le> INT_MAX"
  shows "CppSQLite3ResultSet_fieldValue lb (int (length names + i)) (t, m) =
           (if Suc k < length rows then Ret (rows ! Suc k ! i) else Undef OutOfBounds, (t, m))"
proof -
  let ?n = "length names"
  obtain c where c: "rs_m_paszResults t = Some c" "tables m c = Some (map Some names @ concat rows)"
      "\<forall>r \<in> set rows. length r = ?n"
    using assms(1) by (auto simp: rset_on_def)
  have "k * ?n + ?n + (?n + i) < (length rows + 2) * ?n"
    using mult_le_mono1[of "Suc k" "length rows" ?n] assms(3,4) by simp
  then have "int (k * ?n + ?n + (?n + i)) \<le> INT_MAX" using assms(5) by linarith
  note idx = rset_index_int[OF assms(1,2) this]
  have pos: "k * ?n + ?n + (?n + i) = Suc k * ?n + ?n + i" by simp
  have cell: "rset_cell (int (k * ?n + ?n + (?n + i))) (t, m) =
      (if Suc k < length rows then Ret (rows ! Suc k ! i) else Undef OutOfBounds, (t, m))"
  proof (cases "Suc k < length rows")
    case True
    then show ?thesis using rset_cell_value[OF assms(1) True assms(4)] by (simp only: pos if_True)
  next
    case False
    then have "Suc k = length rows" using assms(3) by simp
    then have "length (map Some names @ concat rows) \<le> k * ?n + ?n + (?n + i)"
      using length_concat_rows[OF c(3)] by (metis add.commute add_leE le_add1 length_append length_map nat_add_left_cancel_le pos)
    then have "int (length (map Some names @ concat rows)) \<le> int (k * ?n + ?n + (?n + i))"
      by (simp only: of_nat_le_iff)
    then show ?thesis
      using False c(1)
      by (simp add: rset_cell_def table_cell_outside[OF c(2)] prog_simps
          del: length_append of_nat_add of_nat_mult)
  qed
  show ?thesis
    using c(1) idx cell
    by (simp add: CppSQLite3ResultSet_fieldValue_def CppSQLite3ResultSet_fieldRealIndex_def prog_simps
        del: of_nat_add of_nat_mult)
qed

lemma rset_fieldValue_run:
  assumes "rset_on (t, m) names rows" and "rs_m_nCurrentRow t = int k" and "k < length rows"
    and "i < length names"
  shows "CppSQLite3ResultSet_fieldValue lb (int i) (t, m) = (Ret (rows ! k ! i), (t, m))"
  using rset_on_open[OF assms(1)] rset_index_run[OF assms] rset_cell_value[OF assms(1,3,4)]
  by (auto simp: CppSQLite3ResultSet_fieldValue_def CppSQLite3ResultSet_fieldRealIndex_def prog_simps)

section \<open>Reading rows\<close>

definition rset_row :: "'w sqlite3_lib \<Rightarrow> ('w sq_rst, sq_exn, string option list) prog" where
  "rset_row lb =
     bindP (CppSQLite3ResultSet_numFields lb) (\<lambda>n.
     mapP (CppSQLite3ResultSet_fieldValue lb) [0..n - 1])"

text \<open>The rows of a table, read off the machine.\<close>

definition rset_rows :: "'w sq_rst \<Rightarrow> string option list list" where
  "rset_rows s =
     (case Option.bind (rs_m_paszResults (fst s)) (tables (snd s)) of
        None \<Rightarrow> []
      | Some cs \<Rightarrow>
          (let n = nat (rs_m_nCols (fst s))
           in map (\<lambda>k. take n (drop ((k + 1) * n) cs)) [0..<unat (rs_m_nRows (fst s))]))"

definition rset_pending :: "'w sq_rst \<Rightarrow> string option list list \<Rightarrow> bool" where
  "rset_pending s rs \<longleftrightarrow>
     (\<exists>names. rset_on s names (rset_rows s)) \<and>
     0 \<le> rs_m_nCurrentRow (fst s) \<and> rs_m_nCurrentRow (fst s) \<le> int (length (rset_rows s)) \<and>
     rs = drop (nat (rs_m_nCurrentRow (fst s))) (rset_rows s)"

lemma take_drop_concat:
  "\<forall>r \<in> set rows. length r = n \<Longrightarrow> k < length rows \<Longrightarrow> take n (drop (k * n) (concat rows)) = rows ! k"
proof (induction rows arbitrary: k)
  case (Cons r rows)
  then show ?case by (cases k) (auto simp: add.commute[of n] simp flip: drop_drop)
qed simp

lemma unat_of_nat_ulong: "int n \<le> INT_MAX \<Longrightarrow> unat (of_nat n :: ulong) = n"
  by (simp add: unat_of_nat INT_MAX_def)

lemma rset_rows_on:
  assumes "rset_on s names rows"
  shows "rset_rows s = rows"
proof -
  obtain t where t: "rs_m_paszResults (fst s) = Some t" "tables (snd s) t = Some (map Some names @ concat rows)"
    using assms by (auto simp: rset_on_def)
  have r: "\<forall>r \<in> set rows. length r = length names" "rs_m_nCols (fst s) = int (length names)"
    using assms by (simp_all add: rset_on_def)
  have "unat (rs_m_nRows (fst s)) = length rows"
    using assms unat_of_nat_ulong[of "length rows"] by (simp add: rset_on_def)
  then have "rset_rows s = map (\<lambda>k. take (length names) (drop (k * length names) (concat rows))) [0..<length rows]"
    using t r(2) by (simp add: rset_rows_def Let_def)
  also have "\<dots> = map ((!) rows) [0..<length rows]"
    using take_drop_concat[OF r(1)] by simp
  finally show ?thesis by (simp add: map_nth)
qed

lemma rset_on_same_table:
  "rset_on (t, m) names rows \<Longrightarrow> rset_on (t\<lparr>rs_m_nCurrentRow := i\<rparr>, m) names rows"
  by (simp add: rset_on_def)

lemma rset_pendingD:
  assumes "rset_pending (t, m) rs"
  obtains names k where "rset_on (t, m) names (rset_rows (t, m))" "rs_m_nCurrentRow t = int k"
    "k \<le> length (rset_rows (t, m))" "rs = drop k (rset_rows (t, m))"
  using assms by (auto simp: rset_pending_def elim!: nonneg_int_cases)

lemma rset_pendingI:
  "rset_on (t, m) names rows \<Longrightarrow> rs_m_nCurrentRow t = int k \<Longrightarrow> k \<le> length rows \<Longrightarrow>
   rset_pending (t, m) (drop k rows)"
  using rset_rows_on[of "(t, m)"] by (auto simp: rset_pending_def)

lemma rset_row_run:
  assumes "rset_on (t, m) names rows" and "rs_m_nCurrentRow t = int k" and "k < length rows"
  shows "rset_row lb (t, m) = (Ret (rows ! k), (t, m))"
proof -
  have len: "length (rows ! k) = length names"
    using assms(1,3) by (auto simp: rset_on_def)
  have "CppSQLite3ResultSet_fieldValue lb i (t, m) = (Ret (rows ! k ! nat i), (t, m))"
    if "i \<in> set [0..int (length names) - 1]" for i
    using rset_fieldValue_run[OF assms, of "nat i" lb] that by (simp add: nat_less_iff)
  then have "mapP (CppSQLite3ResultSet_fieldValue lb) [0..int (length names) - 1] (t, m) =
      (Ret (map (\<lambda>i. rows ! k ! nat i) [0..int (length names) - 1]), (t, m))"
    by (intro mapP_const_state ballI)
  moreover have "map (\<lambda>i. rows ! k ! nat i) [0..int (length names) - 1] = rows ! k"
    by (rule nth_equalityI) (auto simp: nth_upto len)
  ultimately show ?thesis
    using assms(1) by (simp add: rset_row_def prog_simps)
qed

lemma rset_eof_run:
  assumes "rset_on (t, m) names rows" and "rs_m_nCurrentRow t = int k"
  shows "CppSQLite3ResultSet_eof (t, m) = (Ret (k = length rows), (t, m))"
proof -
  have "rs_m_nRows t = of_nat (length rows)" "int (length rows) \<le> INT_MAX"
    using assms(1) by (auto simp: rset_on_def)
  then have "ulong_to_int (rs_m_nRows t) = int (length rows)"
    by (simp add: ulong_to_int_of_nat)
  then show ?thesis
    using assms(2) by (simp add: CppSQLite3ResultSet_eof_def prog_simps)
qed

lemma rset_nextRow_run:
  assumes "rset_on (t, m) names rows" and "rs_m_nCurrentRow t = int k" and "k < length rows"
  shows "CppSQLite3ResultSet_nextRow (t, m) = (Ret (), (t\<lparr>rs_m_nCurrentRow := int (Suc k)\<rparr>, m))"
proof -
  have "in_int (int (Suc k))"
    using assms(1,3) by (intro in_int_of_nat) (simp add: rset_on_def)
  then show ?thesis
    using assms(2) by (simp add: CppSQLite3ResultSet_nextRow_def prog_simps add.commute)
qed

text \<open>\<open>seekRow\<close> clamps to the last row of a result set that has one.\<close>

lemma rset_seekRow_run:
  assumes "rset_on (t, m) names rows" and "rows \<noteq> []"
  shows "CppSQLite3ResultSet_seekRow (of_nat n) (t, m) =
           (Ret (int (min (take_bit 64 n) (length rows - 1))),
            (t\<lparr>rs_m_nCurrentRow := int (min (take_bit 64 n) (length rows - 1))\<rparr>, m))"
proof -
  have len: "int (length rows) \<le> INT_MAX" "int (length rows - 1) \<le> INT_MAX"
    using assms(1) by (auto simp: rset_on_def)
  have r: "rs_m_nRows t = of_nat (length rows)" using assms(1) by (simp add: rset_on_def)
  have ge: "rs_m_nRows t \<le> of_nat n \<longleftrightarrow> length rows \<le> take_bit 64 n"
    using unat_of_nat_ulong[OF len(1)] by (simp add: r word_le_nat_alt unsigned_of_nat)
  have last: "rs_m_nRows t - 1 = of_nat (length rows - 1)"
    using assms(2) by (simp add: r of_nat_diff Suc_leI)
  have "(of_nat n :: ulong) = of_nat (take_bit 64 n)"
    by (simp add: word_of_nat_eq_iff)
  then show ?thesis
    using ge last len ulong_to_int_of_nat[of "take_bit 64 n"] ulong_to_int_of_nat[of "length rows - 1"]
    by (auto simp: CppSQLite3ResultSet_seekRow_def Let_def prog_simps min_def)
qed

text \<open>
  The result set is a scrollable cursor whose rows are those of the table.  The row number of
  \<open>seekRow\<close> is an \<open>unsigned long\<close>.
\<close>

interpretation sq_rset_cursor: scrollable
    CppSQLite3ResultSet_eof "rset_row lb" CppSQLite3ResultSet_nextRow rset_pending
    "\<lambda>k. CppSQLite3ResultSet_seekRow (of_nat k)" rset_rows
  for lb
proof unfold_locales
  fix s :: "'a sq_rst" assume p: "rset_pending s []"
  obtain t m where s: "s = (t, m)" by (cases s)
  from p[unfolded s] show "CppSQLite3ResultSet_eof s = (Ret True, s)"
    by (rule rset_pendingD) (simp add: s rset_eof_run)
next
  fix s :: "'a sq_rst" and r rs assume p: "rset_pending s (r # rs)"
  obtain t m where s: "s = (t, m)" by (cases s)
  from p obtain names k where k: "rset_on (t, m) names (rset_rows (t, m))" "rs_m_nCurrentRow t = int k"
      "r # rs = drop k (rset_rows (t, m))"
    unfolding s by (rule rset_pendingD)
  then have lt: "k < length (rset_rows (t, m))" by (cases "k < length (rset_rows (t, m))") auto
  with k(3) have r: "r = rset_rows (t, m) ! k" "rs = drop (Suc k) (rset_rows (t, m))"
    by (simp_all add: drop_eq_Cons_nth)
  show "CppSQLite3ResultSet_eof s = (Ret False, s)"
    using rset_eof_run[OF k(1,2)] lt by (simp add: s)
  have row: "rset_row lb (t, m) = (Ret r, (t, m))"
    using rset_row_run[OF k(1,2) lt] r(1) by simp
  have "rset_pending (t\<lparr>rs_m_nCurrentRow := int (Suc k)\<rparr>, m) rs"
    using rset_pendingI[OF rset_on_same_table[OF k(1)], of "int (Suc k)" "Suc k"] lt r(2) by simp
  then show "\<exists>s'. bindP (rset_row lb) (\<lambda>r. seqP CppSQLite3ResultSet_nextRow (ret r)) s = (Ret r, s') \<and>
      rset_pending s' rs"
    using row rset_nextRow_run[OF k(1,2) lt] by (auto simp: s prog_simps)
  show "\<exists>s'. rset_row lb s = (Ret r, s') \<and> rset_pending s' (r # rs) \<and> rset_rows s' = rset_rows s"
    using row p by (auto simp: s)
next
  fix s :: "'a sq_rst" and rs and k assume p: "rset_pending s rs" "k < length (rset_rows s)"
  obtain t m where s: "s = (t, m)" by (cases s)
  from p(1) obtain names where on: "rset_on (t, m) names (rset_rows (t, m))"
    unfolding s by (rule rset_pendingD)
  have k: "k < length (rset_rows (t, m))" using p(2) by (simp add: s)
  then have "take_bit 64 k = k"
    using on by (simp add: rset_on_def INT_MAX_def take_bit_nat_eq_self)
  then have "min (take_bit 64 k) (length (rset_rows (t, m)) - 1) = k" using k by simp
  moreover have "rset_rows (t, m) \<noteq> []" using k by auto
  ultimately have seek: "CppSQLite3ResultSet_seekRow (of_nat k) (t, m) = (Ret (int k), (t\<lparr>rs_m_nCurrentRow := int k\<rparr>, m))"
    using rset_seekRow_run[OF on, of k] by simp
  have "rset_rows (t\<lparr>rs_m_nCurrentRow := int k\<rparr>, m) = rset_rows (t, m)"
    by (simp add: rset_rows_def cong: option.case_cong)
  moreover have "rset_pending (t\<lparr>rs_m_nCurrentRow := int k\<rparr>, m) (drop k (rset_rows (t, m)))"
    using rset_pendingI[OF rset_on_same_table[OF on], of "int k" k] k by simp
  ultimately show "\<exists>i s'. CppSQLite3ResultSet_seekRow (of_nat k) s = (Ret i, s') \<and>
      rset_pending s' (drop k (rset_rows s)) \<and> rset_rows s' = rset_rows s"
    using seek by (auto simp: s)
qed

section \<open>Ownership of the table\<close>

definition sq_rset_ops :: "(sq_rset, 'w sq_mach, sq_exn) class_ops" where
  "sq_rset_ops =
     \<lparr>op_copy = CppSQLite3ResultSet_copy, op_assign = CppSQLite3ResultSet_assign,
      op_clear = CppSQLite3ResultSet_clear\<rparr>"

definition rset_acquired :: "'w sq_mach \<Rightarrow> sq_rset \<Rightarrow> 'w sq_mach \<Rightarrow> bool" where
  "rset_acquired m t m' \<longleftrightarrow>
     (t = CppSQLite3ResultSet_default \<and> m' = m) \<or>
     (\<exists>i nRows nCols. i \<notin> dom (tables m) \<and> dom (tables m') = insert i (dom (tables m)) \<and>
        t = CppSQLite3ResultSet_new (Some i) nRows nCols)"

lemma rset_clear_run:
  "set_option (rs_m_paszResults t) \<subseteq> dom (tables m) \<Longrightarrow>
   \<exists>m'. CppSQLite3ResultSet_clear (t, m) = (Ret (), (t\<lparr>rs_m_paszResults := None\<rparr>, m')) \<and>
        dom (tables m') = dom (tables m) - set_option (rs_m_paszResults t)"
  by (cases "rs_m_paszResults t") (auto simp: CppSQLite3ResultSet_clear_def prog_simps)

lemma rset_assign_run:
  "set_option (rs_m_paszResults x) \<subseteq> dom (tables m) \<Longrightarrow>
   \<exists>m'. CppSQLite3ResultSet_assign False x y m = (Ret (y, y\<lparr>rs_m_paszResults := None\<rparr>), m') \<and>
        dom (tables m') = dom (tables m) - set_option (rs_m_paszResults x)"
  using rset_clear_run[of x m]
  by (cases x; cases y) (auto simp: CppSQLite3ResultSet_assign_def catch_all_def)

interpretation sq_rset_owner: releasing_class
    sq_rset_ops rset_acquired "\<lambda>q. set_option (rs_m_paszResults q)" "\<lambda>m. dom (tables m)" "\<lambda>_. True"
proof unfold_locales
  show "op_assign (sq_rset_ops) True x x m = (Ret (x, x), m)" for x m
    by (simp add: sq_rset_ops_def CppSQLite3ResultSet_assign_def)
next
  fix m m' :: "'a sq_mach" and x assume "rset_acquired m x m'"
  then show "True \<and> set_option (rs_m_paszResults x) \<inter> dom (tables m) = {} \<and>
      dom (tables m') = dom (tables m) \<union> set_option (rs_m_paszResults x)"
    unfolding rset_acquired_def
    by (elim disjE exE conjE)
       (simp_all add: CppSQLite3ResultSet_default_def CppSQLite3ResultSet_new_def)
next
  fix x n x' :: sq_rset assume "op_copy sq_rset_ops x = (n, x')"
  then show "set_option (rs_m_paszResults n) = set_option (rs_m_paszResults x) \<and> set_option (rs_m_paszResults x') = {}"
    by (auto simp: sq_rset_ops_def CppSQLite3ResultSet_copy_def)
next
  fix m :: "'a sq_mach" and x y :: sq_rset
  assume l: "set_option (rs_m_paszResults x) \<subseteq> dom (tables m)"
  show "\<exists>x' y' m'. op_assign sq_rset_ops False x y m = (Ret (x', y'), m') \<and> True \<and>
      set_option (rs_m_paszResults x') = set_option (rs_m_paszResults y) \<and> set_option (rs_m_paszResults y') = {} \<and>
      dom (tables m') \<subseteq> dom (tables m) \<and>
      dom (tables m) - set_option (rs_m_paszResults x) \<subseteq> dom (tables m')"
    using rset_assign_run[OF l, of y] by (force simp: sq_rset_ops_def)
  show "\<exists>r x' m'. op_clear sq_rset_ops (x, m) = (r, (x', m')) \<and> \<not> is_undef r \<and> True \<and>
      set_option (rs_m_paszResults x') = {} \<and> dom (tables m') = dom (tables m) - set_option (rs_m_paszResults x)"
    using rset_clear_run[OF l] by (force simp: sq_rset_ops_def)
  fix x' y' m' assume "op_assign sq_rset_ops False x y m = (Ret (x', y'), m')"
  then show "dom (tables m') = dom (tables m) - set_option (rs_m_paszResults x)"
    using rset_assign_run[OF l, of y] by (auto simp: sq_rset_ops_def)
qed

end
