(* ===== verification/SqliteContract.thy ===== *)
theory SqliteContract
  imports SqliteException
begin

text \<open>
  What \<open>sqlite3.h\<close> documents of the statement routines and the wrapper relies on, as named
  hypotheses over an abstraction \<open>vw\<close> that reads the state of a statement off the library state:
  the rows still to come, the row at hand and which of its columns have been converted.  The
  contracts say nothing where the documentation says nothing: no step after the end, no column
  outside the row, no type after a conversion.
\<close>

record colval =
  cv_type :: int
  cv_text :: "string option"
  cv_int :: int
  cv_double :: cdouble
  cv_bytes :: int
  cv_blob :: "bytes option"

record stmt_view =
  sv_names :: "string list"
  sv_row :: "colval list option"
  sv_rest :: "colval list list"
  sv_end :: int \<comment> \<open>what \<open>sqlite3_step\<close> returns after the last row\<close>
  sv_over :: bool \<comment> \<open>that result has been returned\<close>
  sv_conv :: "int set"

type_synonym 'w view = "'w \<Rightarrow> nat \<Rightarrow> stmt_view"

definition stmt_wf :: "stmt_view \<Rightarrow> bool" where
  "stmt_wf v \<longleftrightarrow>
     (\<forall>r \<in> set (sv_rest v) \<union> set_option (sv_row v). length r = length (sv_names v)) \<and>
     int (length (sv_names v)) \<le> INT_MAX"

definition stmt_stepped :: "stmt_view \<Rightarrow> stmt_view" where
  "stmt_stepped v =
     (case sv_rest v of
        [] \<Rightarrow> v\<lparr>sv_row := None, sv_over := True, sv_conv := {}\<rparr>
      | r # rs \<Rightarrow> v\<lparr>sv_row := Some r, sv_rest := rs, sv_conv := {}\<rparr>)"

definition stmt_code :: "stmt_view \<Rightarrow> int" where
  "stmt_code v = (case sv_rest v of [] \<Rightarrow> sv_end v | r # rs \<Rightarrow> SQLITE_ROW)"

text \<open>The most recent evaluation of the statement ended in an error.\<close>

definition stmt_failed :: "stmt_view \<Rightarrow> bool" where
  "stmt_failed v \<longleftrightarrow> sv_over v \<and> sv_end v \<noteq> SQLITE_DONE"

text \<open>
  \<open>sqlite3_step\<close>: one row after the other, then the final code.  Stepping one statement does not
  make another one fail.
\<close>

definition step_contract :: "'w sqlite3_lib \<Rightarrow> 'w view \<Rightarrow> bool" where
  "step_contract lb vw \<longleftrightarrow>
     (\<forall>w h. \<not> sv_over (vw w h) \<longrightarrow>
        (\<exists>w'. sqlite3_step lb (Some h) w = (stmt_code (vw w h), w') \<and>
              vw w' h = stmt_stepped (vw w h) \<and>
              (\<forall>h'. h' \<noteq> h \<longrightarrow> stmt_failed (vw w' h') = stmt_failed (vw w h'))))"

text \<open>
  \<open>sqlite3_column_count\<close>, \<open>_name\<close>, \<open>_type\<close>, \<open>_text\<close>, \<open>_int\<close>, \<open>_double\<close>, \<open>_bytes\<close> and \<open>_blob\<close>.
\<close>

definition name_contract :: "'w sqlite3_lib \<Rightarrow> 'w view \<Rightarrow> bool" where
  "name_contract lb vw \<longleftrightarrow>
     (\<forall>w h. \<exists>w'. sqlite3_column_count lb h w = (int (length (sv_names (vw w h))), w') \<and>
                 vw w' = vw w) \<and>
     (\<forall>w h i. i < length (sv_names (vw w h)) \<longrightarrow>
        (\<exists>w'. sqlite3_column_name lb h (int i) w = (Some (sv_names (vw w h) ! i), w') \<and>
              vw w' h = vw w h))"

definition readable :: "stmt_view \<Rightarrow> int \<Rightarrow> bool" where
  "readable v i \<longleftrightarrow> (\<exists>r. sv_row v = Some r \<and> 0 \<le> i \<and> i < int (length r)) \<and> i \<notin> sv_conv v"

definition the_col :: "stmt_view \<Rightarrow> int \<Rightarrow> colval" where
  "the_col v i = the (sv_row v) ! nat i"

definition stmt_converted :: "int \<Rightarrow> stmt_view \<Rightarrow> stmt_view" where
  "stmt_converted i v = v\<lparr>sv_conv := insert i (sv_conv v)\<rparr>"

definition column_contract :: "'w sqlite3_lib \<Rightarrow> 'w view \<Rightarrow> bool" where
  "column_contract lb vw \<longleftrightarrow>
     (\<forall>w h i. readable (vw w h) i \<longrightarrow>
        (\<exists>w'. sqlite3_column_type lb h i w = (cv_type (the_col (vw w h) i), w') \<and> vw w' h = vw w h) \<and>
        (\<exists>w'. sqlite3_column_text lb h i w = (cv_text (the_col (vw w h) i), w') \<and>
              vw w' h = stmt_converted i (vw w h)) \<and>
        (\<exists>w'. sqlite3_column_int lb h i w = (cv_int (the_col (vw w h) i), w') \<and>
              vw w' h = stmt_converted i (vw w h)) \<and>
        (\<exists>w'. sqlite3_column_double lb h i w = (cv_double (the_col (vw w h) i), w') \<and>
              vw w' h = stmt_converted i (vw w h)))"

text \<open>
  \<open>sqlite3_finalize\<close> returns \<open>SQLITE_OK\<close> when the last evaluation did not fail, and leaves the
  other statements alone.
\<close>

definition finalize_contract :: "'w sqlite3_lib \<Rightarrow> 'w view \<Rightarrow> bool" where
  "finalize_contract lb vw \<longleftrightarrow>
     (\<forall>w h. \<not> stmt_failed (vw w h) \<longrightarrow>
        (\<exists>w'. sqlite3_finalize lb (Some h) w = (SQLITE_OK, w') \<and>
              (\<forall>h'. h' \<noteq> h \<longrightarrow> vw w' h' = vw w h')))"

text \<open>No live statement has failed.\<close>

definition unfailed :: "'w view \<Rightarrow> 'w sq_mach \<Rightarrow> bool" where
  "unfailed vw m \<longleftrightarrow> (\<forall>h \<in> live_stmt m. \<not> stmt_failed (vw (lib m) h))"

definition stmts_good :: "'w sqlite3_lib \<Rightarrow> 'w view \<Rightarrow> 'w sq_mach \<Rightarrow> bool" where
  "stmts_good lb vw m \<longleftrightarrow> finalize_contract lb vw \<and> unfailed vw m"

lemma step_contractD:
  "step_contract lb vw \<Longrightarrow> \<not> sv_over (vw w h) \<Longrightarrow>
   \<exists>w'. sqlite3_step lb (Some h) w = (stmt_code (vw w h), w') \<and> vw w' h = stmt_stepped (vw w h) \<and>
     (\<forall>h'. h' \<noteq> h \<longrightarrow> stmt_failed (vw w' h') = stmt_failed (vw w h'))"
  by (simp add: step_contract_def)

lemma finalize_contractD:
  "finalize_contract lb vw \<Longrightarrow> \<not> stmt_failed (vw w h) \<Longrightarrow>
   \<exists>w'. sqlite3_finalize lb (Some h) w = (SQLITE_OK, w') \<and> (\<forall>h'. h' \<noteq> h \<longrightarrow> vw w' h' = vw w h')"
  by (simp add: finalize_contract_def)

lemma unfailed_finalize:
  assumes "finalize_contract lb vw" and "unfailed vw m" and "h \<in> live_stmt m"
  shows "\<exists>w'. sqlite3_finalize lb (Some h) (lib m) = (SQLITE_OK, w') \<and>
           unfailed vw (m\<lparr>lib := w', live_stmt := live_stmt m - {h}\<rparr>)"
  using finalize_contractD[OF assms(1), of "lib m" h] assms(2,3) by (auto simp: unfailed_def)

lemma column_contract_type:
  "column_contract lb vw \<Longrightarrow> readable (vw w h) i \<Longrightarrow>
   \<exists>w'. sqlite3_column_type lb h i w = (cv_type (the_col (vw w h) i), w') \<and> vw w' h = vw w h"
  by (simp add: column_contract_def)

lemma column_contract_text:
  "column_contract lb vw \<Longrightarrow> readable (vw w h) i \<Longrightarrow>
   \<exists>w'. sqlite3_column_text lb h i w = (cv_text (the_col (vw w h) i), w') \<and>
        vw w' h = stmt_converted i (vw w h)"
  by (simp add: column_contract_def)

lemma column_contract_int:
  "column_contract lb vw \<Longrightarrow> readable (vw w h) i \<Longrightarrow>
   \<exists>w'. sqlite3_column_int lb h i w = (cv_int (the_col (vw w h) i), w') \<and>
        vw w' h = stmt_converted i (vw w h)"
  by (simp add: column_contract_def)

lemma column_contract_double:
  "column_contract lb vw \<Longrightarrow> readable (vw w h) i \<Longrightarrow>
   \<exists>w'. sqlite3_column_double lb h i w = (cv_double (the_col (vw w h) i), w') \<and>
        vw w' h = stmt_converted i (vw w h)"
  by (simp add: column_contract_def)

lemma name_contract_count:
  "name_contract lb vw \<Longrightarrow>
   \<exists>w'. sqlite3_column_count lb h w = (int (length (sv_names (vw w h))), w') \<and> vw w' = vw w"
  by (simp add: name_contract_def)

lemma name_contract_name:
  "name_contract lb vw \<Longrightarrow> i < length (sv_names (vw w h)) \<Longrightarrow>
   \<exists>w'. sqlite3_column_name lb h (int i) w = (Some (sv_names (vw w h) ! i), w') \<and> vw w' h = vw w h"
  by (simp add: name_contract_def)

lemma stmt_stepped_fields [simp]:
  "sv_names (stmt_stepped v) = sv_names v"
  "sv_end (stmt_stepped v) = sv_end v"
  "sv_conv (stmt_stepped v) = {}"
  by (simp_all add: stmt_stepped_def split: list.split)

lemma stmt_stepped_Nil:
  "sv_rest v = [] \<Longrightarrow> sv_row (stmt_stepped v) = None \<and> sv_over (stmt_stepped v) \<and> sv_rest (stmt_stepped v) = []"
  by (simp add: stmt_stepped_def)

lemma stmt_stepped_Cons:
  "sv_rest v = r # rs \<Longrightarrow>
   sv_row (stmt_stepped v) = Some r \<and> sv_rest (stmt_stepped v) = rs \<and>
   sv_over (stmt_stepped v) = sv_over v"
  by (simp add: stmt_stepped_def)

lemma stmt_converted_fields [simp]:
  "sv_names (stmt_converted i v) = sv_names v" "sv_row (stmt_converted i v) = sv_row v"
  "sv_rest (stmt_converted i v) = sv_rest v" "sv_end (stmt_converted i v) = sv_end v"
  "sv_over (stmt_converted i v) = sv_over v" "sv_conv (stmt_converted i v) = insert i (sv_conv v)"
  by (simp_all add: stmt_converted_def)

lemma stmt_wf_stepped: "stmt_wf v \<Longrightarrow> stmt_wf (stmt_stepped v)"
  by (auto simp: stmt_wf_def stmt_stepped_def split: list.splits)

lemma stmt_wf_converted: "stmt_wf v \<Longrightarrow> stmt_wf (stmt_converted i v)"
  by (simp add: stmt_wf_def)

lemma the_col_converted [simp]: "the_col (stmt_converted i v) = the_col v"
  by (rule ext) (simp add: the_col_def)

end
