(* ===== verification/SqliteQuery.thy ===== *)
theory SqliteQuery
  imports SqliteContract
begin

text \<open>
  \<open>CppSQLite3Query\<close> of \<open>src/CppSQLite3.cpp\<close>: a forward-only view of a prepared statement that has
  been stepped once.  The record has the class's four members; a member no constructor sets is
  \<open>Uninit\<close>.
\<close>

section \<open>The class\<close>

record sq_query =
  q_m_pDB :: "nat option cell"
  q_m_pStmt :: "nat option"
  q_m_bEof :: bool
  q_m_nFieldsCount :: "int cell"

type_synonym 'w sq_qst = "sq_query \<times> 'w sq_mach"

definition CppSQLite3Query_default :: sq_query where
  "CppSQLite3Query_default =
     \<lparr>q_m_pDB = Uninit, q_m_pStmt = None, q_m_bEof = True, q_m_nFieldsCount = Init 0\<rparr>"

text \<open>The copy constructor: the new object and the source, which loses the handle.\<close>

definition CppSQLite3Query_copy :: "sq_query \<Rightarrow> sq_query \<times> sq_query" where
  "CppSQLite3Query_copy rQuery =
     (\<lparr>q_m_pDB = Uninit, q_m_pStmt = q_m_pStmt rQuery, q_m_bEof = q_m_bEof rQuery,
       q_m_nFieldsCount = q_m_nFieldsCount rQuery\<rparr>,
      rQuery\<lparr>q_m_pStmt := None\<rparr>)"

definition CppSQLite3Query_new ::
  "'w sqlite3_lib \<Rightarrow> nat option \<Rightarrow> nat option \<Rightarrow> bool \<Rightarrow> ('w sq_mach, sq_exn, sq_query) prog" where
  "CppSQLite3Query_new lb pDB pStmt bEof =
     (let q = \<lparr>q_m_pDB = Init pDB, q_m_pStmt = pStmt, q_m_bEof = bEof, q_m_nFieldsCount = Uninit\<rparr>
      in if pStmt \<noteq> None
         then bindP (stmt_call pStmt (sqlite3_column_count lb)) (\<lambda>n. ret (q\<lparr>q_m_nFieldsCount := Init n\<rparr>))
         else ret q)"

definition CppSQLite3Query_checkStmt :: "'w sqlite3_lib \<Rightarrow> ('w sq_qst, sq_exn, unit) prog" where
  "CppSQLite3Query_checkStmt lb =
     bindP get_this (\<lambda>q.
     if q_m_pStmt q = None
     then on_mach (throw_sq lb CPPQLITE3L_QUERY_ERROR (BorrowedMsg ''Null stmt pointer'') False)
     else ret ())"

text \<open>Throwing \<open>sqlite3_errmsg(m_pDB)\<close> with the release flag set.\<close>

definition query_throw_errmsg :: "'w sqlite3_lib \<Rightarrow> int \<Rightarrow> ('w sq_qst, sq_exn, 'a) prog" where
  "query_throw_errmsg lb nRet =
     bindP get_this (\<lambda>q.
     bindP (read_cell (q_m_pDB q)) (\<lambda>db.
     bindP (on_mach (call_errmsg lb db)) (\<lambda>msg.
     on_mach (throw_sq lb nRet msg True))))"

definition CppSQLite3Query_clear :: "'w sqlite3_lib \<Rightarrow> ('w sq_qst, sq_exn, unit) prog" where
  "CppSQLite3Query_clear lb =
     bindP get_this (\<lambda>q.
     if q_m_pStmt q \<noteq> None
     then bindP (on_mach (call_finalize lb (q_m_pStmt q))) (\<lambda>nRet.
          seqP (upd_this (q_m_pStmt_update (\<lambda>_. None)))
          (if nRet \<noteq> SQLITE_OK then query_throw_errmsg lb nRet else ret ()))
     else ret ())"

definition CppSQLite3Query_destroy :: "'w sqlite3_lib \<Rightarrow> ('w sq_qst, sq_exn, unit) prog" where
  "CppSQLite3Query_destroy lb = catch_all (CppSQLite3Query_clear lb)"

text \<open>\<open>*this = rQuery\<close>, given whether \<open>this == &rQuery\<close>; \<open>m_pDB\<close> is not assigned.\<close>

definition CppSQLite3Query_assign ::
  "'w sqlite3_lib \<Rightarrow> bool \<Rightarrow> sq_query \<Rightarrow> sq_query \<Rightarrow> ('w sq_mach, sq_exn, sq_query \<times> sq_query) prog" where
  "CppSQLite3Query_assign lb same this rQuery m =
     (if same then (Ret (this, rQuery), m)
      else case catch_all (CppSQLite3Query_clear lb) (this, m) of
        (Ret _, (this', m')) \<Rightarrow>
          (Ret (this'\<lparr>q_m_pStmt := q_m_pStmt rQuery, q_m_bEof := q_m_bEof rQuery,
                      q_m_nFieldsCount := q_m_nFieldsCount rQuery\<rparr>,
                rQuery\<lparr>q_m_pStmt := None\<rparr>), m')
      | (Throw e, (_, m')) \<Rightarrow> (Throw e, m')
      | (Undef u, (_, m')) \<Rightarrow> (Undef u, m'))"

definition CppSQLite3Query_numFields :: "'w sqlite3_lib \<Rightarrow> ('w sq_qst, sq_exn, int) prog" where
  "CppSQLite3Query_numFields lb =
     seqP (CppSQLite3Query_checkStmt lb)
     (bindP get_this (\<lambda>q. read_cell (q_m_nFieldsCount q)))"

text \<open>The loop of \<open>fieldIndex\<close>, from column \<open>nField\<close>.\<close>

function CppSQLite3Query_fieldIndex_loop ::
  "'w sqlite3_lib \<Rightarrow> string \<Rightarrow> nat option \<Rightarrow> int \<Rightarrow> int \<Rightarrow> ('w sq_qst, sq_exn, int) prog" where
  "CppSQLite3Query_fieldIndex_loop lb szField pStmt nFieldsCount nField =
     (if nField < nFieldsCount
      then bindP (on_mach (stmt_call pStmt (\<lambda>h. sqlite3_column_name lb h nField))) (\<lambda>szTemp.
           case szTemp of
             None \<Rightarrow> undef NullDeref
           | Some name \<Rightarrow>
               (if szField = name then ret nField
                else CppSQLite3Query_fieldIndex_loop lb szField pStmt nFieldsCount (nField + 1)))
      else on_mach (throw_sq lb CPPQLITE3L_QUERY_ERROR
             (BorrowedMsg ''Invalid field name requested'') False))"
  by pat_completeness auto
termination
  by (relation "measure (\<lambda>(lb, szField, pStmt, nFieldsCount, nField). nat (nFieldsCount - nField))") auto

declare CppSQLite3Query_fieldIndex_loop.simps [simp del]

definition CppSQLite3Query_fieldIndex ::
  "'w sqlite3_lib \<Rightarrow> string option \<Rightarrow> ('w sq_qst, sq_exn, int) prog" where
  "CppSQLite3Query_fieldIndex lb szField =
     seqP (CppSQLite3Query_checkStmt lb)
     (case szField of
        Some f \<Rightarrow>
          bindP get_this (\<lambda>q.
          bindP (read_cell (q_m_nFieldsCount q)) (\<lambda>n.
          CppSQLite3Query_fieldIndex_loop lb f (q_m_pStmt q) n 0))
      | None \<Rightarrow>
          on_mach (throw_sq lb CPPQLITE3L_QUERY_ERROR
            (BorrowedMsg ''Invalid field name requested'') False))"

text \<open>The guard \<open>nCol < 0 || nCol > m_nFieldsCount-1\<close> of the accessors by number.\<close>

definition query_check_col :: "'w sqlite3_lib \<Rightarrow> int \<Rightarrow> ('w sq_qst, sq_exn, unit) prog" where
  "query_check_col lb nCol =
     bindP get_this (\<lambda>q.
     bindP (read_cell (q_m_nFieldsCount q)) (\<lambda>n.
     bindP (int_arith (n - 1)) (\<lambda>last.
     if nCol < 0 \<or> nCol > last
     then on_mach (throw_sq lb CPPQLITE3L_QUERY_ERROR
            (BorrowedMsg ''Invalid field index requested'') False)
     else ret ())))"

definition query_stmt_call ::
  "(nat \<Rightarrow> 'w \<Rightarrow> 'r \<times> 'w) \<Rightarrow> ('w sq_qst, sq_exn, 'r) prog" where
  "query_stmt_call f = bindP get_this (\<lambda>q. on_mach (stmt_call (q_m_pStmt q) f))"

definition CppSQLite3Query_fieldName ::
  "'w sqlite3_lib \<Rightarrow> int \<Rightarrow> ('w sq_qst, sq_exn, string option) prog" where
  "CppSQLite3Query_fieldName lb nCol =
     seqP (CppSQLite3Query_checkStmt lb)
     (seqP (query_check_col lb nCol)
     (query_stmt_call (\<lambda>h. sqlite3_column_name lb h nCol)))"

definition CppSQLite3Query_fieldDataType ::
  "'w sqlite3_lib \<Rightarrow> int \<Rightarrow> ('w sq_qst, sq_exn, int) prog" where
  "CppSQLite3Query_fieldDataType lb nCol =
     seqP (CppSQLite3Query_checkStmt lb)
     (seqP (query_check_col lb nCol)
     (query_stmt_call (\<lambda>h. sqlite3_column_type lb h nCol)))"

definition CppSQLite3Query_fieldValue ::
  "'w sqlite3_lib \<Rightarrow> int \<Rightarrow> ('w sq_qst, sq_exn, string option) prog" where
  "CppSQLite3Query_fieldValue lb nField =
     seqP (CppSQLite3Query_checkStmt lb)
     (query_stmt_call (\<lambda>h. sqlite3_column_text lb h nField))"

definition CppSQLite3Query_fieldValue_by_name ::
  "'w sqlite3_lib \<Rightarrow> string option \<Rightarrow> ('w sq_qst, sq_exn, string option) prog" where
  "CppSQLite3Query_fieldValue_by_name lb szField =
     bindP (CppSQLite3Query_fieldIndex lb szField) (CppSQLite3Query_fieldValue lb)"

definition CppSQLite3Query_fieldDataIsNull ::
  "'w sqlite3_lib \<Rightarrow> int \<Rightarrow> ('w sq_qst, sq_exn, bool) prog" where
  "CppSQLite3Query_fieldDataIsNull lb nField =
     bindP (CppSQLite3Query_fieldDataType lb nField) (\<lambda>t. ret (t = SQLITE_NULL))"

definition CppSQLite3Query_getIntField ::
  "'w sqlite3_lib \<Rightarrow> int \<Rightarrow> int \<Rightarrow> ('w sq_qst, sq_exn, int) prog" where
  "CppSQLite3Query_getIntField lb nField nNullValue =
     bindP (CppSQLite3Query_fieldDataIsNull lb nField) (\<lambda>isNull.
     if \<not> isNull then query_stmt_call (\<lambda>h. sqlite3_column_int lb h nField)
     else ret nNullValue)"

definition CppSQLite3Query_getIntField_by_name ::
  "'w sqlite3_lib \<Rightarrow> string option \<Rightarrow> int \<Rightarrow> ('w sq_qst, sq_exn, int) prog" where
  "CppSQLite3Query_getIntField_by_name lb szField nNullValue =
     bindP (CppSQLite3Query_fieldIndex lb szField) (\<lambda>nField.
     CppSQLite3Query_getIntField lb nField nNullValue)"

definition CppSQLite3Query_getDoubleField ::
  "'w sqlite3_lib \<Rightarrow> int \<Rightarrow> cdouble \<Rightarrow> ('w sq_qst, sq_exn, cdouble) prog" where
  "CppSQLite3Query_getDoubleField lb nField fNullValue =
     bindP (CppSQLite3Query_fieldDataIsNull lb nField) (\<lambda>isNull.
     if \<not> isNull then query_stmt_call (\<lambda>h. sqlite3_column_double lb h nField)
     else ret fNullValue)"

definition CppSQLite3Query_getDoubleField_by_name ::
  "'w sqlite3_lib \<Rightarrow> string option \<Rightarrow> cdouble \<Rightarrow> ('w sq_qst, sq_exn, cdouble) prog" where
  "CppSQLite3Query_getDoubleField_by_name lb szField fNullValue =
     bindP (CppSQLite3Query_fieldIndex lb szField) (\<lambda>nField.
     CppSQLite3Query_getDoubleField lb nField fNullValue)"

definition CppSQLite3Query_getStringField ::
  "'w sqlite3_lib \<Rightarrow> int \<Rightarrow> string option \<Rightarrow> ('w sq_qst, sq_exn, string option) prog" where
  "CppSQLite3Query_getStringField lb nField szNullValue =
     bindP (CppSQLite3Query_fieldDataIsNull lb nField) (\<lambda>isNull.
     if \<not> isNull then CppSQLite3Query_fieldValue lb nField
     else ret szNullValue)"

definition CppSQLite3Query_getStringField_by_name ::
  "'w sqlite3_lib \<Rightarrow> string option \<Rightarrow> string option \<Rightarrow> ('w sq_qst, sq_exn, string option) prog" where
  "CppSQLite3Query_getStringField_by_name lb szField szNullValue =
     bindP (CppSQLite3Query_fieldIndex lb szField) (\<lambda>nField.
     CppSQLite3Query_getStringField lb nField szNullValue)"

text \<open>\<open>getBlobField\<close> returns the length through \<open>nLen\<close> and the bytes.\<close>

definition CppSQLite3Query_getBlobField ::
  "'w sqlite3_lib \<Rightarrow> int \<Rightarrow> ('w sq_qst, sq_exn, int \<times> bytes option) prog" where
  "CppSQLite3Query_getBlobField lb nField =
     seqP (CppSQLite3Query_checkStmt lb)
     (seqP (query_check_col lb nField)
     (bindP (query_stmt_call (\<lambda>h. sqlite3_column_bytes lb h nField)) (\<lambda>nLen.
      bindP (query_stmt_call (\<lambda>h. sqlite3_column_blob lb h nField)) (\<lambda>blob.
      ret (nLen, blob)))))"

definition CppSQLite3Query_getBlobField_by_name ::
  "'w sqlite3_lib \<Rightarrow> string option \<Rightarrow> ('w sq_qst, sq_exn, int \<times> bytes option) prog" where
  "CppSQLite3Query_getBlobField_by_name lb szField =
     bindP (CppSQLite3Query_fieldIndex lb szField) (CppSQLite3Query_getBlobField lb)"

definition CppSQLite3Query_eof :: "'w sqlite3_lib \<Rightarrow> ('w sq_qst, sq_exn, bool) prog" where
  "CppSQLite3Query_eof lb =
     seqP (CppSQLite3Query_checkStmt lb) (bindP get_this (\<lambda>q. ret (q_m_bEof q)))"

definition CppSQLite3Query_nextRow :: "'w sqlite3_lib \<Rightarrow> ('w sq_qst, sq_exn, unit) prog" where
  "CppSQLite3Query_nextRow lb =
     seqP (CppSQLite3Query_checkStmt lb)
     (bindP get_this (\<lambda>q.
      bindP (on_mach (call_step lb (q_m_pStmt q))) (\<lambda>nRet.
      if nRet = SQLITE_DONE then upd_this (q_m_bEof_update (\<lambda>_. True))
      else if nRet = SQLITE_ROW then ret ()
      else bindP (on_mach (call_finalize lb (q_m_pStmt q))) (\<lambda>nRet'.
           seqP (upd_this (q_m_pStmt_update (\<lambda>_. None))) (query_throw_errmsg lb nRet')))))"

definition CppSQLite3Query_getHandle :: "sq_query \<Rightarrow> nat option" where
  "CppSQLite3Query_getHandle q = q_m_pStmt q"

section \<open>Running the operations\<close>

lemma checkStmt_open [prog_simps]:
  "q_m_pStmt q = Some h \<Longrightarrow> CppSQLite3Query_checkStmt lb (q, m) = (Ret (), (q, m))"
  by (simp add: CppSQLite3Query_checkStmt_def prog_simps)

lemma checkStmt_closed [prog_simps]:
  "q_m_pStmt q = None \<Longrightarrow>
   CppSQLite3Query_checkStmt lb (q, m) =
     (Throw (sq_error lb CPPQLITE3L_QUERY_ERROR (Some ''Null stmt pointer'')), (q, m))"
  by (simp add: CppSQLite3Query_checkStmt_def prog_simps)

lemma query_check_col_inside [prog_simps]:
  "q_m_nFieldsCount q = Init n \<Longrightarrow> in_int (n - 1) \<Longrightarrow> 0 \<le> i \<Longrightarrow> i < n \<Longrightarrow>
   query_check_col lb i (q, m) = (Ret (), (q, m))"
  by (simp add: query_check_col_def prog_simps)

lemma query_check_col_outside [prog_simps]:
  "q_m_nFieldsCount q = Init n \<Longrightarrow> in_int (n - 1) \<Longrightarrow> i < 0 \<or> n \<le> i \<Longrightarrow>
   query_check_col lb i (q, m) =
     (Throw (sq_error lb CPPQLITE3L_QUERY_ERROR (Some ''Invalid field index requested'')), (q, m))"
  by (auto simp: query_check_col_def prog_simps)

lemma query_stmt_call_run [prog_simps]:
  "q_m_pStmt q = Some h \<Longrightarrow> h \<in> live_stmt m \<Longrightarrow> f h (lib m) = (r, w') \<Longrightarrow>
   query_stmt_call f (q, m) = (Ret r, (q, m\<lparr>lib := w'\<rparr>))"
  by (simp add: query_stmt_call_def prog_simps)

lemma query_stmt_call_open:
  "q_m_pStmt q = Some h \<Longrightarrow> h \<in> live_stmt m \<Longrightarrow>
   query_stmt_call f (q, m) = (case f h (lib m) of (r, w') \<Rightarrow> (Ret r, (q, m\<lparr>lib := w'\<rparr>)))"
  by (cases "f h (lib m)") (simp add: query_stmt_call_run)

text \<open>
  A query object on a live statement \<open>h\<close> whose state is \<open>v\<close>, with the column count read off it.
\<close>

definition query_on :: "'w view \<Rightarrow> nat \<Rightarrow> 'w sq_qst \<Rightarrow> stmt_view \<Rightarrow> bool" where
  "query_on vw h s v \<longleftrightarrow>
     q_m_pStmt (fst s) = Some h \<and> h \<in> live_stmt (snd s) \<and>
     q_m_nFieldsCount (fst s) = Init (int (length (sv_names v))) \<and>
     vw (lib (snd s)) h = v \<and> stmt_wf v"

lemma query_on_in_int: "query_on vw h s v \<Longrightarrow> in_int (int (length (sv_names v)) - 1)"
  by (simp add: query_on_def stmt_wf_def in_int_def INT_MIN_def)

lemma query_on_lib:
  "query_on vw h (q, m) v \<Longrightarrow> vw w' h = v' \<Longrightarrow> stmt_wf v' \<Longrightarrow> sv_names v' = sv_names v \<Longrightarrow>
   query_on vw h (q, m\<lparr>lib := w'\<rparr>) v'"
  by (simp add: query_on_def)

lemma readable_inside:
  "query_on vw h s v \<Longrightarrow> readable v i \<Longrightarrow> 0 \<le> i \<and> i < int (length (sv_names v))"
  by (auto simp: query_on_def readable_def stmt_wf_def)

lemma fieldDataType_run:
  assumes "query_on vw h (q, m) v" and "column_contract lb vw" and "readable v i"
  shows "\<exists>w'. CppSQLite3Query_fieldDataType lb i (q, m) = (Ret (cv_type (the_col v i)), (q, m\<lparr>lib := w'\<rparr>))
           \<and> query_on vw h (q, m\<lparr>lib := w'\<rparr>) v"
proof -
  have q: "q_m_pStmt q = Some h" "h \<in> live_stmt m" "vw (lib m) h = v"
      "q_m_nFieldsCount q = Init (int (length (sv_names v)))" "stmt_wf v"
    using assms(1) by (simp_all add: query_on_def)
  obtain w' where w: "sqlite3_column_type lb h i (lib m) = (cv_type (the_col v i), w')" "vw w' h = v"
    using column_contract_type[OF assms(2), of "lib m" h i] assms(3) q(3) by auto
  show ?thesis
    using q w readable_inside[OF assms(1,3)] query_on_in_int[OF assms(1)] query_on_lib[OF assms(1) w(2)]
    by (auto simp: CppSQLite3Query_fieldDataType_def prog_simps)
qed

lemma fieldValue_run:
  assumes "query_on vw h (q, m) v" and "column_contract lb vw" and "readable v i"
  shows "\<exists>w'. CppSQLite3Query_fieldValue lb i (q, m) = (Ret (cv_text (the_col v i)), (q, m\<lparr>lib := w'\<rparr>))
           \<and> query_on vw h (q, m\<lparr>lib := w'\<rparr>) (stmt_converted i v)"
proof -
  have q: "q_m_pStmt q = Some h" "h \<in> live_stmt m" "vw (lib m) h = v" "stmt_wf v"
    using assms(1) by (simp_all add: query_on_def)
  obtain w' where w: "sqlite3_column_text lb h i (lib m) = (cv_text (the_col v i), w')"
      "vw w' h = stmt_converted i v"
    using column_contract_text[OF assms(2), of "lib m" h i] assms(3) q(3) by auto
  show ?thesis
    using q w query_on_lib[OF assms(1) w(2) stmt_wf_converted]
    by (auto simp: CppSQLite3Query_fieldValue_def prog_simps)
qed

text \<open>What \<open>getStringField\<close> returns for a column value.\<close>

definition string_field :: "string option \<Rightarrow> colval \<Rightarrow> string option" where
  "string_field szNullValue c = (if cv_type c = SQLITE_NULL then szNullValue else cv_text c)"

definition after_read :: "int \<Rightarrow> stmt_view \<Rightarrow> stmt_view" where
  "after_read i v = (if cv_type (the_col v i) = SQLITE_NULL then v else stmt_converted i v)"

lemma getStringField_run:
  assumes "query_on vw h (q, m) v" and "column_contract lb vw" and "readable v i"
  shows "\<exists>w'. CppSQLite3Query_getStringField lb i d (q, m) =
              (Ret (string_field d (the_col v i)), (q, m\<lparr>lib := w'\<rparr>))
           \<and> query_on vw h (q, m\<lparr>lib := w'\<rparr>) (after_read i v)"
proof -
  obtain w1 where w1: "CppSQLite3Query_fieldDataType lb i (q, m) = (Ret (cv_type (the_col v i)), (q, m\<lparr>lib := w1\<rparr>))"
      "query_on vw h (q, m\<lparr>lib := w1\<rparr>) v"
    using fieldDataType_run[OF assms] by blast
  obtain w2 where w2: "CppSQLite3Query_fieldValue lb i (q, m\<lparr>lib := w1\<rparr>) =
        (Ret (cv_text (the_col v i)), (q, m\<lparr>lib := w2\<rparr>))"
      "query_on vw h (q, m\<lparr>lib := w2\<rparr>) (stmt_converted i v)"
    using fieldValue_run[OF w1(2) assms(2,3)] by auto
  show ?thesis
    using w1 w2
    by (cases "cv_type (the_col v i) = SQLITE_NULL")
       (auto simp: CppSQLite3Query_getStringField_def CppSQLite3Query_fieldDataIsNull_def
         string_field_def after_read_def prog_simps)
qed

section \<open>Walking over the rows\<close>

text \<open>Two states of a statement that differ only in which columns have been converted.\<close>

definition same_row :: "stmt_view \<Rightarrow> stmt_view \<Rightarrow> bool" where
  "same_row v v' \<longleftrightarrow>
     sv_names v' = sv_names v \<and> sv_row v' = sv_row v \<and> sv_rest v' = sv_rest v \<and>
     sv_end v' = sv_end v \<and> sv_over v' = sv_over v"

lemma same_row_refl [simp]: "same_row v v"
  by (simp add: same_row_def)

lemma same_row_after_read: "same_row (after_read i v) v' \<Longrightarrow> same_row v v'"
  by (auto simp: same_row_def after_read_def split: if_splits)

lemma same_row_stepped: "same_row v v' \<Longrightarrow> stmt_stepped v' = stmt_stepped v"
  by (cases v; cases v') (simp add: same_row_def stmt_stepped_def split: list.split)

lemma after_read_conv: "sv_conv (after_read i v) \<subseteq> insert i (sv_conv v)"
  by (auto simp: after_read_def)

lemma the_col_after_read [simp]: "the_col (after_read i v) = the_col v"
  by (simp add: after_read_def)

lemma readable_after_read: "readable v j \<Longrightarrow> j \<noteq> i \<Longrightarrow> readable (after_read i v) j"
  by (auto simp: readable_def after_read_def)

text \<open>Columns read in any order without repetition: each gives its own value.\<close>

lemma read_columns:
  "query_on vw h (q, m) v \<Longrightarrow> column_contract lb vw \<Longrightarrow> distinct is \<Longrightarrow>
   \<forall>i \<in> set is. readable v i \<Longrightarrow>
   \<exists>w' v'. mapP (\<lambda>i. CppSQLite3Query_getStringField lb i d) is (q, m) =
             (Ret (map (\<lambda>i. string_field d (the_col v i)) is), (q, m\<lparr>lib := w'\<rparr>))
     \<and> query_on vw h (q, m\<lparr>lib := w'\<rparr>) v' \<and> same_row v v'"
proof (induction "is" arbitrary: m v)
  case Nil
  then show ?case by (auto intro!: exI[of _ "lib m"])
next
  case (Cons i "is")
  obtain w1 where w1: "CppSQLite3Query_getStringField lb i d (q, m) =
        (Ret (string_field d (the_col v i)), (q, m\<lparr>lib := w1\<rparr>))"
      "query_on vw h (q, m\<lparr>lib := w1\<rparr>) (after_read i v)"
    using getStringField_run[OF Cons.prems(1,2), of i d] Cons.prems(4) by auto
  have r: "\<forall>j \<in> set is. readable (after_read i v) j"
    using Cons.prems(3,4) by (auto intro: readable_after_read)
  obtain w2 v2 where w2: "mapP (\<lambda>i. CppSQLite3Query_getStringField lb i d) is (q, m\<lparr>lib := w1\<rparr>) =
        (Ret (map (\<lambda>i. string_field d (the_col v i)) is), (q, m\<lparr>lib := w2\<rparr>))"
      "query_on vw h (q, m\<lparr>lib := w2\<rparr>) v2" "same_row (after_read i v) v2"
    using Cons.IH[OF w1(2) Cons.prems(2) _ r] Cons.prems(3) by auto
  have "same_row v v2"
    using w2(3) by (rule same_row_after_read)
  then show ?case
    using w1(1) w2(1,2) by (auto simp: prog_simps)
qed

text \<open>The row a client reads: \<open>for (fld = 0; fld < q.numFields(); fld++) q.getStringField(fld, d)\<close>.\<close>

definition query_row ::
  "'w sqlite3_lib \<Rightarrow> string option \<Rightarrow> ('w sq_qst, sq_exn, string option list) prog" where
  "query_row lb d =
     bindP (CppSQLite3Query_numFields lb) (\<lambda>n.
     mapP (\<lambda>i. CppSQLite3Query_getStringField lb i d) [0..n - 1])"

lemma numFields_run [prog_simps]:
  "q_m_pStmt q = Some h \<Longrightarrow> q_m_nFieldsCount q = Init n \<Longrightarrow>
   CppSQLite3Query_numFields lb (q, m) = (Ret n, (q, m))"
  by (simp add: CppSQLite3Query_numFields_def prog_simps)

lemma query_row_run:
  assumes "query_on vw h (q, m) v" and "column_contract lb vw" and "sv_row v = Some r"
    and "sv_conv v = {}"
  shows "\<exists>w' v'. query_row lb d (q, m) = (Ret (map (string_field d) r), (q, m\<lparr>lib := w'\<rparr>))
     \<and> query_on vw h (q, m\<lparr>lib := w'\<rparr>) v' \<and> same_row v v'"
proof -
  have len: "length (sv_names v) = length r"
    using assms(1,3) by (auto simp: query_on_def stmt_wf_def)
  have "\<forall>i \<in> set [0..int (length r) - 1]. readable v i"
    using assms(3,4) by (auto simp: readable_def)
  from read_columns[OF assms(1,2) distinct_upto this, of d]
  obtain w' v' where *: "mapP (\<lambda>i. CppSQLite3Query_getStringField lb i d) [0..int (length r) - 1] (q, m) =
      (Ret (map (\<lambda>i. string_field d (the_col v i)) [0..int (length r) - 1]), (q, m\<lparr>lib := w'\<rparr>))"
      "query_on vw h (q, m\<lparr>lib := w'\<rparr>) v'" "same_row v v'"
    by blast
  have "map (\<lambda>i. string_field d (the_col v i)) [0..int (length r) - 1] = map (string_field d) r"
    using map_upto_nth[of "string_field d" r] assms(3) by (simp add: the_col_def)
  then show ?thesis
    using * len assms(1) by (auto simp: query_row_def query_on_def prog_simps)
qed

lemma nextRow_run:
  assumes "query_on vw h (q, m) v" and "step_contract lb vw" and "\<not> sv_over v"
    and "sv_end v = SQLITE_DONE"
  shows "\<exists>w'. CppSQLite3Query_nextRow lb (q, m) =
           (Ret (), (q\<lparr>q_m_bEof := q_m_bEof q \<or> sv_rest v = []\<rparr>, m\<lparr>lib := w'\<rparr>))
         \<and> query_on vw h (q\<lparr>q_m_bEof := q_m_bEof q \<or> sv_rest v = []\<rparr>, m\<lparr>lib := w'\<rparr>) (stmt_stepped v)"
proof -
  have q: "q_m_pStmt q = Some h" "h \<in> live_stmt m" "vw (lib m) h = v" "stmt_wf v"
    using assms(1) by (simp_all add: query_on_def)
  obtain w' where w: "sqlite3_step lb (Some h) (lib m) = (stmt_code v, w')" "vw w' h = stmt_stepped v"
    using step_contractD[OF assms(2), of "lib m" h] assms(3) q(3) by auto
  have "query_on vw h (q\<lparr>q_m_bEof := b\<rparr>, m\<lparr>lib := w'\<rparr>) (stmt_stepped v)" for b
    using assms(1) w(2) stmt_wf_stepped by (simp add: query_on_def)
  moreover have "CppSQLite3Query_nextRow lb (q, m) =
      (Ret (), (q\<lparr>q_m_bEof := q_m_bEof q \<or> sv_rest v = []\<rparr>, m\<lparr>lib := w'\<rparr>))"
    using q w assms(4)
    by (cases "sv_rest v")
       (simp_all add: CppSQLite3Query_nextRow_def stmt_code_def sqlite_codes prog_simps)
  ultimately show ?thesis by blast
qed

text \<open>
  The rows still pending: the query stands on its first row, unread, or at the end.  The clauses
  on the library are the contracts of \<open>sqlite3_step\<close> and the column routines.
\<close>

definition query_pending ::
  "'w sqlite3_lib \<Rightarrow> 'w view \<Rightarrow> string option \<Rightarrow> 'w sq_qst \<Rightarrow> string option list list \<Rightarrow> bool" where
  "query_pending lb vw d s rs \<longleftrightarrow>
     step_contract lb vw \<and> column_contract lb vw \<and>
     (\<exists>h v. query_on vw h s v \<and> q_m_bEof (fst s) = (rs = []) \<and>
        (rs \<noteq> [] \<longrightarrow> sv_conv v = {} \<and> \<not> sv_over v \<and> sv_end v = SQLITE_DONE \<and>
           (\<exists>r. sv_row v = Some r \<and> rs = map (map (string_field d)) (r # sv_rest v))))"

lemma query_eof_run [prog_simps]:
  "q_m_pStmt q = Some h \<Longrightarrow> CppSQLite3Query_eof lb (q, m) = (Ret (q_m_bEof q), (q, m))"
  by (simp add: CppSQLite3Query_eof_def prog_simps)

lemma query_fetch:
  assumes "query_pending lb vw d s (r # rs)"
  shows "\<exists>s'. bindP (query_row lb d) (\<lambda>r. seqP (CppSQLite3Query_nextRow lb) (ret r)) s = (Ret r, s')
           \<and> query_pending lb vw d s' rs"
proof -
  obtain q m where s: "s = (q, m)" by (cases s)
  from assms obtain h v c where p: "step_contract lb vw" "column_contract lb vw"
      "query_on vw h (q, m) v" "\<not> q_m_bEof q" "sv_conv v = {}" "\<not> sv_over v" "sv_end v = SQLITE_DONE"
      "sv_row v = Some c" "r = map (string_field d) c" "rs = map (map (string_field d)) (sv_rest v)"
    by (auto simp: query_pending_def s)
  obtain w1 v1 where row: "query_row lb d (q, m) = (Ret r, (q, m\<lparr>lib := w1\<rparr>))"
      "query_on vw h (q, m\<lparr>lib := w1\<rparr>) v1" "same_row v v1"
    using query_row_run[OF p(3,2,8,5), of d] p(9) by blast
  have v1: "\<not> sv_over v1" "sv_end v1 = SQLITE_DONE" "sv_rest v1 = sv_rest v"
    using row(3) p(6,7) by (simp_all add: same_row_def)
  let ?q = "q\<lparr>q_m_bEof := q_m_bEof q \<or> sv_rest v1 = []\<rparr>"
  obtain w2 where nxt: "CppSQLite3Query_nextRow lb (q, m\<lparr>lib := w1\<rparr>) = (Ret (), (?q, m\<lparr>lib := w2\<rparr>))"
      "query_on vw h (?q, m\<lparr>lib := w2\<rparr>) (stmt_stepped v1)"
    using nextRow_run[OF row(2) p(1) v1(1,2)] by auto
  have "query_pending lb vw d (?q, m\<lparr>lib := w2\<rparr>) rs"
    unfolding query_pending_def
  proof (intro conjI exI)
    show "query_on vw h (?q, m\<lparr>lib := w2\<rparr>) (stmt_stepped v1)" by (fact nxt(2))
    show "rs \<noteq> [] \<longrightarrow> sv_conv (stmt_stepped v1) = {} \<and> \<not> sv_over (stmt_stepped v1) \<and>
        sv_end (stmt_stepped v1) = SQLITE_DONE \<and> (\<exists>r. sv_row (stmt_stepped v1) = Some r \<and>
          rs = map (map (string_field d)) (r # sv_rest (stmt_stepped v1)))"
      using v1 p(10) stmt_stepped_Cons[of v1] by (cases "sv_rest v") auto
  qed (use p(1,2,4,10) v1 in auto)
  then show ?thesis
    using row(1) nxt(1) by (auto simp: s prog_simps)
qed

interpretation sq_cursor: cursor
    "CppSQLite3Query_eof lb" "query_row lb d" "CppSQLite3Query_nextRow lb" "query_pending lb vw d"
  for lb vw d
proof unfold_locales
  fix s :: "'a sq_qst" assume "query_pending lb vw d s []"
  then show "CppSQLite3Query_eof lb s = (Ret True, s)"
    by (cases s) (auto simp: query_pending_def query_on_def prog_simps)
next
  fix s :: "'a sq_qst" and r rs assume "query_pending lb vw d s (r # rs)"
  then show "CppSQLite3Query_eof lb s = (Ret False, s)"
    by (cases s) (auto simp: query_pending_def query_on_def prog_simps)
qed (rule query_fetch)

section \<open>Ownership of the statement handle\<close>

definition sq_query_ops :: "'w sqlite3_lib \<Rightarrow> (sq_query, 'w sq_mach, sq_exn) class_ops" where
  "sq_query_ops lb =
     \<lparr>op_copy = CppSQLite3Query_copy, op_assign = CppSQLite3Query_assign lb,
      op_clear = CppSQLite3Query_clear lb\<rparr>"

text \<open>
  How a query comes to be: the default constructor, or the constructor around a statement the
  library has just returned.
\<close>

definition query_acquired ::
  "'w sqlite3_lib \<Rightarrow> 'w view \<Rightarrow> 'w sq_mach \<Rightarrow> sq_query \<Rightarrow> 'w sq_mach \<Rightarrow> bool" where
  "query_acquired lb vw m q m' \<longleftrightarrow>
     (q = CppSQLite3Query_default \<and> m' = m) \<or>
     (\<exists>m1 h pDB bEof. h \<notin> live_stmt m \<and> live_stmt m1 = insert h (live_stmt m) \<and> unfailed vw m1 \<and>
        name_contract lb vw \<and> CppSQLite3Query_new lb pDB (Some h) bEof m1 = (Ret q, m'))"

lemma query_clear_closed [prog_simps]:
  "q_m_pStmt q = None \<Longrightarrow> CppSQLite3Query_clear lb (q, m) = (Ret (), (q, m))"
  by (simp add: CppSQLite3Query_clear_def prog_simps)

lemma query_clear_ok [prog_simps]:
  "q_m_pStmt q = Some h \<Longrightarrow> h \<in> live_stmt m \<Longrightarrow>
   sqlite3_finalize lb (Some h) (lib m) = (SQLITE_OK, w') \<Longrightarrow>
   CppSQLite3Query_clear lb (q, m) =
     (Ret (), (q\<lparr>q_m_pStmt := None\<rparr>, m\<lparr>lib := w', live_stmt := live_stmt m - {h}\<rparr>))"
  by (simp add: CppSQLite3Query_clear_def prog_simps)

lemma query_clear_good:
  assumes "stmts_good lb vw m" and "set_option (q_m_pStmt q) \<subseteq> live_stmt m"
  shows "\<exists>m'. CppSQLite3Query_clear lb (q, m) = (Ret (), (q\<lparr>q_m_pStmt := None\<rparr>, m')) \<and>
           stmts_good lb vw m' \<and> live_stmt m' = live_stmt m - set_option (q_m_pStmt q)"
proof (cases "q_m_pStmt q")
  case None
  then have "q\<lparr>q_m_pStmt := None\<rparr> = q" by simp
  with None show ?thesis using assms(1) by (simp add: prog_simps)
next
  case (Some h)
  then have "h \<in> live_stmt m" using assms(2) by simp
  with unfailed_finalize[of lb vw m h] assms(1) Some show ?thesis
    by (auto simp: stmts_good_def query_clear_ok)
qed

lemma query_assign_good:
  assumes "stmts_good lb vw m" and "set_option (q_m_pStmt x) \<subseteq> live_stmt m"
  shows "\<exists>m'. CppSQLite3Query_assign lb False x y m =
             (Ret (x\<lparr>q_m_pStmt := q_m_pStmt y, q_m_bEof := q_m_bEof y,
                     q_m_nFieldsCount := q_m_nFieldsCount y\<rparr>, y\<lparr>q_m_pStmt := None\<rparr>), m') \<and>
           stmts_good lb vw m' \<and> live_stmt m' = live_stmt m - set_option (q_m_pStmt x)"
  using query_clear_good[OF assms] by (auto simp: CppSQLite3Query_assign_def catch_all_def)

lemma query_new_run:
  assumes "name_contract lb vw" and "h \<in> live_stmt m"
  shows "\<exists>w'. CppSQLite3Query_new lb pDB (Some h) bEof m =
           (Ret \<lparr>q_m_pDB = Init pDB, q_m_pStmt = Some h, q_m_bEof = bEof,
                 q_m_nFieldsCount = Init (int (length (sv_names (vw (lib m) h))))\<rparr>, m\<lparr>lib := w'\<rparr>)
         \<and> vw w' = vw (lib m)"
  using name_contract_count[OF assms(1), of h "lib m"] assms(2)
  by (auto simp: CppSQLite3Query_new_def prog_simps)

interpretation sq_query_owner: releasing_class
    "sq_query_ops lb" "query_acquired lb vw" "\<lambda>q. set_option (q_m_pStmt q)" live_stmt "stmts_good lb vw"
  for lb vw
proof unfold_locales
  show "op_assign (sq_query_ops lb) True x x m = (Ret (x, x), m)" for x m
    by (simp add: sq_query_ops_def CppSQLite3Query_assign_def)
next
  fix m m' :: "'a sq_mach" and x
  assume g: "stmts_good lb vw m" and "query_acquired lb vw m x m'"
  then consider (default) "x = CppSQLite3Query_default" "m' = m"
    | (new) m1 h pDB bEof where "h \<notin> live_stmt m" "live_stmt m1 = insert h (live_stmt m)"
        "unfailed vw m1" "name_contract lb vw"
        "CppSQLite3Query_new lb pDB (Some h) bEof m1 = (Ret x, m')"
    by (auto simp: query_acquired_def)
  then show "stmts_good lb vw m' \<and> set_option (q_m_pStmt x) \<inter> live_stmt m = {} \<and>
      live_stmt m' = live_stmt m \<union> set_option (q_m_pStmt x)"
  proof cases
    case default
    then show ?thesis using g by (simp add: CppSQLite3Query_default_def)
  next
    case new
    then show ?thesis
      using query_new_run[of lb vw h m1 pDB bEof] g by (auto simp: stmts_good_def unfailed_def)
  qed
next
  fix x n x' :: sq_query assume "op_copy (sq_query_ops lb) x = (n, x')"
  then show "set_option (q_m_pStmt n) = set_option (q_m_pStmt x) \<and> set_option (q_m_pStmt x') = {}"
    by (auto simp: sq_query_ops_def CppSQLite3Query_copy_def)
next
  fix m :: "'a sq_mach" and x y :: sq_query
  assume g: "stmts_good lb vw m" "set_option (q_m_pStmt x) \<subseteq> live_stmt m"
  show "\<exists>x' y' m'. op_assign (sq_query_ops lb) False x y m = (Ret (x', y'), m') \<and> stmts_good lb vw m' \<and>
      set_option (q_m_pStmt x') = set_option (q_m_pStmt y) \<and> set_option (q_m_pStmt y') = {} \<and> live_stmt m' \<subseteq> live_stmt m \<and>
      live_stmt m - set_option (q_m_pStmt x) \<subseteq> live_stmt m'"
    using query_assign_good[OF g, of y] by (force simp: sq_query_ops_def)
  show "\<exists>r x' m'. op_clear (sq_query_ops lb) (x, m) = (r, (x', m')) \<and> \<not> is_undef r \<and>
      stmts_good lb vw m' \<and> set_option (q_m_pStmt x') = {} \<and> live_stmt m' = live_stmt m - set_option (q_m_pStmt x)"
    using query_clear_good[OF g] by (force simp: sq_query_ops_def)
  fix x' y' m'
  assume "op_assign (sq_query_ops lb) False x y m = (Ret (x', y'), m')"
  then show "live_stmt m' = live_stmt m - set_option (q_m_pStmt x)"
    using query_assign_good[OF g, of y] by (auto simp: sq_query_ops_def)
qed

section \<open>Fields by name and by number\<close>

lemma fieldIndex_loop_run:
  "query_on vw h (q, m) v \<Longrightarrow> name_contract lb vw \<Longrightarrow> k \<le> length (sv_names v) \<Longrightarrow>
   \<exists>w'. CppSQLite3Query_fieldIndex_loop lb f (Some h) (int (length (sv_names v))) (int k) (q, m) =
      (case least_index f (drop k (sv_names v)) of
         Some j \<Rightarrow> Ret (int (k + j))
       | None \<Rightarrow> Throw (sq_error lb CPPQLITE3L_QUERY_ERROR (Some ''Invalid field name requested'')),
       (q, m\<lparr>lib := w'\<rparr>))
     \<and> query_on vw h (q, m\<lparr>lib := w'\<rparr>) v"
proof (induction "length (sv_names v) - k" arbitrary: k m)
  case 0
  then show ?case
    by (subst CppSQLite3Query_fieldIndex_loop.simps)
       (auto simp: prog_simps intro!: exI[of _ "lib m"])
next
  case (Suc n)
  have k: "k < length (sv_names v)" using Suc.hyps(2) by simp
  have q: "h \<in> live_stmt m" "vw (lib m) h = v" "stmt_wf v"
    using Suc.prems(1) by (simp_all add: query_on_def)
  obtain w1 where w1: "sqlite3_column_name lb h (int k) (lib m) = (Some (sv_names v ! k), w1)" "vw w1 h = v"
    using name_contract_name[OF Suc.prems(2), of k "lib m" h] k q(2) by auto
  have on: "query_on vw h (q, m\<lparr>lib := w1\<rparr>) v"
    using query_on_lib[OF Suc.prems(1) w1(2) q(3)] by simp
  note unroll = CppSQLite3Query_fieldIndex_loop.simps[of lb f "Some h" "int (length (sv_names v))" "int k"]
  show ?case
  proof (cases "f = sv_names v ! k")
    case True
    then have "CppSQLite3Query_fieldIndex_loop lb f (Some h) (int (length (sv_names v))) (int k) (q, m) =
        (Ret (int k), (q, m\<lparr>lib := w1\<rparr>))"
      using k q(1) w1(1) by (subst unroll) (simp add: prog_simps)
    with True k on show ?thesis by (auto simp: least_index_drop)
  next
    case False
    have "n = length (sv_names v) - Suc k" "Suc k \<le> length (sv_names v)" using Suc.hyps(2) k by simp_all
    from Suc.hyps(1)[OF this(1) on Suc.prems(2) this(2)] obtain w' where
      ih: "CppSQLite3Query_fieldIndex_loop lb f (Some h) (int (length (sv_names v))) (int (Suc k)) (q, m\<lparr>lib := w1\<rparr>) =
        (case least_index f (drop (Suc k) (sv_names v)) of
           Some j \<Rightarrow> Ret (int (Suc k + j))
         | None \<Rightarrow> Throw (sq_error lb CPPQLITE3L_QUERY_ERROR (Some ''Invalid field name requested'')),
         (q, m\<lparr>lib := w'\<rparr>))" "query_on vw h (q, m\<lparr>lib := w'\<rparr>) v"
      by auto
    have "CppSQLite3Query_fieldIndex_loop lb f (Some h) (int (length (sv_names v))) (int k) (q, m) =
        CppSQLite3Query_fieldIndex_loop lb f (Some h) (int (length (sv_names v))) (int (Suc k)) (q, m\<lparr>lib := w1\<rparr>)"
      using k q(1) w1(1) False by (subst unroll) (simp add: prog_simps add.commute)
    with ih False k show ?thesis
      by (cases "least_index f (drop (Suc k) (sv_names v))") (auto simp: least_index_drop)
  qed
qed

lemma fieldIndex_run:
  assumes "query_on vw h (q, m) v" and "name_contract lb vw"
  shows "\<exists>w'. CppSQLite3Query_fieldIndex lb (Some f) (q, m) =
      (case least_index f (sv_names v) of
         Some j \<Rightarrow> Ret (int j)
       | None \<Rightarrow> Throw (sq_error lb CPPQLITE3L_QUERY_ERROR (Some ''Invalid field name requested'')),
       (q, m\<lparr>lib := w'\<rparr>))
     \<and> query_on vw h (q, m\<lparr>lib := w'\<rparr>) v"
proof -
  have "q_m_pStmt q = Some h" "q_m_nFieldsCount q = Init (int (length (sv_names v)))"
    using assms(1) by (simp_all add: query_on_def)
  then show ?thesis
    using fieldIndex_loop_run[OF assms, of 0 f]
    by (simp add: CppSQLite3Query_fieldIndex_def prog_simps cong: option.case_cong)
qed

end
