(* ===== verification/SqliteStatement.thy ===== *)
theory SqliteStatement
  imports SqliteQuery
begin

text \<open>
  \<open>CppSQLite3Statement\<close> of \<open>src/CppSQLite3.cpp\<close>: a prepared statement with its connection, the
  binding of parameters, execution and reset.  Then: which object owns the handle, and the demo's
  loop that binds, executes and resets once per row.
\<close>

section \<open>The class\<close>

record sq_stmt =
  st_m_pDB :: "nat option"
  st_m_pStmt :: "nat option"

type_synonym 'w sq_sst = "sq_stmt \<times> 'w sq_mach"

definition CppSQLite3Statement_default :: sq_stmt where
  "CppSQLite3Statement_default = \<lparr>st_m_pDB = None, st_m_pStmt = None\<rparr>"

definition CppSQLite3Statement_copy :: "sq_stmt \<Rightarrow> sq_stmt \<times> sq_stmt" where
  "CppSQLite3Statement_copy rStatement =
     (\<lparr>st_m_pDB = st_m_pDB rStatement, st_m_pStmt = st_m_pStmt rStatement\<rparr>,
      rStatement\<lparr>st_m_pStmt := None\<rparr>)"

definition CppSQLite3Statement_new :: "nat option \<Rightarrow> nat option \<Rightarrow> sq_stmt" where
  "CppSQLite3Statement_new pDB pVM = \<lparr>st_m_pDB = pDB, st_m_pStmt = pVM\<rparr>"

definition CppSQLite3Statement_checkDB :: "'w sqlite3_lib \<Rightarrow> ('w sq_sst, sq_exn, unit) prog" where
  "CppSQLite3Statement_checkDB lb =
     bindP get_this (\<lambda>t.
     if st_m_pDB t = None
     then on_mach (throw_sq lb CPPQLITE3_STATEMENT_ERROR (BorrowedMsg ''Database not open'') False)
     else ret ())"

definition CppSQLite3Statement_checkStmt :: "'w sqlite3_lib \<Rightarrow> ('w sq_sst, sq_exn, unit) prog" where
  "CppSQLite3Statement_checkStmt lb =
     bindP get_this (\<lambda>t.
     if st_m_pStmt t = None
     then on_mach (throw_sq lb CPPQLITE3_STATEMENT_ERROR
            (BorrowedMsg ''Null Virtual Machine pointer'') False)
     else ret ())"

text \<open>\<open>throw CppSQLite3Exception(nRet, sqlite3_errmsg(m_pDB))\<close>, without the release flag.\<close>

definition stmt_throw_errmsg :: "'w sqlite3_lib \<Rightarrow> int \<Rightarrow> ('w sq_sst, sq_exn, 'a) prog" where
  "stmt_throw_errmsg lb nRet =
     bindP get_this (\<lambda>t.
     bindP (on_mach (call_errmsg lb (st_m_pDB t))) (\<lambda>msg.
     on_mach (throw_sq lb nRet msg False)))"

definition stmt_handle_call ::
  "(nat \<Rightarrow> 'w \<Rightarrow> 'r \<times> 'w) \<Rightarrow> ('w sq_sst, sq_exn, 'r) prog" where
  "stmt_handle_call f = bindP get_this (\<lambda>t. on_mach (stmt_call (st_m_pStmt t) f))"

definition CppSQLite3Statement_clear :: "'w sqlite3_lib \<Rightarrow> ('w sq_sst, sq_exn, unit) prog" where
  "CppSQLite3Statement_clear lb =
     bindP get_this (\<lambda>t.
     if st_m_pStmt t \<noteq> None
     then bindP (on_mach (call_finalize lb (st_m_pStmt t))) (\<lambda>nRet.
          seqP (upd_this (st_m_pStmt_update (\<lambda>_. None)))
          (if nRet \<noteq> SQLITE_OK
           then (if st_m_pDB t \<noteq> None then stmt_throw_errmsg lb nRet
                 else on_mach (throw_sq lb nRet (BorrowedMsg ''sqlite3_finalize error'') False))
           else ret ()))
     else ret ())"

definition CppSQLite3Statement_destroy :: "'w sqlite3_lib \<Rightarrow> ('w sq_sst, sq_exn, unit) prog" where
  "CppSQLite3Statement_destroy lb = catch_all (CppSQLite3Statement_clear lb)"

text \<open>\<open>*this = rStatement\<close>, given whether \<open>this == &rStatement\<close>: nothing releases the old handle.\<close>

definition CppSQLite3Statement_assign ::
  "bool \<Rightarrow> sq_stmt \<Rightarrow> sq_stmt \<Rightarrow> ('w sq_mach, sq_exn, sq_stmt \<times> sq_stmt) prog" where
  "CppSQLite3Statement_assign same this rStatement =
     (if same then ret (this, rStatement)
      else ret (this\<lparr>st_m_pDB := st_m_pDB rStatement, st_m_pStmt := st_m_pStmt rStatement\<rparr>,
          rStatement\<lparr>st_m_pStmt := None\<rparr>))"

definition CppSQLite3Statement_execDML :: "'w sqlite3_lib \<Rightarrow> ('w sq_sst, sq_exn, int) prog" where
  "CppSQLite3Statement_execDML lb =
     seqP (CppSQLite3Statement_checkDB lb)
     (seqP (CppSQLite3Statement_checkStmt lb)
     (bindP get_this (\<lambda>t.
      bindP (on_mach (call_step lb (st_m_pStmt t))) (\<lambda>nRet.
      if nRet = SQLITE_DONE
      then bindP (on_mach (db_call (st_m_pDB t) (sqlite3_changes lb))) (\<lambda>nRowsChanged.
           bindP (stmt_handle_call (sqlite3_reset lb)) (\<lambda>nRet'.
           if nRet' \<noteq> SQLITE_OK then stmt_throw_errmsg lb nRet' else ret nRowsChanged))
      else bindP (stmt_handle_call (sqlite3_reset lb)) (\<lambda>nRet'. stmt_throw_errmsg lb nRet')))))"

text \<open>
  \<open>execQuery\<close> hands the statement to a query; both branches construct it with \<open>bEof = false\<close>.
\<close>

definition CppSQLite3Statement_execQuery ::
  "'w sqlite3_lib \<Rightarrow> ('w sq_sst, sq_exn, sq_query) prog" where
  "CppSQLite3Statement_execQuery lb =
     seqP (CppSQLite3Statement_checkDB lb)
     (seqP (CppSQLite3Statement_checkStmt lb)
     (bindP get_this (\<lambda>t.
      bindP (on_mach (call_step lb (st_m_pStmt t))) (\<lambda>nRet.
      if nRet = SQLITE_DONE
      then bindP (on_mach (CppSQLite3Query_new lb (st_m_pDB t) (st_m_pStmt t) False)) (\<lambda>q.
           seqP (upd_this (st_m_pStmt_update (\<lambda>_. None))) (ret q))
      else if nRet = SQLITE_ROW
      then bindP (on_mach (CppSQLite3Query_new lb (st_m_pDB t) (st_m_pStmt t) False)) (\<lambda>q.
           seqP (upd_this (st_m_pStmt_update (\<lambda>_. None))) (ret q))
      else bindP (stmt_handle_call (sqlite3_reset lb)) (\<lambda>_.
           on_mach (throw_sq lb CPPQLITE3_STATEMENT_ERROR
             (BorrowedMsg ''CppSQLite3Statement execQuery error'') False))))))"

text \<open>The common shape of the five binding functions.\<close>

definition stmt_bind ::
  "'w sqlite3_lib \<Rightarrow> (nat \<Rightarrow> 'w \<Rightarrow> int \<times> 'w) \<Rightarrow> string \<Rightarrow> ('w sq_sst, sq_exn, unit) prog" where
  "stmt_bind lb f msg =
     seqP (CppSQLite3Statement_checkStmt lb)
     (bindP (stmt_handle_call f) (\<lambda>nRes.
      if nRes \<noteq> SQLITE_OK then on_mach (throw_sq lb nRes (BorrowedMsg msg) False) else ret ()))"

definition CppSQLite3Statement_bind_text ::
  "'w sqlite3_lib \<Rightarrow> int \<Rightarrow> string option \<Rightarrow> ('w sq_sst, sq_exn, unit) prog" where
  "CppSQLite3Statement_bind_text lb nParam szValue =
     stmt_bind lb (\<lambda>h. sqlite3_bind_text lb h nParam szValue) ''Error binding string param''"

definition CppSQLite3Statement_bind_int ::
  "'w sqlite3_lib \<Rightarrow> int \<Rightarrow> int \<Rightarrow> ('w sq_sst, sq_exn, unit) prog" where
  "CppSQLite3Statement_bind_int lb nParam nValue =
     stmt_bind lb (\<lambda>h. sqlite3_bind_int lb h nParam nValue) ''Error binding int param''"

definition CppSQLite3Statement_bind_double ::
  "'w sqlite3_lib \<Rightarrow> int \<Rightarrow> cdouble \<Rightarrow> ('w sq_sst, sq_exn, unit) prog" where
  "CppSQLite3Statement_bind_double lb nParam dValue =
     stmt_bind lb (\<lambda>h. sqlite3_bind_double lb h nParam dValue) ''Error binding double param''"

definition CppSQLite3Statement_bind_blob ::
  "'w sqlite3_lib \<Rightarrow> int \<Rightarrow> bytes option \<Rightarrow> int \<Rightarrow> ('w sq_sst, sq_exn, unit) prog" where
  "CppSQLite3Statement_bind_blob lb nParam blobValue nLen =
     stmt_bind lb (\<lambda>h. sqlite3_bind_blob lb h nParam blobValue nLen) ''Error binding blob param''"

definition CppSQLite3Statement_bindNull ::
  "'w sqlite3_lib \<Rightarrow> int \<Rightarrow> ('w sq_sst, sq_exn, unit) prog" where
  "CppSQLite3Statement_bindNull lb nParam =
     stmt_bind lb (\<lambda>h. sqlite3_bind_null lb h nParam) ''Error binding NULL param''"

definition CppSQLite3Statement_reset :: "'w sqlite3_lib \<Rightarrow> ('w sq_sst, sq_exn, unit) prog" where
  "CppSQLite3Statement_reset lb =
     bindP get_this (\<lambda>t.
     if st_m_pStmt t \<noteq> None
     then bindP (stmt_handle_call (sqlite3_reset lb)) (\<lambda>nRet.
          if nRet \<noteq> SQLITE_OK then stmt_throw_errmsg lb nRet else ret ())
     else ret ())"

definition CppSQLite3Statement_getHandle :: "sq_stmt \<Rightarrow> nat option" where
  "CppSQLite3Statement_getHandle t = st_m_pStmt t"

section \<open>Running the operations\<close>

lemma stmt_checkDB_run [prog_simps]:
  "st_m_pDB t = Some d \<Longrightarrow> CppSQLite3Statement_checkDB lb (t, m) = (Ret (), (t, m))"
  "st_m_pDB t = None \<Longrightarrow> CppSQLite3Statement_checkDB lb (t, m) =
     (Throw (sq_error lb CPPQLITE3_STATEMENT_ERROR (Some ''Database not open'')), (t, m))"
  by (simp_all add: CppSQLite3Statement_checkDB_def prog_simps)

lemma stmt_checkStmt_run [prog_simps]:
  "st_m_pStmt t = Some h \<Longrightarrow> CppSQLite3Statement_checkStmt lb (t, m) = (Ret (), (t, m))"
  "st_m_pStmt t = None \<Longrightarrow> CppSQLite3Statement_checkStmt lb (t, m) =
     (Throw (sq_error lb CPPQLITE3_STATEMENT_ERROR (Some ''Null Virtual Machine pointer'')), (t, m))"
  by (simp_all add: CppSQLite3Statement_checkStmt_def prog_simps)

lemma stmt_handle_call_run [prog_simps]:
  "st_m_pStmt t = Some h \<Longrightarrow> h \<in> live_stmt m \<Longrightarrow> f h (lib m) = (r, w') \<Longrightarrow>
   stmt_handle_call f (t, m) = (Ret r, (t, m\<lparr>lib := w'\<rparr>))"
  by (simp add: stmt_handle_call_def prog_simps)

lemma stmt_throw_errmsg_run [prog_simps]:
  "set_option (st_m_pDB t) \<subseteq> live_db m \<Longrightarrow> sqlite3_errmsg lb (st_m_pDB t) (lib m) = (s, w') \<Longrightarrow>
   stmt_throw_errmsg lb n (t, m) = (Throw (sq_error lb n (Some s)), (t, m\<lparr>lib := w'\<rparr>))"
  by (simp add: stmt_throw_errmsg_def prog_simps)

lemma stmt_bind_ok [prog_simps]:
  "st_m_pStmt t = Some h \<Longrightarrow> h \<in> live_stmt m \<Longrightarrow> f h (lib m) = (SQLITE_OK, w') \<Longrightarrow>
   stmt_bind lb f msg (t, m) = (Ret (), (t, m\<lparr>lib := w'\<rparr>))"
  by (simp add: stmt_bind_def prog_simps)

lemma stmt_bind_error:
  "st_m_pStmt t = Some h \<Longrightarrow> h \<in> live_stmt m \<Longrightarrow> f h (lib m) = (n, w') \<Longrightarrow> n \<noteq> SQLITE_OK \<Longrightarrow>
   stmt_bind lb f msg (t, m) = (Throw (sq_error lb n (Some msg)), (t, m\<lparr>lib := w'\<rparr>))"
  by (simp add: stmt_bind_def prog_simps)

section \<open>Ownership of the handle\<close>

definition sq_stmt_ops :: "'w sqlite3_lib \<Rightarrow> (sq_stmt, 'w sq_mach, sq_exn) class_ops" where
  "sq_stmt_ops lb =
     \<lparr>op_copy = CppSQLite3Statement_copy, op_assign = CppSQLite3Statement_assign,
      op_clear = CppSQLite3Statement_clear lb\<rparr>"

definition stmt_acquired :: "'w view \<Rightarrow> 'w sq_mach \<Rightarrow> sq_stmt \<Rightarrow> 'w sq_mach \<Rightarrow> bool" where
  "stmt_acquired vw m t m' \<longleftrightarrow>
     (t = CppSQLite3Statement_default \<and> m' = m) \<or>
     (\<exists>h pDB. h \<notin> live_stmt m \<and> live_stmt m' = insert h (live_stmt m) \<and> unfailed vw m' \<and>
        t = CppSQLite3Statement_new pDB (Some h))"

lemma stmt_clear_good:
  assumes "stmts_good lb vw m" and "set_option (st_m_pStmt t) \<subseteq> live_stmt m"
  shows "\<exists>m'. CppSQLite3Statement_clear lb (t, m) = (Ret (), (t\<lparr>st_m_pStmt := None\<rparr>, m')) \<and>
           stmts_good lb vw m' \<and> live_stmt m' = live_stmt m - set_option (st_m_pStmt t)"
proof (cases "st_m_pStmt t")
  case None
  then have "t\<lparr>st_m_pStmt := None\<rparr> = t" by simp
  with None show ?thesis using assms(1) by (simp add: CppSQLite3Statement_clear_def prog_simps)
next
  case (Some h)
  then have "h \<in> live_stmt m" using assms(2) by simp
  with unfailed_finalize[of lb vw m h] assms(1) Some show ?thesis
    by (auto simp: stmts_good_def CppSQLite3Statement_clear_def prog_simps)
qed

text \<open>Safe, but not releasing: the assignment forgets the handle it overwrites.\<close>

interpretation sq_stmt_owner: handle_class
    "sq_stmt_ops lb" "stmt_acquired vw" "\<lambda>q. set_option (st_m_pStmt q)" live_stmt "stmts_good lb vw"
  for lb vw
proof unfold_locales
  show "op_assign (sq_stmt_ops lb) True x x m = (Ret (x, x), m)" for x m
    by (simp add: sq_stmt_ops_def CppSQLite3Statement_assign_def)
next
  fix m m' :: "'a sq_mach" and x assume "stmts_good lb vw m" "stmt_acquired vw m x m'"
  then show "stmts_good lb vw m' \<and> set_option (st_m_pStmt x) \<inter> live_stmt m = {} \<and>
      live_stmt m' = live_stmt m \<union> set_option (st_m_pStmt x)"
    unfolding stmt_acquired_def
    by (elim disjE exE conjE)
       (simp_all add: stmts_good_def CppSQLite3Statement_default_def CppSQLite3Statement_new_def)
next
  fix x n x' :: sq_stmt assume "op_copy (sq_stmt_ops lb) x = (n, x')"
  then show "set_option (st_m_pStmt n) = set_option (st_m_pStmt x) \<and> set_option (st_m_pStmt x') = {}"
    by (auto simp: sq_stmt_ops_def CppSQLite3Statement_copy_def)
next
  fix m :: "'a sq_mach" and x y :: sq_stmt
  assume g: "stmts_good lb vw m" "set_option (st_m_pStmt x) \<subseteq> live_stmt m"
  show "\<exists>x' y' m'. op_assign (sq_stmt_ops lb) False x y m = (Ret (x', y'), m') \<and> stmts_good lb vw m' \<and>
      set_option (st_m_pStmt x') = set_option (st_m_pStmt y) \<and> set_option (st_m_pStmt y') = {} \<and> live_stmt m' \<subseteq> live_stmt m \<and>
      live_stmt m - set_option (st_m_pStmt x) \<subseteq> live_stmt m'"
    using g(1) by (simp add: sq_stmt_ops_def CppSQLite3Statement_assign_def)
  show "\<exists>r x' m'. op_clear (sq_stmt_ops lb) (x, m) = (r, (x', m')) \<and> \<not> is_undef r \<and>
      stmts_good lb vw m' \<and> set_option (st_m_pStmt x') = {} \<and> live_stmt m' = live_stmt m - set_option (st_m_pStmt x)"
    using stmt_clear_good[OF g] by (force simp: sq_stmt_ops_def)
qed

section \<open>Bind, execute, reset\<close>

text \<open>
  The state of a data-modifying statement as \<open>sqlite3.h\<close> documents it: the value of each parameter,
  whether the statement is ready (prepared or reset, so that parameters may be bound), and the
  parameter values of the executions so far.
\<close>

datatype bindval = BindNull | BindInt int | BindDouble cdouble | BindText string | BindBlob bytes

record dml_view =
  dv_params :: "bindval list"
  dv_ready :: bool
  dv_runs :: "bindval list list"

definition dml_bound :: "int \<Rightarrow> bindval \<Rightarrow> dml_view \<Rightarrow> dml_view" where
  "dml_bound i b v = v\<lparr>dv_params := (dv_params v)[nat i - 1 := b]\<rparr>"

definition dml_ran :: "dml_view \<Rightarrow> dml_view" where
  "dml_ran v = v\<lparr>dv_ready := False, dv_runs := dv_runs v @ [dv_params v]\<rparr>"

definition bindable :: "dml_view \<Rightarrow> int \<Rightarrow> bool" where
  "bindable v i \<longleftrightarrow> dv_ready v \<and> 1 \<le> i \<and> i \<le> int (length (dv_params v))"

text \<open>
  The library routine for each kind of value: within the parameters of a ready statement each
  returns \<open>SQLITE_OK\<close> and sets that parameter.
\<close>

fun sqlite3_bind_value :: "'w sqlite3_lib \<Rightarrow> int \<Rightarrow> bindval \<Rightarrow> nat \<Rightarrow> 'w \<Rightarrow> int \<times> 'w" where
  "sqlite3_bind_value lb i BindNull h = sqlite3_bind_null lb h i"
| "sqlite3_bind_value lb i (BindInt n) h = sqlite3_bind_int lb h i n"
| "sqlite3_bind_value lb i (BindDouble x) h = sqlite3_bind_double lb h i x"
| "sqlite3_bind_value lb i (BindText s) h = sqlite3_bind_text lb h i (Some s)"
| "sqlite3_bind_value lb i (BindBlob bs) h = sqlite3_bind_blob lb h i (Some bs) (int (length bs))"

definition bind_contract :: "'w sqlite3_lib \<Rightarrow> ('w \<Rightarrow> nat \<Rightarrow> dml_view) \<Rightarrow> bool" where
  "bind_contract lb dv \<longleftrightarrow>
     (\<forall>w h i b. bindable (dv w h) i \<longrightarrow>
        (\<exists>w'. sqlite3_bind_value lb i b h w = (SQLITE_OK, w') \<and> dv w' h = dml_bound i b (dv w h)))"

text \<open>
  A run of a ready statement ends in \<open>SQLITE_DONE\<close>; \<open>sqlite3_reset\<close> then returns \<open>SQLITE_OK\<close>, makes
  the statement ready and keeps the bindings.
\<close>

definition dml_contract :: "'w sqlite3_lib \<Rightarrow> ('w \<Rightarrow> nat \<Rightarrow> dml_view) \<Rightarrow> bool" where
  "dml_contract lb dv \<longleftrightarrow>
     (\<forall>w h. dv_ready (dv w h) \<longrightarrow>
        (\<exists>w'. sqlite3_step lb (Some h) w = (SQLITE_DONE, w') \<and> dv w' h = dml_ran (dv w h))) \<and>
     (\<forall>w h. \<exists>w'. sqlite3_reset lb h w = (SQLITE_OK, w') \<and> dv w' h = (dv w h)\<lparr>dv_ready := True\<rparr>) \<and>
     (\<forall>w h d. dv (snd (sqlite3_changes lb d w)) h = dv w h)"

text \<open>A statement object on a live statement of a live connection.\<close>

definition stmt_on :: "('w \<Rightarrow> nat \<Rightarrow> dml_view) \<Rightarrow> nat \<Rightarrow> 'w sq_sst \<Rightarrow> dml_view \<Rightarrow> bool" where
  "stmt_on dv h s v \<longleftrightarrow>
     st_m_pStmt (fst s) = Some h \<and> h \<in> live_stmt (snd s) \<and>
     (\<exists>d. st_m_pDB (fst s) = Some d \<and> d \<in> live_db (snd s)) \<and> dv (lib (snd s)) h = v"

text \<open>Binding one value of any kind, as the overloads of \<open>bind\<close> do.\<close>

fun bind_value :: "'w sqlite3_lib \<Rightarrow> int \<Rightarrow> bindval \<Rightarrow> ('w sq_sst, sq_exn, unit) prog" where
  "bind_value lb i BindNull = CppSQLite3Statement_bindNull lb i"
| "bind_value lb i (BindInt n) = CppSQLite3Statement_bind_int lb i n"
| "bind_value lb i (BindDouble x) = CppSQLite3Statement_bind_double lb i x"
| "bind_value lb i (BindText s) = CppSQLite3Statement_bind_text lb i (Some s)"
| "bind_value lb i (BindBlob bs) = CppSQLite3Statement_bind_blob lb i (Some bs) (int (length bs))"

fun bind_row :: "'w sqlite3_lib \<Rightarrow> int \<Rightarrow> bindval list \<Rightarrow> ('w sq_sst, sq_exn, unit) prog" where
  "bind_row lb i [] = ret ()"
| "bind_row lb i (b # bs) = seqP (bind_value lb i b) (bind_row lb (i + 1) bs)"

text \<open>
  The loop of \<open>Demos/CppDBDemo.cpp\<close>: bind the parameters, \<open>execDML()\<close>, \<open>reset()\<close>, once per row.
\<close>

fun insert_rows :: "'w sqlite3_lib \<Rightarrow> bindval list list \<Rightarrow> ('w sq_sst, sq_exn, unit) prog" where
  "insert_rows lb [] = ret ()"
| "insert_rows lb (r # rs) =
     seqP (bind_row lb 1 r)
     (seqP (CppSQLite3Statement_execDML lb)
     (seqP (CppSQLite3Statement_reset lb) (insert_rows lb rs)))"

lemma stmt_on_lib:
  "stmt_on dv h (t, m) v \<Longrightarrow> dv w' h = v' \<Longrightarrow> stmt_on dv h (t, m\<lparr>lib := w'\<rparr>) v'"
  by (simp add: stmt_on_def)

lemma bind_value_ok:
  assumes "st_m_pStmt t = Some h" and "h \<in> live_stmt m"
    and "sqlite3_bind_value lb i b h (lib m) = (SQLITE_OK, w')"
  shows "bind_value lb i b (t, m) = (Ret (), (t, m\<lparr>lib := w'\<rparr>))"
  using assms
  by (cases b)
     (simp_all add: CppSQLite3Statement_bindNull_def CppSQLite3Statement_bind_int_def
       CppSQLite3Statement_bind_double_def CppSQLite3Statement_bind_text_def
       CppSQLite3Statement_bind_blob_def stmt_bind_ok)

lemma bind_value_run:
  assumes "stmt_on dv h (t, m) v" and "bind_contract lb dv" and "bindable v i"
  shows "\<exists>w'. bind_value lb i b (t, m) = (Ret (), (t, m\<lparr>lib := w'\<rparr>)) \<and>
           stmt_on dv h (t, m\<lparr>lib := w'\<rparr>) (dml_bound i b v)"
proof -
  have t: "st_m_pStmt t = Some h" "h \<in> live_stmt m" "dv (lib m) h = v"
    using assms(1) by (auto simp: stmt_on_def)
  then obtain w' where "sqlite3_bind_value lb i b h (lib m) = (SQLITE_OK, w')" "dv w' h = dml_bound i b v"
    using assms(2,3) unfolding bind_contract_def by metis
  then show ?thesis
    using bind_value_ok[OF t(1,2)] stmt_on_lib[OF assms(1)] by blast
qed

lemma dml_bound_fields [simp]:
  "dv_ready (dml_bound i b v) = dv_ready v" "dv_runs (dml_bound i b v) = dv_runs v"
  "length (dv_params (dml_bound i b v)) = length (dv_params v)"
  by (simp_all add: dml_bound_def)

text \<open>Binding a row from position \<open>k\<close> replaces the parameters from there on.\<close>

lemma bind_row_run:
  "stmt_on dv h (t, m) v \<Longrightarrow> bind_contract lb dv \<Longrightarrow> dv_ready v \<Longrightarrow>
   k + length bs = length (dv_params v) \<Longrightarrow>
   \<exists>w' v'. bind_row lb (int (Suc k)) bs (t, m) = (Ret (), (t, m\<lparr>lib := w'\<rparr>)) \<and>
     stmt_on dv h (t, m\<lparr>lib := w'\<rparr>) v' \<and> dv_ready v' \<and> dv_runs v' = dv_runs v \<and>
     dv_params v' = take k (dv_params v) @ bs"
proof (induction bs arbitrary: m v k)
  case Nil
  then show ?case by (auto intro!: exI[of _ "lib m"] exI[of _ v])
next
  case (Cons b bs)
  have "bindable v (int (Suc k))"
    using Cons.prems by (simp add: bindable_def)
  then obtain w1 where w1: "bind_value lb (int (Suc k)) b (t, m) = (Ret (), (t, m\<lparr>lib := w1\<rparr>))"
      "stmt_on dv h (t, m\<lparr>lib := w1\<rparr>) (dml_bound (int (Suc k)) b v)"
    using bind_value_run[OF Cons.prems(1,2)] by blast
  have k: "k < length (dv_params v)" using Cons.prems(4) by simp
  have [simp]: "nat (int (Suc k)) - 1 = k" by (simp only: nat_int)
  have take: "take (Suc k) (dv_params (dml_bound (int (Suc k)) b v)) = take k (dv_params v) @ [b]"
    using k by (simp add: dml_bound_def take_Suc_conv_app_nth del: of_nat_Suc)
  obtain w2 v2 where w2: "bind_row lb (int (Suc (Suc k))) bs (t, m\<lparr>lib := w1\<rparr>) = (Ret (), (t, m\<lparr>lib := w2\<rparr>))"
      "stmt_on dv h (t, m\<lparr>lib := w2\<rparr>) v2" "dv_ready v2" "dv_runs v2 = dv_runs v"
      "dv_params v2 = take k (dv_params v) @ b # bs"
    using Cons.IH[OF w1(2) Cons.prems(2), of "Suc k"] Cons.prems(3-4) take by auto
  have "bind_row lb (int (Suc k)) (b # bs) (t, m) = (Ret (), (t, m\<lparr>lib := w2\<rparr>))"
    using w1(1) w2(1) by (simp add: prog_simps add.commute)
  with w2 show ?case by blast
qed

lemma execDML_run:
  assumes "stmt_on dv h (t, m) v" and "dml_contract lb dv" and "dv_ready v"
  shows "\<exists>n w'. CppSQLite3Statement_execDML lb (t, m) = (Ret n, (t, m\<lparr>lib := w'\<rparr>)) \<and>
           stmt_on dv h (t, m\<lparr>lib := w'\<rparr>) ((dml_ran v)\<lparr>dv_ready := True\<rparr>)"
proof -
  obtain d where t: "st_m_pStmt t = Some h" "h \<in> live_stmt m" "st_m_pDB t = Some d" "d \<in> live_db m"
      "dv (lib m) h = v"
    using assms(1) by (auto simp: stmt_on_def)
  obtain w1 where w1: "sqlite3_step lb (Some h) (lib m) = (SQLITE_DONE, w1)" "dv w1 h = dml_ran v"
    using assms(2,3) t(5) unfolding dml_contract_def by metis
  obtain n w2 where w2: "sqlite3_changes lb d w1 = (n, w2)" by (cases "sqlite3_changes lb d w1")
  have "dv w2 h = dml_ran v"
    using assms(2) w1(2) w2 unfolding dml_contract_def by (metis snd_conv)
  then obtain w3 where w3: "sqlite3_reset lb h w2 = (SQLITE_OK, w3)"
      "dv w3 h = (dml_ran v)\<lparr>dv_ready := True\<rparr>"
    using assms(2) unfolding dml_contract_def by metis
  have "CppSQLite3Statement_execDML lb (t, m) = (Ret n, (t, m\<lparr>lib := w3\<rparr>))"
    using t w1(1) w2 w3(1) by (simp add: CppSQLite3Statement_execDML_def prog_simps)
  then show ?thesis using stmt_on_lib[OF assms(1) w3(2)] by blast
qed

lemma reset_run:
  assumes "stmt_on dv h (t, m) v" and "dml_contract lb dv"
  shows "\<exists>w'. CppSQLite3Statement_reset lb (t, m) = (Ret (), (t, m\<lparr>lib := w'\<rparr>)) \<and>
           stmt_on dv h (t, m\<lparr>lib := w'\<rparr>) (v\<lparr>dv_ready := True\<rparr>)"
proof -
  have t: "st_m_pStmt t = Some h" "h \<in> live_stmt m" "dv (lib m) h = v"
    using assms(1) by (auto simp: stmt_on_def)
  obtain w1 where w1: "sqlite3_reset lb h (lib m) = (SQLITE_OK, w1)" "dv w1 h = v\<lparr>dv_ready := True\<rparr>"
    using assms(2) t(3) unfolding dml_contract_def by metis
  have "CppSQLite3Statement_reset lb (t, m) = (Ret (), (t, m\<lparr>lib := w1\<rparr>))"
    using t w1(1) by (simp add: CppSQLite3Statement_reset_def prog_simps)
  then show ?thesis using stmt_on_lib[OF assms(1) w1(2)] by blast
qed

text \<open>One turn of the loop.\<close>

lemma insert_row_run:
  assumes "stmt_on dv h (t, m) v" and "bind_contract lb dv" and "dml_contract lb dv" and "dv_ready v"
    and "length r = length (dv_params v)"
  shows "\<exists>w' v'. seqP (bind_row lb 1 r) (seqP (CppSQLite3Statement_execDML lb) (CppSQLite3Statement_reset lb)) (t, m) =
             (Ret (), (t, m\<lparr>lib := w'\<rparr>)) \<and>
           stmt_on dv h (t, m\<lparr>lib := w'\<rparr>) v' \<and> dv_ready v' \<and> dv_runs v' = dv_runs v @ [r] \<and> dv_params v' = r"
proof -
  obtain w1 v1 where w1: "bind_row lb 1 r (t, m) = (Ret (), (t, m\<lparr>lib := w1\<rparr>))"
      "stmt_on dv h (t, m\<lparr>lib := w1\<rparr>) v1" "dv_ready v1" "dv_runs v1 = dv_runs v" "dv_params v1 = r"
    using bind_row_run[OF assms(1,2,4), where k = 0 and bs = r] assms(5) by auto
  obtain n w2 where w2: "CppSQLite3Statement_execDML lb (t, m\<lparr>lib := w1\<rparr>) = (Ret n, (t, m\<lparr>lib := w2\<rparr>))"
      "stmt_on dv h (t, m\<lparr>lib := w2\<rparr>) ((dml_ran v1)\<lparr>dv_ready := True\<rparr>)"
    using execDML_run[OF w1(2) assms(3) w1(3)] by auto
  obtain w3 where w3: "CppSQLite3Statement_reset lb (t, m\<lparr>lib := w2\<rparr>) = (Ret (), (t, m\<lparr>lib := w3\<rparr>))"
      "stmt_on dv h (t, m\<lparr>lib := w3\<rparr>) ((dml_ran v1)\<lparr>dv_ready := True\<rparr>)"
    using reset_run[OF w2(2) assms(3)] by auto
  show ?thesis
    using w1(1) w2(1) w3 w1(4,5)
    by (intro exI[of _ w3] exI[of _ "(dml_ran v1)\<lparr>dv_ready := True\<rparr>"]) (simp add: prog_simps dml_ran_def)
qed

lemma insert_rows_run:
  "stmt_on dv h (t, m) v \<Longrightarrow> bind_contract lb dv \<Longrightarrow> dml_contract lb dv \<Longrightarrow> dv_ready v \<Longrightarrow>
   \<forall>r \<in> set rs. length r = length (dv_params v) \<Longrightarrow>
   \<exists>w' v'. insert_rows lb rs (t, m) = (Ret (), (t, m\<lparr>lib := w'\<rparr>)) \<and>
     stmt_on dv h (t, m\<lparr>lib := w'\<rparr>) v' \<and> dv_ready v' \<and> dv_runs v' = dv_runs v @ rs"
proof (induction rs arbitrary: m v)
  case Nil
  then show ?case by (auto intro!: exI[of _ "lib m"] exI[of _ v])
next
  case (Cons r rs)
  let ?turn = "seqP (bind_row lb 1 r) (seqP (CppSQLite3Statement_execDML lb) (CppSQLite3Statement_reset lb))"
  have len: "length r = length (dv_params v)" using Cons.prems(5) by simp
  obtain w1 v1 where w1: "?turn (t, m) = (Ret (), (t, m\<lparr>lib := w1\<rparr>))"
      "stmt_on dv h (t, m\<lparr>lib := w1\<rparr>) v1" "dv_ready v1" "dv_runs v1 = dv_runs v @ [r]" "dv_params v1 = r"
    using insert_row_run[OF Cons.prems(1-4) len] by blast
  obtain w2 v2 where w2: "insert_rows lb rs (t, m\<lparr>lib := w1\<rparr>) = (Ret (), (t, m\<lparr>lib := w2\<rparr>))"
      "stmt_on dv h (t, m\<lparr>lib := w2\<rparr>) v2" "dv_ready v2" "dv_runs v2 = dv_runs v @ r # rs"
    using Cons.IH[OF w1(2) Cons.prems(2,3) w1(3)] Cons.prems(5) w1(4,5) len by auto
  have "insert_rows lb (r # rs) = seqP ?turn (insert_rows lb rs)" by (simp add: seqP_assoc)
  then have "insert_rows lb (r # rs) (t, m) = (Ret (), (t, m\<lparr>lib := w2\<rparr>))"
    using w1(1) w2(1) by (simp only: seqP_def bindP_Ret)
  with w2(2-4) show ?case by blast
qed

end
