(* ===== verification/SqliteDB.thy ===== *)
theory SqliteDB
  imports SqliteResultSet SqliteStatement
begin

text \<open>
  \<open>CppSQLite3DB\<close> of \<open>src/CppSQLite3.cpp\<close>: the connection, and the operations that produce queries,
  result sets and statements.
\<close>

section \<open>The class\<close>

record sq_db =
  db_m_pDB :: "nat option"

type_synonym 'w sq_dbst = "sq_db \<times> 'w sq_mach"

definition CppSQLite3DB_default :: sq_db where
  "CppSQLite3DB_default = \<lparr>db_m_pDB = None\<rparr>"

definition CppSQLite3DB_copy :: "sq_db \<Rightarrow> sq_db" where
  "CppSQLite3DB_copy db = \<lparr>db_m_pDB = db_m_pDB db\<rparr>"

definition CppSQLite3DB_assign :: "sq_db \<Rightarrow> sq_db \<Rightarrow> sq_db" where
  "CppSQLite3DB_assign this db = this\<lparr>db_m_pDB := db_m_pDB db\<rparr>"

definition CppSQLite3DB_open :: "'w sqlite3_lib \<Rightarrow> string \<Rightarrow> ('w sq_dbst, sq_exn, unit) prog" where
  "CppSQLite3DB_open lb szFile =
     bindP (on_mach (call_open lb szFile)) (\<lambda>(nRet, pDB).
     seqP (upd_this (db_m_pDB_update (\<lambda>_. pDB)))
     (if nRet \<noteq> SQLITE_OK
      then bindP (on_mach (call_errmsg lb pDB)) (\<lambda>msg. on_mach (throw_sq lb nRet msg True))
      else ret ()))"

definition CppSQLite3DB_close :: "'w sqlite3_lib \<Rightarrow> ('w sq_dbst, sq_exn, unit) prog" where
  "CppSQLite3DB_close lb =
     bindP get_this (\<lambda>db.
     if db_m_pDB db \<noteq> None
     then bindP (on_mach (call_close lb (db_m_pDB db))) (\<lambda>nRet.
          if nRet = SQLITE_OK then upd_this (db_m_pDB_update (\<lambda>_. None))
          else on_mach (throw_sq lb CPPQLITE3_DB_ERROR (BorrowedMsg ''Unable to close database'') False))
     else ret ())"

definition CppSQLite3DB_destroy :: "'w sqlite3_lib \<Rightarrow> ('w sq_dbst, sq_exn, unit) prog" where
  "CppSQLite3DB_destroy lb = catch_all (CppSQLite3DB_close lb)"

definition CppSQLite3DB_checkDB :: "'w sqlite3_lib \<Rightarrow> ('w sq_dbst, sq_exn, unit) prog" where
  "CppSQLite3DB_checkDB lb =
     bindP get_this (\<lambda>db.
     if db_m_pDB db = None
     then on_mach (throw_sq lb CPPQLITE3_DB_ERROR (BorrowedMsg ''Database not open'') False)
     else ret ())"

text \<open>The message of \<open>sqlite3_exec\<close> is handed back to \<open>sqlite3_free\<close> by the exception.\<close>

definition CppSQLite3DB_execDML :: "'w sqlite3_lib \<Rightarrow> string \<Rightarrow> ('w sq_dbst, sq_exn, int) prog" where
  "CppSQLite3DB_execDML lb szSQL =
     seqP (CppSQLite3DB_checkDB lb)
     (bindP get_this (\<lambda>db.
      bindP (on_mach (call_exec lb (db_m_pDB db) szSQL)) (\<lambda>(nRet, szError).
      if nRet = SQLITE_OK then on_mach (db_call (db_m_pDB db) (sqlite3_changes lb))
      else on_mach (throw_sq lb nRet szError True))))"

definition CppSQLite3DB_compile ::
  "'w sqlite3_lib \<Rightarrow> string \<Rightarrow> ('w sq_dbst, sq_exn, nat option) prog" where
  "CppSQLite3DB_compile lb szSQL =
     seqP (CppSQLite3DB_checkDB lb)
     (bindP get_this (\<lambda>db.
      bindP (on_mach (call_prepare lb (db_m_pDB db) szSQL)) (\<lambda>(nRet, pVM).
      if nRet \<noteq> SQLITE_OK
      then bindP (on_mach (call_errmsg lb (db_m_pDB db))) (\<lambda>msg. on_mach (throw_sq lb nRet msg False))
      else ret pVM)))"

text \<open>
  In the error branch the arguments of the exception are evaluated from left to right; the order
  does not matter for what follows, the release of a message of the library.
\<close>

definition CppSQLite3DB_execQuery ::
  "'w sqlite3_lib \<Rightarrow> string \<Rightarrow> ('w sq_dbst, sq_exn, sq_query) prog" where
  "CppSQLite3DB_execQuery lb szSQL =
     seqP (CppSQLite3DB_checkDB lb)
     (bindP (CppSQLite3DB_compile lb szSQL) (\<lambda>pStmt.
      bindP get_this (\<lambda>db.
      bindP (on_mach (call_step lb pStmt)) (\<lambda>nRet.
      if nRet = SQLITE_DONE then on_mach (CppSQLite3Query_new lb (db_m_pDB db) pStmt True)
      else if nRet = SQLITE_ROW then on_mach (CppSQLite3Query_new lb (db_m_pDB db) pStmt False)
      else bindP (on_mach (call_finalize lb pStmt)) (\<lambda>nRet'.
           bindP (on_mach (call_errmsg lb (db_m_pDB db))) (\<lambda>msg.
           on_mach (throw_sq lb nRet' msg True)))))))"

definition scalar_body :: "'w sqlite3_lib \<Rightarrow> int \<Rightarrow> ('w sq_qst, sq_exn, int) prog" where
  "scalar_body lb nNullValue =
     bindP (bindP (CppSQLite3Query_eof lb) (\<lambda>atEnd.
            if atEnd then ret True
            else bindP (CppSQLite3Query_numFields lb) (\<lambda>n. ret (n < 1)))) (\<lambda>invalid.
     if invalid
     then on_mach (throw_sq lb CPPQLITE3_DB_ERROR (BorrowedMsg ''Invalid scalar query'') False)
     else CppSQLite3Query_getIntField lb 0 nNullValue)"

definition CppSQLite3DB_execScalar ::
  "'w sqlite3_lib \<Rightarrow> string \<Rightarrow> int \<Rightarrow> ('w sq_dbst, sq_exn, int) prog" where
  "CppSQLite3DB_execScalar lb szSQL nNullValue =
     bindP (CppSQLite3DB_execQuery lb szSQL) (\<lambda>q.
     with_local (CppSQLite3Query_destroy lb) q (scalar_body lb nNullValue))"

text \<open>The statement \<open>tableExists\<close> builds in a 256-byte array on the stack.\<close>

definition table_exists_sql :: "string \<Rightarrow> string" where
  "table_exists_sql szTable =
     ''select count(*) from sqlite_master where type='' @ [CHR 0x27] @ ''table'' @ [CHR 0x27] @
     '' and name='' @ [CHR 0x27] @ szTable @ [CHR 0x27]"

definition CppSQLite3DB_tableExists :: "'w sqlite3_lib \<Rightarrow> string \<Rightarrow> ('w sq_dbst, sq_exn, bool) prog" where
  "CppSQLite3DB_tableExists lb szTable =
     bindP (lift_outcome (read_cstr (snprintf (build lb) 255 (table_exists_sql szTable) (uninit_buf 256)))) (\<lambda>szSQL.
     bindP (CppSQLite3DB_execScalar lb szSQL 0) (\<lambda>nRet. ret (nRet > 0)))"

definition CppSQLite3DB_getResultSet ::
  "'w sqlite3_lib \<Rightarrow> string \<Rightarrow> ('w sq_dbst, sq_exn, sq_rset) prog" where
  "CppSQLite3DB_getResultSet lb szSQL =
     seqP (CppSQLite3DB_checkDB lb)
     (bindP get_this (\<lambda>db.
      bindP (on_mach (call_get_table lb (db_m_pDB db) szSQL)) (\<lambda>(nRet, paszResults, nRows, nCols, szError).
      if nRet = SQLITE_OK
      then ret (CppSQLite3ResultSet_new paszResults (int_to_ulong nRows) nCols)
      else on_mach (throw_sq lb nRet szError True))))"

definition CppSQLite3DB_compileStatement ::
  "'w sqlite3_lib \<Rightarrow> string \<Rightarrow> ('w sq_dbst, sq_exn, sq_stmt) prog" where
  "CppSQLite3DB_compileStatement lb szSQL =
     seqP (CppSQLite3DB_checkDB lb)
     (bindP (CppSQLite3DB_compile lb szSQL) (\<lambda>pStmt.
      bindP get_this (\<lambda>db. ret (CppSQLite3Statement_new (db_m_pDB db) pStmt))))"

definition CppSQLite3DB_startTransaction :: "'w sqlite3_lib \<Rightarrow> ('w sq_dbst, sq_exn, unit) prog" where
  "CppSQLite3DB_startTransaction lb = seqP (CppSQLite3DB_execDML lb ''begin transaction;'') (ret ())"

definition CppSQLite3DB_commitTransaction :: "'w sqlite3_lib \<Rightarrow> ('w sq_dbst, sq_exn, unit) prog" where
  "CppSQLite3DB_commitTransaction lb = seqP (CppSQLite3DB_execDML lb ''commit transaction;'') (ret ())"

definition CppSQLite3DB_rollback :: "'w sqlite3_lib \<Rightarrow> ('w sq_dbst, sq_exn, unit) prog" where
  "CppSQLite3DB_rollback lb = seqP (CppSQLite3DB_execDML lb ''rollback;'') (ret ())"

definition CppSQLite3DB_isTransaction :: "'w sqlite3_lib \<Rightarrow> ('w sq_dbst, sq_exn, bool) prog" where
  "CppSQLite3DB_isTransaction lb =
     seqP (CppSQLite3DB_checkDB lb)
     (bindP get_this (\<lambda>db.
      bindP (on_mach (db_call (db_m_pDB db) (sqlite3_get_autocommit lb))) (\<lambda>n.
      ret (if n \<noteq> 0 then False else True))))"

definition CppSQLite3DB_setBusyTimeout :: "'w sqlite3_lib \<Rightarrow> int \<Rightarrow> ('w sq_dbst, sq_exn, unit) prog" where
  "CppSQLite3DB_setBusyTimeout lb nMillisecs =
     bindP get_this (\<lambda>db.
     on_mach (\<lambda>m. if set_option (db_m_pDB db) \<subseteq> live_db m
                  then seqP (lib_call (sqlite3_busy_timeout lb (db_m_pDB db) nMillisecs)) (ret ()) m
                  else (Undef UseAfterFree, m)))"

definition CppSQLite3DB_getDBHandle :: "sq_db \<Rightarrow> nat option" where
  "CppSQLite3DB_getDBHandle db = db_m_pDB db"

section \<open>Running the operations\<close>

text \<open>An open database object.\<close>

definition db_open :: "'w sq_dbst \<Rightarrow> nat \<Rightarrow> bool" where
  "db_open s d \<longleftrightarrow> db_m_pDB (fst s) = Some d \<and> d \<in> live_db (snd s)"

lemma db_checkDB_open [prog_simps]:
  "db_m_pDB db = Some d \<Longrightarrow> CppSQLite3DB_checkDB lb (db, m) = (Ret (), (db, m))"
  by (simp add: CppSQLite3DB_checkDB_def prog_simps)

lemma db_checkDB_closed [prog_simps]:
  "db_m_pDB db = None \<Longrightarrow> CppSQLite3DB_checkDB lb (db, m) =
     (Throw (sq_error lb CPPQLITE3_DB_ERROR (Some ''Database not open'')), (db, m))"
  by (simp add: CppSQLite3DB_checkDB_def prog_simps)

text \<open>A statement that has just been prepared: nothing stepped, all rows to come.\<close>

definition stmt_fresh :: "string list \<Rightarrow> colval list list \<Rightarrow> int \<Rightarrow> stmt_view" where
  "stmt_fresh names rows rc =
     \<lparr>sv_names = names, sv_row = None, sv_rest = rows, sv_end = rc, sv_over = False, sv_conv = {}\<rparr>"

text \<open>
  The library accepts the text and its statement gives these rows.  Preparing a statement does not
  make another one fail.
\<close>

definition prepares ::
  "'w sqlite3_lib \<Rightarrow> 'w view \<Rightarrow> nat \<Rightarrow> string \<Rightarrow> 'w sq_mach \<Rightarrow> stmt_view \<Rightarrow> 'w \<Rightarrow> bool" where
  "prepares lb vw d sql m v w' \<longleftrightarrow>
     sqlite3_prepare_v2 lb d sql (next_id m) (lib m) = ((SQLITE_OK, True), w') \<and>
     vw w' (next_id m) = v \<and> stmt_wf v \<and>
     (\<forall>h. h \<noteq> next_id m \<longrightarrow> stmt_failed (vw w' h) = stmt_failed (vw (lib m) h))"

definition after_prepare :: "'w sq_mach \<Rightarrow> 'w \<Rightarrow> 'w sq_mach" where
  "after_prepare m w' =
     m\<lparr>next_id := Suc (next_id m), lib := w', live_stmt := insert (next_id m) (live_stmt m)\<rparr>"

lemma after_prepare_fields [simp]:
  "lib (after_prepare m w') = w'" "live_stmt (after_prepare m w') = insert (next_id m) (live_stmt m)"
  "live_db (after_prepare m w') = live_db m"
  by (simp_all add: after_prepare_def)

lemma compile_run [prog_simps]:
  assumes "db_open (db, m) d" and "prepares lb vw d sql m v w'"
  shows "CppSQLite3DB_compile lb sql (db, m) = (Ret (Some (next_id m)), (db, after_prepare m w'))"
  using assms
  by (simp add: CppSQLite3DB_compile_def db_open_def prepares_def call_prepare_def after_prepare_def
      prog_simps)

lemma compile_error:
  assumes "db_open (db, m) d"
    and "sqlite3_prepare_v2 lb d sql (next_id m) (lib m) = ((rc, False), w1)" and "rc \<noteq> SQLITE_OK"
    and "sqlite3_errmsg lb (Some d) w1 = (msg, w2)"
  shows "CppSQLite3DB_compile lb sql (db, m) =
           (Throw (sq_error lb rc (Some msg)), (db, m\<lparr>next_id := Suc (next_id m), lib := w2\<rparr>))"
  using assms
  by (simp add: CppSQLite3DB_compile_def db_open_def call_prepare_def prog_simps)

lemma stmt_fresh_fields [simp]:
  "sv_names (stmt_fresh names rows rc) = names" "sv_rest (stmt_fresh names rows rc) = rows"
  "sv_row (stmt_fresh names rows rc) = None" "sv_end (stmt_fresh names rows rc) = rc"
  "\<not> sv_over (stmt_fresh names rows rc)" "sv_conv (stmt_fresh names rows rc) = {}"
  by (simp_all add: stmt_fresh_def)

text \<open>
  What \<open>execQuery\<close> returns on a statement that gives rows and then \<open>SQLITE_DONE\<close>: a query on the
  first row, or at the end when there is none.
\<close>

lemma execQuery_run:
  assumes "db_open (db, m) d" and "prepares lb vw d sql m (stmt_fresh names rows SQLITE_DONE) w1"
    and "step_contract lb vw" and "name_contract lb vw"
  shows "\<exists>q w'. CppSQLite3DB_execQuery lb sql (db, m) = (Ret q, (db, after_prepare m w')) \<and>
           query_on vw (next_id m) (q, after_prepare m w') (stmt_stepped (stmt_fresh names rows SQLITE_DONE)) \<and>
           q_m_bEof q = (rows = []) \<and> q_m_pDB q = Init (Some d) \<and>
           (\<forall>h. h \<noteq> next_id m \<longrightarrow> stmt_failed (vw w' h) = stmt_failed (vw (lib m) h))"
proof -
  let ?h = "next_id m" and ?v = "stmt_fresh names rows SQLITE_DONE"
  have p: "vw w1 ?h = ?v" "stmt_wf ?v" "\<forall>h. h \<noteq> ?h \<longrightarrow> stmt_failed (vw w1 h) = stmt_failed (vw (lib m) h)"
    using assms(2) by (simp_all add: prepares_def)
  obtain w2 where w2: "sqlite3_step lb (Some ?h) w1 = (stmt_code ?v, w2)" "vw w2 ?h = stmt_stepped ?v"
      "\<forall>h. h \<noteq> ?h \<longrightarrow> stmt_failed (vw w2 h) = stmt_failed (vw w1 h)"
    using step_contractD[OF assms(3), of w1 ?h] p(1) by auto
  have m2: "(after_prepare m w1)\<lparr>lib := w2\<rparr> = after_prepare m w2" by (simp add: after_prepare_def)
  have db: "db_m_pDB db = Some d" using assms(1) by (simp add: db_open_def)
  obtain q w3 where q: "CppSQLite3Query_new lb (Some d) (Some ?h) (rows = []) (after_prepare m w2) =
        (Ret q, (after_prepare m w2)\<lparr>lib := w3\<rparr>)" "vw w3 = vw w2"
      "q = \<lparr>q_m_pDB = Init (Some d), q_m_pStmt = Some ?h, q_m_bEof = (rows = []),
            q_m_nFieldsCount = Init (int (length (sv_names (vw w2 ?h))))\<rparr>"
    using query_new_run[OF assms(4), of ?h "after_prepare m w2" "Some d" "rows = []"] by auto
  have m3: "(after_prepare m w2)\<lparr>lib := w3\<rparr> = after_prepare m w3" by (simp add: after_prepare_def)
  have "CppSQLite3DB_execQuery lb sql (db, m) = (Ret q, (db, after_prepare m w3))"
    using db w2(1) m2 m3 q(1)
    by (cases rows)
       (simp_all add: CppSQLite3DB_execQuery_def prog_simps compile_run[OF assms(1,2)]
         stmt_code_def sqlite_codes)
  moreover have "query_on vw ?h (q, after_prepare m w3) (stmt_stepped ?v)"
    using q(2,3) w2(2) p(2) by (simp add: query_on_def stmt_wf_stepped)
  ultimately show ?thesis
    using q(2,3) w2(3) p(3) by auto
qed

lemma execQuery_pending:
  assumes "db_open (db, m) d" and "prepares lb vw d sql m (stmt_fresh names rows SQLITE_DONE) w1"
    and "step_contract lb vw" and "name_contract lb vw" and "column_contract lb vw"
  shows "\<exists>q m'. CppSQLite3DB_execQuery lb sql (db, m) = (Ret q, (db, m')) \<and>
           query_pending lb vw dflt (q, m') (map (map (string_field dflt)) rows)"
proof -
  obtain q w' where q: "CppSQLite3DB_execQuery lb sql (db, m) = (Ret q, (db, after_prepare m w'))"
      "query_on vw (next_id m) (q, after_prepare m w') (stmt_stepped (stmt_fresh names rows SQLITE_DONE))"
      "q_m_bEof q = (rows = [])"
    using execQuery_run[OF assms(1-4)] by blast
  have "query_pending lb vw dflt (q, after_prepare m w') (map (map (string_field dflt)) rows)"
    unfolding query_pending_def
    using q(2,3) assms(3,5) stmt_stepped_Cons[of "stmt_fresh names rows SQLITE_DONE"]
    by (intro conjI exI[of _ "next_id m"] exI[of _ "stmt_stepped (stmt_fresh names rows SQLITE_DONE)"])
       (auto simp: neq_Nil_conv)
  with q(1) show ?thesis by blast
qed

section \<open>Scalars\<close>

lemma getIntField_run:
  assumes "query_on vw h (q, m) v" and "column_contract lb vw" and "readable v i"
  shows "\<exists>w' v'. CppSQLite3Query_getIntField lb i n (q, m) =
              (Ret (if cv_type (the_col v i) = SQLITE_NULL then n else cv_int (the_col v i)), (q, m\<lparr>lib := w'\<rparr>))
           \<and> vw w' h = v' \<and> same_row v v'"
proof -
  obtain w1 where w1: "CppSQLite3Query_fieldDataType lb i (q, m) = (Ret (cv_type (the_col v i)), (q, m\<lparr>lib := w1\<rparr>))"
      "query_on vw h (q, m\<lparr>lib := w1\<rparr>) v"
    using fieldDataType_run[OF assms] by blast
  have q: "q_m_pStmt q = Some h" "h \<in> live_stmt m" "vw w1 h = v"
    using w1(2) by (auto simp: query_on_def)
  obtain w2 where w2: "sqlite3_column_int lb h i w1 = (cv_int (the_col v i), w2)" "vw w2 h = stmt_converted i v"
    using column_contract_int[OF assms(2), of w1 h i] q(3) assms(3) by auto
  have "same_row v (stmt_converted i v)" by (simp add: same_row_def)
  then show ?thesis
    using w1(1) w2 q
    by (cases "cv_type (the_col v i) = SQLITE_NULL")
       (auto simp: CppSQLite3Query_getIntField_def CppSQLite3Query_fieldDataIsNull_def prog_simps)
qed

text \<open>The value \<open>execScalar\<close> gives for the rows of its statement, or its error.\<close>

definition scalar_of :: "'w sqlite3_lib \<Rightarrow> colval list list \<Rightarrow> int \<Rightarrow> (sq_exn, int) outcome" where
  "scalar_of lb rows n =
     (case rows of
        (c # cs) # rs \<Rightarrow> Ret (if cv_type c = SQLITE_NULL then n else cv_int c)
      | _ \<Rightarrow> Throw (sq_error lb CPPQLITE3_DB_ERROR (Some ''Invalid scalar query'')))"

lemma scalar_body_run:
  assumes "query_on vw h (q, m) (stmt_stepped v)" and "column_contract lb vw"
    and "q_m_bEof q = (sv_rest v = [])"
  shows "\<exists>w' v'. scalar_body lb n (q, m) = (scalar_of lb (sv_rest v) n, (q, m\<lparr>lib := w'\<rparr>)) \<and>
           vw w' h = v' \<and> same_row (stmt_stepped v) v'"
proof -
  have q: "q_m_pStmt q = Some h" "q_m_nFieldsCount q = Init (int (length (sv_names v)))"
      "vw (lib m) h = stmt_stepped v" "stmt_wf (stmt_stepped v)"
    using assms(1) by (simp_all add: query_on_def)
  show ?thesis
  proof (cases "sv_rest v")
    case Nil
    then show ?thesis
      using q assms(3) by (auto simp: scalar_body_def scalar_of_def prog_simps intro!: exI[of _ "lib m"])
  next
    case (Cons r rs)
    note row = stmt_stepped_Cons[OF Cons]
    have len: "length r = length (sv_names v)"
      using q(4) row by (simp add: stmt_wf_def)
    show ?thesis
    proof (cases r)
      case Nil
      then show ?thesis
        using q assms(3) Cons len
        by (auto simp: scalar_body_def scalar_of_def prog_simps intro!: exI[of _ "lib m"])
    next
      case (Cons c cs)
      have "readable (stmt_stepped v) 0" "the_col (stmt_stepped v) 0 = c"
        using row Cons by (simp_all add: readable_def the_col_def)
      with getIntField_run[OF assms(1,2), of 0 n] show ?thesis
        using q assms(3) \<open>sv_rest v = r # rs\<close> Cons len
        by (auto simp: scalar_body_def scalar_of_def prog_simps)
    qed
  qed
qed

lemma same_row_failed: "same_row v v' \<Longrightarrow> stmt_failed v' = stmt_failed v"
  by (simp add: same_row_def stmt_failed_def)

lemma stepped_ok_not_failed:
  "\<not> sv_over v \<Longrightarrow> sv_end v = SQLITE_DONE \<Longrightarrow> \<not> stmt_failed (stmt_stepped v)"
  by (simp add: stmt_failed_def)

lemma execScalar_run:
  assumes "db_open (db, m) d" and "prepares lb vw d sql m (stmt_fresh names rows SQLITE_DONE) w1"
    and "step_contract lb vw" and "name_contract lb vw" and "column_contract lb vw"
    and "finalize_contract lb vw"
  shows "\<exists>m'. CppSQLite3DB_execScalar lb sql n (db, m) = (scalar_of lb rows n, (db, m')) \<and>
           live_stmt m' = live_stmt m - {next_id m} \<and> live_msg m' = live_msg m \<and>
           live_db m' = live_db m \<and> tables m' = tables m"
proof -
  let ?h = "next_id m" and ?v = "stmt_fresh names rows SQLITE_DONE"
  obtain q w2 where q: "CppSQLite3DB_execQuery lb sql (db, m) = (Ret q, (db, after_prepare m w2))"
      "query_on vw ?h (q, after_prepare m w2) (stmt_stepped ?v)" "q_m_bEof q = (sv_rest ?v = [])"
    using execQuery_run[OF assms(1-4)] by auto
  have h: "q_m_pStmt q = Some ?h" using q(2) by (simp add: query_on_def)
  obtain w3 v3 where body: "scalar_body lb n (q, after_prepare m w2) =
        (scalar_of lb rows n, (q, (after_prepare m w2)\<lparr>lib := w3\<rparr>))"
      "vw w3 ?h = v3" "same_row (stmt_stepped ?v) v3"
    using scalar_body_run[OF q(2) assms(5) q(3), of n] by auto
  have "\<not> stmt_failed (vw w3 ?h)"
    using body(2,3) stepped_ok_not_failed[of ?v] same_row_failed by auto
  then obtain w4 where w4: "sqlite3_finalize lb (Some ?h) w3 = (SQLITE_OK, w4)"
    using finalize_contractD[OF assms(6)] by blast
  let ?m = "(after_prepare m w2)\<lparr>lib := w4, live_stmt := live_stmt (after_prepare m w2) - {?h}\<rparr>"
  have "CppSQLite3Query_destroy lb (q, (after_prepare m w2)\<lparr>lib := w3\<rparr>) = (Ret (), (q\<lparr>q_m_pStmt := None\<rparr>, ?m))"
    using h w4 by (simp add: CppSQLite3Query_destroy_def prog_simps)
  moreover have "\<not> is_undef (scalar_of lb rows n)"
    by (simp add: scalar_of_def split: list.split)
  ultimately have "CppSQLite3DB_execScalar lb sql n (db, m) = (scalar_of lb rows n, (db, ?m))"
    using q(1) body(1) by (simp add: CppSQLite3DB_execScalar_def with_local_def prog_simps)
  moreover have "live_stmt ?m = live_stmt m - {?h}" "live_msg ?m = live_msg m"
      "live_db ?m = live_db m" "tables ?m = tables m"
    by (auto simp: after_prepare_def)
  ultimately show ?thesis by blast
qed

lemma execDML_cases:
  assumes "db_open (db, m) d" and "sqlite3_exec lb d sql (lib m) = ((rc, err), w1)" and "ids_fresh m"
    and "\<not> sq_own_code rc" and "rc = SQLITE_OK \<Longrightarrow> err = None"
  shows "\<exists>m'. CppSQLite3DB_execDML lb sql (db, m) =
           (if rc = SQLITE_OK then Ret (fst (sqlite3_changes lb d w1)) else Throw (sq_error lb rc err), (db, m'))
         \<and> live_msg m' = live_msg m \<and> live_stmt m' = live_stmt m \<and> tables m' = tables m
         \<and> live_db m' = live_db m"
proof -
  have d: "db_m_pDB db = Some d" "d \<in> live_db m" using assms(1) by (simp_all add: db_open_def)
  have "next_id m \<notin> live_msg m" using assms(3) by (auto simp: ids_fresh_def)
  then show ?thesis
    using d assms(2,4,5)
    by (cases err; cases "sqlite3_changes lb d w1")
       (auto simp: CppSQLite3DB_execDML_def call_exec_def prog_simps)
qed

section \<open>Result sets\<close>

text \<open>
  What \<open>sqlite3_get_table\<close> returns for these names and rows, as \<open>sqlite3.h\<close> describes the array:
  the names first, then row after row.
\<close>

definition gives_table ::
  "'w sqlite3_lib \<Rightarrow> nat \<Rightarrow> string \<Rightarrow> 'w sq_mach \<Rightarrow> string list \<Rightarrow> string option list list \<Rightarrow> 'w \<Rightarrow> bool" where
  "gives_table lb d sql m names rows w' \<longleftrightarrow>
     sqlite3_get_table lb d sql (lib m) =
       ((SQLITE_OK, Some (map Some names @ concat rows), int (length rows), int (length names), None), w') \<and>
     (\<forall>r \<in> set rows. length r = length names) \<and>
     int ((length rows + 1) * length names) \<le> INT_MAX \<and> int (length rows) < INT_MAX"

lemma getResultSet_run:
  assumes "db_open (db, m) d" and "gives_table lb d sql m names rows w'"
  shows "CppSQLite3DB_getResultSet lb sql (db, m) =
     (Ret (CppSQLite3ResultSet_new (Some (next_id m)) (int_to_ulong (int (length rows))) (int (length names))),
      (db, m\<lparr>lib := w', next_id := Suc (next_id m),
             tables := (tables m)(next_id m \<mapsto> map Some names @ concat rows)\<rparr>))"
  using assms by (simp add: CppSQLite3DB_getResultSet_def db_open_def gives_table_def call_get_table_def prog_simps)

lemma getResultSet_on:
  assumes "db_open (db, m) d" and "gives_table lb d sql m names rows w'"
  shows "\<exists>t m'. CppSQLite3DB_getResultSet lb sql (db, m) = (Ret t, (db, m')) \<and>
           rset_on (t, m') names rows \<and> rs_m_nCurrentRow t = 0 \<and> live_msg m' = live_msg m \<and>
           live_stmt m' = live_stmt m"
  using getResultSet_run[OF assms] assms(2)
  by (auto simp: rset_on_def gives_table_def CppSQLite3ResultSet_new_def int_to_ulong_def)

text \<open>A text the library refuses: the code and message are thrown, and the message is released.\<close>

lemma getResultSet_refused:
  assumes "db_open (db, m) d" and "ids_fresh m" and "rc \<noteq> SQLITE_OK" and "\<not> sq_own_code rc"
    and "sqlite3_get_table lb d sql (lib m) = ((rc, None, nr, nc, err), w')"
  shows "\<exists>m'. CppSQLite3DB_getResultSet lb sql (db, m) = (Throw (sq_error lb rc err), (db, m')) \<and>
           live_msg m' = live_msg m \<and> tables m' = tables m"
proof -
  have "next_id m \<notin> live_msg m" using assms(2) by (auto simp: ids_fresh_def)
  then show ?thesis
    using assms(1,3-5)
    by (cases err) (simp_all add: CppSQLite3DB_getResultSet_def db_open_def call_get_table_def prog_simps)
qed

section \<open>Connections that are not open\<close>

lemma closed_operations:
  assumes "db_m_pDB db = None"
  shows "CppSQLite3DB_execDML lb sql (db, m) =
           (Throw (sq_error lb CPPQLITE3_DB_ERROR (Some ''Database not open'')), (db, m))"
    and "CppSQLite3DB_execQuery lb sql (db, m) =
           (Throw (sq_error lb CPPQLITE3_DB_ERROR (Some ''Database not open'')), (db, m))"
    and "CppSQLite3DB_getResultSet lb sql (db, m) =
           (Throw (sq_error lb CPPQLITE3_DB_ERROR (Some ''Database not open'')), (db, m))"
    and "CppSQLite3DB_compileStatement lb sql (db, m) =
           (Throw (sq_error lb CPPQLITE3_DB_ERROR (Some ''Database not open'')), (db, m))"
    and "CppSQLite3DB_isTransaction lb (db, m) =
           (Throw (sq_error lb CPPQLITE3_DB_ERROR (Some ''Database not open'')), (db, m))"
  using assms
  by (simp_all add: CppSQLite3DB_execDML_def CppSQLite3DB_execQuery_def CppSQLite3DB_getResultSet_def
      CppSQLite3DB_compileStatement_def CppSQLite3DB_isTransaction_def prog_simps)

section \<open>Tables by name\<close>

lemma table_exists_sql_length: "length (table_exists_sql t) = 65 + length t"
  by (simp add: table_exists_sql_def)

lemma cstring_table_exists_sql: "cstring (table_exists_sql t) = cstring t"
  by (simp add: table_exists_sql_def NUL_def)

lemma tableExists_run:
  assumes "db_open (db, m) d" and "prepares lb vw d sql m (stmt_fresh names rows SQLITE_DONE) w1"
    and "step_contract lb vw" and "name_contract lb vw" and "column_contract lb vw"
    and "finalize_contract lb vw"
    and "sql = table_exists_sql szTable" and "cstring szTable" and "length szTable \<le> 189"
    and "rows = [[c]]" and "cv_type c \<noteq> SQLITE_NULL"
  shows "\<exists>m'. CppSQLite3DB_tableExists lb szTable (db, m) = (Ret (cv_int c > 0), (db, m')) \<and>
           live_stmt m' = live_stmt m - {next_id m}"
proof -
  obtain m' where m': "CppSQLite3DB_execScalar lb sql 0 (db, m) = (Ret (cv_int c), (db, m'))"
      "live_stmt m' = live_stmt m - {next_id m}"
    using execScalar_run[OF assms(1-6), of 0] assms(10,11) by (auto simp: scalar_of_def)
  have sql: "cstring sql" "length sql < 255"
    using assms(7-9) by (simp_all add: table_exists_sql_length cstring_table_exists_sql)
  have "read_cstr (snprintf (build lb) 255 sql (uninit_buf 256)) = (Ret sql :: (sq_exn, string) outcome)"
    using read_snprintf_C99_uninit[OF sql(1), of 255 256] read_snprintf_MSVC_uninit[OF sql(1), of 255 256] sql(2)
    by (cases "build lb") auto
  then have "bindP (lift_outcome (read_cstr (snprintf (build lb) 255 sql (uninit_buf 256)))) k s = k sql s"
    for k :: "string \<Rightarrow> ('a sq_dbst, sq_exn, bool) prog" and s
    by (simp add: bindP_def lift_outcome_def)
  then show ?thesis
    using m' assms(7) by (simp add: CppSQLite3DB_tableExists_def bindP_Ret del: snprintf.simps)
qed

text \<open>Microsoft's \<open>_snprintf\<close> leaves a name that fills the array without a NUL.\<close>

lemma tableExists_MSVC_long:
  assumes "build lb = MSVC" and "cstring szTable" and "length szTable \<ge> 190"
  shows "CppSQLite3DB_tableExists lb szTable (db, m) = (Undef UninitRead, (db, m))"
proof -
  have sql: "cstring (table_exists_sql szTable)" "\<not> length (table_exists_sql szTable) < 255"
    using assms(2,3) by (simp_all add: table_exists_sql_length cstring_table_exists_sql)
  have "lift_outcome (read_cstr (snprintf (build lb) 255 (table_exists_sql szTable) (uninit_buf 256))) (db, m) =
      (Undef UninitRead, (db, m))"
    using read_snprintf_MSVC_uninit[OF sql(1), of 255 256] sql(2) assms(1) by (simp del: snprintf.simps)
  then show ?thesis
    unfolding CppSQLite3DB_tableExists_def by (rule bindP_Undef)
qed

section \<open>Statements that are queries\<close>

text \<open>
  \<open>CppSQLite3Statement::execQuery\<close> hands its statement to the query it returns.  Both branches say
  \<open>bEof = false\<close>, so a statement without rows gives a query that does not stand at its end.
\<close>

lemma stmt_execQuery_run:
  assumes "st_m_pStmt t = Some h" and "h \<in> live_stmt m" and "st_m_pDB t = Some d"
    and "vw (lib m) h = stmt_fresh names rows SQLITE_DONE" and "stmt_wf (vw (lib m) h)"
    and "step_contract lb vw" and "name_contract lb vw"
  shows "\<exists>q w'. CppSQLite3Statement_execQuery lb (t, m) = (Ret q, (t\<lparr>st_m_pStmt := None\<rparr>, m\<lparr>lib := w'\<rparr>)) \<and>
           query_on vw h (q, m\<lparr>lib := w'\<rparr>) (stmt_stepped (stmt_fresh names rows SQLITE_DONE)) \<and>
           q_m_bEof q = False"
proof -
  let ?v = "stmt_fresh names rows SQLITE_DONE"
  obtain w1 where w1: "sqlite3_step lb (Some h) (lib m) = (stmt_code ?v, w1)" "vw w1 h = stmt_stepped ?v"
    using step_contractD[OF assms(6), of "lib m" h] assms(4) by auto
  obtain w2 where w2: "CppSQLite3Query_new lb (Some d) (Some h) False (m\<lparr>lib := w1\<rparr>) =
      (Ret \<lparr>q_m_pDB = Init (Some d), q_m_pStmt = Some h, q_m_bEof = False,
            q_m_nFieldsCount = Init (int (length (sv_names (vw w1 h))))\<rparr>, m\<lparr>lib := w2\<rparr>)" "vw w2 = vw w1"
    using query_new_run[OF assms(7), of h "m\<lparr>lib := w1\<rparr>" "Some d" False] assms(2) by auto
  let ?q = "\<lparr>q_m_pDB = Init (Some d), q_m_pStmt = Some h, q_m_bEof = False,
            q_m_nFieldsCount = Init (int (length (sv_names (vw w1 h))))\<rparr>"
  have "CppSQLite3Statement_execQuery lb (t, m) = (Ret ?q, (t\<lparr>st_m_pStmt := None\<rparr>, m\<lparr>lib := w2\<rparr>))"
    using assms(1-3) w1(1) w2(1)
    by (cases rows) (simp_all add: CppSQLite3Statement_execQuery_def stmt_code_def sqlite_codes prog_simps)
  moreover have "query_on vw h (?q, m\<lparr>lib := w2\<rparr>) (stmt_stepped ?v)"
    using w1(2) w2(2) assms(2,4,5) stmt_wf_stepped by (simp add: query_on_def)
  ultimately show ?thesis by fastforce
qed

lemma isTransaction_run:
  assumes "db_open (db, m) d" and "sqlite3_get_autocommit lb d (lib m) = (n, w')"
  shows "CppSQLite3DB_isTransaction lb (db, m) = (Ret (n = 0), (db, m\<lparr>lib := w'\<rparr>))"
  using assms by (simp add: CppSQLite3DB_isTransaction_def db_open_def prog_simps)

section \<open>Transactions\<close>

fun sq_tx_op :: "'w sqlite3_lib \<Rightarrow> tx_op \<Rightarrow> ('w sq_dbst, sq_exn, unit) prog" where
  "sq_tx_op lb TxStart = CppSQLite3DB_startTransaction lb"
| "sq_tx_op lb TxCommit = CppSQLite3DB_commitTransaction lb"
| "sq_tx_op lb TxRollback = CppSQLite3DB_rollback lb"

text \<open>A client that makes the calls one after the other and survives the ones that throw.\<close>

definition sq_tx_session :: "'w sqlite3_lib \<Rightarrow> tx_op list \<Rightarrow> ('w sq_dbst, sq_exn, bool list) prog" where
  "sq_tx_session lb ops = mapP (\<lambda>op. attempt (sq_tx_op lb op)) ops"

fun tx_sql :: "tx_op \<Rightarrow> string" where
  "tx_sql TxStart = ''begin transaction;''"
| "tx_sql TxCommit = ''commit transaction;''"
| "tx_sql TxRollback = ''rollback;''"

text \<open>
  SQLite's side: \<open>av w d\<close> is the autocommit mode of connection \<open>d\<close>.  The statements that do not fit
  the mode are refused with a message and change nothing.
\<close>

definition sq_tx_contract :: "'w sqlite3_lib \<Rightarrow> ('w \<Rightarrow> nat \<Rightarrow> bool) \<Rightarrow> bool" where
  "sq_tx_contract lb av \<longleftrightarrow>
     (\<forall>w d op. tx_valid (\<not> av w d) op \<longrightarrow>
        (\<exists>w'. sqlite3_exec lb d (tx_sql op) w = ((SQLITE_OK, None), w') \<and> av w' d = (\<not> av w d))) \<and>
     (\<forall>w d op. \<not> tx_valid (\<not> av w d) op \<longrightarrow>
        (\<exists>msg w'. sqlite3_exec lb d (tx_sql op) w = ((SQLITE_ERROR, Some msg), w') \<and> av w' d = av w d)) \<and>
     (\<forall>w d. \<exists>n w'. sqlite3_changes lb d w = (n, w') \<and> av w' d = av w d) \<and>
     (\<forall>w d. \<exists>w'. sqlite3_get_autocommit lb d w = (if av w d then 1 else 0, w') \<and> av w' d = av w d)"

lemma sq_tx_contractD:
  assumes "sq_tx_contract lb av"
  shows "tx_valid (\<not> av w d) op \<Longrightarrow>
      \<exists>w'. sqlite3_exec lb d (tx_sql op) w = ((SQLITE_OK, None), w') \<and> av w' d = (\<not> av w d)"
    and "\<not> tx_valid (\<not> av w d) op \<Longrightarrow>
      \<exists>msg w'. sqlite3_exec lb d (tx_sql op) w = ((SQLITE_ERROR, Some msg), w') \<and> av w' d = av w d"
    and "\<exists>n w'. sqlite3_changes lb d w = (n, w') \<and> av w' d = av w d"
    and "\<exists>w'. sqlite3_get_autocommit lb d w = (if av w d then 1 else 0, w') \<and> av w' d = av w d"
  using assms unfolding sq_tx_contract_def by blast+

lemma sq_tx_op_execDML: "sq_tx_op lb op = seqP (CppSQLite3DB_execDML lb (tx_sql op)) (ret ())"
  by (cases op) (simp_all add: CppSQLite3DB_startTransaction_def CppSQLite3DB_commitTransaction_def
      CppSQLite3DB_rollback_def)

lemma sq_tx_op_run:
  assumes "db_open (db, m) d" and "sq_tx_contract lb av" and "av (lib m) d = (\<not> b)"
  shows "\<exists>m'. attempt (sq_tx_op lb op) (db, m) = (Ret (tx_valid b op), (db, m')) \<and> db_open (db, m') d \<and>
           av (lib m') d = (\<not> (if tx_valid b op then \<not> b else b))"
proof (cases "tx_valid b op")
  case True
  then obtain w1 where w1: "sqlite3_exec lb d (tx_sql op) (lib m) = ((SQLITE_OK, None), w1)" "av w1 d = b"
    using sq_tx_contractD(1)[OF assms(2), of "lib m" d op] assms(3) by auto
  obtain n w2 where w2: "sqlite3_changes lb d w1 = (n, w2)" "av w2 d = b"
    using sq_tx_contractD(3)[OF assms(2), of d w1] w1(2) by auto
  have "sq_tx_op lb op (db, m) = (Ret (), (db, m\<lparr>lib := w2\<rparr>))"
    using assms(1) w1(1) w2(1)
    by (simp add: sq_tx_op_execDML CppSQLite3DB_execDML_def db_open_def call_exec_def prog_simps)
  then show ?thesis using True assms(1) w2(2) by (simp add: db_open_def prog_simps)
next
  case False
  then obtain msg w1 where w1: "sqlite3_exec lb d (tx_sql op) (lib m) = ((SQLITE_ERROR, Some msg), w1)"
      "av w1 d = av (lib m) d"
    using sq_tx_contractD(2)[OF assms(2), of "lib m" d op] assms(3) by auto
  have "\<not> sq_own_code SQLITE_ERROR" "SQLITE_ERROR \<noteq> SQLITE_OK"
    by (simp_all add: sq_own_code_def sq_error_codes sqlite_codes)
  then have "sq_tx_op lb op (db, m) =
      (Throw (sq_error lb SQLITE_ERROR (Some msg)),
       (db, m\<lparr>lib := w1, next_id := Suc (next_id m), live_msg := live_msg m - {next_id m}\<rparr>))"
    using assms(1) w1(1)
    by (simp add: sq_tx_op_execDML CppSQLite3DB_execDML_def db_open_def call_exec_def prog_simps)
  then show ?thesis using False assms(1,3) w1(2) by (simp add: db_open_def prog_simps)
qed

lemma sq_tx_session_run:
  "db_open (db, m) d \<Longrightarrow> sq_tx_contract lb av \<Longrightarrow> av (lib m) d = (\<not> b) \<Longrightarrow>
   \<exists>m'. sq_tx_session lb ops (db, m) = (Ret (fst (tx_strict b ops)), (db, m')) \<and> db_open (db, m') d \<and>
     av (lib m') d = (\<not> snd (tx_strict b ops))"
proof (induction ops arbitrary: m b)
  case Nil
  then show ?case by (simp add: sq_tx_session_def)
next
  case (Cons op ops)
  obtain m1 where m1: "attempt (sq_tx_op lb op) (db, m) = (Ret (tx_valid b op), (db, m1))" "db_open (db, m1) d"
      "av (lib m1) d = (\<not> (if tx_valid b op then \<not> b else b))"
    using sq_tx_op_run[OF Cons.prems] by blast
  have "bindP (attempt (sq_tx_op lb op)) k (db, m) = k (tx_valid b op) (db, m1)"
    for k :: "bool \<Rightarrow> ('a sq_dbst, sq_exn, bool list) prog"
    using m1(1) by (rule bindP_Ret)
  with Cons.IH[OF m1(2) Cons.prems(2) m1(3)] show ?case
    by (auto simp: sq_tx_session_def Let_def prog_simps split: prod.splits)
qed

end
