(* ===== verification/SqliteSample.thy ===== *)
theory SqliteSample
  imports SqliteDB
begin

text \<open>
  Two small SQLite libraries that keep the contracts, for evaluating the wrapper on concrete data:
  one whose every statement gives the same rows, one whose statements take parameters.
\<close>

section \<open>A library that does nothing\<close>

definition inert_lib :: "'w sqlite3_lib" where
  "inert_lib =
     \<lparr>build = C99,
      sqlite3_open = (\<lambda>file d w. ((SQLITE_OK, True), w)),
      sqlite3_close = (\<lambda>d w. (SQLITE_OK, w)),
      sqlite3_exec = (\<lambda>d sql w. ((SQLITE_OK, None), w)),
      sqlite3_changes = (\<lambda>d w. (1, w)),
      sqlite3_get_table = (\<lambda>d sql w. ((SQLITE_ERROR, None, 0, 0, Some ''syntax error''), w)),
      sqlite3_prepare_v2 = (\<lambda>d sql h w. ((SQLITE_ERROR, False), w)),
      sqlite3_step = (\<lambda>p w. (SQLITE_MISUSE, w)),
      sqlite3_finalize = (\<lambda>p w. (SQLITE_OK, w)),
      sqlite3_reset = (\<lambda>h w. (SQLITE_OK, w)),
      sqlite3_errmsg = (\<lambda>p w. (''not an error'', w)),
      sqlite3_get_autocommit = (\<lambda>d w. (1, w)),
      sqlite3_busy_timeout = (\<lambda>p n w. (SQLITE_OK, w)),
      sqlite3_column_count = (\<lambda>h w. (0, w)),
      sqlite3_column_name = (\<lambda>h i w. (None, w)),
      sqlite3_column_type = (\<lambda>h i w. (SQLITE_NULL, w)),
      sqlite3_column_text = (\<lambda>h i w. (None, w)),
      sqlite3_column_int = (\<lambda>h i w. (0, w)),
      sqlite3_column_double = (\<lambda>h i w. (0, w)),
      sqlite3_column_bytes = (\<lambda>h i w. (0, w)),
      sqlite3_column_blob = (\<lambda>h i w. (None, w)),
      sqlite3_bind_text = (\<lambda>h i s w. (SQLITE_MISUSE, w)),
      sqlite3_bind_int = (\<lambda>h i n w. (SQLITE_MISUSE, w)),
      sqlite3_bind_double = (\<lambda>h i x w. (SQLITE_MISUSE, w)),
      sqlite3_bind_blob = (\<lambda>h i b n w. (SQLITE_MISUSE, w)),
      sqlite3_bind_null = (\<lambda>h i w. (SQLITE_MISUSE, w))\<rparr>"

section \<open>A library with one table\<close>

text \<open>
  Every text prepares a statement with these column names and rows, whose evaluation ends with the
  code \<open>rc\<close>; the library state holds the statements.
\<close>

definition query_lib :: "string list \<Rightarrow> colval list list \<Rightarrow> int \<Rightarrow> (nat \<Rightarrow> stmt_view) sqlite3_lib" where
  "query_lib names rows rc =
     inert_lib
     \<lparr>sqlite3_get_table :=
        (\<lambda>d sql w. ((SQLITE_OK, Some (map Some names @ concat (map (map cv_text) rows)),
                    int (length rows), int (length names), None), w)),
      sqlite3_prepare_v2 := (\<lambda>d sql h w. ((SQLITE_OK, True), w(h := stmt_fresh names rows rc))),
      sqlite3_step :=
        (\<lambda>p w. case p of
                 None \<Rightarrow> (SQLITE_MISUSE, w)
               | Some h \<Rightarrow> (stmt_code (w h), w(h := stmt_stepped (w h)))),
      sqlite3_finalize :=
        (\<lambda>p w. case p of
                 None \<Rightarrow> (SQLITE_OK, w)
               | Some h \<Rightarrow> (if stmt_failed (w h) then sv_end (w h) else SQLITE_OK, w)),
      sqlite3_column_count := (\<lambda>h w. (int (length (sv_names (w h))), w)),
      sqlite3_column_name :=
        (\<lambda>h i w. (if 0 \<le> i \<and> i < int (length (sv_names (w h)))
                   then Some (sv_names (w h) ! nat i) else None, w)),
      sqlite3_column_type := (\<lambda>h i w. (cv_type (the_col (w h) i), w)),
      sqlite3_column_text :=
        (\<lambda>h i w. (cv_text (the_col (w h) i), w(h := stmt_converted i (w h)))),
      sqlite3_column_int :=
        (\<lambda>h i w. (cv_int (the_col (w h) i), w(h := stmt_converted i (w h)))),
      sqlite3_column_double :=
        (\<lambda>h i w. (cv_double (the_col (w h) i), w(h := stmt_converted i (w h)))),
      sqlite3_column_bytes := (\<lambda>h i w. (cv_bytes (the_col (w h) i), w)),
      sqlite3_column_blob :=
        (\<lambda>h i w. (cv_blob (the_col (w h) i), w(h := stmt_converted i (w h))))\<rparr>"

definition query_view :: "(nat \<Rightarrow> stmt_view) view" where
  "query_view w h = w h"

lemma query_lib_step: "step_contract (query_lib names rows rc) query_view"
  by (simp add: step_contract_def query_lib_def query_view_def)

lemma query_lib_name: "name_contract (query_lib names rows rc) query_view"
  by (simp add: name_contract_def query_lib_def query_view_def)

lemma query_lib_column: "column_contract (query_lib names rows rc) query_view"
  by (simp add: column_contract_def query_lib_def query_view_def)

lemma query_lib_finalize: "finalize_contract (query_lib names rows rc) query_view"
  by (simp add: finalize_contract_def query_lib_def query_view_def)

lemmas query_lib_contracts = query_lib_step query_lib_name query_lib_column query_lib_finalize

text \<open>A machine with one open connection, number 0.\<close>

definition one_conn :: "'w \<Rightarrow> 'w sq_mach" where
  "one_conn w =
     \<lparr>lib = w, next_id = 1, live_db = {0}, live_stmt = {}, tables = Map.empty, live_msg = {}\<rparr>"

definition conn0 :: sq_db where
  "conn0 = \<lparr>db_m_pDB = Some 0\<rparr>"

definition empty_world :: "nat \<Rightarrow> stmt_view" where
  "empty_world = (\<lambda>_. stmt_fresh [] [] SQLITE_DONE)"

lemma conn0_open: "db_open (conn0, one_conn w) 0"
  by (simp add: db_open_def conn0_def one_conn_def)

lemma query_lib_prepares:
  "\<forall>r \<in> set rows. length r = length names \<Longrightarrow> int (length names) \<le> INT_MAX \<Longrightarrow>
   prepares (query_lib names rows rc) query_view 0 sql (one_conn w) (stmt_fresh names rows rc)
     (w(1 := stmt_fresh names rows rc))"
  by (simp add: prepares_def query_lib_def query_view_def one_conn_def stmt_wf_def)

text \<open>Two columns, two rows, one value NULL.\<close>

definition int_cell :: "int \<Rightarrow> colval" where
  "int_cell n =
     \<lparr>cv_type = SQLITE_INTEGER, cv_text = Some (show_int n), cv_int = n, cv_double = 0,
      cv_bytes = int (length (show_int n)), cv_blob = None\<rparr>"

definition text_cell :: "string \<Rightarrow> colval" where
  "text_cell s =
     \<lparr>cv_type = SQLITE_TEXT, cv_text = Some s, cv_int = strtol10 s, cv_double = 0,
      cv_bytes = int (length s), cv_blob = None\<rparr>"

definition null_cell :: colval where
  "null_cell =
     \<lparr>cv_type = SQLITE_NULL, cv_text = None, cv_int = 0, cv_double = 0, cv_bytes = 0, cv_blob = None\<rparr>"

definition emp_names :: "string list" where
  "emp_names = [''empno'', ''empname'']"

definition emp_rows :: "colval list list" where
  "emp_rows = [[int_cell 7, text_cell ''David''], [int_cell 8, null_cell]]"

definition emp_lib :: "(nat \<Rightarrow> stmt_view) sqlite3_lib" where
  "emp_lib = query_lib emp_names emp_rows SQLITE_DONE"

lemma emp_prepares:
  "prepares emp_lib query_view 0 sql (one_conn w) (stmt_fresh emp_names emp_rows SQLITE_DONE)
     (w(1 := stmt_fresh emp_names emp_rows SQLITE_DONE))"
  unfolding emp_lib_def
  by (rule query_lib_prepares) (simp_all add: emp_names_def emp_rows_def INT_MAX_def)

lemma emp_contracts:
  "step_contract emp_lib query_view" "name_contract emp_lib query_view"
  "column_contract emp_lib query_view" "finalize_contract emp_lib query_view"
  unfolding emp_lib_def by (rule query_lib_contracts)+

lemma emp_rows_values:
  "length emp_rows = 2" "length emp_names = 2"
  "map (map (string_field (Some ''-''))) emp_rows = [[Some ''7'', Some ''David''], [Some ''8'', Some ''-'']]"
  by (simp_all add: emp_rows_def emp_names_def int_cell_def text_cell_def null_cell_def string_field_def
      show_int_def show_nat.simps digit_chars sqlite_codes)

text \<open>A query on the first row of a statement, and a result set on a copy of the table.\<close>

definition emp_world :: "nat \<Rightarrow> stmt_view" where
  "emp_world = (\<lambda>_. stmt_stepped (stmt_fresh emp_names emp_rows SQLITE_DONE))"

definition emp_query :: sq_query where
  "emp_query =
     \<lparr>q_m_pDB = Init (Some 0), q_m_pStmt = Some 1, q_m_bEof = False, q_m_nFieldsCount = Init 2\<rparr>"

definition one_stmt :: "'w \<Rightarrow> 'w sq_mach" where
  "one_stmt w =
     \<lparr>lib = w, next_id = 2, live_db = {0}, live_stmt = {1}, tables = Map.empty, live_msg = {}\<rparr>"

lemma emp_query_on:
  "query_on query_view 1 (emp_query, one_stmt emp_world) (stmt_stepped (stmt_fresh emp_names emp_rows SQLITE_DONE))"
  by (simp add: query_on_def emp_query_def one_stmt_def query_view_def emp_world_def emp_rows_values
      stmt_wf_def stmt_stepped_def stmt_fresh_def emp_rows_def emp_names_def INT_MAX_def)

definition emp_table :: "string option list list" where
  "emp_table = [[Some ''7'', Some ''David''], [Some ''8'', None]]"

definition one_table :: "(nat \<Rightarrow> stmt_view) sq_mach" where
  "one_table = (one_stmt emp_world)\<lparr>tables := [5 \<mapsto> map Some emp_names @ concat emp_table]\<rparr>"

lemma emp_gives_table:
  "gives_table emp_lib 0 sql (one_conn w) emp_names emp_table w"
  by (simp add: gives_table_def emp_lib_def query_lib_def emp_table_def emp_names_def emp_rows_def one_conn_def
      int_cell_def text_cell_def null_cell_def show_int_def show_nat.simps digit_chars INT_MAX_def)

definition emp_rset :: sq_rset where
  "emp_rset = CppSQLite3ResultSet_new (Some 5) 2 2"

lemma emp_rset_on: "rset_on (emp_rset, one_table) emp_names emp_table"
  by (simp add: rset_on_def emp_rset_def one_table_def emp_table_def emp_names_def
      CppSQLite3ResultSet_new_def INT_MAX_def)

lemma emp_rset_pending:
  "rset_pending (emp_rset, one_table) emp_table" "rset_rows (emp_rset, one_table) = emp_table"
  using rset_pendingI[OF emp_rset_on, of 0] rset_rows_on[OF emp_rset_on]
  by (simp_all add: emp_rset_def CppSQLite3ResultSet_new_def)

section \<open>A library with parameters\<close>

text \<open>The state holds, per statement, the parameters and the executions so far.\<close>

definition dml_bind :: "nat \<Rightarrow> int \<Rightarrow> bindval \<Rightarrow> (nat \<Rightarrow> dml_view) \<Rightarrow> int \<times> (nat \<Rightarrow> dml_view)" where
  "dml_bind h i b w =
     (if bindable (w h) i then (SQLITE_OK, w(h := dml_bound i b (w h))) else (SQLITE_MISUSE, w))"

definition dml_lib :: "(nat \<Rightarrow> dml_view) sqlite3_lib" where
  "dml_lib =
     inert_lib
     \<lparr>sqlite3_exec := (\<lambda>d sql w. ((SQLITE_ERROR, Some ''syntax error''), w)),
      sqlite3_prepare_v2 :=
        (\<lambda>d sql h w. ((SQLITE_OK, True),
           w(h := \<lparr>dv_params = [BindNull, BindNull], dv_ready = True, dv_runs = []\<rparr>))),
      sqlite3_step :=
        (\<lambda>p w. case p of
                 None \<Rightarrow> (SQLITE_MISUSE, w)
               | Some h \<Rightarrow> (if dv_ready (w h) then (SQLITE_DONE, w(h := dml_ran (w h)))
                           else (SQLITE_MISUSE, w))),
      sqlite3_reset := (\<lambda>h w. (SQLITE_OK, w(h := (w h)\<lparr>dv_ready := True\<rparr>))),
      sqlite3_bind_text := (\<lambda>h i s. dml_bind h i (case s of None \<Rightarrow> BindNull | Some t \<Rightarrow> BindText t)),
      sqlite3_bind_int := (\<lambda>h i n. dml_bind h i (BindInt n)),
      sqlite3_bind_double := (\<lambda>h i x. dml_bind h i (BindDouble x)),
      sqlite3_bind_blob :=
        (\<lambda>h i b n. dml_bind h i (case b of None \<Rightarrow> BindNull | Some bs \<Rightarrow> BindBlob (take (nat n) bs))),
      sqlite3_bind_null := (\<lambda>h i. dml_bind h i BindNull)\<rparr>"

definition params_view :: "(nat \<Rightarrow> dml_view) \<Rightarrow> nat \<Rightarrow> dml_view" where
  "params_view w h = w h"

lemma dml_lib_bind: "bind_contract dml_lib params_view"
  unfolding bind_contract_def
proof (intro allI impI)
  fix w h i b assume "bindable (params_view w h) i"
  then show "\<exists>w'. sqlite3_bind_value dml_lib i b h w = (SQLITE_OK, w') \<and>
      params_view w' h = dml_bound i b (params_view w h)"
    by (cases b) (simp_all add: dml_lib_def dml_bind_def params_view_def)
qed

lemma dml_lib_dml: "dml_contract dml_lib params_view"
  by (simp add: dml_contract_def dml_lib_def inert_lib_def params_view_def)

text \<open>A statement object on statement 1 of connection 0, with two parameters.\<close>

definition stmt1 :: sq_stmt where
  "stmt1 = CppSQLite3Statement_new (Some 0) (Some 1)"

definition params_world :: "nat \<Rightarrow> dml_view" where
  "params_world = (\<lambda>_. \<lparr>dv_params = [BindNull, BindNull], dv_ready = True, dv_runs = []\<rparr>)"

lemma stmt1_on: "stmt_on params_view 1 (stmt1, one_stmt params_world) (params_world 1)"
  by (simp add: stmt_on_def stmt1_def one_stmt_def params_view_def CppSQLite3Statement_new_def)

section \<open>A library with transactions\<close>

text \<open>The state is the autocommit mode of every connection.\<close>

definition tx_lib :: "(nat \<Rightarrow> bool) sqlite3_lib" where
  "tx_lib =
     inert_lib
     \<lparr>sqlite3_exec :=
        (\<lambda>d sql w.
           if sql = tx_sql TxStart
           then if w d then ((SQLITE_OK, None), w(d := False))
                else ((SQLITE_ERROR, Some ''cannot start a transaction within a transaction''), w)
           else if w d then ((SQLITE_ERROR, Some ''no transaction is active''), w)
                else ((SQLITE_OK, None), w(d := True))),
      sqlite3_get_autocommit := (\<lambda>d w. (if w d then 1 else 0, w))\<rparr>"

definition mode_view :: "(nat \<Rightarrow> bool) \<Rightarrow> nat \<Rightarrow> bool" where
  "mode_view w d = w d"

lemma tx_lib_contract: "sq_tx_contract tx_lib mode_view"
proof -
  have "tx_sql op = tx_sql TxStart \<longleftrightarrow> op = TxStart" for op by (cases op) simp_all
  then show ?thesis
    by (simp add: sq_tx_contract_def tx_lib_def inert_lib_def mode_view_def tx_valid_def del: tx_sql.simps)
qed

section \<open>A library with a log\<close>

text \<open>Every text is executed and logged for its connection.\<close>

definition log_lib :: "(nat \<Rightarrow> string list) sqlite3_lib" where
  "log_lib = inert_lib\<lparr>sqlite3_exec := (\<lambda>d sql w. ((SQLITE_OK, None), w(d := w d @ [sql])))\<rparr>"

end
