(* ===== verification/SqliteProperties.thy ===== *)
theory SqliteProperties
  imports SqliteSample
begin

text \<open>
  What the SQLite wrapper guarantees, and where it does not do what its documentation says: the
  properties of \<open>src/CppSQLite3.cpp\<close>, each with a concrete instance.
\<close>

section \<open>Exceptions\<close>

text \<open>
  C29: whatever the error code and the message, the constructed exception carries the code and a
  terminated message: the bracketed class name and the caller's text, cut to 254 characters where
  \<open>snprintf\<close> is the C99 function and to 255 where it is Microsoft's \<open>_snprintf\<close>; no read of the
  array leaves it.
\<close>

theorem exception_message:
  assumes "\<forall>s. msg_text msg = Some s \<longrightarrow> cstring s"
    and "CppSQLite3Exception lb n msg isFree m = (Ret e, m')"
  shows "CppSQLite3Exception_errorCode e = n \<and>
         length (sqe_m_aszErrMess e) = 256 \<and>
         CppSQLite3Exception_errorMessage e =
           Ret (take (case build lb of C99 \<Rightarrow> 254 | MSVC \<Rightarrow> 255)
                  (''['' @ sq_class_name n @ ''] '' @ (case msg_text msg of None \<Rightarrow> [] | Some s \<Rightarrow> s)))"
proof -
  have "e = sq_error lb n (msg_text msg)"
    using assms(2)
    by (auto simp: CppSQLite3Exception_def sq_error_def Let_def bindP_def seqP_def
        split: if_splits prod.splits outcome.splits)
  moreover have "GET_ERROR_MESSAGE c t = ''['' @ c @ ''] '' @ (case t of None \<Rightarrow> [] | Some s \<Rightarrow> s)" for c t
    by (cases t) (simp_all add: GET_ERROR_MESSAGE_def)
  moreover have "snprintf_keeps p 255 = (case p of C99 \<Rightarrow> 254 | MSVC \<Rightarrow> 255)" for p
    by (cases p) simp_all
  moreover have "CppSQLite3Exception_errorMessage (sq_error lb n (msg_text msg)) =
      Ret (take (snprintf_keeps (build lb) 255) (GET_ERROR_MESSAGE (sq_class_name n) (msg_text msg)))"
    by (rule errorMessage_sq_error) (use assms(1) in blast)
  ultimately show ?thesis
    by (simp only: CppSQLite3Exception_errorCode_def sq_error_code length_sq_error BUF_SIZE_def
        simp_thms)
qed

lemma exception_message_witness:
  "\<exists>e m'. CppSQLite3Exception emp_lib SQLITE_ERROR (BorrowedMsg ''no such table'') False (one_conn empty_world) = (Ret e, m') \<and>
     CppSQLite3Exception_errorMessage e = Ret ''[sqlite3] no such table''"
proof -
  let ?m = "one_conn empty_world"
  have run: "CppSQLite3Exception emp_lib SQLITE_ERROR (BorrowedMsg ''no such table'') False ?m =
      (Ret (sq_error emp_lib SQLITE_ERROR (Some ''no such table'')), ?m)"
    by (simp add: CppSQLite3Exception_plain)
  have "CppSQLite3Exception_errorMessage (sq_error emp_lib SQLITE_ERROR (Some ''no such table'')) =
      Ret ''[sqlite3] no such table''"
    using exception_message[OF _ run]
    by (simp add: NUL_def emp_lib_def query_lib_def inert_lib_def sq_class_name_def sq_error_codes sqlite_codes)
  with run show ?thesis by blast
qed

section \<open>Queries\<close>

text \<open>
  C1: on a statement that gives \<open>rows\<close> and ends with \<open>SQLITE_DONE\<close>, \<open>execQuery\<close> followed by the loop
  \<open>while (!q.eof()) { read every column; q.nextRow(); }\<close> terminates within \<open>length rows + 1\<close> turns,
  reads exactly those rows in order, each value as \<open>getStringField\<close> gives it (the default for NULL),
  and leaves the query at its end; no step is undefined or throws.
\<close>

theorem sq_query_traversal:
  assumes "db_open (db, m) d" and "prepares lb vw d sql m (stmt_fresh names rows SQLITE_DONE) w1"
    and "step_contract lb vw" and "name_contract lb vw" and "column_contract lb vw"
    and "length rows < fuel"
  shows "\<exists>q m' s'. CppSQLite3DB_execQuery lb sql (db, m) = (Ret q, (db, m')) \<and>
           fetch_all fuel (CppSQLite3Query_eof lb) (query_row lb dflt) (CppSQLite3Query_nextRow lb) (q, m') =
             Some (Ret (map (map (string_field dflt)) rows), s') \<and>
           CppSQLite3Query_eof lb s' = (Ret True, s')"
proof -
  obtain q m' where q: "CppSQLite3DB_execQuery lb sql (db, m) = (Ret q, (db, m'))"
      "query_pending lb vw dflt (q, m') (map (map (string_field dflt)) rows)"
    using execQuery_pending[OF assms(1-5)] by blast
  from sq_cursor.fetch_all_pending[OF q(2), of fuel] assms(6) obtain s' where
    "fetch_all fuel (CppSQLite3Query_eof lb) (query_row lb dflt) (CppSQLite3Query_nextRow lb) (q, m') =
       Some (Ret (map (map (string_field dflt)) rows), s')" "query_pending lb vw dflt s' []"
    by auto
  with q(1) show ?thesis using sq_cursor.eof_at_end by blast
qed

lemma sq_query_traversal_witness:
  "\<exists>q m' s'. CppSQLite3DB_execQuery emp_lib ''select * from emp order by 1'' (conn0, one_conn empty_world) = (Ret q, (conn0, m')) \<and>
     fetch_all 3 (CppSQLite3Query_eof emp_lib) (query_row emp_lib (Some ''-'')) (CppSQLite3Query_nextRow emp_lib) (q, m') =
       Some (Ret [[Some ''7'', Some ''David''], [Some ''8'', Some ''-'']], s')"
proof -
  have "length emp_rows < 3" by (simp add: emp_rows_values)
  from sq_query_traversal[OF conn0_open emp_prepares emp_contracts(1-3) this,
      of "''select * from emp order by 1''" empty_world "Some ''-''"]
  show ?thesis unfolding emp_rows_values(3) by blast
qed

text \<open>
  C26: \<open>execScalar\<close> returns the first column of the first row as an integer, the null value for NULL,
  and otherwise throws "Invalid scalar query"; on every one of these ways out the statement it
  prepared is finalized and nothing else the machine holds has changed.
\<close>

theorem sq_execScalar_value:
  assumes "db_open (db, m) d" and "prepares lb vw d sql m (stmt_fresh names rows SQLITE_DONE) w1"
    and "step_contract lb vw" and "name_contract lb vw" and "column_contract lb vw"
    and "finalize_contract lb vw" and "ids_fresh m"
  shows "\<exists>m'. CppSQLite3DB_execScalar lb sql n (db, m) =
             ((case rows of
                 (c # cs) # rs \<Rightarrow> Ret (if cv_type c = SQLITE_NULL then n else cv_int c)
               | _ \<Rightarrow> Throw (sq_error lb CPPQLITE3_DB_ERROR (Some ''Invalid scalar query''))), (db, m')) \<and>
           live_stmt m' = live_stmt m \<and> live_msg m' = live_msg m \<and> live_db m' = live_db m \<and>
           tables m' = tables m"
proof -
  have "next_id m \<notin> live_stmt m" using assms(7) by (auto simp: ids_fresh_def)
  then show ?thesis
    using execScalar_run[OF assms(1-6), of n] by (simp add: scalar_of_def)
qed

lemma sq_execScalar_value_witness:
  "\<exists>m'. CppSQLite3DB_execScalar emp_lib ''select max(empno) from emp'' 0 (conn0, one_conn empty_world) =
          (Ret 7, (conn0, m')) \<and> live_stmt m' = {}"
proof -
  have "ids_fresh (one_conn empty_world)" by (simp add: ids_fresh_def one_conn_def)
  from sq_execScalar_value[OF conn0_open emp_prepares emp_contracts this, of "''select max(empno) from emp''" 0]
  show ?thesis
    by (auto simp: emp_rows_def int_cell_def SQLITE_NULL_def SQLITE_INTEGER_def one_conn_def)
qed

text \<open>
  C30: \<open>fieldIndex\<close> returns the least column of that name; a name that occurs nowhere is the exception
  "Invalid field name requested".  The cursor does not move.
\<close>

theorem sq_fieldIndex_least:
  assumes "query_on vw h (q, m) v" and "name_contract lb vw"
  shows "\<exists>r w'. CppSQLite3Query_fieldIndex lb (Some f) (q, m) = (r, (q, m\<lparr>lib := w'\<rparr>)) \<and>
           query_on vw h (q, m\<lparr>lib := w'\<rparr>) v \<and>
           (if f \<in> set (sv_names v)
            then \<exists>k < length (sv_names v). r = Ret (int k) \<and> sv_names v ! k = f \<and> (\<forall>j < k. sv_names v ! j \<noteq> f)
            else r = Throw (sq_error lb CPPQLITE3L_QUERY_ERROR (Some ''Invalid field name requested'')))"
proof (cases "least_index f (sv_names v)")
  case None
  then show ?thesis
    using fieldIndex_run[OF assms, of f] by (auto simp: least_index_None[symmetric])
next
  case (Some k)
  have "f \<in> set (sv_names v)"
    using Some least_index_None[of f "sv_names v"] by auto
  then show ?thesis
    using fieldIndex_run[OF assms, of f] Some least_index_Some[OF Some] by auto
qed

lemma sq_fieldIndex_least_witness:
  "\<exists>r w'. CppSQLite3Query_fieldIndex emp_lib (Some ''empname'') (emp_query, one_stmt emp_world) =
      (r, (emp_query, (one_stmt emp_world)\<lparr>lib := w'\<rparr>)) \<and> r = Ret 1"
proof -
  have n: "sv_names (stmt_stepped (stmt_fresh emp_names emp_rows SQLITE_DONE)) = [''empno'', ''empname'']"
    by (simp add: emp_names_def)
  have k: "k = 1" if "k < length [''empno'', ''empname'']" "[''empno'', ''empname''] ! k = ''empname''" for k
    using that by (auto simp: less_Suc_eq numeral_2_eq_2)
  from sq_fieldIndex_least[OF emp_query_on emp_contracts(2), of "''empname''"]
  show ?thesis unfolding n using k by auto
qed

text \<open>The exception for a column number outside the row.\<close>

abbreviation sq_invalid_field :: "'w sqlite3_lib \<Rightarrow> (sq_exn, 'a) outcome" where
  "sq_invalid_field lb \<equiv>
     Throw (sq_error lb CPPQLITE3L_QUERY_ERROR (Some ''Invalid field index requested''))"

text \<open>
  C31: reading a column number outside the row through \<open>fieldName\<close>, \<open>fieldDataType\<close>,
  \<open>fieldDataIsNull\<close>, \<open>getIntField\<close>, \<open>getDoubleField\<close>, \<open>getStringField\<close> or \<open>getBlobField\<close> throws
  "Invalid field index requested" before the library is called, whatever the number is.
\<close>

theorem sq_column_bounds:
  assumes "query_on vw h (q, m) v" and "i < 0 \<or> int (length (sv_names v)) \<le> i"
  shows "CppSQLite3Query_fieldName lb i (q, m) = (sq_invalid_field lb, (q, m)) \<and>
         CppSQLite3Query_fieldDataType lb i (q, m) = (sq_invalid_field lb, (q, m)) \<and>
         CppSQLite3Query_fieldDataIsNull lb i (q, m) = (sq_invalid_field lb, (q, m)) \<and>
         CppSQLite3Query_getIntField lb i n (q, m) = (sq_invalid_field lb, (q, m)) \<and>
         CppSQLite3Query_getDoubleField lb i x (q, m) = (sq_invalid_field lb, (q, m)) \<and>
         CppSQLite3Query_getStringField lb i d (q, m) = (sq_invalid_field lb, (q, m)) \<and>
         CppSQLite3Query_getBlobField lb i (q, m) = (sq_invalid_field lb, (q, m))"
proof -
  have q: "q_m_pStmt q = Some h" "q_m_nFieldsCount q = Init (int (length (sv_names v)))"
      "in_int (int (length (sv_names v)) - 1)"
    using assms(1) query_on_in_int[OF assms(1)] by (simp_all add: query_on_def)
  have chk: "query_check_col lb i (q, m) = (sq_invalid_field lb, (q, m))"
    using q assms(2) by (auto simp: query_check_col_def prog_simps)
  have ty: "CppSQLite3Query_fieldDataType lb i (q, m) = (sq_invalid_field lb, (q, m))"
    using q(1) chk by (simp add: CppSQLite3Query_fieldDataType_def prog_simps)
  then have nul: "CppSQLite3Query_fieldDataIsNull lb i (q, m) = (sq_invalid_field lb, (q, m))"
    by (simp add: CppSQLite3Query_fieldDataIsNull_def prog_simps)
  show ?thesis
    using q(1) chk ty nul
    by (simp add: CppSQLite3Query_fieldName_def CppSQLite3Query_getIntField_def
        CppSQLite3Query_getDoubleField_def CppSQLite3Query_getStringField_def
        CppSQLite3Query_getBlobField_def prog_simps)
qed

lemma sq_column_bounds_witness:
  "CppSQLite3Query_getIntField emp_lib 2 0 (emp_query, one_stmt emp_world) =
     (sq_invalid_field emp_lib, (emp_query, one_stmt emp_world))"
  using sq_column_bounds[OF emp_query_on, of 2] by (simp add: emp_names_def)

section \<open>Errors of the library\<close>

text \<open>
  C28: when \<open>sqlite3_exec\<close> fails with a message, \<open>execDML\<close> throws its code and the text of the message,
  and the memory of the message has been released: no message, statement or table is left behind.
  When it succeeds the number of changes is returned.
\<close>

theorem sq_execDML_outcomes:
  assumes "db_open (db, m) d" and "sqlite3_exec lb d sql (lib m) = ((rc, err), w1)" and "ids_fresh m"
    and "\<not> sq_own_code rc" and "rc = SQLITE_OK \<longrightarrow> err = None"
  shows "\<exists>m'. CppSQLite3DB_execDML lb sql (db, m) =
           (if rc = SQLITE_OK then Ret (fst (sqlite3_changes lb d w1)) else Throw (sq_error lb rc err), (db, m'))
         \<and> live_msg m' = live_msg m \<and> live_stmt m' = live_stmt m \<and> tables m' = tables m
         \<and> live_db m' = live_db m"
  by (rule execDML_cases[OF assms(1-4) mp[OF assms(5)]])

lemma sq_execDML_outcomes_witness:
  "\<exists>m'. CppSQLite3DB_execDML dml_lib ''drop tabel emp'' (conn0, one_conn params_world) =
          (Throw (sq_error dml_lib SQLITE_ERROR (Some ''syntax error'')), (conn0, m')) \<and> live_msg m' = {}"
proof -
  have e: "sqlite3_exec dml_lib 0 ''drop tabel emp'' (lib (one_conn params_world)) =
      ((SQLITE_ERROR, Some ''syntax error''), params_world)"
    by (simp add: dml_lib_def inert_lib_def one_conn_def)
  have f: "ids_fresh (one_conn params_world)" by (simp add: ids_fresh_def one_conn_def)
  have c: "\<not> sq_own_code SQLITE_ERROR" "SQLITE_ERROR \<noteq> SQLITE_OK"
    by (simp_all add: sq_own_code_def sq_error_codes sqlite_codes)
  from sq_execDML_outcomes[OF conn0_open e f c(1)] c(2) show ?thesis
    by (auto simp: one_conn_def)
qed

text \<open>
  C40: a failing \<open>sqlite3_open\<close> is not reported by an exception: \<open>open\<close> hands the message of
  \<open>sqlite3_errmsg\<close>, which belongs to the library, to \<open>sqlite3_free\<close>.  The behaviour is undefined
  for every error code of the library.
\<close>

theorem sq_open_error_invalid_free:
  assumes "sqlite3_open lb file (next_id m) (lib m) = ((rc, True), w1)" and "rc \<noteq> SQLITE_OK"
    and "\<not> sq_own_code rc"
  shows "fst (CppSQLite3DB_open lb file (db, m)) = Undef InvalidFree"
proof -
  obtain s w2 where "sqlite3_errmsg lb (Some (next_id m)) w1 = (s, w2)"
    by (cases "sqlite3_errmsg lb (Some (next_id m)) w1")
  then show ?thesis
    using assms by (simp add: CppSQLite3DB_open_def call_open_def prog_simps)
qed

lemma sq_open_error_invalid_free_witness:
  "fst (CppSQLite3DB_open (emp_lib\<lparr>sqlite3_open := (\<lambda>file d w. ((14, True), w))\<rparr>) ''/no/such/dir/x.db''
          (CppSQLite3DB_default, one_conn empty_world)) = Undef InvalidFree"
  by (rule sq_open_error_invalid_free[where rc = 14])
     (simp_all add: one_conn_def sqlite_codes sq_own_code_def sq_error_codes)

text \<open>
  A query whose next row cannot be fetched (the statement ends with an error code instead of
  \<open>SQLITE_DONE\<close>) does not throw either: \<open>nextRow\<close> finalizes the statement and then releases the
  message of the connection, which is undefined.
\<close>

theorem sq_nextRow_error_invalid_free:
  assumes "query_on vw h (q, m) v" and "q_m_pDB q = Init (Some d)" and "d \<in> live_db m"
    and "step_contract lb vw" and "sv_rest v = []" and "\<not> sv_over v"
    and "sv_end v \<notin> {SQLITE_DONE, SQLITE_ROW}"
    and "\<not> sq_own_code (sv_end v)"
    and "\<forall>w. vw w h = stmt_stepped v \<longrightarrow> fst (sqlite3_finalize lb (Some h) w) = sv_end v"
  shows "fst (CppSQLite3Query_nextRow lb (q, m)) = Undef InvalidFree"
proof -
  have q: "q_m_pStmt q = Some h" "h \<in> live_stmt m" "vw (lib m) h = v"
    using assms(1) by (simp_all add: query_on_def)
  obtain w1 where w1: "sqlite3_step lb (Some h) (lib m) = (sv_end v, w1)" "vw w1 h = stmt_stepped v"
    using step_contractD[OF assms(4), of "lib m" h] assms(5,6) q(3) by (auto simp: stmt_code_def)
  obtain rc w2 where w2: "sqlite3_finalize lb (Some h) w1 = (rc, w2)"
    by (cases "sqlite3_finalize lb (Some h) w1")
  obtain s w3 where w3: "sqlite3_errmsg lb (Some d) w2 = (s, w3)"
    by (cases "sqlite3_errmsg lb (Some d) w2")
  have "\<not> sq_own_code rc" using assms(8,9) w1(2) w2 by (metis fst_conv)
  then show ?thesis
    using q(1,2) assms(2,3,7) w1(1) w2 w3
    by (simp add: CppSQLite3Query_nextRow_def query_throw_errmsg_def prog_simps)
qed

lemma sq_nextRow_error_invalid_free_witness:
  "fst (CppSQLite3Query_nextRow (query_lib emp_names [] SQLITE_BUSY)
          (emp_query, one_stmt (\<lambda>_. stmt_fresh emp_names [] SQLITE_BUSY))) = Undef InvalidFree"
proof (rule sq_nextRow_error_invalid_free[where v = "stmt_fresh emp_names [] SQLITE_BUSY" and d = 0])
  show "query_on query_view 1 (emp_query, one_stmt (\<lambda>_. stmt_fresh emp_names [] SQLITE_BUSY))
      (stmt_fresh emp_names [] SQLITE_BUSY)"
    by (simp add: query_on_def emp_query_def one_stmt_def query_view_def emp_rows_values stmt_wf_def INT_MAX_def)
  show "step_contract (query_lib emp_names [] SQLITE_BUSY) query_view" by (rule query_lib_step)
  show "\<forall>w. query_view w 1 = stmt_stepped (stmt_fresh emp_names [] SQLITE_BUSY) \<longrightarrow>
      fst (sqlite3_finalize (query_lib emp_names [] SQLITE_BUSY) (Some 1) w) =
      sv_end (stmt_fresh emp_names [] SQLITE_BUSY)"
    by (simp add: query_lib_def query_view_def stmt_failed_def stmt_stepped_Nil sqlite_codes)
qed (simp_all add: emp_query_def one_stmt_def sqlite_codes sq_own_code_def sq_error_codes)

section \<open>Ownership\<close>

text \<open>
  C2: however a program constructs, copies, assigns, clears and destroys query objects, as long as no
  live statement has failed: every statement handle held by an object is live and held by that object
  alone, no clear, assignment or destruction is undefined (no double finalize, no use after
  finalize), and every live handle above the initial ones is held by some object, so nothing leaks.
\<close>

theorem sq_query_ownership:
  assumes "stmts_good lb vw m0"
    and "reachable_store (sq_query_ops lb) (query_acquired lb vw) m0 (objs, m)"
  shows "single_owner q_m_pStmt (live_stmt m) objs \<and>
         (\<forall>u. \<not> store_fault (sq_query_ops lb) (objs, m) u) \<and>
         all_held q_m_pStmt (live_stmt m - live_stmt m0) objs"
  using sq_query_owner.reachable_owners[OF assms] sq_query_owner.reachable_safe[OF assms]
    sq_query_owner.reachable_no_leak[OF assms]
  by (auto intro: single_ownerI all_heldI)

text \<open>A query moved from address 0 to address 1.\<close>

lemma emp_query_moves:
  "reachable_store (sq_query_ops emp_lib) (query_acquired emp_lib query_view)
     ((one_stmt emp_world)\<lparr>live_stmt := {}\<rparr>)
     ([0 \<mapsto> emp_query\<lparr>q_m_pStmt := None\<rparr>, 1 \<mapsto> emp_query\<lparr>q_m_pDB := Uninit\<rparr>], one_stmt emp_world)"
proof (rule reachable_store.step)
  have count: "sqlite3_column_count emp_lib 1 emp_world = (2, emp_world)"
    by (simp add: emp_lib_def query_lib_def emp_world_def emp_rows_values)
  have "CppSQLite3Query_new emp_lib (Some 0) (Some 1) False (one_stmt emp_world) =
      (Ret emp_query, (one_stmt emp_world)\<lparr>lib := emp_world\<rparr>)"
    using count by (simp add: CppSQLite3Query_new_def emp_query_def one_stmt_def prog_simps)
  then have "query_acquired emp_lib query_view ((one_stmt emp_world)\<lparr>live_stmt := {}\<rparr>) emp_query (one_stmt emp_world)"
    unfolding query_acquired_def
    by (intro disjI2 exI[of _ "one_stmt emp_world"] exI[of _ 1] exI[of _ "Some 0"] exI[of _ False])
       (simp add: emp_contracts one_stmt_def unfailed_def query_view_def stmt_failed_def emp_world_def
         stmt_stepped_Cons emp_rows_def)
  then show "reachable_store (sq_query_ops emp_lib) (query_acquired emp_lib query_view)
      ((one_stmt emp_world)\<lparr>live_stmt := {}\<rparr>) ([0 \<mapsto> emp_query], one_stmt emp_world)"
    by (intro reachable_store.step[OF reachable_store.start] store_step.acquire) simp_all
  show "store_step (sq_query_ops emp_lib) (query_acquired emp_lib query_view) ([0 \<mapsto> emp_query], one_stmt emp_world)
      ([0 \<mapsto> emp_query\<lparr>q_m_pStmt := None\<rparr>, 1 \<mapsto> emp_query\<lparr>q_m_pDB := Uninit\<rparr>], one_stmt emp_world)"
    using store_step.copy[of "[0 \<mapsto> emp_query]" 0 emp_query 1 "sq_query_ops emp_lib"
        "emp_query\<lparr>q_m_pDB := Uninit\<rparr>" "emp_query\<lparr>q_m_pStmt := None\<rparr>"]
    by (simp add: sq_query_ops_def CppSQLite3Query_copy_def emp_query_def)
qed

lemma sq_query_ownership_witness:
  "single_owner q_m_pStmt {1} [0 \<mapsto> emp_query\<lparr>q_m_pStmt := None\<rparr>, 1 \<mapsto> emp_query\<lparr>q_m_pDB := Uninit\<rparr>]"
proof -
  have "stmts_good emp_lib query_view ((one_stmt emp_world)\<lparr>live_stmt := {}\<rparr>)"
    by (simp add: stmts_good_def emp_contracts unfailed_def)
  from sq_query_ownership[OF this emp_query_moves] show ?thesis by (simp add: one_stmt_def)
qed

text \<open>
  C11: the same for result sets and their tables, without any assumption on the library: no table is
  freed twice or used after it was freed, each has one owner, and none leaks.
\<close>

theorem sq_rset_ownership:
  assumes "reachable_store sq_rset_ops rset_acquired m0 (objs, m)"
  shows "single_owner rs_m_paszResults (dom (tables m)) objs \<and>
         (\<forall>u. \<not> store_fault sq_rset_ops (objs, m) u) \<and>
         all_held rs_m_paszResults (dom (tables m) - dom (tables m0)) objs"
  using sq_rset_owner.reachable_owners[OF TrueI assms] sq_rset_owner.reachable_safe[OF TrueI assms]
    sq_rset_owner.reachable_no_leak[OF TrueI assms]
  by (auto intro: single_ownerI[where live = "\<lambda>m. dom (tables m)", simplified]
      all_heldI[where live = "\<lambda>m. dom (tables m)", simplified])

lemma sq_rset_ownership_witness:
  "single_owner rs_m_paszResults {5} [0 \<mapsto> emp_rset]"
proof -
  let ?m0 = "one_table\<lparr>tables := Map.empty\<rparr>"
  have "rset_acquired ?m0 emp_rset one_table"
    by (auto simp: rset_acquired_def emp_rset_def one_table_def)
  then have "reachable_store sq_rset_ops rset_acquired ?m0 ([0 \<mapsto> emp_rset], one_table)"
    by (intro reachable_store.step[OF reachable_store.start] store_step.acquire) simp_all
  from sq_rset_ownership[OF this] show ?thesis by (simp add: one_table_def)
qed




text \<open>
  The statement class leaks: after an assignment over a statement object that holds a handle, the handle is
  still live and no object holds it.
\<close>

theorem sq_stmt_assign_leaks:
  assumes "single_owner st_m_pStmt (live_stmt m) objs" and "a \<noteq> b"
    and "objs a = Some x" and "objs b = Some y" and "st_m_pStmt x = Some h"
  shows "\<exists>objs'. store_step (sq_stmt_ops lb) (stmt_acquired vw) (objs, m) (objs', m) \<and>
           h \<in> live_stmt m \<and> \<not> (\<exists>c z. objs' c = Some z \<and> st_m_pStmt z = Some h)"
proof -
  have h: "h \<in> live_stmt m" "objs c = Some z \<Longrightarrow> st_m_pStmt z = Some h \<Longrightarrow> c = a" for c z
    using assms(1,3,5) unfolding single_owner_def by blast+
  let ?x = "x\<lparr>st_m_pDB := st_m_pDB y, st_m_pStmt := st_m_pStmt y\<rparr>" and ?y = "y\<lparr>st_m_pStmt := None\<rparr>"
  have "store_step (sq_stmt_ops lb) (stmt_acquired vw) (objs, m) (objs(a \<mapsto> ?x, b \<mapsto> ?y), m)"
    by (rule store_step.assign[OF assms(2-4)]) (simp add: sq_stmt_ops_def CppSQLite3Statement_assign_def)
  moreover have "st_m_pStmt y \<noteq> Some h" using h(2)[OF assms(4)] assms(2) by auto
  then have "\<not> (\<exists>c z. (objs(a \<mapsto> ?x, b \<mapsto> ?y)) c = Some z \<and> st_m_pStmt z = Some h)"
    using h(2) by (auto split: if_splits)
  ultimately show ?thesis using h(1) by blast
qed

lemma sq_stmt_assign_leaks_witness:
  "\<exists>objs'. store_step (sq_stmt_ops emp_lib) (stmt_acquired query_view)
       ([0 \<mapsto> CppSQLite3Statement_new (Some 0) (Some 1), 1 \<mapsto> CppSQLite3Statement_default], one_stmt emp_world)
       (objs', one_stmt emp_world) \<and> 1 \<in> live_stmt (one_stmt emp_world) \<and>
     \<not> (\<exists>c z. objs' c = Some z \<and> st_m_pStmt z = Some 1)"
  by (rule sq_stmt_assign_leaks[where a = 0 and b = 1])
     (auto simp: single_owner_def one_stmt_def CppSQLite3Statement_new_def CppSQLite3Statement_default_def)

section \<open>Result sets\<close>

text \<open>
  C16: the result set of \<open>getResultSet\<close> reads, for any list of row numbers in any order and with
  repetitions, \<open>seekRow(k)\<close> and then every column, exactly those rows of the table; rewinding with
  \<open>seekRow(0)\<close> and running the forward loop then reads all rows.
\<close>

theorem sq_rset_random_access:
  assumes "db_open (db, m) d" and "gives_table lb d sql m names rows w'" and "\<forall>k \<in> set ks. k < length rows"
    and "rows \<noteq> []" and "length rows < fuel"
  shows "\<exists>t m1 s2 i s3 s4. CppSQLite3DB_getResultSet lb sql (db, m) = (Ret t, (db, m1)) \<and>
     fetch_rows (\<lambda>k. CppSQLite3ResultSet_seekRow (of_nat k)) (rset_row lb) ks (t, m1) =
       (Ret (map ((!) rows) ks), s2) \<and>
     CppSQLite3ResultSet_seekRow (of_nat 0) s2 = (Ret i, s3) \<and>
     fetch_all fuel CppSQLite3ResultSet_eof (rset_row lb) CppSQLite3ResultSet_nextRow s3 = Some (Ret rows, s4)"
proof -
  obtain t m1 where t: "CppSQLite3DB_getResultSet lb sql (db, m) = (Ret t, (db, m1))" "rset_on (t, m1) names rows"
      "rs_m_nCurrentRow t = 0"
    using getResultSet_on[OF assms(1,2)] by blast
  have p: "rset_pending (t, m1) rows" using rset_pendingI[OF t(2), of 0] t(3) by simp
  have r: "rset_rows (t, m1) = rows" using rset_rows_on[OF t(2)] .
  obtain s2 rs' where s2: "fetch_rows (\<lambda>k. CppSQLite3ResultSet_seekRow (of_nat k)) (rset_row lb) ks (t, m1) =
      (Ret (map ((!) rows) ks), s2)" "rset_rows s2 = rows" "rset_pending s2 rs'"
    using sq_rset_cursor.fetch_rows_any_order[OF p, where ks = ks and lb = lb] assms(3) unfolding r by blast
  obtain i s3 s4 where "CppSQLite3ResultSet_seekRow (of_nat 0) s2 = (Ret i, s3)"
      "fetch_all fuel CppSQLite3ResultSet_eof (rset_row lb) CppSQLite3ResultSet_nextRow s3 = Some (Ret rows, s4)"
    using sq_rset_cursor.rewind_fetch_all[OF s2(3), where fuel = fuel and lb = lb] assms(4,5)
    unfolding s2(2) by blast
  with t(1) s2(1) show ?thesis by blast
qed

lemma sq_rset_random_access_witness:
  "\<exists>t m1 s2. CppSQLite3DB_getResultSet emp_lib ''select * from emp'' (conn0, one_conn emp_world) = (Ret t, (conn0, m1)) \<and>
     fetch_rows (\<lambda>k. CppSQLite3ResultSet_seekRow (of_nat k)) (rset_row emp_lib) [1, 0, 1] (t, m1) =
       (Ret [[Some ''8'', None], [Some ''7'', Some ''David''], [Some ''8'', None]], s2)"
proof -
  have k: "\<forall>k \<in> set [1, 0, 1 :: nat]. k < length emp_table" "emp_table \<noteq> []" "length emp_table < 3"
    by (simp_all add: emp_table_def)
  have "map ((!) emp_table) [1, 0, 1] = [[Some ''8'', None], [Some ''7'', Some ''David''], [Some ''8'', None]]"
    by (simp add: emp_table_def)
  with sq_rset_random_access[OF conn0_open emp_gives_table k(1,2) k(3)]
  show ?thesis by metis
qed

text \<open>
  \<open>seekRow\<close> clamps a row number behind the last row to the last row, and returns the row it
  moved to, when there is a row; on an empty result set it moves to row -1, where \<open>eof\<close> is false.
\<close>

theorem sq_seekRow_clamps:
  assumes "rset_on (t, m) names rows" and "n < 2 ^ 64"
  shows "\<exists>k. CppSQLite3ResultSet_seekRow (of_nat n) (t, m) = (Ret k, (t\<lparr>rs_m_nCurrentRow := k\<rparr>, m)) \<and>
           (if rows \<noteq> [] then k = int (min n (length rows - 1))
            else k = - 1 \<and> CppSQLite3ResultSet_eof (t\<lparr>rs_m_nCurrentRow := k\<rparr>, m) =
                   (Ret False, (t\<lparr>rs_m_nCurrentRow := k\<rparr>, m)))"
proof (cases "rows = []")
  case False
  then show ?thesis
    using rset_seekRow_run[OF assms(1) False, of n] assms(2) by (simp add: take_bit_nat_eq_self)
next
  case True
  then have r: "rs_m_nRows t = 0" using assms(1) by (simp add: rset_on_def)
  have "ulong_to_int 0 = 0" by (simp add: ulong_to_int_def)
  then show ?thesis
    using True r ulong_to_int_minus_one
    by (simp add: CppSQLite3ResultSet_seekRow_def CppSQLite3ResultSet_eof_def Let_def prog_simps)
qed

lemma sq_seekRow_clamps_witness:
  "CppSQLite3ResultSet_seekRow (of_nat 10000) (emp_rset, one_table) =
     (Ret 1, (emp_rset\<lparr>rs_m_nCurrentRow := 1\<rparr>, one_table))"
  using sq_seekRow_clamps[OF emp_rset_on, of 10000] by (simp add: emp_table_def)

text \<open>
  The bounds check of \<open>fieldRealIndex(int)\<close> never fails: a column number behind the last column
  silently reads a value of the row after, and on the last row leaves the table (undefined).
\<close>

theorem sq_rset_column_unchecked:
  assumes "rset_on (t, m) names rows" and "rs_m_nCurrentRow t = int k" and "k < length rows"
    and "i < length names" and "int ((length rows + 2) * length names) \<le> INT_MAX"
  shows "CppSQLite3ResultSet_fieldValue lb (int (length names + i)) (t, m) =
           (if Suc k < length rows then Ret (rows ! Suc k ! i) else Undef OutOfBounds, (t, m))"
  by (rule rset_fieldValue_behind[OF assms])

lemma sq_rset_column_unchecked_witness:
  "CppSQLite3ResultSet_fieldValue emp_lib 2 (emp_rset, one_table) = (Ret (Some ''8''), (emp_rset, one_table))"
proof -
  have "rs_m_nCurrentRow emp_rset = int 0" "0 < length emp_table" "0 < length emp_names"
      "int ((length emp_table + 2) * length emp_names) \<le> INT_MAX"
    by (simp_all add: emp_rset_def CppSQLite3ResultSet_new_def emp_table_def emp_names_def INT_MAX_def)
  from sq_rset_column_unchecked[OF emp_rset_on this, of emp_lib] show ?thesis
    by (simp add: emp_table_def emp_names_def)
qed

section \<open>Statements\<close>

text \<open>
  C18: the insert loop of \<open>CppDBDemo.cpp\<close> (bind every parameter, \<open>execDML()\<close>, \<open>reset()\<close>, per row) on a
  prepared statement whose parameter count is the length of every row executes the statement once per
  row, in order, each time with exactly the values of that row, whatever their kinds, and throws
  nothing.
\<close>

theorem sq_insert_rows_delivered:
  assumes "stmt_on dv h (t, m) v" and "bind_contract lb dv" and "dml_contract lb dv" and "dv_ready v"
    and "\<forall>r \<in> set rs. length r = length (dv_params v)"
  shows "\<exists>w' v'. insert_rows lb rs (t, m) = (Ret (), (t, m\<lparr>lib := w'\<rparr>)) \<and>
           stmt_on dv h (t, m\<lparr>lib := w'\<rparr>) v' \<and> dv_ready v' \<and> dv_runs v' = dv_runs v @ rs"
  by (rule insert_rows_run[OF assms])

lemma sq_insert_rows_delivered_witness:
  "\<exists>w'. insert_rows dml_lib [[BindInt 7, BindText ''David''], [BindInt 8, BindNull]] (stmt1, one_stmt params_world) =
          (Ret (), (stmt1, (one_stmt params_world)\<lparr>lib := w'\<rparr>)) \<and>
        dv_runs (params_view w' 1) = [[BindInt 7, BindText ''David''], [BindInt 8, BindNull]]"
proof -
  let ?rs = "[[BindInt 7, BindText ''David''], [BindInt 8, BindNull]]"
  have "dv_ready (params_world 1)" "\<forall>r \<in> set ?rs. length r = length (dv_params (params_world 1))"
    by (simp_all add: params_world_def)
  from sq_insert_rows_delivered[OF stmt1_on dml_lib_bind dml_lib_dml this]
  show ?thesis by (auto simp: stmt_on_def params_world_def)
qed

text \<open>
  \<open>CppSQLite3Statement::execQuery\<close> moves the statement into the query it returns, which then
  stands on the first row; but on a statement that gives no row the query claims not to be at its end
  (the database's own \<open>execQuery\<close> reports the end).
\<close>

theorem sq_stmt_execQuery_eof:
  assumes "st_m_pStmt t = Some h" and "h \<in> live_stmt m" and "st_m_pDB t = Some d"
    and "vw (lib m) h = stmt_fresh names rows SQLITE_DONE" and "stmt_wf (vw (lib m) h)"
    and "step_contract lb vw" and "name_contract lb vw"
  shows "\<exists>q m'. CppSQLite3Statement_execQuery lb (t, m) = (Ret q, (t\<lparr>st_m_pStmt := None\<rparr>, m')) \<and>
           q_m_pStmt q = Some h \<and> CppSQLite3Query_eof lb (q, m') = (Ret False, (q, m')) \<and>
           sv_row (vw (lib m') h) = (case rows of [] \<Rightarrow> None | r # rs \<Rightarrow> Some r)"
proof -
  obtain q w' where q: "CppSQLite3Statement_execQuery lb (t, m) = (Ret q, (t\<lparr>st_m_pStmt := None\<rparr>, m\<lparr>lib := w'\<rparr>))"
      "query_on vw h (q, m\<lparr>lib := w'\<rparr>) (stmt_stepped (stmt_fresh names rows SQLITE_DONE))" "q_m_bEof q = False"
    using stmt_execQuery_run[OF assms] by blast
  have "q_m_pStmt q = Some h" "vw w' h = stmt_stepped (stmt_fresh names rows SQLITE_DONE)"
    using q(2) by (simp_all add: query_on_def)
  moreover have "sv_row (stmt_stepped (stmt_fresh names rows SQLITE_DONE)) = (case rows of [] \<Rightarrow> None | r # rs \<Rightarrow> Some r)"
    by (simp add: stmt_stepped_def split: list.split)
  ultimately show ?thesis using q(1,3) by (intro exI[of _ q] exI[of _ "m\<lparr>lib := w'\<rparr>"]) (simp add: prog_simps)
qed

lemma sq_stmt_execQuery_eof_witness:
  "\<exists>q m'. CppSQLite3Statement_execQuery (query_lib emp_names [] SQLITE_DONE)
       (stmt1, one_stmt (\<lambda>_. stmt_fresh emp_names [] SQLITE_DONE)) = (Ret q, (stmt1\<lparr>st_m_pStmt := None\<rparr>, m')) \<and>
     CppSQLite3Query_eof (query_lib emp_names [] SQLITE_DONE) (q, m') = (Ret False, (q, m'))"
proof -
  let ?m = "one_stmt (\<lambda>_. stmt_fresh emp_names [] SQLITE_DONE)"
  have "st_m_pStmt stmt1 = Some 1" "1 \<in> live_stmt ?m" "st_m_pDB stmt1 = Some 0"
      "query_view (lib ?m) 1 = stmt_fresh emp_names [] SQLITE_DONE" "stmt_wf (query_view (lib ?m) 1)"
    by (simp_all add: stmt1_def one_stmt_def CppSQLite3Statement_new_def query_view_def stmt_wf_def
        emp_names_def INT_MAX_def)
  from sq_stmt_execQuery_eof[OF this query_lib_step query_lib_name] show ?thesis by blast
qed

section \<open>Connections\<close>

text \<open>
  On a connection that is not open, \<open>execDML\<close>, \<open>execQuery\<close>, \<open>getResultSet\<close>, \<open>compileStatement\<close>,
  the three transaction calls and \<open>isTransaction\<close> throw "Database not open" and do not touch the
  library or the object.
\<close>

theorem sq_closed_connection:
  assumes "db_m_pDB db = None"
  shows "let err = sq_error lb CPPQLITE3_DB_ERROR (Some ''Database not open'') in
         CppSQLite3DB_execDML lb sql (db, m) = (Throw err, (db, m)) \<and>
         CppSQLite3DB_execQuery lb sql (db, m) = (Throw err, (db, m)) \<and>
         CppSQLite3DB_getResultSet lb sql (db, m) = (Throw err, (db, m)) \<and>
         CppSQLite3DB_compileStatement lb sql (db, m) = (Throw err, (db, m)) \<and>
         CppSQLite3DB_startTransaction lb (db, m) = (Throw err, (db, m)) \<and>
         CppSQLite3DB_commitTransaction lb (db, m) = (Throw err, (db, m)) \<and>
         CppSQLite3DB_rollback lb (db, m) = (Throw err, (db, m)) \<and>
         CppSQLite3DB_isTransaction lb (db, m) = (Throw err, (db, m))"
  using closed_operations[OF assms, of lb]
  by (simp add: Let_def CppSQLite3DB_startTransaction_def CppSQLite3DB_commitTransaction_def
      CppSQLite3DB_rollback_def prog_simps)

lemma sq_closed_connection_witness:
  "CppSQLite3DB_rollback emp_lib (CppSQLite3DB_default, one_conn empty_world) =
     (Throw (sq_error emp_lib CPPQLITE3_DB_ERROR (Some ''Database not open'')),
      (CppSQLite3DB_default, one_conn empty_world))"
  using sq_closed_connection[of CppSQLite3DB_default emp_lib] by (simp add: CppSQLite3DB_default_def Let_def)

text \<open>
  C37: \<open>tableExists\<close> finalizes its statement and returns whether the count is positive, for every name
  that leaves the statement within its array of 256 characters, on both platforms; with Microsoft's
  \<open>_snprintf\<close> a longer name leaves the array without a NUL and is read past what was written.
\<close>

theorem sq_tableExists_names:
  assumes "db_open (db, m) d" and "prepares lb vw d (table_exists_sql szTable) m (stmt_fresh names [[c]] SQLITE_DONE) w1"
    and "step_contract lb vw" and "name_contract lb vw" and "column_contract lb vw"
    and "finalize_contract lb vw" and "cstring szTable" and "cv_type c \<noteq> SQLITE_NULL"
  shows "(length szTable \<le> 189 \<longrightarrow>
            (\<exists>m'. CppSQLite3DB_tableExists lb szTable (db, m) = (Ret (cv_int c > 0), (db, m')) \<and>
                  live_stmt m' = live_stmt m - {next_id m})) \<and>
         (length szTable > 189 \<and> build lb = MSVC \<longrightarrow>
            CppSQLite3DB_tableExists lb szTable (db, m) = (Undef UninitRead, (db, m)))"
  using tableExists_run[OF assms(1-6) refl assms(7) _ refl assms(8)] tableExists_MSVC_long[OF _ assms(7), of lb db m]
  by auto

lemma sq_tableExists_names_witness:
  "\<exists>m'. CppSQLite3DB_tableExists (query_lib [''count''] [[int_cell 1]] SQLITE_DONE) ''emp'' (conn0, one_conn empty_world) =
          (Ret True, (conn0, m'))"
proof -
  have p: "prepares (query_lib [''count''] [[int_cell 1]] SQLITE_DONE) query_view 0 sql (one_conn empty_world)
      (stmt_fresh [''count''] [[int_cell 1]] SQLITE_DONE) (empty_world(1 := stmt_fresh [''count''] [[int_cell 1]] SQLITE_DONE))"
    for sql by (rule query_lib_prepares) (simp_all add: INT_MAX_def)
  have "cstring ''emp''" "cv_type (int_cell 1) \<noteq> SQLITE_NULL" by (simp_all add: NUL_def int_cell_def sqlite_codes)
  from sq_tableExists_names[OF conn0_open p query_lib_contracts this] show ?thesis
    by (auto simp: int_cell_def)
qed



end
