(* ===== verification/ConnString.thy ===== *)
theory ConnString
  imports CStrings
begin

text \<open>
  The connection string of \<open>CppMySQLDB::connect(const char*)\<close> in \<open>src/CppMySQL.cpp\<close>:
  \<open>copyStripped\<close>, the parse loop and the option map with its defaults.  A \<open>std::map<string, string>\<close>
  read only through \<open>operator[]\<close> is a total function whose default is the empty string.  The
  round trip with the way such a string is written is proved here.
\<close>

section \<open>Stripping\<close>

fun skip_leading :: "string \<Rightarrow> string" where
  "skip_leading [] = []"
| "skip_leading (c # cs) = (if isspace c then skip_leading cs else c # cs)"

function skip_trailing :: "string \<Rightarrow> string" where
  "skip_trailing s = (if s \<noteq> [] \<and> isspace (last s) then skip_trailing (butlast s) else s)"
  by pat_completeness auto
termination by (relation "measure length") auto

declare skip_trailing.simps [simp del]

definition copyStripped :: "string \<Rightarrow> string" where
  "copyStripped s = skip_trailing (skip_leading s)"

text \<open>A text that neither starts nor ends with white space.\<close>

definition stripped :: "string \<Rightarrow> bool" where
  "stripped s \<longleftrightarrow> s = [] \<or> \<not> isspace (hd s) \<and> \<not> isspace (last s)"

definition blank :: "string \<Rightarrow> bool" where
  "blank s \<longleftrightarrow> (\<forall>c \<in> set s. isspace c)"

lemma skip_leading_blank: "blank a \<Longrightarrow> skip_leading (a @ s) = skip_leading s"
  by (induction a) (auto simp: blank_def)

lemma skip_trailing_snoc: "skip_trailing (s @ [c]) = (if isspace c then skip_trailing s else s @ [c])"
  by (subst skip_trailing.simps) simp

lemma skip_trailing_Nil [simp]: "skip_trailing [] = []"
  by (subst skip_trailing.simps) simp

lemma skip_trailing_blank: "blank b \<Longrightarrow> skip_trailing (s @ b) = skip_trailing s"
proof (induction b rule: rev_induct)
  case (snoc c b)
  then show ?case
    using skip_trailing_snoc[of "s @ b" c] by (auto simp: blank_def)
qed simp

lemma skip_leading_id: "s = [] \<or> \<not> isspace (hd s) \<Longrightarrow> skip_leading s = s"
  by (cases s) auto

lemma skip_trailing_id: "s = [] \<or> \<not> isspace (last s) \<Longrightarrow> skip_trailing s = s"
  by (subst skip_trailing.simps) auto

lemma copyStripped_padded:
  assumes "blank a" and "blank b" and "stripped t"
  shows "copyStripped (a @ t @ b) = t"
proof (cases "t = []")
  case True
  have "skip_leading b = []" using assms(2) skip_leading_blank[of b "[]"] by simp
  then show ?thesis using True assms(1) by (simp add: copyStripped_def skip_leading_blank)
next
  case False
  then have "skip_leading (t @ b) = t @ b"
    using assms(3) by (intro skip_leading_id) (auto simp: stripped_def)
  then have "copyStripped (a @ t @ b) = skip_trailing (t @ b)"
    using assms(1) by (simp add: copyStripped_def skip_leading_blank)
  also have "\<dots> = t"
    using assms(2,3) False by (simp add: skip_trailing_blank skip_trailing_id stripped_def)
  finally show ?thesis .
qed

lemma skip_leading_decomp: "\<exists>a. blank a \<and> s = a @ skip_leading s \<and> (skip_leading s = [] \<or> \<not> isspace (hd (skip_leading s)))"
proof (induction s)
  case Nil
  then show ?case by (simp add: blank_def)
next
  case (Cons c s)
  show ?case
  proof (cases "isspace c")
    case True
    with Cons obtain a where "blank (c # a)" "c # s = (c # a) @ skip_leading s"
        "skip_leading s = [] \<or> \<not> isspace (hd (skip_leading s))"
      by (auto simp: blank_def)
    with True show ?thesis by (intro exI[of _ "c # a"]) simp
  qed (auto simp: blank_def)
qed

lemma skip_trailing_decomp: "\<exists>b. blank b \<and> s = skip_trailing s @ b \<and> (skip_trailing s = [] \<or> \<not> isspace (last (skip_trailing s)))"
proof (induction s rule: rev_induct)
  case Nil
  then show ?case by (simp add: blank_def)
next
  case (snoc c s)
  then obtain b where b: "blank b" "s = skip_trailing s @ b"
      "skip_trailing s = [] \<or> \<not> isspace (last (skip_trailing s))"
    by blast
  show ?case
  proof (cases "isspace c")
    case True
    then show ?thesis
      using b by (intro exI[of _ "b @ [c]"]) (auto simp: skip_trailing_snoc blank_def)
  qed (auto simp: skip_trailing_snoc blank_def)
qed

text \<open>What \<open>copyStripped\<close> returns is the text between the white space at both ends.\<close>

lemma copyStripped_decomp:
  "\<exists>a b. blank a \<and> blank b \<and> s = a @ copyStripped s @ b \<and> stripped (copyStripped s)"
proof -
  obtain a where a: "blank a" "s = a @ skip_leading s" "skip_leading s = [] \<or> \<not> isspace (hd (skip_leading s))"
    using skip_leading_decomp by blast
  obtain b where b: "blank b" "skip_leading s = copyStripped s @ b"
      "copyStripped s = [] \<or> \<not> isspace (last (copyStripped s))"
    unfolding copyStripped_def using skip_trailing_decomp by blast
  have "stripped (copyStripped s)"
    using a(3) b(2,3) by (cases "copyStripped s") (auto simp: stripped_def)
  then show ?thesis using a(1,2) b(1,2) by (metis append.assoc)
qed

section \<open>Parsing\<close>

type_synonym options = "string \<Rightarrow> string"

definition default_options :: options where
  "default_options =
     (\<lambda>_. [])(''host'' := ''127.0.0.1'', ''port'' := ''3306'', ''user'' := [], ''password'' := [],
             ''db'' := [], ''compress'' := [], ''auto-reconnect'' := [], ''default-character-set'' := [])"

text \<open>
  One turn of the loop: the segment up to the next semicolon, split at its first \<open>=\<close>.  A segment
  without \<open>=\<close> is the error \<open>None\<close>.
\<close>

definition parse_segment :: "string \<Rightarrow> options \<Rightarrow> options option" where
  "parse_segment seg opts =
     (let name = takeWhile (\<lambda>c. c \<noteq> CHR ''='') seg
      in if length name = length seg then None
         else Some (opts(copyStripped name := copyStripped (drop (Suc (length name)) seg))))"

function parse_options :: "string \<Rightarrow> options \<Rightarrow> options option" where
  "parse_options start opts =
     (let seg = takeWhile (\<lambda>c. c \<noteq> CHR '';'') start
      in case parse_segment seg opts of
           None \<Rightarrow> None
         | Some opts' \<Rightarrow>
             (if length seg = length start then Some opts'
              else parse_options (drop (Suc (length seg)) start) opts'))"
  by pat_completeness auto
termination
proof (relation "measure (length \<circ> fst)")
  fix start :: string and opts x x2
  assume "x = takeWhile (\<lambda>c. c \<noteq> CHR '';'') start" "length x \<noteq> length start"
  then have "length x < length start" using length_takeWhile_le[of _ start] by (metis nat_less_le)
  then show "((drop (Suc (length x)) start, x2), (start, opts)) \<in> measure (length \<circ> fst)" by simp
qed simp

declare parse_options.simps [simp del]

section \<open>Writing and reading back\<close>

text \<open>A connection string: the pairs joined with \<open>=\<close> and \<open>;\<close>.\<close>

definition render_pair :: "string \<times> string \<Rightarrow> string" where
  "render_pair kv = fst kv @ CHR ''='' # snd kv"

fun render_options :: "(string \<times> string) list \<Rightarrow> string" where
  "render_options [] = []"
| "render_options [kv] = render_pair kv"
| "render_options (kv # kvs) = render_pair kv @ CHR '';'' # render_options kvs"

text \<open>Names without the two separators, values without the semicolon.\<close>

definition renderable :: "string \<times> string \<Rightarrow> bool" where
  "renderable kv \<longleftrightarrow> CHR '';'' \<notin> set (fst kv) \<and> CHR ''='' \<notin> set (fst kv) \<and> CHR '';'' \<notin> set (snd kv)"

definition set_option_pair :: "options \<Rightarrow> string \<times> string \<Rightarrow> options" where
  "set_option_pair opts kv = opts(copyStripped (fst kv) := copyStripped (snd kv))"

lemma takeWhile_sep: "c \<notin> set xs \<Longrightarrow> takeWhile (\<lambda>x. x \<noteq> c) (xs @ c # ys) = xs"
  by (induction xs) auto

lemma takeWhile_no_sep: "c \<notin> set xs \<Longrightarrow> takeWhile (\<lambda>x. x \<noteq> c) xs = xs"
  by (induction xs) auto

lemma parse_segment_pair:
  "renderable kv \<Longrightarrow> parse_segment (render_pair kv) opts = Some (set_option_pair opts kv)"
  by (simp add: parse_segment_def render_pair_def renderable_def set_option_pair_def takeWhile_sep Let_def)

lemma render_pair_no_semicolon: "renderable kv \<Longrightarrow> CHR '';'' \<notin> set (render_pair kv)"
  by (auto simp: render_pair_def renderable_def)

lemma parse_options_last:
  "CHR '';'' \<notin> set s \<Longrightarrow> parse_options s opts = parse_segment s opts"
  by (subst parse_options.simps) (simp add: takeWhile_no_sep split: option.split)

lemma parse_options_next:
  "CHR '';'' \<notin> set s \<Longrightarrow>
   parse_options (s @ CHR '';'' # r) opts = Option.bind (parse_segment s opts) (parse_options r)"
  by (subst parse_options.simps) (simp add: takeWhile_sep split: option.split)

lemma parse_render:
  "kvs \<noteq> [] \<Longrightarrow> \<forall>kv \<in> set kvs. renderable kv \<Longrightarrow>
   parse_options (render_options kvs) opts = Some (foldl set_option_pair opts kvs)"
proof (induction kvs arbitrary: opts rule: render_options.induct)
  case (2 kv)
  then show ?case by (simp add: parse_options_last render_pair_no_semicolon parse_segment_pair)
next
  case (3 kv kv' kvs)
  then show ?case by (simp add: parse_options_next render_pair_no_semicolon parse_segment_pair)
qed simp

text \<open>The parse fails exactly when a segment has no \<open>=\<close>.\<close>

fun segments :: "string \<Rightarrow> string list" where
  "segments [] = [[]]"
| "segments (c # cs) =
     (if c = CHR '';'' then [] # segments cs
      else (case segments cs of [] \<Rightarrow> [[c]] | s # ss \<Rightarrow> (c # s) # ss))"

lemma segments_nonempty: "segments s \<noteq> []"
  by (induction s) (auto split: list.split)

lemma segments_last: "CHR '';'' \<notin> set s \<Longrightarrow> segments s = [s]"
  by (induction s) auto

lemma segments_next: "CHR '';'' \<notin> set s \<Longrightarrow> segments (s @ CHR '';'' # r) = s # segments r"
  by (induction s) auto

lemma parse_segment_None: "parse_segment s opts = None \<longleftrightarrow> CHR ''='' \<notin> set s"
proof -
  have "length (takeWhile (\<lambda>c. c \<noteq> CHR ''='') s) = length s \<longleftrightarrow> CHR ''='' \<notin> set s"
    by (induction s) auto
  then show ?thesis by (simp add: parse_segment_def Let_def)
qed

lemma parse_options_None: "parse_options s opts = None \<longleftrightarrow> (\<exists>seg \<in> set (segments s). CHR ''='' \<notin> set seg)"
proof (induction "length s" arbitrary: s opts rule: less_induct)
  case less
  show ?case
  proof (cases "CHR '';'' \<in> set s")
    case False
    then show ?thesis by (simp add: parse_options_last segments_last parse_segment_None)
  next
    case True
    then obtain a b where s: "s = a @ CHR '';'' # b" "CHR '';'' \<notin> set a"
      by (metis split_list_first)
    show ?thesis
    proof (cases "parse_segment a opts")
      case None
      then show ?thesis using s parse_segment_None[of a opts] by (simp add: parse_options_next segments_next)
    next
      case (Some o')
      then have "CHR ''='' \<in> set a" using parse_segment_None[of a opts] by auto
      then show ?thesis
        using s Some less[of b o'] by (simp add: parse_options_next segments_next)
    qed
  qed
qed

text \<open>
  A pair written with any amount of white space around its name and its value, and what the options
  are after a list of such pairs: the last value given for a name, the default for other names.
\<close>

definition padded :: "string \<Rightarrow> string \<Rightarrow> bool" where
  "padded t s \<longleftrightarrow> (\<exists>a b. blank a \<and> blank b \<and> s = a @ t @ b)"

definition padded_pair :: "string \<times> string \<Rightarrow> string \<times> string \<Rightarrow> bool" where
  "padded_pair kv raw \<longleftrightarrow> padded (fst kv) (fst raw) \<and> padded (snd kv) (snd raw)"

definition writable :: "string \<times> string \<Rightarrow> bool" where
  "writable kv \<longleftrightarrow> renderable kv \<and> stripped (fst kv) \<and> stripped (snd kv)"

lemma padded_strip: "padded t s \<Longrightarrow> stripped t \<Longrightarrow> copyStripped s = t"
  by (auto simp: padded_def copyStripped_padded)

lemma blank_no_separator: "blank a \<Longrightarrow> CHR '';'' \<notin> set a \<and> CHR ''='' \<notin> set a"
  by (auto simp: blank_def isspace_def)

lemma padded_pair_renderable: "padded_pair kv raw \<Longrightarrow> renderable kv \<Longrightarrow> renderable raw"
  using blank_no_separator by (fastforce simp: padded_pair_def padded_def renderable_def)

lemma foldl_set_option_pair:
  "list_all2 padded_pair kvs raws \<Longrightarrow> \<forall>kv \<in> set kvs. writable kv \<Longrightarrow>
   foldl set_option_pair opts raws k = (case map_of (rev kvs) k of None \<Rightarrow> opts k | Some v \<Rightarrow> v)"
proof (induction arbitrary: opts rule: list_all2_induct)
  case (Cons kv kvs raw raws)
  then have "copyStripped (fst raw) = fst kv" "copyStripped (snd raw) = snd kv"
    by (auto simp: padded_pair_def writable_def intro: padded_strip)
  then have "set_option_pair opts raw = opts(fst kv := snd kv)" by (simp add: set_option_pair_def)
  moreover have "foldl set_option_pair (opts(fst kv := snd kv)) raws k =
      (case map_of (rev kvs) k of None \<Rightarrow> (opts(fst kv := snd kv)) k | Some v \<Rightarrow> v)"
    using Cons.IH Cons.prems by simp
  ultimately show ?case by (cases kv) (simp add: map_add_def split: option.split)
qed simp

lemma parse_padded:
  assumes "list_all2 padded_pair kvs raws" and "\<forall>kv \<in> set kvs. writable kv" and "kvs \<noteq> []"
  shows "parse_options (render_options raws) opts =
           Some (\<lambda>k. case map_of (rev kvs) k of None \<Rightarrow> opts k | Some v \<Rightarrow> v)"
proof -
  have "\<forall>raw \<in> set raws. renderable raw"
    using assms(1,2) by (induction rule: list_all2_induct) (auto simp: writable_def dest: padded_pair_renderable)
  moreover have "raws \<noteq> []" using assms(1,3) by auto
  moreover have "foldl set_option_pair opts raws = (\<lambda>k. case map_of (rev kvs) k of None \<Rightarrow> opts k | Some v \<Rightarrow> v)"
    using foldl_set_option_pair[OF assms(1,2)] by blast
  ultimately show ?thesis using parse_render[of raws opts] by simp
qed

text \<open>A semicolon at the end leaves an empty segment.\<close>

lemma segments_snoc: "segments (s @ '';'') = segments s @ [[]]"
proof (induction s)
  case (Cons c s)
  then show ?case using segments_nonempty[of s] by (auto split: list.split)
qed simp

end
