(* ===== verification/MysqlQuery.thy ===== *)
theory MysqlQuery
  imports MysqlException
begin

text \<open>
  \<open>CppMySQLQuery\<close> of \<open>src/CppMySQL.cpp\<close>: a stored result with the current row.  \<open>m_Row\<close> and
  \<open>m_Field\<close> point into the result, so they are kept with the number of the result and reading
  them after \<open>mysql_free_result\<close> is undefined.
\<close>

section \<open>The class\<close>

record my_query =
  mq_m_pRES :: "nat option"
  mq_m_Field :: "(nat \<times> my_fielddef) option cell"
  mq_m_Row :: "(nat \<times> string option list) option"
  mq_m_numRows :: ulong
  mq_m_numFields :: uint32

type_synonym 'w my_qst = "my_query \<times> 'w my_mach"

definition CppMySQLQuery_default :: my_query where
  "CppMySQLQuery_default =
     \<lparr>mq_m_pRES = None, mq_m_Field = Init None, mq_m_Row = None, mq_m_numRows = 0, mq_m_numFields = 0\<rparr>"

definition CppMySQLQuery_copy :: "my_query \<Rightarrow> my_query \<times> my_query" where
  "CppMySQLQuery_copy rQuery =
     (\<lparr>mq_m_pRES = mq_m_pRES rQuery, mq_m_Field = mq_m_Field rQuery, mq_m_Row = mq_m_Row rQuery,
       mq_m_numRows = mq_m_numRows rQuery, mq_m_numFields = mq_m_numFields rQuery\<rparr>,
      rQuery\<lparr>mq_m_pRES := None\<rparr>)"

text \<open>\<open>mysql_fetch_row\<close>: the row points into the result.\<close>

definition fetch_row :: "'w mysql_lib \<Rightarrow> nat option \<Rightarrow> ('w my_mach, 'e, (nat \<times> string option list) option) prog" where
  "fetch_row lb p =
     bindP (live_call live_res p (mysql_fetch_row lb)) (\<lambda>r. ret (map_option (\<lambda>cs. (the p, cs)) r))"

definition fetch_field :: "'w mysql_lib \<Rightarrow> nat option \<Rightarrow> ('w my_mach, 'e, (nat \<times> my_fielddef) option) prog" where
  "fetch_field lb p =
     bindP (live_call live_res p (mysql_fetch_field lb)) (\<lambda>r. ret (map_option (\<lambda>f. (the p, f)) r))"

text \<open>The four statements that load a result: seek to the first row, fetch it, count.\<close>

definition load_result ::
  "'w mysql_lib \<Rightarrow> nat option \<Rightarrow>
   ('w my_mach, my_exn, (nat \<times> string option list) option \<times> ulong \<times> uint32) prog" where
  "load_result lb pRES =
     bindP (live_call live_res pRES (\<lambda>h. mysql_data_seek lb h 0)) (\<lambda>_.
     bindP (fetch_row lb pRES) (\<lambda>row.
     bindP (live_call live_res pRES (mysql_num_rows lb)) (\<lambda>rows.
     bindP (live_call live_res pRES (mysql_num_fields lb)) (\<lambda>flds.
     ret (row, rows, flds)))))"

definition CppMySQLQuery_new ::
  "'w mysql_lib \<Rightarrow> nat option \<Rightarrow> ('w my_mach, my_exn, my_query) prog" where
  "CppMySQLQuery_new lb pRES =
     (if pRES \<noteq> None
      then bindP (load_result lb pRES) (\<lambda>(row, rows, flds).
           ret \<lparr>mq_m_pRES = pRES, mq_m_Field = Uninit, mq_m_Row = row, mq_m_numRows = rows,
                mq_m_numFields = flds\<rparr>)
      else ret \<lparr>mq_m_pRES = None, mq_m_Field = Uninit, mq_m_Row = None, mq_m_numRows = 0,
                mq_m_numFields = 0\<rparr>)"

definition CppMySQLQuery_clear :: "'w mysql_lib \<Rightarrow> ('w my_qst, my_exn, unit) prog" where
  "CppMySQLQuery_clear lb =
     bindP get_this (\<lambda>q.
     if mq_m_pRES q \<noteq> None
     then seqP (on_mach (call_free_result lb (mq_m_pRES q))) (upd_this (mq_m_pRES_update (\<lambda>_. None)))
     else ret ())"

definition CppMySQLQuery_destroy :: "'w mysql_lib \<Rightarrow> ('w my_qst, my_exn, unit) prog" where
  "CppMySQLQuery_destroy lb = CppMySQLQuery_clear lb"

text \<open>
  \<open>*this = rQuery\<close>, given whether \<open>this == &rQuery\<close>: the row and the counts are read again from the
  result, and kept as they are when there is none.
\<close>

definition CppMySQLQuery_assign ::
  "'w mysql_lib \<Rightarrow> bool \<Rightarrow> my_query \<Rightarrow> my_query \<Rightarrow> ('w my_mach, my_exn, my_query \<times> my_query) prog" where
  "CppMySQLQuery_assign lb same this rQuery m =
     (if same then (Ret (this, rQuery), m)
      else case catch_all (CppMySQLQuery_clear lb) (this, m) of
        (Ret _, (this', m')) \<Rightarrow>
          (let this1 = this'\<lparr>mq_m_pRES := mq_m_pRES rQuery, mq_m_Field := Init None\<rparr>;
               rQuery' = rQuery\<lparr>mq_m_pRES := None\<rparr>
           in if mq_m_pRES this1 \<noteq> None
              then bindP (load_result lb (mq_m_pRES this1)) (\<lambda>(row, rows, flds).
                   ret (this1\<lparr>mq_m_Row := row, mq_m_numRows := rows, mq_m_numFields := flds\<rparr>,
                        rQuery')) m'
              else (Ret (this1, rQuery'), m'))
      | (Throw e, (_, m')) \<Rightarrow> (Throw e, m')
      | (Undef u, (_, m')) \<Rightarrow> (Undef u, m'))"

definition CppMySQLQuery_numFields :: "('w my_qst, my_exn, int) prog" where
  "CppMySQLQuery_numFields = bindP get_this (\<lambda>q. ret (uint_to_int (mq_m_numFields q)))"

definition CppMySQLQuery_numRows :: "('w my_qst, my_exn, ulong) prog" where
  "CppMySQLQuery_numRows = bindP get_this (\<lambda>q. ret (mq_m_numRows q))"

definition CppMySQLQuery_checkRES :: "('w my_qst, my_exn, unit) prog" where
  "CppMySQLQuery_checkRES =
     bindP get_this (\<lambda>q.
     if mq_m_pRES q = None
     then on_mach (throw_my CPPMYSQL_QUERY_ERROR (Some ''MYSQL_RES not inited''))
     else ret ())"

text \<open>\<open>m_Field = mysql_fetch_field(m_pRES)\<close>, and \<open>m_Field->name\<close> or \<open>m_Field->type\<close>.\<close>

definition next_field :: "'w mysql_lib \<Rightarrow> ('w my_qst, my_exn, (nat \<times> my_fielddef) option) prog" where
  "next_field lb =
     bindP get_this (\<lambda>q.
     bindP (on_mach (fetch_field lb (mq_m_pRES q))) (\<lambda>f.
     seqP (upd_this (mq_m_Field_update (\<lambda>_. Init f))) (ret f)))"

definition field_def :: "nat \<times> my_fielddef \<Rightarrow> ('w my_qst, my_exn, my_fielddef) prog" where
  "field_def f s = (if fst f \<in> live_res (snd s) then (Ret (snd f), s) else (Undef UseAfterFree, s))"

definition seek_field :: "'w mysql_lib \<Rightarrow> uint32 \<Rightarrow> ('w my_qst, my_exn, uint32) prog" where
  "seek_field lb n =
     bindP get_this (\<lambda>q. on_mach (live_call live_res (mq_m_pRES q) (\<lambda>h. mysql_field_seek lb h n)))"

text \<open>The loop of \<open>fieldIndex\<close>.\<close>

function CppMySQLQuery_fieldIndex_loop ::
  "'w mysql_lib \<Rightarrow> string \<Rightarrow> uint32 \<Rightarrow> uint32 \<Rightarrow> ('w my_qst, my_exn, int) prog" where
  "CppMySQLQuery_fieldIndex_loop lb szField numFields nField =
     (if nField < numFields
      then bindP (next_field lb) (\<lambda>f.
           case f of
             None \<Rightarrow> CppMySQLQuery_fieldIndex_loop lb szField numFields (nField + 1)
           | Some fp \<Rightarrow>
               bindP (field_def fp) (\<lambda>(name, type).
               case name of
                 None \<Rightarrow> undef NullDeref
               | Some nm \<Rightarrow>
                   (if nm = szField then ret (uint_to_int nField)
                    else CppMySQLQuery_fieldIndex_loop lb szField numFields (nField + 1))))
      else on_mach (throw_my CPPMYSQL_QUERY_ERROR (Some ''Invalid field name requested'')))"
  by pat_completeness auto
termination
  by (relation "measure (\<lambda>(lb, szField, numFields, nField). unat numFields - unat nField)")
     (auto simp: unat_plus_one word_less_nat_alt)

declare CppMySQLQuery_fieldIndex_loop.simps [simp del]

definition CppMySQLQuery_fieldIndex ::
  "'w mysql_lib \<Rightarrow> string option \<Rightarrow> ('w my_qst, my_exn, int) prog" where
  "CppMySQLQuery_fieldIndex lb szField =
     seqP CppMySQLQuery_checkRES
     (case szField of
        Some f \<Rightarrow>
          seqP (seek_field lb 0)
          (bindP get_this (\<lambda>q. CppMySQLQuery_fieldIndex_loop lb f (mq_m_numFields q) 0))
      | None \<Rightarrow> on_mach (throw_my CPPMYSQL_QUERY_ERROR (Some ''Invalid field name requested'')))"

definition CppMySQLQuery_fieldName ::
  "'w mysql_lib \<Rightarrow> int \<Rightarrow> ('w my_qst, my_exn, string option) prog" where
  "CppMySQLQuery_fieldName lb nCol =
     seqP CppMySQLQuery_checkRES
     (seqP (seek_field lb (word_of_int nCol))
     (bindP (next_field lb) (\<lambda>f.
      case f of
        Some fp \<Rightarrow> bindP (field_def fp) (\<lambda>(name, type). ret name)
      | None \<Rightarrow> on_mach (throw_my CPPMYSQL_QUERY_ERROR (Some ''Invalid field column NO.'')))))"

definition CppMySQLQuery_fieldDataType ::
  "'w mysql_lib \<Rightarrow> int \<Rightarrow> ('w my_qst, my_exn, int) prog" where
  "CppMySQLQuery_fieldDataType lb nCol =
     seqP CppMySQLQuery_checkRES
     (bindP get_this (\<lambda>q.
      bindP (int_arith (uint_to_int (mq_m_numFields q) - 1)) (\<lambda>last.
      if nCol < 0 \<or> nCol > last
      then on_mach (throw_my CPPMYSQL_QUERY_ERROR (Some ''Invalid field index requested''))
      else
        seqP (seek_field lb (word_of_int nCol))
        (bindP (next_field lb) (\<lambda>f.
         case f of
           Some fp \<Rightarrow> bindP (field_def fp) (\<lambda>(name, type). ret type)
         | None \<Rightarrow> on_mach (throw_my CPPMYSQL_QUERY_ERROR (Some ''Invalid column NO.'')))))))"

text \<open>\<open>m_Row[nField]\<close>.\<close>

definition row_cell :: "int \<Rightarrow> ('w my_qst, my_exn, string option) prog" where
  "row_cell nField s =
     (case mq_m_Row (fst s) of
        None \<Rightarrow> (Undef NullDeref, s)
      | Some (h, cs) \<Rightarrow>
          (if h \<notin> live_res (snd s) then (Undef UseAfterFree, s)
           else if 0 \<le> nField \<and> nField < int (length cs) then (Ret (cs ! nat nField), s)
           else (Undef OutOfBounds, s)))"

definition CppMySQLQuery_fieldDataIsNull :: "int \<Rightarrow> ('w my_qst, my_exn, bool) prog" where
  "CppMySQLQuery_fieldDataIsNull nField = bindP (row_cell nField) (\<lambda>c. ret (c = None))"

text \<open>The condition is \<open>(NULL != m_Row) & !fieldDataIsNull(nField)\<close>: both sides are evaluated.\<close>

definition CppMySQLQuery_fieldValue :: "int \<Rightarrow> ('w my_qst, my_exn, string option) prog" where
  "CppMySQLQuery_fieldValue nField =
     bindP get_this (\<lambda>q.
     bindP (CppMySQLQuery_fieldDataIsNull nField) (\<lambda>isNull.
     if mq_m_Row q \<noteq> None \<and> \<not> isNull then row_cell nField
     else on_mach (throw_my CPPMYSQL_QUERY_ERROR (Some ''get fieldValue failed''))))"

definition CppMySQLQuery_fieldValue_by_name ::
  "'w mysql_lib \<Rightarrow> string option \<Rightarrow> ('w my_qst, my_exn, string option) prog" where
  "CppMySQLQuery_fieldValue_by_name lb szField =
     bindP (CppMySQLQuery_fieldIndex lb szField) CppMySQLQuery_fieldValue"

definition CppMySQLQuery_getStringField ::
  "int \<Rightarrow> string option \<Rightarrow> ('w my_qst, my_exn, string option) prog" where
  "CppMySQLQuery_getStringField nField szNullValue =
     bindP (CppMySQLQuery_fieldDataIsNull nField) (\<lambda>isNull.
     if \<not> isNull then CppMySQLQuery_fieldValue nField else ret szNullValue)"

definition CppMySQLQuery_getStringField_by_name ::
  "'w mysql_lib \<Rightarrow> string option \<Rightarrow> string option \<Rightarrow> ('w my_qst, my_exn, string option) prog" where
  "CppMySQLQuery_getStringField_by_name lb szField szNullValue =
     bindP (CppMySQLQuery_fieldIndex lb szField) (\<lambda>i. CppMySQLQuery_getStringField i (Some []))"

text \<open>The argument of \<open>atoi\<close> and \<open>atof\<close> must not be NULL.\<close>

definition nonnull :: "string option \<Rightarrow> ('s, 'e, string) prog" where
  "nonnull p = (case p of None \<Rightarrow> undef NullDeref | Some s \<Rightarrow> ret s)"

definition CppMySQLQuery_getIntField :: "int \<Rightarrow> int \<Rightarrow> ('w my_qst, my_exn, int) prog" where
  "CppMySQLQuery_getIntField nField nNullValue =
     bindP (CppMySQLQuery_fieldDataIsNull nField) (\<lambda>isNull.
     if \<not> isNull
     then bindP (CppMySQLQuery_getStringField nField (Some [])) (\<lambda>p. bindP (nonnull p) atoi)
     else ret nNullValue)"

text \<open>The overloads by name do not use their second parameter.\<close>

definition CppMySQLQuery_getIntField_by_name ::
  "'w mysql_lib \<Rightarrow> string option \<Rightarrow> int \<Rightarrow> ('w my_qst, my_exn, int) prog" where
  "CppMySQLQuery_getIntField_by_name lb szField nNullValue =
     bindP (CppMySQLQuery_fieldIndex lb szField) (\<lambda>i. CppMySQLQuery_getIntField i 0)"

definition CppMySQLQuery_getDoubleField ::
  "'w mysql_lib \<Rightarrow> int \<Rightarrow> cdouble \<Rightarrow> ('w my_qst, my_exn, cdouble) prog" where
  "CppMySQLQuery_getDoubleField lb nField fNullValue =
     bindP (CppMySQLQuery_fieldDataIsNull nField) (\<lambda>isNull.
     if \<not> isNull
     then bindP (CppMySQLQuery_getStringField nField (Some [])) (\<lambda>p.
          bindP (nonnull p) (\<lambda>s. ret (atof lb s)))
     else ret fNullValue)"

definition CppMySQLQuery_getDoubleField_by_name ::
  "'w mysql_lib \<Rightarrow> string option \<Rightarrow> cdouble \<Rightarrow> ('w my_qst, my_exn, cdouble) prog" where
  "CppMySQLQuery_getDoubleField_by_name lb szField fNullValue =
     bindP (CppMySQLQuery_fieldIndex lb szField) (\<lambda>i. CppMySQLQuery_getDoubleField lb i 0)"

definition CppMySQLQuery_eof :: "('w my_qst, my_exn, bool) prog" where
  "CppMySQLQuery_eof = bindP get_this (\<lambda>q. ret (mq_m_Row q = None))"

definition CppMySQLQuery_nextRow :: "'w mysql_lib \<Rightarrow> ('w my_qst, my_exn, unit) prog" where
  "CppMySQLQuery_nextRow lb =
     seqP CppMySQLQuery_checkRES
     (bindP get_this (\<lambda>q.
      bindP (on_mach (fetch_row lb (mq_m_pRES q))) (\<lambda>row. upd_this (mq_m_Row_update (\<lambda>_. row)))))"

text \<open>\<open>offerset\<close> is unsigned, so the test for a negative value never holds.\<close>

definition CppMySQLQuery_seekRow :: "'w mysql_lib \<Rightarrow> ulong \<Rightarrow> ('w my_qst, my_exn, ulong) prog" where
  "CppMySQLQuery_seekRow lb offerset =
     seqP CppMySQLQuery_checkRES
     (bindP get_this (\<lambda>q.
      let offerset1 = (if offerset < 0 then 0 else offerset);
          offerset2 = (if offerset1 \<ge> mq_m_numRows q then mq_m_numRows q - 1 else offerset1)
      in seqP (on_mach (live_call live_res (mq_m_pRES q) (\<lambda>h. mysql_data_seek lb h offerset2)))
         (bindP (on_mach (fetch_row lb (mq_m_pRES q))) (\<lambda>row.
          seqP (upd_this (mq_m_Row_update (\<lambda>_. row))) (ret offerset2)))))"

definition CppMySQLQuery_getHandle :: "my_query \<Rightarrow> nat option" where
  "CppMySQLQuery_getHandle q = mq_m_pRES q"

section \<open>What the library promises of a stored result\<close>

text \<open>
  The result behind a \<open>MYSQL_RES*\<close> and its two cursors: the next row of \<open>mysql_fetch_row\<close> and the
  next field of \<open>mysql_fetch_field\<close>.
\<close>

record res_view =
  rv_fields :: "my_fielddef list"
  rv_rows :: "string option list list"
  rv_pos :: nat
  rv_fpos :: nat

type_synonym 'w res_views = "'w \<Rightarrow> nat \<Rightarrow> res_view"

definition res_wf :: "res_view \<Rightarrow> bool" where
  "res_wf v \<longleftrightarrow>
     (\<forall>r \<in> set (rv_rows v). length r = length (rv_fields v)) \<and>
     length (rv_rows v) < 2 ^ 64 \<and> int (length (rv_fields v)) \<le> INT_MAX"

definition row_at :: "res_view \<Rightarrow> string option list option" where
  "row_at v = (if rv_pos v < length (rv_rows v) then Some (rv_rows v ! rv_pos v) else None)"

definition field_at :: "res_view \<Rightarrow> my_fielddef option" where
  "field_at v = (if rv_fpos v < length (rv_fields v) then Some (rv_fields v ! rv_fpos v) else None)"

text \<open>
  \<open>mysql_data_seek\<close> to a row of the result (or to the first position of an empty one),
  \<open>mysql_fetch_row\<close>, \<open>mysql_num_rows\<close> and \<open>mysql_num_fields\<close>.
\<close>

definition row_contract :: "'w mysql_lib \<Rightarrow> 'w res_views \<Rightarrow> bool" where
  "row_contract lb rv \<longleftrightarrow>
     (\<forall>w h n. unat n < length (rv_rows (rv w h)) \<or> n = 0 \<longrightarrow>
        (\<exists>w'. mysql_data_seek lb h n w = ((), w') \<and> rv w' h = (rv w h)\<lparr>rv_pos := unat n\<rparr>)) \<and>
     (\<forall>w h. \<exists>w'. mysql_fetch_row lb h w = (row_at (rv w h), w') \<and>
        rv w' h = (rv w h)\<lparr>rv_pos := min (Suc (rv_pos (rv w h))) (length (rv_rows (rv w h)))\<rparr>) \<and>
     (\<forall>w h. \<exists>w'. mysql_num_rows lb h w = (of_nat (length (rv_rows (rv w h))), w') \<and> rv w' h = rv w h) \<and>
     (\<forall>w h. \<exists>w'. mysql_num_fields lb h w = (of_nat (length (rv_fields (rv w h))), w') \<and> rv w' h = rv w h)"

text \<open>\<open>mysql_field_seek\<close>, \<open>mysql_fetch_field\<close> and \<open>mysql_fetch_fields\<close>.\<close>

definition field_contract :: "'w mysql_lib \<Rightarrow> 'w res_views \<Rightarrow> bool" where
  "field_contract lb rv \<longleftrightarrow>
     (\<forall>w h n. \<exists>old w'. mysql_field_seek lb h n w = (old, w') \<and> rv w' h = (rv w h)\<lparr>rv_fpos := unat n\<rparr>) \<and>
     (\<forall>w h. \<exists>w'. mysql_fetch_field lb h w = (field_at (rv w h), w') \<and>
        rv w' h = (if rv_fpos (rv w h) < length (rv_fields (rv w h))
                   then (rv w h)\<lparr>rv_fpos := Suc (rv_fpos (rv w h))\<rparr> else rv w h)) \<and>
     (\<forall>w h. \<exists>w'. mysql_fetch_fields lb h w = (rv_fields (rv w h), w') \<and> rv w' h = rv w h)"

lemma row_contractD:
  assumes "row_contract lb rv"
  shows "unat n < length (rv_rows (rv w h)) \<or> n = 0 \<Longrightarrow>
           \<exists>w'. mysql_data_seek lb h n w = ((), w') \<and> rv w' h = (rv w h)\<lparr>rv_pos := unat n\<rparr>"
    and "\<exists>w'. mysql_fetch_row lb h w = (row_at (rv w h), w') \<and>
           rv w' h = (rv w h)\<lparr>rv_pos := min (Suc (rv_pos (rv w h))) (length (rv_rows (rv w h)))\<rparr>"
    and "\<exists>w'. mysql_num_rows lb h w = (of_nat (length (rv_rows (rv w h))), w') \<and> rv w' h = rv w h"
    and "\<exists>w'. mysql_num_fields lb h w = (of_nat (length (rv_fields (rv w h))), w') \<and> rv w' h = rv w h"
  using assms unfolding row_contract_def by blast+

lemma field_contractD:
  assumes "field_contract lb rv"
  shows "\<exists>old w'. mysql_field_seek lb h n w = (old, w') \<and> rv w' h = (rv w h)\<lparr>rv_fpos := unat n\<rparr>"
    and "\<exists>w'. mysql_fetch_field lb h w = (field_at (rv w h), w') \<and>
           rv w' h = (if rv_fpos (rv w h) < length (rv_fields (rv w h))
                      then (rv w h)\<lparr>rv_fpos := Suc (rv_fpos (rv w h))\<rparr> else rv w h)"
    and "\<exists>w'. mysql_fetch_fields lb h w = (rv_fields (rv w h), w') \<and> rv w' h = rv w h"
  using assms unfolding field_contract_def by blast+

section \<open>Reading rows\<close>

text \<open>The value \<open>getStringField\<close> gives for a cell.\<close>

definition or_default :: "string option \<Rightarrow> string option \<Rightarrow> string option" where
  "or_default d c = (case c of None \<Rightarrow> d | Some s \<Rightarrow> Some s)"

definition my_query_row :: "string option \<Rightarrow> ('w my_qst, my_exn, string option list) prog" where
  "my_query_row d =
     bindP CppMySQLQuery_numFields (\<lambda>n. mapP (\<lambda>i. CppMySQLQuery_getStringField i d) [0..n - 1])"

text \<open>
  A query on a live result of these rows and fields that stands on row \<open>k\<close> (the number of rows:
  past the end).
\<close>

definition my_query_on ::
  "'w res_views \<Rightarrow> 'w my_qst \<Rightarrow> nat \<Rightarrow> my_fielddef list \<Rightarrow> string option list list \<Rightarrow> nat \<Rightarrow> bool" where
  "my_query_on rv s h flds rows k \<longleftrightarrow>
     mq_m_pRES (fst s) = Some h \<and> h \<in> live_res (snd s) \<and>
     (let v = rv (mlib (snd s)) h
      in res_wf v \<and> rv_fields v = flds \<and> rv_rows v = rows \<and> rv_pos v = min (Suc k) (length rows)) \<and>
     mq_m_numRows (fst s) = of_nat (length rows) \<and> mq_m_numFields (fst s) = of_nat (length flds) \<and>
     k \<le> length rows \<and> mq_m_Row (fst s) = (if k < length rows then Some (h, rows ! k) else None)"

definition my_query_pending ::
  "'w mysql_lib \<Rightarrow> 'w res_views \<Rightarrow> string option \<Rightarrow> 'w my_qst \<Rightarrow> string option list list \<Rightarrow> bool" where
  "my_query_pending lb rv d s rs \<longleftrightarrow>
     row_contract lb rv \<and>
     (\<exists>h flds rows k. my_query_on rv s h flds rows k \<and> rs = map (map (or_default d)) (drop k rows))"

definition my_query_rows :: "'w res_views \<Rightarrow> string option \<Rightarrow> 'w my_qst \<Rightarrow> string option list list" where
  "my_query_rows rv d s =
     (case mq_m_pRES (fst s) of
        None \<Rightarrow> []
      | Some h \<Rightarrow> map (map (or_default d)) (rv_rows (rv (mlib (snd s)) h)))"

lemma uint_to_int_of_nat: "int n \<le> INT_MAX \<Longrightarrow> uint_to_int (of_nat n) = int n"
  by (simp add: uint_to_int_def INT_MAX_def sint_uint unsigned_of_nat take_bit_nat_eq_self
      signed_take_bit_int_eq_self)

lemma my_query_onD:
  assumes "my_query_on rv (q, m) h flds rows k"
  shows "mq_m_pRES q = Some h" and "h \<in> live_res m" and "res_wf (rv (mlib m) h)"
    and "rv_fields (rv (mlib m) h) = flds" and "rv_rows (rv (mlib m) h) = rows"
    and "rv_pos (rv (mlib m) h) = min (Suc k) (length rows)"
    and "mq_m_numRows q = of_nat (length rows)" and "mq_m_numFields q = of_nat (length flds)"
    and "k \<le> length rows" and "mq_m_Row q = (if k < length rows then Some (h, rows ! k) else None)"
  using assms by (simp_all add: my_query_on_def Let_def)

lemma my_query_rows_on:
  "my_query_on rv (q, m) h flds rows k \<Longrightarrow> my_query_rows rv d (q, m) = map (map (or_default d)) rows"
  using my_query_onD(1,5) by (fastforce simp: my_query_rows_def)

lemma checkRES_run [prog_simps]:
  "mq_m_pRES q = Some h \<Longrightarrow> CppMySQLQuery_checkRES (q, m) = (Ret (), (q, m))"
  "mq_m_pRES q = None \<Longrightarrow> CppMySQLQuery_checkRES (q, m) =
     (Throw (my_error m CPPMYSQL_QUERY_ERROR),
      (q, after_throw CPPMYSQL_QUERY_ERROR (Some ''MYSQL_RES not inited'') m))"
  by (simp_all add: CppMySQLQuery_checkRES_def prog_simps)

lemma fetch_row_run [prog_simps]:
  "h \<in> live_res m \<Longrightarrow> mysql_fetch_row lb h (mlib m) = (r, w') \<Longrightarrow>
   fetch_row lb (Some h) m = (Ret (map_option (Pair h) r), m\<lparr>mlib := w'\<rparr>)"
  by (simp add: fetch_row_def prog_simps)

lemma fieldDataIsNull_run [prog_simps]:
  "row_cell i s = (Ret c, s') \<Longrightarrow> CppMySQLQuery_fieldDataIsNull i s = (Ret (c = None), s')"
  by (simp add: CppMySQLQuery_fieldDataIsNull_def prog_simps)

text \<open>A cell of the current row: the value or the default, never undefined inside the row.\<close>

lemma my_getStringField_run:
  assumes "my_query_on rv (q, m) h flds rows k" and "k < length rows" and "0 \<le> i" and "nat i < length flds"
  shows "CppMySQLQuery_getStringField i d (q, m) = (Ret (or_default d (rows ! k ! nat i)), (q, m))"
proof -
  note on = my_query_onD[OF assms(1)]
  have "length (rows ! k) = length flds"
    using on(3-5) assms(2) by (auto simp: res_wf_def)
  then have cell: "row_cell i (q, m) = (Ret (rows ! k ! nat i), (q, m))"
    using on(2,10) assms(2-4) by (simp add: row_cell_def nat_less_iff)
  have null: "CppMySQLQuery_fieldDataIsNull i (q, m) = (Ret (rows ! k ! nat i = None), (q, m))"
    using cell by (rule fieldDataIsNull_run)
  show ?thesis
    using on(10) assms(2) cell null
    by (cases "rows ! k ! nat i")
       (simp_all add: CppMySQLQuery_getStringField_def CppMySQLQuery_fieldValue_def or_default_def
         prog_simps)
qed

lemma my_query_row_run:
  assumes "my_query_on rv (q, m) h flds rows k" and "k < length rows"
  shows "my_query_row d (q, m) = (Ret (map (or_default d) (rows ! k)), (q, m))"
proof -
  note on = my_query_onD[OF assms(1)]
  have len: "length (rows ! k) = length flds"
    using on(3-5) assms(2) by (auto simp: res_wf_def)
  have n: "uint_to_int (mq_m_numFields q) = int (length flds)"
    using on(3,4,8) by (simp add: uint_to_int_of_nat res_wf_def)
  have "CppMySQLQuery_getStringField i d (q, m) = (Ret (or_default d (rows ! k ! nat i)), (q, m))"
    if "i \<in> set [0..int (length flds) - 1]" for i
    using my_getStringField_run[OF assms, of i d] that by (simp add: nat_less_iff)
  then have "mapP (\<lambda>i. CppMySQLQuery_getStringField i d) [0..int (length flds) - 1] (q, m) =
      (Ret (map (\<lambda>i. or_default d (rows ! k ! nat i)) [0..int (length flds) - 1]), (q, m))"
    by (intro mapP_const_state ballI)
  then show ?thesis
    using n map_upto_nth[of "or_default d" "rows ! k"]
    by (simp add: my_query_row_def CppMySQLQuery_numFields_def prog_simps len)
qed

lemma my_nextRow_run:
  assumes "my_query_on rv (q, m) h flds rows k" and "row_contract lb rv" and "k < length rows"
  shows "\<exists>q' w'. CppMySQLQuery_nextRow lb (q, m) = (Ret (), (q', m\<lparr>mlib := w'\<rparr>)) \<and>
           my_query_on rv (q', m\<lparr>mlib := w'\<rparr>) h flds rows (Suc k)"
proof -
  note on = my_query_onD[OF assms(1)]
  obtain w' where w: "mysql_fetch_row lb h (mlib m) = (row_at (rv (mlib m) h), w')"
      "rv w' h = (rv (mlib m) h)\<lparr>rv_pos := min (Suc (rv_pos (rv (mlib m) h))) (length rows)\<rparr>"
    using row_contractD(2)[OF assms(2), of h "mlib m"] on(5) by auto
  let ?q = "q\<lparr>mq_m_Row := map_option (Pair h) (row_at (rv (mlib m) h))\<rparr>"
  have "CppMySQLQuery_nextRow lb (q, m) = (Ret (), (?q, m\<lparr>mlib := w'\<rparr>))"
    using on(1,2) w(1) by (simp add: CppMySQLQuery_nextRow_def prog_simps)
  moreover have "my_query_on rv (?q, m\<lparr>mlib := w'\<rparr>) h flds rows (Suc k)"
    using on w(2) assms(3) by (simp add: my_query_on_def row_at_def res_wf_def Let_def)
  ultimately show ?thesis by blast
qed

lemma my_seekRow_run:
  assumes "my_query_on rv (q, m) h flds rows k" and "row_contract lb rv" and "rows \<noteq> []"
  shows "\<exists>q' w'. CppMySQLQuery_seekRow lb n (q, m) =
             (Ret (of_nat (min (unat n) (length rows - 1))), (q', m\<lparr>mlib := w'\<rparr>)) \<and>
           my_query_on rv (q', m\<lparr>mlib := w'\<rparr>) h flds rows (min (unat n) (length rows - 1))"
proof -
  note on = my_query_onD[OF assms(1)]
  let ?k = "min (unat n) (length rows - 1)"
  have len: "length rows < 2 ^ 64" using on(3,5) by (simp add: res_wf_def)
  have u: "unat (of_nat j :: ulong) = j" if "j \<le> length rows" for j
    using len that by (simp add: unsigned_of_nat take_bit_nat_eq_self)
  have pos: "length rows - 1 < length rows" using assms(3) by (cases rows) auto
  have target: "(if mq_m_numRows q \<le> n then mq_m_numRows q - 1 else n) = of_nat ?k"
  proof -
    have "mq_m_numRows q \<le> n \<longleftrightarrow> length rows \<le> unat n"
      using u[of "length rows"] by (simp add: on(7) word_le_nat_alt)
    moreover have "mq_m_numRows q - 1 = of_nat (length rows - 1)"
      using assms(3) by (simp add: on(7) of_nat_diff Suc_leI)
    moreover have "min (unat n) (length rows - 1) = (if length rows \<le> unat n then length rows - 1 else unat n)"
      using pos by simp
    ultimately show ?thesis by simp
  qed
  have k: "?k < length rows" using pos by simp
  have uk: "unat (of_nat ?k :: ulong) = ?k" using u[of ?k] k by simp
  obtain w1 where w1: "mysql_data_seek lb h (of_nat ?k) (mlib m) = ((), w1)"
      "rv w1 h = (rv (mlib m) h)\<lparr>rv_pos := ?k\<rparr>"
    using row_contractD(1)[OF assms(2), of "of_nat ?k" "mlib m" h] uk k on(5) by auto
  obtain w2 where w2: "mysql_fetch_row lb h w1 = (row_at (rv w1 h), w2)"
      "rv w2 h = (rv w1 h)\<lparr>rv_pos := min (Suc (rv_pos (rv w1 h))) (length rows)\<rparr>"
    using row_contractD(2)[OF assms(2), of h w1] on(5) w1(2) by auto
  let ?q = "q\<lparr>mq_m_Row := map_option (Pair h) (row_at (rv w1 h))\<rparr>"
  have "CppMySQLQuery_seekRow lb n (q, m) = (Ret (of_nat ?k), (?q, m\<lparr>mlib := w2\<rparr>))"
    using on(1,2) w1(1) w2(1) target by (simp add: CppMySQLQuery_seekRow_def Let_def prog_simps)
  moreover have "my_query_on rv (?q, m\<lparr>mlib := w2\<rparr>) h flds rows ?k"
    using on w1(2) w2(2) k by (simp add: my_query_on_def row_at_def res_wf_def Let_def)
  ultimately show ?thesis by blast
qed

interpretation my_cursor: scrollable
    CppMySQLQuery_eof "my_query_row d" "CppMySQLQuery_nextRow lb" "my_query_pending lb rv d"
    "\<lambda>k. CppMySQLQuery_seekRow lb (of_nat k)" "my_query_rows rv d"
  for lb rv d
proof unfold_locales
  fix s :: "'a my_qst" assume "my_query_pending lb rv d s []"
  then show "CppMySQLQuery_eof s = (Ret True, s)"
    by (cases s) (auto simp: my_query_pending_def my_query_on_def CppMySQLQuery_eof_def prog_simps)
next
  fix s :: "'a my_qst" and r rs assume p: "my_query_pending lb rv d s (r # rs)"
  obtain q m where s: "s = (q, m)" by (cases s)
  from p obtain h flds rows k where k: "row_contract lb rv" "my_query_on rv (q, m) h flds rows k"
      "r # rs = map (map (or_default d)) (drop k rows)"
    by (auto simp: my_query_pending_def s)
  then have lt: "k < length rows" by (cases "k < length rows") auto
  with k(3) have r: "r = map (or_default d) (rows ! k)" "rs = map (map (or_default d)) (drop (Suc k) rows)"
    by (simp_all add: drop_eq_Cons_nth)
  show "CppMySQLQuery_eof s = (Ret False, s)"
    using my_query_onD(10)[OF k(2)] lt by (simp add: s CppMySQLQuery_eof_def prog_simps)
  have row: "my_query_row d (q, m) = (Ret r, (q, m))"
    using my_query_row_run[OF k(2) lt] r(1) by simp
  obtain q' w' where nxt: "CppMySQLQuery_nextRow lb (q, m) = (Ret (), (q', m\<lparr>mlib := w'\<rparr>))"
      "my_query_on rv (q', m\<lparr>mlib := w'\<rparr>) h flds rows (Suc k)"
    using my_nextRow_run[OF k(2,1) lt] by blast
  have "my_query_pending lb rv d (q', m\<lparr>mlib := w'\<rparr>) rs"
    using k(1) nxt(2) r(2) by (auto simp: my_query_pending_def)
  then show "\<exists>s'. bindP (my_query_row d) (\<lambda>r. seqP (CppMySQLQuery_nextRow lb) (ret r)) s = (Ret r, s') \<and>
      my_query_pending lb rv d s' rs"
    using row nxt(1) by (auto simp: s prog_simps)
  show "\<exists>s'. my_query_row d s = (Ret r, s') \<and> my_query_pending lb rv d s' (r # rs) \<and>
      my_query_rows rv d s' = my_query_rows rv d s"
    using row p by (auto simp: s)
next
  fix s :: "'a my_qst" and rs and k
  assume p: "my_query_pending lb rv d s rs" "k < length (my_query_rows rv d s)"
  obtain q m where s: "s = (q, m)" by (cases s)
  from p(1) obtain h flds rows j where j: "row_contract lb rv" "my_query_on rv (q, m) h flds rows j"
    by (auto simp: my_query_pending_def s)
  have rows: "my_query_rows rv d (q, m) = map (map (or_default d)) rows"
    using my_query_rows_on[OF j(2)] .
  then have k: "k < length rows" using p(2) by (simp add: s)
  have "length rows < 2 ^ 64" using my_query_onD(3,5)[OF j(2)] by (simp add: res_wf_def)
  then have "unat (of_nat k :: ulong) = k" using k by (simp add: unsigned_of_nat take_bit_nat_eq_self)
  moreover have "rows \<noteq> []" using k by auto
  ultimately obtain q' w' where seek: "CppMySQLQuery_seekRow lb (of_nat k) (q, m) = (Ret (of_nat k), (q', m\<lparr>mlib := w'\<rparr>))"
      "my_query_on rv (q', m\<lparr>mlib := w'\<rparr>) h flds rows k"
    using my_seekRow_run[OF j(2,1), of "of_nat k"] k by (auto simp: min_def split: if_splits)
  have "my_query_pending lb rv d (q', m\<lparr>mlib := w'\<rparr>) (drop k (my_query_rows rv d s))"
    unfolding my_query_pending_def using j(1) seek(2) rows by (auto simp: s drop_map)
  then show "\<exists>i s'. CppMySQLQuery_seekRow lb (of_nat k) s = (Ret i, s') \<and>
      my_query_pending lb rv d s' (drop k (my_query_rows rv d s)) \<and> my_query_rows rv d s' = my_query_rows rv d s"
    using seek my_query_rows_on[OF seek(2)] rows by (auto simp: s)
qed

section \<open>Ownership of the result\<close>

definition my_query_ops :: "'w mysql_lib \<Rightarrow> (my_query, 'w my_mach, my_exn) class_ops" where
  "my_query_ops lb =
     \<lparr>op_copy = CppMySQLQuery_copy, op_assign = CppMySQLQuery_assign lb,
      op_clear = CppMySQLQuery_clear lb\<rparr>"

definition my_query_acquired :: "'w mysql_lib \<Rightarrow> 'w my_mach \<Rightarrow> my_query \<Rightarrow> 'w my_mach \<Rightarrow> bool" where
  "my_query_acquired lb m q m' \<longleftrightarrow>
     (q = CppMySQLQuery_default \<and> m' = m) \<or>
     (\<exists>m1 h. h \<notin> live_res m \<and> live_res m1 = insert h (live_res m) \<and>
        CppMySQLQuery_new lb (Some h) m1 = (Ret q, m'))"

lemma load_result_live:
  assumes "h \<in> live_res m"
  shows "\<exists>x w'. load_result lb (Some h) m = (Ret x, m\<lparr>mlib := w'\<rparr>)"
proof -
  obtain w1 where w1: "mysql_data_seek lb h 0 (mlib m) = ((), w1)" by (cases "mysql_data_seek lb h 0 (mlib m)") auto
  obtain r w2 where w2: "mysql_fetch_row lb h w1 = (r, w2)" by (cases "mysql_fetch_row lb h w1")
  obtain n w3 where w3: "mysql_num_rows lb h w2 = (n, w3)" by (cases "mysql_num_rows lb h w2")
  obtain k w4 where w4: "mysql_num_fields lb h w3 = (k, w4)" by (cases "mysql_num_fields lb h w3")
  show ?thesis
    using assms w1 w2 w3 w4 by (auto simp: load_result_def prog_simps)
qed

lemma my_query_clear_run:
  assumes "set_option (mq_m_pRES q) \<subseteq> live_res m"
  shows "\<exists>m'. CppMySQLQuery_clear lb (q, m) = (Ret (), (q\<lparr>mq_m_pRES := None\<rparr>, m')) \<and>
           live_res m' = live_res m - set_option (mq_m_pRES q)"
proof (cases "mq_m_pRES q")
  case None
  then have "q\<lparr>mq_m_pRES := None\<rparr> = q" by simp
  with None show ?thesis by (simp add: CppMySQLQuery_clear_def prog_simps)
next
  case (Some h)
  obtain w' where "mysql_free_result lb h (mlib m) = ((), w')"
    by (cases "mysql_free_result lb h (mlib m)") auto
  with Some assms show ?thesis by (simp add: CppMySQLQuery_clear_def prog_simps)
qed

lemma my_query_assign_run:
  assumes "set_option (mq_m_pRES x) \<subseteq> live_res m" and "set_option (mq_m_pRES y) \<subseteq> live_res m"
    and "set_option (mq_m_pRES x) \<inter> set_option (mq_m_pRES y) = {}"
  shows "\<exists>x' m'. CppMySQLQuery_assign lb False x y m = (Ret (x', y\<lparr>mq_m_pRES := None\<rparr>), m') \<and>
           mq_m_pRES x' = mq_m_pRES y \<and> live_res m' = live_res m - set_option (mq_m_pRES x)"
proof -
  obtain m1 where m1: "CppMySQLQuery_clear lb (x, m) = (Ret (), (x\<lparr>mq_m_pRES := None\<rparr>, m1))"
      "live_res m1 = live_res m - set_option (mq_m_pRES x)"
    using my_query_clear_run[OF assms(1)] by blast
  then have c: "catch_all (CppMySQLQuery_clear lb) (x, m) = (Ret (), (x\<lparr>mq_m_pRES := None\<rparr>, m1))"
    by (simp add: prog_simps)
  show ?thesis
  proof (cases "mq_m_pRES y")
    case None
    then show ?thesis using c m1(2) by (simp add: CppMySQLQuery_assign_def Let_def)
  next
    case (Some h)
    then have "h \<in> live_res m1" using assms(2,3) m1(2) by auto
    then obtain z w' where "load_result lb (Some h) m1 = (Ret z, m1\<lparr>mlib := w'\<rparr>)"
      using load_result_live by blast
    then show ?thesis
      using c m1(2) Some by (cases z) (simp add: CppMySQLQuery_assign_def Let_def prog_simps)
  qed
qed

lemma my_query_new_live:
  "h \<in> live_res m \<Longrightarrow> CppMySQLQuery_new lb (Some h) m = (Ret q, m') \<Longrightarrow>
   mq_m_pRES q = Some h \<and> live_res m' = live_res m"
  using load_result_live[of h m lb] by (auto simp: CppMySQLQuery_new_def prog_simps bindP_def)

interpretation my_query_owner: releasing_class
    "my_query_ops lb" "my_query_acquired lb" "\<lambda>q. set_option (mq_m_pRES q)" live_res "\<lambda>_. True"
  for lb
proof unfold_locales
  show "op_assign (my_query_ops lb) True x x m = (Ret (x, x), m)" for x m
    by (simp add: my_query_ops_def CppMySQLQuery_assign_def)
next
  fix m m' :: "'a my_mach" and x assume "my_query_acquired lb m x m'"
  then consider (default) "x = CppMySQLQuery_default" "m' = m"
    | (new) m1 h where "h \<notin> live_res m" "live_res m1 = insert h (live_res m)"
        "CppMySQLQuery_new lb (Some h) m1 = (Ret x, m')"
    by (auto simp: my_query_acquired_def)
  then show "True \<and> set_option (mq_m_pRES x) \<inter> live_res m = {} \<and>
      live_res m' = live_res m \<union> set_option (mq_m_pRES x)"
  proof cases
    case default
    then show ?thesis by (simp add: CppMySQLQuery_default_def)
  next
    case new
    then show ?thesis using my_query_new_live[of h m1 lb x m'] by simp
  qed
next
  fix x n x' :: my_query assume "op_copy (my_query_ops lb) x = (n, x')"
  then show "set_option (mq_m_pRES n) = set_option (mq_m_pRES x) \<and> set_option (mq_m_pRES x') = {}"
    by (auto simp: my_query_ops_def CppMySQLQuery_copy_def)
next
  fix m :: "'a my_mach" and x y :: my_query
  assume l: "set_option (mq_m_pRES x) \<subseteq> live_res m"
  show "\<exists>r x' m'. op_clear (my_query_ops lb) (x, m) = (r, (x', m')) \<and> \<not> is_undef r \<and> True \<and>
      set_option (mq_m_pRES x') = {} \<and> live_res m' = live_res m - set_option (mq_m_pRES x)"
    using my_query_clear_run[OF l] by (force simp: my_query_ops_def)
  assume l2: "set_option (mq_m_pRES y) \<subseteq> live_res m"
    "set_option (mq_m_pRES x) \<inter> set_option (mq_m_pRES y) = {}"
  show "\<exists>x' y' m'. op_assign (my_query_ops lb) False x y m = (Ret (x', y'), m') \<and> True \<and>
      set_option (mq_m_pRES x') = set_option (mq_m_pRES y) \<and> set_option (mq_m_pRES y') = {} \<and>
      live_res m' \<subseteq> live_res m \<and> live_res m - set_option (mq_m_pRES x) \<subseteq> live_res m'"
    using my_query_assign_run[OF l l2, of lb] by (force simp: my_query_ops_def)
  fix x' y' m'
  assume "op_assign (my_query_ops lb) False x y m = (Ret (x', y'), m')"
  then show "live_res m' = live_res m - set_option (mq_m_pRES x)"
    using my_query_assign_run[OF l l2, of lb] by (auto simp: my_query_ops_def)
qed

section \<open>Fields by name\<close>

text \<open>A query on a live result, whatever row it stands on.\<close>

definition my_query_fields :: "'w res_views \<Rightarrow> 'w my_qst \<Rightarrow> nat \<Rightarrow> res_view \<Rightarrow> bool" where
  "my_query_fields rv s h v \<longleftrightarrow>
     mq_m_pRES (fst s) = Some h \<and> h \<in> live_res (snd s) \<and> rv (mlib (snd s)) h = v \<and> res_wf v \<and>
     mq_m_numFields (fst s) = of_nat (length (rv_fields v)) \<and> None \<notin> fst ` set (rv_fields v)"

lemma next_field_run:
  assumes "my_query_fields rv (q, m) h v" and "field_contract lb rv" and "rv_fpos v < length (rv_fields v)"
  shows "\<exists>q' w'. next_field lb (q, m) = (Ret (Some (h, rv_fields v ! rv_fpos v)), (q', m\<lparr>mlib := w'\<rparr>)) \<and>
           my_query_fields rv (q', m\<lparr>mlib := w'\<rparr>) h (v\<lparr>rv_fpos := Suc (rv_fpos v)\<rparr>)"
proof -
  have q: "mq_m_pRES q = Some h" "h \<in> live_res m" "rv (mlib m) h = v"
    using assms(1) by (simp_all add: my_query_fields_def)
  obtain w' where w: "mysql_fetch_field lb h (mlib m) = (field_at v, w')"
      "rv w' h = v\<lparr>rv_fpos := Suc (rv_fpos v)\<rparr>"
    using field_contractD(2)[OF assms(2), of h "mlib m"] q(3) assms(3) by auto
  show ?thesis
    using q w assms(1,3)
    by (auto simp: next_field_def fetch_field_def field_at_def my_query_fields_def res_wf_def prog_simps)
qed

lemma field_def_run [prog_simps]: "h \<in> live_res m \<Longrightarrow> field_def (h, f) (q, m) = (Ret f, (q, m))"
  by (simp add: field_def_def)

text \<open>The names of the fields, all of them given.\<close>

definition rv_names :: "res_view \<Rightarrow> string list" where
  "rv_names v = map (\<lambda>f. case fst f of None \<Rightarrow> [] | Some nm \<Rightarrow> nm) (rv_fields v)"

lemma rv_names_upd [simp]: "rv_names (v\<lparr>rv_fpos := p\<rparr>) = rv_names v"
  by (simp add: rv_names_def)

lemma length_rv_names [simp]: "length (rv_names v) = length (rv_fields v)"
  by (simp add: rv_names_def)

lemma rv_names_nth:
  assumes "None \<notin> fst ` set (rv_fields v)" and "k < length (rv_fields v)"
  shows "rv_fields v ! k = (Some (rv_names v ! k), snd (rv_fields v ! k))"
proof -
  have "fst (rv_fields v ! k) \<noteq> None"
    using assms nth_mem[OF assms(2)] by (metis image_eqI)
  then show ?thesis using assms(2) by (cases "rv_fields v ! k") (auto simp: rv_names_def)
qed

lemma fieldIndex_loop_step:
  assumes "my_query_fields rv (q, m) h v" and "field_contract lb rv" and "rv_fpos v = k"
    and "k < length (rv_fields v)"
  shows "\<exists>q' w'. my_query_fields rv (q', m\<lparr>mlib := w'\<rparr>) h (v\<lparr>rv_fpos := Suc k\<rparr>) \<and>
           CppMySQLQuery_fieldIndex_loop lb f (of_nat (length (rv_fields v))) (of_nat k) (q, m) =
             (if rv_names v ! k = f then (Ret (int k), (q', m\<lparr>mlib := w'\<rparr>))
              else CppMySQLQuery_fieldIndex_loop lb f (of_nat (length (rv_fields v))) (of_nat (Suc k))
                     (q', m\<lparr>mlib := w'\<rparr>))"
proof -
  have wf: "int (length (rv_fields v)) \<le> INT_MAX" "None \<notin> fst ` set (rv_fields v)" "h \<in> live_res m"
    using assms(1) by (simp_all add: my_query_fields_def res_wf_def)
  have lt: "(of_nat k :: uint32) < of_nat (length (rv_fields v))"
    using assms(4) wf(1) by (simp add: word_less_nat_alt unsigned_of_nat take_bit_nat_eq_self INT_MAX_def)
  have k: "uint_to_int (of_nat k) = int k"
    using assms(4) wf(1) by (intro uint_to_int_of_nat) simp
  obtain q' w' where n: "next_field lb (q, m) = (Ret (Some (h, rv_fields v ! k)), (q', m\<lparr>mlib := w'\<rparr>))"
      "my_query_fields rv (q', m\<lparr>mlib := w'\<rparr>) h (v\<lparr>rv_fpos := Suc k\<rparr>)"
    using next_field_run[OF assms(1,2)] assms(3,4) by auto
  obtain ty where "rv_fields v ! k = (Some (rv_names v ! k), ty)"
    using rv_names_nth[OF wf(2) assms(4)] by blast
  then have n': "next_field lb (q, m) = (Ret (Some (h, Some (rv_names v ! k), ty)), (q', m\<lparr>mlib := w'\<rparr>))"
    using n(1) by simp
  have "CppMySQLQuery_fieldIndex_loop lb f (of_nat (length (rv_fields v))) (of_nat k) (q, m) =
      (if rv_names v ! k = f then (Ret (int k), (q', m\<lparr>mlib := w'\<rparr>))
       else CppMySQLQuery_fieldIndex_loop lb f (of_nat (length (rv_fields v))) (of_nat (Suc k)) (q', m\<lparr>mlib := w'\<rparr>))"
    using lt n' k wf(3)
    by (subst CppMySQLQuery_fieldIndex_loop.simps) (simp add: prog_simps add.commute)
  with n(2) show ?thesis by blast
qed

lemma my_fieldIndex_loop_run:
  "my_query_fields rv (q, m) h v \<Longrightarrow> field_contract lb rv \<Longrightarrow> rv_fpos v = k \<Longrightarrow> k \<le> length (rv_fields v) \<Longrightarrow>
   \<exists>s'. CppMySQLQuery_fieldIndex_loop lb f (of_nat (length (rv_fields v))) (of_nat k) (q, m) =
      (case least_index f (drop k (rv_names v)) of
         Some j \<Rightarrow> Ret (int (k + j))
       | None \<Rightarrow> Throw (my_error m CPPMYSQL_QUERY_ERROR), s')"
proof (induction "length (rv_fields v) - k" arbitrary: k q m v)
  case 0
  then show ?case
    by (subst CppMySQLQuery_fieldIndex_loop.simps) (simp add: prog_simps)
next
  case (Suc n)
  have k: "k < length (rv_fields v)" using Suc.hyps(2) by simp
  obtain q1 w1 where st: "my_query_fields rv (q1, m\<lparr>mlib := w1\<rparr>) h (v\<lparr>rv_fpos := Suc k\<rparr>)"
      "CppMySQLQuery_fieldIndex_loop lb f (of_nat (length (rv_fields v))) (of_nat k) (q, m) =
        (if rv_names v ! k = f then (Ret (int k), (q1, m\<lparr>mlib := w1\<rparr>))
         else CppMySQLQuery_fieldIndex_loop lb f (of_nat (length (rv_fields v))) (of_nat (Suc k)) (q1, m\<lparr>mlib := w1\<rparr>))"
    using fieldIndex_loop_step[OF Suc.prems(1-3) k] by blast
  have "n = length (rv_fields (v\<lparr>rv_fpos := Suc k\<rparr>)) - Suc k" using Suc.hyps(2) by simp
  from Suc.hyps(1)[OF this st(1) Suc.prems(2)] k
  obtain s' where ih: "CppMySQLQuery_fieldIndex_loop lb f (of_nat (length (rv_fields v))) (of_nat (Suc k)) (q1, m\<lparr>mlib := w1\<rparr>) =
        (case least_index f (drop (Suc k) (rv_names v)) of
           Some j \<Rightarrow> Ret (int (Suc k + j))
         | None \<Rightarrow> Throw (my_error (m\<lparr>mlib := w1\<rparr>) CPPMYSQL_QUERY_ERROR), s')"
    by auto
  have "my_error (m\<lparr>mlib := w1\<rparr>) n = my_error m n" for n by (simp add: my_error_def)
  with st(2) ih k show ?case
    by (cases "least_index f (drop (Suc k) (rv_names v))") (auto simp: least_index_drop)
qed

lemma my_fieldIndex_run:
  assumes "my_query_fields rv (q, m) h v" and "field_contract lb rv"
  shows "\<exists>s'. CppMySQLQuery_fieldIndex lb (Some f) (q, m) =
      (case least_index f (rv_names v) of
         Some j \<Rightarrow> Ret (int j)
       | None \<Rightarrow> Throw (my_error m CPPMYSQL_QUERY_ERROR), s')"
proof -
  have q: "mq_m_pRES q = Some h" "h \<in> live_res m" "rv (mlib m) h = v"
      "mq_m_numFields q = of_nat (length (rv_fields v))"
    using assms(1) by (simp_all add: my_query_fields_def)
  obtain old w1 where w1: "mysql_field_seek lb h 0 (mlib m) = (old, w1)" "rv w1 h = v\<lparr>rv_fpos := 0\<rparr>"
    using field_contractD(1)[OF assms(2), of h 0 "mlib m"] q(3) by auto
  have on: "my_query_fields rv (q, m\<lparr>mlib := w1\<rparr>) h (v\<lparr>rv_fpos := 0\<rparr>)"
    using assms(1) w1(2) by (simp add: my_query_fields_def res_wf_def)
  have "my_error (m\<lparr>mlib := w1\<rparr>) n = my_error m n" for n by (simp add: my_error_def)
  then show ?thesis
    using my_fieldIndex_loop_run[OF on assms(2), of 0 f] q w1(1)
    by (simp add: CppMySQLQuery_fieldIndex_def seek_field_def prog_simps cong: option.case_cong)
qed

end
