(* ===== verification/MysqlResultSet.thy ===== *)
theory MysqlResultSet
  imports MysqlQuery
begin

text \<open>
  \<open>CppMySQLResultSet\<close> of \<open>src/CppMySQL.cpp\<close>: a copy of a stored result in a vector of vectors of
  strings and a map from field numbers to names, both on the heap, walked with a row number.  SQL
  NULL is stored as the string \<open>NULL\<close>.
\<close>

section \<open>The class\<close>

record my_rset =
  mr_m_pResultSet :: "nat option"
  mr_m_pFieldMap :: "nat option"
  mr_m_nCurrentRow :: ulong
  mr_m_nRows :: ulong
  mr_m_nCols :: uint32

type_synonym 'w my_rst = "my_rset \<times> 'w my_mach"

definition CppMySQLResultSet_default :: my_rset where
  "CppMySQLResultSet_default =
     \<lparr>mr_m_pResultSet = None, mr_m_pFieldMap = None, mr_m_nCurrentRow = 0, mr_m_nRows = 0, mr_m_nCols = 0\<rparr>"

definition CppMySQLResultSet_copy :: "my_rset \<Rightarrow> my_rset \<times> my_rset" where
  "CppMySQLResultSet_copy rResultSet =
     (\<lparr>mr_m_pResultSet = mr_m_pResultSet rResultSet, mr_m_pFieldMap = mr_m_pFieldMap rResultSet,
       mr_m_nCurrentRow = 0, mr_m_nRows = mr_m_nRows rResultSet, mr_m_nCols = mr_m_nCols rResultSet\<rparr>,
      rResultSet\<lparr>mr_m_pResultSet := None, mr_m_pFieldMap := None\<rparr>)"

text \<open>The two halves of \<open>clear\<close>.\<close>

definition rset_clear_fields :: "('w my_rst, my_exn, unit) prog" where
  "rset_clear_fields =
     bindP get_this (\<lambda>t.
     if mr_m_pFieldMap t \<noteq> None
     then seqP (on_mach (delete_map (mr_m_pFieldMap t))) (upd_this (mr_m_pFieldMap_update (\<lambda>_. None)))
     else ret ())"

definition rset_clear_rows :: "('w my_rst, my_exn, unit) prog" where
  "rset_clear_rows =
     bindP get_this (\<lambda>t.
     if mr_m_pResultSet t \<noteq> None
     then seqP (on_mach (delete_rows (mr_m_pResultSet t))) (upd_this (mr_m_pResultSet_update (\<lambda>_. None)))
     else ret ())"

definition CppMySQLResultSet_clear :: "('w my_rst, my_exn, unit) prog" where
  "CppMySQLResultSet_clear = seqP rset_clear_fields rset_clear_rows"

definition CppMySQLResultSet_destroy :: "('w my_rst, my_exn, unit) prog" where
  "CppMySQLResultSet_destroy = catch_all CppMySQLResultSet_clear"

text \<open>\<open>*this = rResultSet\<close>, given whether \<open>this == &rResultSet\<close>.\<close>

definition CppMySQLResultSet_assign ::
  "bool \<Rightarrow> my_rset \<Rightarrow> my_rset \<Rightarrow> ('w my_mach, my_exn, my_rset \<times> my_rset) prog" where
  "CppMySQLResultSet_assign same this rResultSet m =
     (if same then (Ret (this, rResultSet), m)
      else case catch_all CppMySQLResultSet_clear (this, m) of
        (Ret _, (this', m')) \<Rightarrow>
          (Ret (this'\<lparr>mr_m_pResultSet := mr_m_pResultSet rResultSet,
                      mr_m_pFieldMap := mr_m_pFieldMap rResultSet,
                      mr_m_nRows := mr_m_nRows rResultSet, mr_m_nCols := mr_m_nCols rResultSet,
                      mr_m_nCurrentRow := mr_m_nCurrentRow rResultSet\<rparr>,
                rResultSet\<lparr>mr_m_pResultSet := None, mr_m_pFieldMap := None\<rparr>), m')
      | (Throw e, (_, m')) \<Rightarrow> (Throw e, m')
      | (Undef u, (_, m')) \<Rightarrow> (Undef u, m'))"

subsection \<open>Building the copy\<close>

text \<open>\<open>row[i]\<close> of a fetched row, and what is pushed for it.\<close>

definition row_elem :: "nat \<times> string option list \<Rightarrow> nat \<Rightarrow> ('w my_mach, 'e, string option) prog" where
  "row_elem row i m =
     (if fst row \<notin> live_res m then (Undef UseAfterFree, m) else vector_at (snd row) i m)"

definition cell_text :: "string option \<Rightarrow> string" where
  "cell_text c = (case c of None \<Rightarrow> ''NULL'' | Some s \<Rightarrow> s)"

definition row_strings :: "uint32 \<Rightarrow> nat \<times> string option list \<Rightarrow> ('w my_mach, 'e, string list) prog" where
  "row_strings nCols row = mapP (\<lambda>i. bindP (row_elem row i) (\<lambda>c. ret (cell_text c))) [0..<unat nCols]"

definition push_row :: "nat \<Rightarrow> string list \<Rightarrow> ('w my_mach, 'e, unit) prog" where
  "push_row p r =
     bindP (deref heap_rows (Some p)) (\<lambda>rs m. (Ret (), m\<lparr>heap_rows := (heap_rows m)(p \<mapsto> rs @ [r])\<rparr>))"

text \<open>The loop of \<open>buildResultSet\<close>, with fuel; \<open>row\<close> is the row just fetched.\<close>

fun build_rows ::
  "nat \<Rightarrow> 'w mysql_lib \<Rightarrow> nat option \<Rightarrow> nat \<Rightarrow> uint32 \<Rightarrow> (nat \<times> string option list) option \<Rightarrow>
   ('w my_mach, my_exn, unit) prog" where
  "build_rows 0 lb pRES p nCols row = undef OutOfFuel"
| "build_rows (Suc fuel) lb pRES p nCols row =
     (case row of
        None \<Rightarrow> ret ()
      | Some r \<Rightarrow>
          bindP (row_strings nCols r) (\<lambda>strs.
          seqP (push_row p strs)
          (bindP (fetch_row lb pRES) (\<lambda>row'. build_rows fuel lb pRES p nCols row'))))"

definition CppMySQLResultSet_buildResultSet ::
  "nat \<Rightarrow> 'w mysql_lib \<Rightarrow> nat option \<Rightarrow> ('w my_mach, my_exn, nat \<times> ulong \<times> uint32) prog" where
  "CppMySQLResultSet_buildResultSet fuel lb pRES =
     bindP (new_rows []) (\<lambda>p.
     bindP (live_call live_res pRES (mysql_num_fields lb)) (\<lambda>nCols.
     bindP (live_call live_res pRES (mysql_num_rows lb)) (\<lambda>nRows.
     bindP (fetch_row lb pRES) (\<lambda>row.
     seqP (build_rows fuel lb pRES p nCols row) (ret (p, nRows, nCols))))))"

text \<open>\<open>std::map::insert\<close> keeps an existing entry.\<close>

definition map_insert :: "int \<Rightarrow> string \<Rightarrow> (int \<times> string) list \<Rightarrow> (int \<times> string) list" where
  "map_insert k v kvs = (if k \<in> fst ` set kvs then kvs else insort_key fst (k, v) kvs)"

definition insert_field :: "nat \<Rightarrow> int \<Rightarrow> string \<Rightarrow> ('w my_mach, 'e, unit) prog" where
  "insert_field q k v =
     bindP (deref heap_map (Some q)) (\<lambda>kvs m. (Ret (), m\<lparr>heap_map := (heap_map m)(q \<mapsto> map_insert k v kvs)\<rparr>))"

text \<open>The loop of \<open>buildFieldMap\<close> over the columns still to do.\<close>

fun build_fields :: "'w mysql_lib \<Rightarrow> nat option \<Rightarrow> nat \<Rightarrow> nat list \<Rightarrow> ('w my_mach, my_exn, unit) prog" where
  "build_fields lb pRES q [] = ret ()"
| "build_fields lb pRES q (nCol # cols) =
     bindP (live_call live_res pRES (mysql_fetch_fields lb)) (\<lambda>flds.
     bindP (vector_at flds nCol) (\<lambda>(name, type).
     case name of
       Some nm \<Rightarrow> seqP (insert_field q (int nCol) nm) (build_fields lb pRES q cols)
     | None \<Rightarrow>
         throw_my CPPMYSQL_RESULTSET_ERROR (Some (''field '' @ show_nat nCol @ '' name is NULL''))))"

definition CppMySQLResultSet_buildFieldMap ::
  "'w mysql_lib \<Rightarrow> nat option \<Rightarrow> uint32 \<Rightarrow> ('w my_mach, my_exn, nat) prog" where
  "CppMySQLResultSet_buildFieldMap lb pRES nCols =
     bindP (new_map []) (\<lambda>q. seqP (build_fields lb pRES q [0..<unat nCols]) (ret q))"

definition CppMySQLResultSet_new ::
  "nat \<Rightarrow> 'w mysql_lib \<Rightarrow> nat option \<Rightarrow> ('w my_mach, my_exn, my_rset) prog" where
  "CppMySQLResultSet_new fuel lb pRES =
     (if pRES \<noteq> None
      then bindP (CppMySQLResultSet_buildResultSet fuel lb pRES) (\<lambda>(p, nRows, nCols).
           bindP (CppMySQLResultSet_buildFieldMap lb pRES nCols) (\<lambda>q.
           ret \<lparr>mr_m_pResultSet = Some p, mr_m_pFieldMap = Some q, mr_m_nCurrentRow = 0,
                mr_m_nRows = nRows, mr_m_nCols = nCols\<rparr>))
      else ret \<lparr>mr_m_pResultSet = None, mr_m_pFieldMap = None, mr_m_nCurrentRow = 0,
                mr_m_nRows = 0, mr_m_nCols = 0\<rparr>)"

subsection \<open>Reading\<close>

definition CppMySQLResultSet_checkResults :: "('w my_rst, my_exn, unit) prog" where
  "CppMySQLResultSet_checkResults =
     bindP get_this (\<lambda>t.
     if mr_m_pResultSet t = None
     then on_mach (throw_my CPPMYSQL_RESULTSET_ERROR (Some ''invalid resultSet''))
     else ret ())"

definition CppMySQLResultSet_checkFields :: "('w my_rst, my_exn, unit) prog" where
  "CppMySQLResultSet_checkFields =
     bindP get_this (\<lambda>t.
     if mr_m_pFieldMap t = None
     then on_mach (throw_my CPPMYSQL_RESULTSET_ERROR (Some ''invalid FieldsMap''))
     else ret ())"

definition CppMySQLResultSet_numFields :: "('w my_rst, my_exn, int) prog" where
  "CppMySQLResultSet_numFields =
     seqP CppMySQLResultSet_checkResults (bindP get_this (\<lambda>t. ret (uint_to_int (mr_m_nCols t))))"

definition CppMySQLResultSet_numRows :: "('w my_rst, my_exn, ulong) prog" where
  "CppMySQLResultSet_numRows =
     seqP CppMySQLResultSet_checkResults (bindP get_this (\<lambda>t. ret (mr_m_nRows t)))"

definition CppMySQLResultSet_fieldName :: "int \<Rightarrow> ('w my_rst, my_exn, string) prog" where
  "CppMySQLResultSet_fieldName nCol =
     seqP CppMySQLResultSet_checkFields
     (bindP get_this (\<lambda>t.
      if nCol \<ge> 0 \<and> nCol < uint_to_int (mr_m_nCols t)
      then bindP (on_mach (deref heap_map (mr_m_pFieldMap t))) (\<lambda>kvs.
           case map_of kvs nCol of
             Some nm \<Rightarrow> ret nm
           | None \<Rightarrow> on_mach (throw_my CPPMYSQL_RESULTSET_ERROR (Some ''Invalid nCol index requested'')))
      else on_mach (throw_my CPPMYSQL_RESULTSET_ERROR (Some ''Invalid nCol index requested''))))"

text \<open>\<open>(*m_pResultSet)[m_nCurrentRow][nField]\<close>.\<close>

definition my_rset_cell :: "int \<Rightarrow> ('w my_rst, my_exn, string) prog" where
  "my_rset_cell nField =
     bindP get_this (\<lambda>t.
     bindP (on_mach (deref heap_rows (mr_m_pResultSet t))) (\<lambda>rs.
     bindP (vector_at rs (unat (mr_m_nCurrentRow t))) (\<lambda>r.
     vector_at r (unat (int_to_ulong nField)))))"

definition CppMySQLResultSet_fieldValue :: "int \<Rightarrow> ('w my_rst, my_exn, string) prog" where
  "CppMySQLResultSet_fieldValue nField =
     seqP CppMySQLResultSet_checkResults (my_rset_cell nField)"

text \<open>The walk over the map in key order; \<open>strcmp\<close> with a null name is undefined.\<close>

fun field_map_find :: "string option \<Rightarrow> (int \<times> string) list \<Rightarrow> ('w my_rst, my_exn, int) prog" where
  "field_map_find szField [] =
     on_mach (throw_my CPPMYSQL_RESULTSET_ERROR (Some ''Invalid field name requested''))"
| "field_map_find szField ((k, nm) # kvs) =
     (case szField of
        None \<Rightarrow> undef NullDeref
      | Some f \<Rightarrow> (if nm = f then ret k else field_map_find szField kvs))"

definition CppMySQLResultSet_FieldColIndex :: "string option \<Rightarrow> ('w my_rst, my_exn, int) prog" where
  "CppMySQLResultSet_FieldColIndex szField =
     seqP CppMySQLResultSet_checkFields
     (bindP get_this (\<lambda>t.
      bindP (on_mach (deref heap_map (mr_m_pFieldMap t))) (field_map_find szField)))"

definition CppMySQLResultSet_fieldValue_by_name :: "string option \<Rightarrow> ('w my_rst, my_exn, string) prog" where
  "CppMySQLResultSet_fieldValue_by_name szField =
     bindP (CppMySQLResultSet_FieldColIndex szField) CppMySQLResultSet_fieldValue"

definition CppMySQLResultSet_eof :: "('w my_rst, my_exn, bool) prog" where
  "CppMySQLResultSet_eof = bindP get_this (\<lambda>t. ret (mr_m_nCurrentRow t = mr_m_nRows t))"

definition CppMySQLResultSet_nextRow :: "('w my_rst, my_exn, unit) prog" where
  "CppMySQLResultSet_nextRow = upd_this (mr_m_nCurrentRow_update (\<lambda>n. n + 1))"

definition CppMySQLResultSet_seekRow :: "ulong \<Rightarrow> ('w my_rst, my_exn, int) prog" where
  "CppMySQLResultSet_seekRow nRow =
     bindP get_this (\<lambda>t.
     let nRow' = (if nRow \<ge> mr_m_nRows t then mr_m_nRows t - 1 else nRow)
     in seqP (upd_this (mr_m_nCurrentRow_update (\<lambda>_. nRow')))
          (bindP get_this (\<lambda>t'. ret (ulong_to_int (mr_m_nCurrentRow t')))))"

definition CppMySQLResultSet_fieldDataIsNull :: "int \<Rightarrow> ('w my_rst, my_exn, bool) prog" where
  "CppMySQLResultSet_fieldDataIsNull nField = bindP (my_rset_cell nField) (\<lambda>s. ret (s = ''NULL''))"

section \<open>Running the operations\<close>

lemma my_checkResults_run [prog_simps]:
  "mr_m_pResultSet t = Some p \<Longrightarrow> CppMySQLResultSet_checkResults (t, m) = (Ret (), (t, m))"
  "mr_m_pResultSet t = None \<Longrightarrow> CppMySQLResultSet_checkResults (t, m) =
     (Throw (my_error m CPPMYSQL_RESULTSET_ERROR),
      (t, after_throw CPPMYSQL_RESULTSET_ERROR (Some ''invalid resultSet'') m))"
  by (simp_all add: CppMySQLResultSet_checkResults_def prog_simps)

lemma my_checkFields_run [prog_simps]:
  "mr_m_pFieldMap t = Some p \<Longrightarrow> CppMySQLResultSet_checkFields (t, m) = (Ret (), (t, m))"
  "mr_m_pFieldMap t = None \<Longrightarrow> CppMySQLResultSet_checkFields (t, m) =
     (Throw (my_error m CPPMYSQL_RESULTSET_ERROR),
      (t, after_throw CPPMYSQL_RESULTSET_ERROR (Some ''invalid FieldsMap'') m))"
  by (simp_all add: CppMySQLResultSet_checkFields_def prog_simps)

lemma push_row_run [prog_simps]:
  "heap_rows m p = Some rs \<Longrightarrow> push_row p r m = (Ret (), m\<lparr>heap_rows := (heap_rows m)(p \<mapsto> rs @ [r])\<rparr>)"
  by (simp add: push_row_def prog_simps)

lemma insert_field_run [prog_simps]:
  "heap_map m q = Some kvs \<Longrightarrow>
   insert_field q k v m = (Ret (), m\<lparr>heap_map := (heap_map m)(q \<mapsto> map_insert k v kvs)\<rparr>)"
  by (simp add: insert_field_def prog_simps)

text \<open>Each row of the result becomes one row of strings.\<close>

lemma row_strings_run:
  assumes "h \<in> live_res m" and "unat nCols = length cs"
  shows "row_strings nCols (h, cs) m = (Ret (map cell_text cs), m)"
proof -
  have "mapP (\<lambda>i. bindP (row_elem (h, cs) i) (\<lambda>c. ret (cell_text c))) [0..<length cs] m =
      (Ret (map (\<lambda>i. cell_text (cs ! i)) [0..<length cs]), m)"
    using assms(1) by (intro mapP_const_state ballI) (simp add: row_elem_def prog_simps)
  moreover have "map (\<lambda>i. cell_text (cs ! i)) [0..<length cs] = map cell_text cs"
    by (rule nth_equalityI) simp_all
  ultimately show ?thesis using assms(2) by (simp add: row_strings_def)
qed

lemma build_rows_step:
  assumes "h \<in> live_res m" and "heap_rows m p = Some rs" and "unat nCols = length r"
    and "mysql_fetch_row lb h (mlib m) = (r', w1)"
  shows "build_rows (Suc fuel) lb (Some h) p nCols (Some (h, r)) m =
    build_rows fuel lb (Some h) p nCols (map_option (Pair h) r')
      (m\<lparr>heap_rows := (heap_rows m)(p \<mapsto> rs @ [map cell_text r]), mlib := w1\<rparr>)"
  using assms(1,2,4)
  by (simp add: prog_simps bindP_Ret[where p = "row_strings nCols (h, r)" and s = m, OF row_strings_run[OF assms(1,3)]])

lemma build_rows_run:
  "row_contract lb rv \<Longrightarrow> res_wf v \<Longrightarrow> h \<in> live_res m \<Longrightarrow> rv (mlib m) h = v \<Longrightarrow>
   unat nCols = length (rv_fields v) \<Longrightarrow> heap_rows m p = Some rs \<Longrightarrow>
   k \<le> length (rv_rows v) \<Longrightarrow> rv_pos v = min (Suc k) (length (rv_rows v)) \<Longrightarrow>
   row = (if k < length (rv_rows v) then Some (h, rv_rows v ! k) else None) \<Longrightarrow>
   length (rv_rows v) - k < fuel \<Longrightarrow>
   \<exists>w' pos. build_rows fuel lb (Some h) p nCols row m =
     (Ret (), m\<lparr>mlib := w',
        heap_rows := (heap_rows m)(p \<mapsto> rs @ map (map cell_text) (drop k (rv_rows v)))\<rparr>)
     \<and> rv w' h = v\<lparr>rv_pos := pos\<rparr>"
proof (induction fuel arbitrary: m v k rs row)
  case 0
  then show ?case by simp
next
  case (Suc fuel)
  show ?case
  proof (cases "k < length (rv_rows v)")
    case False
    then have "drop k (rv_rows v) = []" "row = None" using Suc.prems(9) by simp_all
    moreover have "m\<lparr>mlib := mlib m, heap_rows := heap_rows m\<rparr> = m" by simp
    moreover have "(heap_rows m)(p \<mapsto> rs) = heap_rows m" using Suc.prems(6) by (simp add: fun_upd_idem)
    ultimately show ?thesis
      using Suc.prems(4) by (auto intro!: exI[of _ "mlib m"] exI[of _ "rv_pos v"])
  next
    case True
    let ?r = "rv_rows v ! k" and ?n = "length (rv_rows v)"
    have row: "row = Some (h, ?r)" using Suc.prems(9) True by simp
    have len: "unat nCols = length ?r" using Suc.prems(2,5) True by (simp add: res_wf_def)
    obtain w1 where w1: "mysql_fetch_row lb h (mlib m) = (row_at v, w1)"
        "rv w1 h = v\<lparr>rv_pos := min (Suc (rv_pos v)) ?n\<rparr>"
      using row_contractD(2)[OF Suc.prems(1), of h "mlib m"] Suc.prems(4) by auto
    have pos: "rv_pos v = Suc k" using Suc.prems(8) True by simp
    let ?v' = "v\<lparr>rv_pos := min (Suc (rv_pos v)) ?n\<rparr>" and ?rs = "rs @ [map cell_text ?r]"
    let ?m = "m\<lparr>heap_rows := (heap_rows m)(p \<mapsto> ?rs), mlib := w1\<rparr>"
    note step = build_rows_step[OF Suc.prems(3,6) len w1(1), of fuel, folded row]
    have "\<exists>w' pos. build_rows fuel lb (Some h) p nCols (map_option (Pair h) (row_at v)) ?m =
      (Ret (), ?m\<lparr>mlib := w', heap_rows := (heap_rows ?m)(p \<mapsto> ?rs @ map (map cell_text) (drop (Suc k) (rv_rows ?v')))\<rparr>)
      \<and> rv w' h = ?v'\<lparr>rv_pos := pos\<rparr>"
      using Suc.prems(1-3,5,10) True pos w1(2)
      by (intro Suc.IH) (auto simp: res_wf_def row_at_def)
    then show ?thesis
      unfolding step drop_eq_Cons_nth[OF True] by (simp del: fun_upd_apply)
  qed
qed

text \<open>The map has the names in column order.\<close>

definition name_map :: "string list \<Rightarrow> (int \<times> string) list" where
  "name_map names = zip (map int [0..<length names]) names"

lemma name_map_snoc: "name_map (names @ [nm]) = name_map names @ [(int (length names), nm)]"
  by (simp add: name_map_def)

lemma insort_key_last: "\<forall>x \<in> set xs. f x < f a \<Longrightarrow> insort_key f a xs = xs @ [a]"
  by (induction xs) auto

lemma name_map_keys: "x \<in> set (name_map names) \<Longrightarrow> fst x < int (length names)"
  by (auto simp: name_map_def set_zip)

lemma map_insert_name_map:
  "map_insert (int (length names)) nm (name_map names) = name_map (names @ [nm])"
proof -
  have "int (length names) \<notin> fst ` set (name_map names)"
    using name_map_keys[of _ names] by fastforce
  then show ?thesis
    using insort_key_last[of "name_map names" fst "(int (length names), nm)"] name_map_keys[of _ names]
    by (simp add: map_insert_def name_map_snoc)
qed

lemma build_fields_run:
  "field_contract lb rv \<Longrightarrow> h \<in> live_res m \<Longrightarrow> rv (mlib m) h = v \<Longrightarrow> None \<notin> fst ` set (rv_fields v) \<Longrightarrow>
   k \<le> length (rv_fields v) \<Longrightarrow> heap_map m q = Some (name_map (take k (rv_names v))) \<Longrightarrow>
   \<exists>w'. build_fields lb (Some h) q [k..<length (rv_fields v)] m =
     (Ret (), m\<lparr>mlib := w', heap_map := (heap_map m)(q \<mapsto> name_map (rv_names v))\<rparr>) \<and> rv w' h = v"
proof (induction "length (rv_fields v) - k" arbitrary: k m)
  case 0
  then have "take k (rv_names v) = rv_names v" by simp
  then have "(heap_map m)(q \<mapsto> name_map (rv_names v)) = heap_map m" using 0 by (simp add: fun_upd_idem)
  then show ?case using 0 by (auto intro!: exI[of _ "mlib m"])
next
  case (Suc n)
  have k: "k < length (rv_fields v)" using Suc.hyps(2) by simp
  obtain w1 where w1: "mysql_fetch_fields lb h (mlib m) = (rv_fields v, w1)" "rv w1 h = v"
    using field_contractD(3)[OF Suc.prems(1), of h "mlib m"] Suc.prems(3) by auto
  obtain ty where f: "rv_fields v ! k = (Some (rv_names v ! k), ty)"
    using rv_names_nth[OF Suc.prems(4) k] by blast
  let ?names = "take k (rv_names v)"
  have ins: "map_insert (int k) (rv_names v ! k) (name_map ?names) = name_map (take (Suc k) (rv_names v))"
    using map_insert_name_map[of ?names "rv_names v ! k"] k
    by (simp add: take_Suc_conv_app_nth min_def)
  let ?m = "m\<lparr>mlib := w1, heap_map := (heap_map m)(q \<mapsto> name_map (take (Suc k) (rv_names v)))\<rparr>"
  have step: "build_fields lb (Some h) q [k..<length (rv_fields v)] m =
      build_fields lb (Some h) q [Suc k..<length (rv_fields v)] ?m"
    using k Suc.prems(2,6) w1(1) f ins by (simp add: upt_conv_Cons prog_simps)
  have n: "n = length (rv_fields v) - Suc k" "Suc k \<le> length (rv_fields v)" using Suc.hyps(2) k by simp_all
  have "\<exists>w'. build_fields lb (Some h) q [Suc k..<length (rv_fields v)] ?m =
      (Ret (), ?m\<lparr>mlib := w', heap_map := (heap_map ?m)(q \<mapsto> name_map (rv_names v))\<rparr>) \<and> rv w' h = v"
    using Suc.prems(2,4) w1(2) by (intro Suc.hyps(1)[OF n(1) Suc.prems(1)] n(2)) simp_all
  then show ?case using step by auto
qed

section \<open>The copy is faithful\<close>

text \<open>A result set that owns a copy of these names and rows.\<close>

definition my_rset_on :: "'w my_rst \<Rightarrow> string list \<Rightarrow> string list list \<Rightarrow> bool" where
  "my_rset_on s names rows \<longleftrightarrow>
     (\<exists>p. mr_m_pResultSet (fst s) = Some p \<and> heap_rows (snd s) p = Some rows) \<and>
     (\<exists>q. mr_m_pFieldMap (fst s) = Some q \<and> heap_map (snd s) q = Some (name_map names)) \<and>
     (\<forall>r \<in> set rows. length r = length names) \<and>
     mr_m_nRows (fst s) = of_nat (length rows) \<and> mr_m_nCols (fst s) = of_nat (length names) \<and>
     length rows < 2 ^ 64 \<and> int (length names) \<le> INT_MAX"

lemma rv_names_pos [simp]: "rv_names (v\<lparr>rv_pos := p\<rparr>) = rv_names v"
  by (simp add: rv_names_def)

lemma unat_of_nat_uint: "int n \<le> INT_MAX \<Longrightarrow> unat (of_nat n :: uint32) = n"
  by (simp add: unsigned_of_nat take_bit_nat_eq_self INT_MAX_def)

lemma my_rset_new_run:
  assumes "row_contract lb rv" and "field_contract lb rv" and "h \<in> live_res m"
    and "rv (mlib m) h = v" and "res_wf v" and "rv_pos v = 0" and "None \<notin> fst ` set (rv_fields v)"
    and "length (rv_rows v) < fuel"
  shows "\<exists>t m'. CppMySQLResultSet_new fuel lb (Some h) m = (Ret t, m') \<and>
           my_rset_on (t, m') (rv_names v) (map (map cell_text) (rv_rows v)) \<and>
           mr_m_nCurrentRow t = 0 \<and> live_res m' = live_res m"
proof -
  let ?n = "length (rv_rows v)" and ?k = "length (rv_fields v)"
  let ?p = "my_next m" and ?q = "Suc (my_next m)"
  let ?m0 = "m\<lparr>my_next := ?q, heap_rows := (heap_rows m)(?p \<mapsto> [])\<rparr>"
  have k: "int ?k \<le> INT_MAX" using assms(5) by (simp add: res_wf_def)
  have u: "unat (of_nat ?k :: uint32) = ?k" using k by (rule unat_of_nat_uint)
  obtain w1 where w1: "mysql_num_fields lb h (mlib m) = (of_nat ?k, w1)" "rv w1 h = v"
    using row_contractD(4)[OF assms(1), of h "mlib m"] assms(4) by auto
  obtain w2 where w2: "mysql_num_rows lb h w1 = (of_nat ?n, w2)" "rv w2 h = v"
    using row_contractD(3)[OF assms(1), of h w1] w1(2) by auto
  obtain w3 where w3: "mysql_fetch_row lb h w2 = (row_at v, w3)" "rv w3 h = v\<lparr>rv_pos := min 1 ?n\<rparr>"
    using row_contractD(2)[OF assms(1), of h w2] w2(2) assms(6) by auto
  let ?row = "map_option (Pair h) (row_at v)"
  let ?v = "v\<lparr>rv_pos := min 1 ?n\<rparr>" and ?m = "?m0\<lparr>mlib := w3\<rparr>"
  have "\<exists>w' pos. build_rows fuel lb (Some h) ?p (of_nat ?k) ?row ?m =
      (Ret (), ?m\<lparr>mlib := w', heap_rows := (heap_rows ?m)(?p \<mapsto> [] @ map (map cell_text) (drop 0 (rv_rows ?v)))\<rparr>) \<and>
      rv w' h = ?v\<lparr>rv_pos := pos\<rparr>"
  proof (rule build_rows_run[OF assms(1)])
    show "?row = (if 0 < length (rv_rows ?v) then Some (h, rv_rows ?v ! 0) else None)"
      using assms(6) by (simp add: row_at_def)
  qed (use assms(3,5,8) w3(2) u in \<open>simp_all add: res_wf_def\<close>)
  then obtain w4 pos where w4: "build_rows fuel lb (Some h) ?p (of_nat ?k) ?row ?m =
      (Ret (), ?m\<lparr>mlib := w4, heap_rows := (heap_rows ?m)(?p \<mapsto> [] @ map (map cell_text) (drop 0 (rv_rows ?v)))\<rparr>)"
      "rv w4 h = v\<lparr>rv_pos := pos\<rparr>"
    by auto
  let ?rows = "map (map cell_text) (rv_rows v)"
  let ?m1 = "m\<lparr>my_next := ?q, heap_rows := (heap_rows m)(?p \<mapsto> ?rows), mlib := w4\<rparr>"
  have b1: "CppMySQLResultSet_buildResultSet fuel lb (Some h) m = (Ret (?p, of_nat ?n, of_nat ?k), ?m1)"
    using assms(3) w1(1) w2(1) w3(1) w4(1)
    by (simp add: CppMySQLResultSet_buildResultSet_def prog_simps del: build_rows.simps)
  let ?m2 = "?m1\<lparr>my_next := Suc ?q, heap_map := (heap_map m)(?q \<mapsto> [])\<rparr>"
  obtain w5 where w5: "build_fields lb (Some h) ?q [0..<?k] ?m2 =
      (Ret (), ?m2\<lparr>mlib := w5, heap_map := (heap_map ?m2)(?q \<mapsto> name_map (rv_names v))\<rparr>)"
    using build_fields_run[OF assms(2), of h ?m2 "v\<lparr>rv_pos := pos\<rparr>" 0 ?q] assms(3,7) w4(2)
    by (auto simp: name_map_def)
  let ?m3 = "?m2\<lparr>mlib := w5, heap_map := (heap_map m)(?q \<mapsto> name_map (rv_names v))\<rparr>"
  have b2: "CppMySQLResultSet_buildFieldMap lb (Some h) (of_nat ?k) ?m1 = (Ret ?q, ?m3)"
    using w5 u by (simp add: CppMySQLResultSet_buildFieldMap_def prog_simps del: build_fields.simps)
  let ?t = "\<lparr>mr_m_pResultSet = Some ?p, mr_m_pFieldMap = Some ?q, mr_m_nCurrentRow = 0,
             mr_m_nRows = of_nat ?n, mr_m_nCols = of_nat ?k\<rparr>"
  have "CppMySQLResultSet_new fuel lb (Some h) m = (Ret ?t, ?m3)"
    using b1 b2 by (simp add: CppMySQLResultSet_new_def prog_simps)
  moreover have "my_rset_on (?t, ?m3) (rv_names v) ?rows"
    using assms(5) by (simp add: my_rset_on_def res_wf_def)
  ultimately show ?thesis by (intro exI[of _ ?t] exI[of _ ?m3]) simp
qed

section \<open>Walking over the rows\<close>

definition my_rset_row :: "('w my_rst, my_exn, string list) prog" where
  "my_rset_row =
     bindP CppMySQLResultSet_numFields (\<lambda>n. mapP CppMySQLResultSet_fieldValue [0..n - 1])"

definition my_rset_rows :: "'w my_rst \<Rightarrow> string list list" where
  "my_rset_rows s =
     (case Option.bind (mr_m_pResultSet (fst s)) (heap_rows (snd s)) of None \<Rightarrow> [] | Some rows \<Rightarrow> rows)"

definition my_rset_pending :: "'w my_rst \<Rightarrow> string list list \<Rightarrow> bool" where
  "my_rset_pending s rs \<longleftrightarrow>
     (\<exists>names k. my_rset_on s names (my_rset_rows s) \<and> mr_m_nCurrentRow (fst s) = of_nat k \<and>
        k \<le> length (my_rset_rows s) \<and> rs = drop k (my_rset_rows s))"

lemma my_rset_rows_on: "my_rset_on s names rows \<Longrightarrow> my_rset_rows s = rows"
  by (auto simp: my_rset_on_def my_rset_rows_def)

lemma my_rset_on_same:
  "my_rset_on (t, m) names rows \<Longrightarrow> my_rset_on (t\<lparr>mr_m_nCurrentRow := i\<rparr>, m) names rows"
  by (simp add: my_rset_on_def)

lemma my_rset_row_number:
  "my_rset_on (t, m) names rows \<Longrightarrow> k \<le> length rows \<Longrightarrow> unat (of_nat k :: ulong) = k"
  by (simp add: my_rset_on_def unsigned_of_nat take_bit_nat_eq_self)

lemma int_to_ulong_of_nat: "int i \<le> INT_MAX \<Longrightarrow> unat (int_to_ulong (int i)) = i"
  by (simp add: int_to_ulong_def unsigned_of_nat take_bit_nat_eq_self INT_MAX_def)

lemma my_rset_fieldValue_run:
  assumes "my_rset_on (t, m) names rows" and "mr_m_nCurrentRow t = of_nat k" and "k < length rows"
    and "i < length names"
  shows "CppMySQLResultSet_fieldValue (int i) (t, m) = (Ret (rows ! k ! i), (t, m))"
proof -
  have len: "length (rows ! k) = length names" using assms(1,3) by (auto simp: my_rset_on_def)
  have "unat (of_nat k :: ulong) = k" using my_rset_row_number[OF assms(1)] assms(3) by simp
  moreover have "unat (int_to_ulong (int i)) = i"
    using assms(1,4) by (intro int_to_ulong_of_nat) (simp add: my_rset_on_def)
  ultimately show ?thesis
    using assms len
    by (auto simp: CppMySQLResultSet_fieldValue_def my_rset_cell_def my_rset_on_def prog_simps)
qed

lemma my_rset_row_run:
  assumes "my_rset_on (t, m) names rows" and "mr_m_nCurrentRow t = of_nat k" and "k < length rows"
  shows "my_rset_row (t, m) = (Ret (rows ! k), (t, m))"
proof -
  have len: "length (rows ! k) = length names" using assms(1,3) by (auto simp: my_rset_on_def)
  have n: "CppMySQLResultSet_numFields (t, m) = (Ret (int (length names)), (t, m))"
    using assms(1) by (auto simp: CppMySQLResultSet_numFields_def my_rset_on_def uint_to_int_of_nat prog_simps)
  have "CppMySQLResultSet_fieldValue i (t, m) = (Ret (rows ! k ! nat i), (t, m))"
    if "i \<in> set [0..int (length names) - 1]" for i
    using my_rset_fieldValue_run[OF assms, of "nat i"] that by (simp add: nat_less_iff)
  then have "mapP CppMySQLResultSet_fieldValue [0..int (length names) - 1] (t, m) =
      (Ret (map (\<lambda>i. rows ! k ! nat i) [0..int (length names) - 1]), (t, m))"
    by (intro mapP_const_state ballI)
  then show ?thesis
    using n map_upto_nth[of id "rows ! k"] by (simp add: my_rset_row_def prog_simps len)
qed

lemma my_rset_eof_run:
  assumes "my_rset_on (t, m) names rows" and "mr_m_nCurrentRow t = of_nat k" and "k \<le> length rows"
  shows "CppMySQLResultSet_eof (t, m) = (Ret (k = length rows), (t, m))"
proof -
  have "(of_nat k :: ulong) = of_nat (length rows) \<longleftrightarrow> k = length rows"
    using my_rset_row_number[OF assms(1,3)] my_rset_row_number[OF assms(1) order.refl] by metis
  then show ?thesis
    using assms(1,2) by (simp add: CppMySQLResultSet_eof_def my_rset_on_def prog_simps)
qed

text \<open>\<open>seekRow\<close> clamps to the last row of a result set that has one.\<close>

lemma my_rset_seekRow_run:
  assumes "my_rset_on (t, m) names rows" and "rows \<noteq> []" and "k = min (unat n) (length rows - 1)"
  shows "CppMySQLResultSet_seekRow n (t, m) =
           (Ret (ulong_to_int (of_nat k)), (t\<lparr>mr_m_nCurrentRow := of_nat k\<rparr>, m))"
proof -
  have r: "mr_m_nRows t = of_nat (length rows)" using assms(1) by (simp add: my_rset_on_def)
  have "mr_m_nRows t \<le> n \<longleftrightarrow> length rows \<le> unat n"
    using my_rset_row_number[OF assms(1), of "length rows"] by (simp add: r word_le_nat_alt)
  moreover have "mr_m_nRows t - 1 = of_nat (length rows - 1)"
    using assms(2) by (simp add: r of_nat_diff Suc_leI)
  moreover have "length rows - 1 < length rows" using assms(2) by (cases rows) auto
  then have "k = (if length rows \<le> unat n then length rows - 1 else unat n)"
    by (simp add: assms(3))
  ultimately have "(if mr_m_nRows t \<le> n then mr_m_nRows t - 1 else n) = of_nat k" by simp
  then show ?thesis by (simp add: CppMySQLResultSet_seekRow_def Let_def prog_simps)
qed

interpretation my_rset_cursor: scrollable
    CppMySQLResultSet_eof my_rset_row CppMySQLResultSet_nextRow my_rset_pending
    "\<lambda>k. CppMySQLResultSet_seekRow (of_nat k)" my_rset_rows
proof unfold_locales
  fix s :: "'a my_rst" assume p: "my_rset_pending s []"
  obtain t m where s: "s = (t, m)" by (cases s)
  from p obtain names k where "my_rset_on (t, m) names (my_rset_rows s)" "mr_m_nCurrentRow t = of_nat k"
      "k = length (my_rset_rows s)"
    by (auto simp: my_rset_pending_def s)
  then show "CppMySQLResultSet_eof s = (Ret True, s)"
    using my_rset_eof_run[of t m names "my_rset_rows s" k] by (simp add: s)
next
  fix s :: "'a my_rst" and r rs assume p: "my_rset_pending s (r # rs)"
  obtain t m where s: "s = (t, m)" by (cases s)
  from p obtain names k where k: "my_rset_on (t, m) names (my_rset_rows s)" "mr_m_nCurrentRow t = of_nat k"
      "r # rs = drop k (my_rset_rows s)"
    by (auto simp: my_rset_pending_def s)
  then have lt: "k < length (my_rset_rows s)" by (cases "k < length (my_rset_rows s)") auto
  with k(3) have r: "r = my_rset_rows s ! k" "rs = drop (Suc k) (my_rset_rows s)"
    by (simp_all add: drop_eq_Cons_nth)
  show "CppMySQLResultSet_eof s = (Ret False, s)"
    using my_rset_eof_run[OF k(1,2)] lt by (simp add: s)
  have row: "my_rset_row s = (Ret r, s)"
    using my_rset_row_run[OF k(1,2) lt] r(1) by (simp add: s)
  let ?t = "t\<lparr>mr_m_nCurrentRow := of_nat (Suc k)\<rparr>"
  have nxt: "CppMySQLResultSet_nextRow (t, m) = (Ret (), (?t, m))"
    using k(2) by (simp add: CppMySQLResultSet_nextRow_def prog_simps add.commute)
  have on: "my_rset_on (?t, m) names (my_rset_rows s)" by (rule my_rset_on_same) (rule k(1))
  have "my_rset_pending (?t, m) rs"
    unfolding my_rset_pending_def my_rset_rows_on[OF on]
    using on lt r(2) by (intro exI[of _ names] exI[of _ "Suc k"]) simp
  then show "\<exists>s'. bindP my_rset_row (\<lambda>r. seqP CppMySQLResultSet_nextRow (ret r)) s = (Ret r, s') \<and>
      my_rset_pending s' rs"
    using row nxt by (auto simp: s prog_simps)
  show "\<exists>s'. my_rset_row s = (Ret r, s') \<and> my_rset_pending s' (r # rs) \<and> my_rset_rows s' = my_rset_rows s"
    using row p by auto
next
  fix s :: "'a my_rst" and rs and k assume p: "my_rset_pending s rs" "k < length (my_rset_rows s)"
  obtain t m where s: "s = (t, m)" by (cases s)
  from p(1) obtain names where on: "my_rset_on (t, m) names (my_rset_rows s)"
    by (auto simp: my_rset_pending_def s)
  have u: "unat (of_nat k :: ulong) = k" using my_rset_row_number[OF on] p(2) by simp
  let ?t = "t\<lparr>mr_m_nCurrentRow := of_nat k\<rparr>"
  have "min (unat (of_nat k :: ulong)) (length (my_rset_rows s) - 1) = k" using u p(2) by simp
  then have seek: "CppMySQLResultSet_seekRow (of_nat k) (t, m) = (Ret (ulong_to_int (of_nat k)), (?t, m))"
    using my_rset_seekRow_run[OF on, of k "of_nat k"] p(2) by fastforce
  have on': "my_rset_on (?t, m) names (my_rset_rows s)" by (rule my_rset_on_same) (rule on)
  have "my_rset_pending (?t, m) (drop k (my_rset_rows s))"
    unfolding my_rset_pending_def my_rset_rows_on[OF on']
    using on' p(2) by (intro exI[of _ names] exI[of _ k]) simp
  then show "\<exists>i s'. CppMySQLResultSet_seekRow (of_nat k) s = (Ret i, s') \<and>
      my_rset_pending s' (drop k (my_rset_rows s)) \<and> my_rset_rows s' = my_rset_rows s"
    using seek my_rset_rows_on[OF on'] by (auto simp: s)
qed

section \<open>Fields by name\<close>

lemma field_map_find_run:
  "field_map_find (Some f) (zip (map int [k..<k + length names]) names) (t, m) =
     (case least_index f names of
        Some j \<Rightarrow> (Ret (int (k + j)), (t, m))
      | None \<Rightarrow> (Throw (my_error m CPPMYSQL_RESULTSET_ERROR),
                 (t, after_throw CPPMYSQL_RESULTSET_ERROR (Some ''Invalid field name requested'') m)))"
proof (induction names arbitrary: k)
  case Nil
  then show ?case by (simp add: prog_simps)
next
  case (Cons nm names)
  have "[k..<k + length (nm # names)] = k # [Suc k..<Suc k + length names]"
    by (subst upt_conv_Cons) simp_all
  then show ?case
    using Cons.IH[of "Suc k"] by (cases "least_index f names") auto
qed

lemma FieldColIndex_run:
  assumes "my_rset_on (t, m) names rows"
  shows "CppMySQLResultSet_FieldColIndex (Some f) (t, m) =
     (case least_index f names of
        Some j \<Rightarrow> (Ret (int j), (t, m))
      | None \<Rightarrow> (Throw (my_error m CPPMYSQL_RESULTSET_ERROR),
                 (t, after_throw CPPMYSQL_RESULTSET_ERROR (Some ''Invalid field name requested'') m)))"
  using assms field_map_find_run[of f 0 names t m]
  by (cases "least_index f names")
     (auto simp: CppMySQLResultSet_FieldColIndex_def my_rset_on_def name_map_def prog_simps)

section \<open>Ownership of the two heap objects\<close>

datatype my_ptr = RowsPtr nat | MapPtr nat

definition my_rset_owns :: "my_rset \<Rightarrow> my_ptr set" where
  "my_rset_owns t = RowsPtr ` set_option (mr_m_pResultSet t) \<union> MapPtr ` set_option (mr_m_pFieldMap t)"

definition my_rset_live :: "'w my_mach \<Rightarrow> my_ptr set" where
  "my_rset_live m = RowsPtr ` dom (heap_rows m) \<union> MapPtr ` dom (heap_map m)"

definition my_rset_ops :: "(my_rset, 'w my_mach, my_exn) class_ops" where
  "my_rset_ops =
     \<lparr>op_copy = CppMySQLResultSet_copy, op_assign = CppMySQLResultSet_assign,
      op_clear = CppMySQLResultSet_clear\<rparr>"

text \<open>The numbers \<open>new\<close> gives out are not in use.\<close>

definition rset_heap_fresh :: "'w my_mach \<Rightarrow> bool" where
  "rset_heap_fresh m \<longleftrightarrow> (\<forall>i \<in> dom (heap_rows m) \<union> dom (heap_map m). i < my_next m)"

definition my_rset_acquired :: "'w mysql_lib \<Rightarrow> 'w my_mach \<Rightarrow> my_rset \<Rightarrow> 'w my_mach \<Rightarrow> bool" where
  "my_rset_acquired lb m t m' \<longleftrightarrow>
     (t = CppMySQLResultSet_default \<and> m' = m) \<or>
     (\<exists>fuel pRES. CppMySQLResultSet_new fuel lb pRES m = (Ret t, m'))"

text \<open>What a program leaves alone: the numbers in use on the heap.\<close>

definition same_heap :: "'w my_mach \<Rightarrow> 'w my_mach \<Rightarrow> bool" where
  "same_heap m m' \<longleftrightarrow>
     dom (heap_rows m') = dom (heap_rows m) \<and> dom (heap_map m') = dom (heap_map m) \<and>
     my_next m' = my_next m"

lemma same_heap_trans: "same_heap m m1 \<Longrightarrow> same_heap m1 m2 \<Longrightarrow> same_heap m m2"
  by (simp add: same_heap_def)

lemma same_heap_lib [simp]: "same_heap m (m\<lparr>mlib := w\<rparr>)" "same_heap m m"
  by (simp_all add: same_heap_def)

definition keeps_heap :: "('w my_mach, 'e, 'a) prog \<Rightarrow> bool" where
  "keeps_heap p \<longleftrightarrow> (\<forall>m r m'. p m = (Ret r, m') \<longrightarrow> same_heap m m')"

named_theorems keeps \<open>programs that keep the numbers in use\<close>

lemma keeps_heapD: "keeps_heap p \<Longrightarrow> p m = (Ret r, m') \<Longrightarrow> same_heap m m'"
  by (simp add: keeps_heap_def)

lemma keeps_bind [keeps]:
  assumes "keeps_heap p" and "\<And>a. keeps_heap (k a)"
  shows "keeps_heap (bindP p k)"
  using assms unfolding keeps_heap_def by (blast elim: bindP_RetE intro: same_heap_trans)

lemma keeps_seq [keeps]: "keeps_heap p \<Longrightarrow> keeps_heap q \<Longrightarrow> keeps_heap (seqP p q)"
  by (simp add: seqP_def keeps_bind)

lemma keeps_basic [keeps]:
  "keeps_heap (ret a)" "keeps_heap (Pair (Ret a))" "keeps_heap (undef u)" "keeps_heap (throw_my n str)"
  "keeps_heap (live_call live p f)" "keeps_heap (vector_at xs i)" "keeps_heap (row_elem r i)"
  "keeps_heap (push_row q strs)" "keeps_heap (insert_field q k v)"
proof -
  show lc: "keeps_heap (live_call live p f)"
    by (auto simp: keeps_heap_def live_call_def my_call_def split: option.splits if_splits prod.splits)
  show "keeps_heap (vector_at xs i)" "keeps_heap (row_elem r i)"
    by (auto simp: keeps_heap_def vector_at_def row_elem_def split: if_splits)
  show "keeps_heap (push_row q strs)"
    unfolding keeps_heap_def push_row_def
    by (auto simp: deref_def elim!: bindP_RetE split: option.splits)
       (simp add: same_heap_def insert_absorb domI)
  show "keeps_heap (insert_field q k v)"
    unfolding keeps_heap_def insert_field_def
    by (auto simp: deref_def elim!: bindP_RetE split: option.splits)
       (simp add: same_heap_def insert_absorb domI)
qed (simp_all add: keeps_heap_def throw_my_run)

lemma keeps_fetch_row [keeps]: "keeps_heap (fetch_row lb p)"
  unfolding fetch_row_def by (intro keeps)

lemma keeps_mapP [keeps]: "(\<And>i. keeps_heap (f i)) \<Longrightarrow> keeps_heap (mapP f is)"
  by (induction "is") (simp_all add: keeps)

lemma keeps_build_rows [keeps]: "keeps_heap (build_rows fuel lb p q n row)"
  by (induction fuel arbitrary: row) (auto simp: row_strings_def intro!: keeps split: option.split)

lemma keeps_build_fields [keeps]: "keeps_heap (build_fields lb p q cols)"
  by (induction cols) (auto intro!: keeps split: option.split prod.split)

lemma buildResultSet_heap:
  assumes "CppMySQLResultSet_buildResultSet fuel lb pRES m = (Ret (a, b, c), m')"
  shows "a = my_next m \<and>
    same_heap (m\<lparr>my_next := Suc (my_next m), heap_rows := (heap_rows m)(my_next m \<mapsto> [])\<rparr>) m'"
proof -
  let ?p = "my_next m"
  let ?m0 = "m\<lparr>my_next := Suc ?p, heap_rows := (heap_rows m)(?p \<mapsto> [])\<rparr>"
  let ?prog = "bindP (live_call live_res pRES (mysql_num_fields lb)) (\<lambda>nCols.
     bindP (live_call live_res pRES (mysql_num_rows lb)) (\<lambda>nRows.
     bindP (fetch_row lb pRES) (\<lambda>row.
     seqP (build_rows fuel lb pRES ?p nCols row) (ret (?p, nRows, nCols)))))"
  have run: "?prog ?m0 = (Ret (a, b, c), m')"
    using assms by (simp add: CppMySQLResultSet_buildResultSet_def bindP_def[of "new_rows []"] heap_run)
  have kp: "keeps_heap ?prog" by (intro keeps)
  have "a = ?p" using run by (auto simp: seqP_def elim!: bindP_RetE)
  then show ?thesis using keeps_heapD[where p = ?prog, OF kp run] by blast
qed

lemma buildFieldMap_heap:
  assumes "CppMySQLResultSet_buildFieldMap lb pRES n m = (Ret q, m')"
  shows "q = my_next m \<and>
    same_heap (m\<lparr>my_next := Suc (my_next m), heap_map := (heap_map m)(my_next m \<mapsto> [])\<rparr>) m'"
proof -
  let ?q = "my_next m"
  let ?m0 = "m\<lparr>my_next := Suc ?q, heap_map := (heap_map m)(?q \<mapsto> [])\<rparr>"
  let ?prog = "seqP (build_fields lb pRES ?q [0..<unat n]) (ret ?q)"
  have run: "?prog ?m0 = (Ret q, m')"
    using assms by (simp add: CppMySQLResultSet_buildFieldMap_def bindP_def[of "new_map []"] heap_run)
  have kp: "keeps_heap ?prog" by (intro keeps)
  have "q = ?q" using run by (auto simp: seqP_def elim!: bindP_RetE)
  then show ?thesis using keeps_heapD[where p = ?prog, OF kp run] by blast
qed

text \<open>The constructor adds exactly the two objects it owns, at numbers not in use.\<close>

lemma ptr_sets:
  "p \<notin> A \<Longrightarrow> q \<notin> B \<Longrightarrow>
   {RowsPtr p, MapPtr q} \<inter> (RowsPtr ` A \<union> MapPtr ` B) = {} \<and>
   RowsPtr ` insert p A \<union> MapPtr ` insert q B = RowsPtr ` A \<union> MapPtr ` B \<union> {RowsPtr p, MapPtr q}"
  by auto

lemma ptr_sets_minus:
  "RowsPtr ` (A - C) \<union> MapPtr ` (B - D) = (RowsPtr ` A \<union> MapPtr ` B) - (RowsPtr ` C \<union> MapPtr ` D)"
  by auto

lemma my_rset_new_heap:
  assumes "CppMySQLResultSet_new fuel lb pRES m = (Ret t, m')" and "rset_heap_fresh m"
  shows "rset_heap_fresh m' \<and> my_rset_owns t \<inter> my_rset_live m = {} \<and>
         my_rset_live m' = my_rset_live m \<union> my_rset_owns t"
proof (cases pRES)
  case None
  then show ?thesis
    using assms by (auto simp: CppMySQLResultSet_new_def my_rset_owns_def)
next
  case (Some h)
  let ?p = "my_next m"
  have fr: "heap_rows m i = Some x \<Longrightarrow> i < ?p" "heap_map m i = Some y \<Longrightarrow> i < ?p" for i x y
    using assms(2) by (auto simp: rset_heap_fresh_def)
  let ?m0 = "m\<lparr>my_next := Suc ?p, heap_rows := (heap_rows m)(?p \<mapsto> [])\<rparr>"
  obtain a b c m1 q where
      b: "CppMySQLResultSet_buildResultSet fuel lb pRES m = (Ret (a, b, c), m1)"
    and m: "CppMySQLResultSet_buildFieldMap lb pRES c m1 = (Ret q, m')"
    and t: "t = \<lparr>mr_m_pResultSet = Some a, mr_m_pFieldMap = Some q, mr_m_nCurrentRow = 0,
                 mr_m_nRows = b, mr_m_nCols = c\<rparr>"
    using assms(1) Some by (auto simp: CppMySQLResultSet_new_def elim!: bindP_RetE)
  note b' = buildResultSet_heap[OF b] and q = buildFieldMap_heap[OF m]
  have doms: "dom (heap_rows m') = insert ?p (dom (heap_rows m))"
      "dom (heap_map m') = insert (Suc ?p) (dom (heap_map m))" "my_next m' = Suc (Suc ?p)" "q = Suc ?p"
    using b' q by (simp_all add: same_heap_def)
  have "rset_heap_fresh m'"
    unfolding rset_heap_fresh_def doms by (auto intro: less_SucI dest: fr)
  moreover have "my_rset_owns t = {RowsPtr ?p, MapPtr (Suc ?p)}"
    using t b' doms(4) by (auto simp: my_rset_owns_def)
  moreover have "?p \<notin> dom (heap_rows m)" "Suc ?p \<notin> dom (heap_map m)"
    using fr by fastforce+
  ultimately show ?thesis
    unfolding my_rset_live_def doms(1,2) using ptr_sets by metis
qed

lemma restrict_upd: "f |` (- {a}) = f(a := None)"
  by (rule ext) (simp add: restrict_map_def)

lemma restrict_all: "f |` UNIV = f"
  by (rule ext) (simp add: restrict_map_def)

lemma clear_fields_run:
  assumes "set_option (mr_m_pFieldMap t) \<subseteq> dom (heap_map m)"
  shows "rset_clear_fields (t, m) =
         (Ret (), (t\<lparr>mr_m_pFieldMap := None\<rparr>,
                   m\<lparr>heap_map := (heap_map m) |` (- set_option (mr_m_pFieldMap t))\<rparr>))"
proof (cases "mr_m_pFieldMap t")
  case None
  then have "t\<lparr>mr_m_pFieldMap := None\<rparr> = t" by simp
  with None show ?thesis by (simp add: rset_clear_fields_def restrict_all prog_simps)
next
  case (Some q)
  then show ?thesis using assms by (simp add: rset_clear_fields_def prog_simps restrict_upd)
qed

lemma clear_rows_run:
  assumes "set_option (mr_m_pResultSet t) \<subseteq> dom (heap_rows m)"
  shows "rset_clear_rows (t, m) =
         (Ret (), (t\<lparr>mr_m_pResultSet := None\<rparr>,
                   m\<lparr>heap_rows := (heap_rows m) |` (- set_option (mr_m_pResultSet t))\<rparr>))"
proof (cases "mr_m_pResultSet t")
  case None
  then have "t\<lparr>mr_m_pResultSet := None\<rparr> = t" by simp
  with None show ?thesis by (simp add: rset_clear_rows_def restrict_all prog_simps)
next
  case (Some q)
  then show ?thesis using assms by (simp add: rset_clear_rows_def prog_simps restrict_upd)
qed

lemma my_rset_clear_run:
  assumes "my_rset_owns t \<subseteq> my_rset_live m"
  shows "\<exists>m'. CppMySQLResultSet_clear (t, m) =
             (Ret (), (t\<lparr>mr_m_pFieldMap := None, mr_m_pResultSet := None\<rparr>, m')) \<and>
           my_rset_live m' = my_rset_live m - my_rset_owns t \<and>
           (rset_heap_fresh m \<longrightarrow> rset_heap_fresh m')"
proof -
  have q: "set_option (mr_m_pFieldMap t) \<subseteq> dom (heap_map m)"
    and p: "set_option (mr_m_pResultSet t) \<subseteq> dom (heap_rows m)"
    using assms by (auto simp: my_rset_owns_def my_rset_live_def)
  let ?m' = "m\<lparr>heap_map := (heap_map m) |` (- set_option (mr_m_pFieldMap t)),
               heap_rows := (heap_rows m) |` (- set_option (mr_m_pResultSet t))\<rparr>"
  obtain m' where m': "m' = ?m'" by blast
  have run: "CppMySQLResultSet_clear (t, m) =
      (Ret (), (t\<lparr>mr_m_pFieldMap := None, mr_m_pResultSet := None\<rparr>, m'))"
    using p by (simp add: CppMySQLResultSet_clear_def prog_simps clear_fields_run[OF q] clear_rows_run m')
  have doms: "dom (heap_rows m') = dom (heap_rows m) - set_option (mr_m_pResultSet t)"
      "dom (heap_map m') = dom (heap_map m) - set_option (mr_m_pFieldMap t)" "my_next m' = my_next m"
    by (auto simp: m')
  have "my_rset_live m' = my_rset_live m - my_rset_owns t"
    unfolding my_rset_live_def my_rset_owns_def doms(1,2) by (rule ptr_sets_minus)
  moreover have "rset_heap_fresh m \<longrightarrow> rset_heap_fresh m'"
    unfolding rset_heap_fresh_def doms by blast
  ultimately show ?thesis using run by blast
qed

lemma my_rset_assign_run:
  assumes "my_rset_owns x \<subseteq> my_rset_live m"
  shows "\<exists>m'. CppMySQLResultSet_assign False x y m =
             (Ret (y, y\<lparr>mr_m_pResultSet := None, mr_m_pFieldMap := None\<rparr>), m') \<and>
           my_rset_live m' = my_rset_live m - my_rset_owns x \<and> (rset_heap_fresh m \<longrightarrow> rset_heap_fresh m')"
  using my_rset_clear_run[OF assms]
  by (cases x; cases y) (auto simp: CppMySQLResultSet_assign_def catch_all_def)

interpretation my_rset_owner: releasing_class
    my_rset_ops "my_rset_acquired lb" my_rset_owns my_rset_live rset_heap_fresh
  for lb
proof unfold_locales
  show "op_assign (my_rset_ops) True x x m = (Ret (x, x), m)" for x m
    by (simp add: my_rset_ops_def CppMySQLResultSet_assign_def)
next
  fix m m' :: "'a my_mach" and x assume g: "rset_heap_fresh m" and "my_rset_acquired lb m x m'"
  then consider (default) "x = CppMySQLResultSet_default" "m' = m"
    | (new) fuel pRES where "CppMySQLResultSet_new fuel lb pRES m = (Ret x, m')"
    by (auto simp: my_rset_acquired_def)
  then show "rset_heap_fresh m' \<and> my_rset_owns x \<inter> my_rset_live m = {} \<and>
      my_rset_live m' = my_rset_live m \<union> my_rset_owns x"
  proof cases
    case default
    then show ?thesis using g by (simp add: CppMySQLResultSet_default_def my_rset_owns_def)
  next
    case new
    then show ?thesis using my_rset_new_heap[OF _ g] by blast
  qed
next
  fix x n x' :: my_rset assume "op_copy my_rset_ops x = (n, x')"
  then show "my_rset_owns n = my_rset_owns x \<and> my_rset_owns x' = {}"
    by (auto simp: my_rset_ops_def CppMySQLResultSet_copy_def my_rset_owns_def)
next
  fix m :: "'a my_mach" and x y :: my_rset
  assume g: "rset_heap_fresh m" and l: "my_rset_owns x \<subseteq> my_rset_live m"
  note closed = my_rset_owns_def[of "y\<lparr>mr_m_pResultSet := None, mr_m_pFieldMap := None\<rparr>"]
    my_rset_owns_def[of "x\<lparr>mr_m_pFieldMap := None, mr_m_pResultSet := None\<rparr>"]
  show "\<exists>x' y' m'. op_assign my_rset_ops False x y m = (Ret (x', y'), m') \<and> rset_heap_fresh m' \<and>
      my_rset_owns x' = my_rset_owns y \<and> my_rset_owns y' = {} \<and>
      my_rset_live m' \<subseteq> my_rset_live m \<and> my_rset_live m - my_rset_owns x \<subseteq> my_rset_live m'"
    using my_rset_assign_run[OF l, of y] g closed by (force simp: my_rset_ops_def)
  show "\<exists>r x' m'. op_clear my_rset_ops (x, m) = (r, (x', m')) \<and> \<not> is_undef r \<and> rset_heap_fresh m' \<and>
      my_rset_owns x' = {} \<and> my_rset_live m' = my_rset_live m - my_rset_owns x"
    using my_rset_clear_run[OF l] g closed by (force simp: my_rset_ops_def)
  fix x' y' m'
  assume "op_assign my_rset_ops False x y m = (Ret (x', y'), m')"
  then show "my_rset_live m' = my_rset_live m - my_rset_owns x"
    using my_rset_assign_run[OF l, of y] by (auto simp: my_rset_ops_def)
qed

end
