(* ===== verification/MysqlStatement.thy ===== *)
theory MysqlStatement
  imports MysqlException
begin

text \<open>
  \<open>CppMySQLStatement\<close> of \<open>src/CppMySQL.cpp\<close>: a prepared statement, the vector of parameters bound
  so far and the position of the next one.  Integers and doubles are bound through two file-scope
  variables, so what a statement is executed with depends on all the binds made before.
\<close>

section \<open>The class\<close>

definition STMT_INITED :: int where "STMT_INITED = 1"
definition STMT_COMPILED :: int where "STMT_COMPILED = 2"
definition STMT_EXECUTED :: int where "STMT_EXECUTED = 3"

lemmas stmt_states = STMT_INITED_def STMT_COMPILED_def STMT_EXECUTED_def

record my_stmt =
  ms_m_pBindArray :: "nat option"
  ms_m_state :: int
  ms_m_pStmt :: "nat option"
  ms_m_nParamsCount :: int
  ms_m_nBindIndex :: int

type_synonym 'w my_sst = "my_stmt \<times> 'w my_mach"

definition CppMySQLStatement_default :: my_stmt where
  "CppMySQLStatement_default =
     \<lparr>ms_m_pBindArray = None, ms_m_state = 0, ms_m_pStmt = None, ms_m_nParamsCount = 0,
      ms_m_nBindIndex = 0\<rparr>"

definition CppMySQLStatement_copy :: "my_stmt \<Rightarrow> my_stmt \<times> my_stmt" where
  "CppMySQLStatement_copy rStatement =
     (\<lparr>ms_m_pBindArray = ms_m_pBindArray rStatement, ms_m_state = ms_m_state rStatement,
       ms_m_pStmt = ms_m_pStmt rStatement, ms_m_nParamsCount = ms_m_nParamsCount rStatement,
       ms_m_nBindIndex = ms_m_nBindIndex rStatement\<rparr>,
      rStatement\<lparr>ms_m_pStmt := None, ms_m_pBindArray := None\<rparr>)"

text \<open>
  The constructor.  A throw leaves no object, so nothing closes a statement already opened.
\<close>

definition CppMySQLStatement_new ::
  "'w mysql_lib \<Rightarrow> nat option \<Rightarrow> string \<Rightarrow> ('w my_mach, my_exn, my_stmt) prog" where
  "CppMySQLStatement_new lb mysql szDML =
     (if mysql = None then throw_my CPPMYSQL_STATEMENT_ERROR (Some ''mysql handle error'')
      else
        bindP (call_stmt_init lb mysql) (\<lambda>pStmt.
        if pStmt = None then throw_my CPPMYSQL_STATEMENT_ERROR (Some ''mysql_stmt_init error'')
        else
          bindP (live_call live_mstmt pStmt (\<lambda>h. mysql_stmt_prepare lb h szDML (length szDML))) (\<lambda>res.
          if res \<noteq> 0 then throw_my CPPMYSQL_STATEMENT_ERROR (Some ''mysql_stmt_prepare error'')
          else
            bindP (live_call live_mstmt pStmt (mysql_stmt_param_count lb)) (\<lambda>n.
            bindP new_bind (\<lambda>p.
            ret \<lparr>ms_m_pBindArray = Some p, ms_m_state = STMT_COMPILED, ms_m_pStmt = pStmt,
                 ms_m_nParamsCount = ulong_to_int n, ms_m_nBindIndex = 0\<rparr>)))))"

text \<open>The two halves of \<open>clear\<close>.\<close>

definition stmt_clear_handle :: "'w mysql_lib \<Rightarrow> ('w my_sst, my_exn, unit) prog" where
  "stmt_clear_handle lb =
     bindP get_this (\<lambda>t.
     if ms_m_pStmt t \<noteq> None
     then seqP (on_mach (call_stmt_close lb (ms_m_pStmt t))) (upd_this (ms_m_pStmt_update (\<lambda>_. None)))
     else ret ())"

definition stmt_clear_binds :: "('w my_sst, my_exn, unit) prog" where
  "stmt_clear_binds =
     bindP get_this (\<lambda>t.
     if ms_m_pBindArray t \<noteq> None
     then seqP (on_mach (delete_bind (ms_m_pBindArray t))) (upd_this (ms_m_pBindArray_update (\<lambda>_. None)))
     else ret ())"

definition CppMySQLStatement_clear :: "'w mysql_lib \<Rightarrow> ('w my_sst, my_exn, unit) prog" where
  "CppMySQLStatement_clear lb = seqP (stmt_clear_handle lb) stmt_clear_binds"

definition CppMySQLStatement_destroy :: "'w mysql_lib \<Rightarrow> ('w my_sst, my_exn, unit) prog" where
  "CppMySQLStatement_destroy lb = catch_all (CppMySQLStatement_clear lb)"

text \<open>\<open>*this = rStatement\<close>, given whether \<open>this == &rStatement\<close>: nothing releases what \<open>*this\<close> had.\<close>

definition CppMySQLStatement_assign ::
  "bool \<Rightarrow> my_stmt \<Rightarrow> my_stmt \<Rightarrow> ('w my_mach, my_exn, my_stmt \<times> my_stmt) prog" where
  "CppMySQLStatement_assign same this rStatement =
     (if same then ret (this, rStatement)
      else ret (this\<lparr>ms_m_pStmt := ms_m_pStmt rStatement, ms_m_state := ms_m_state rStatement,
               ms_m_nParamsCount := ms_m_nParamsCount rStatement,
               ms_m_pBindArray := ms_m_pBindArray rStatement,
               ms_m_nBindIndex := ms_m_nBindIndex rStatement\<rparr>,
          rStatement\<lparr>ms_m_pStmt := None, ms_m_pBindArray := None\<rparr>))"

definition CppMySQLStatement_checkStmt :: "('w my_sst, my_exn, unit) prog" where
  "CppMySQLStatement_checkStmt =
     bindP get_this (\<lambda>t.
     if ms_m_pStmt t = None
     then on_mach (throw_my CPPMYSQL_STATEMENT_ERROR (Some ''MYSQL_STMT handle error''))
     else ret ())"

definition CppMySQLStatement_checkBindArray :: "('w my_sst, my_exn, unit) prog" where
  "CppMySQLStatement_checkBindArray =
     bindP get_this (\<lambda>t.
     if ms_m_pBindArray t = None
     then on_mach (throw_my CPPMYSQL_STATEMENT_ERROR (Some ''MYSQL_BIND array error''))
     else ret ())"

text \<open>A call on the statement handle, and the bind vector.\<close>

definition my_stmt_call :: "(nat \<Rightarrow> 'w \<Rightarrow> 'r \<times> 'w) \<Rightarrow> ('w my_sst, my_exn, 'r) prog" where
  "my_stmt_call f = bindP get_this (\<lambda>t. on_mach (live_call live_mstmt (ms_m_pStmt t) f))"

definition bind_array :: "('w my_sst, my_exn, my_bind list) prog" where
  "bind_array = bindP get_this (\<lambda>t. on_mach (deref heap_bind (ms_m_pBindArray t)))"

definition set_bind_array :: "my_bind list \<Rightarrow> ('w my_sst, my_exn, unit) prog" where
  "set_bind_array bs = bindP get_this (\<lambda>t. on_mach (store_bind (ms_m_pBindArray t) bs))"

definition throw_stmt_error :: "'w mysql_lib \<Rightarrow> ('w my_sst, my_exn, 'a) prog" where
  "throw_stmt_error lb =
     bindP (my_stmt_call (mysql_stmt_errno lb)) (\<lambda>n.
     bindP (my_stmt_call (mysql_stmt_error lb)) (\<lambda>s. on_mach (throw_my (uint_to_int n) (Some s))))"

text \<open>\<open>&(*m_pBindArray)[0]\<close>: on an empty vector the access is out of bounds.\<close>

definition CppMySQLStatement_execute :: "'w mysql_lib \<Rightarrow> ('w my_sst, my_exn, unit) prog" where
  "CppMySQLStatement_execute lb =
     seqP CppMySQLStatement_checkStmt
     (seqP CppMySQLStatement_checkBindArray
     (bindP get_this (\<lambda>t.
      if ms_m_state t < STMT_COMPILED
      then on_mach (throw_my CPPMYSQL_STATEMENT_ERROR (Some ''Satement is not compiled yet''))
      else
        bindP bind_array (\<lambda>bs.
        if ms_m_nParamsCount t \<noteq> int (length bs)
        then on_mach (throw_my CPPMYSQL_STATEMENT_ERROR (Some ''MYSQL_BIND array size is not enough''))
        else
          seqP (vector_at bs 0)
          (bindP (my_stmt_call (\<lambda>h. mysql_stmt_bind_param lb h bs)) (\<lambda>res.
           if res \<noteq> 0 then throw_stmt_error lb
           else
             bindP (on_mach (call_stmt_execute lb (ms_m_pStmt t))) (\<lambda>res'.
             if res' \<noteq> 0 then throw_stmt_error lb
             else
               seqP (upd_this (ms_m_state_update (\<lambda>_. STMT_EXECUTED)))
               (seqP (set_bind_array [])
               (upd_this (ms_m_nBindIndex_update (\<lambda>_. 0)))))))))))"

definition CppMySQLStatement_execDML :: "'w mysql_lib \<Rightarrow> ('w my_sst, my_exn, int) prog" where
  "CppMySQLStatement_execDML lb =
     seqP (CppMySQLStatement_execute lb)
     (bindP (my_stmt_call (mysql_stmt_affected_rows lb)) (\<lambda>n. ret (ulong_to_int n)))"

definition CppMySQLStatement_realBind ::
  "int \<Rightarrow> int \<Rightarrow> my_buffer \<Rightarrow> int \<Rightarrow> ('w my_sst, my_exn, unit) prog" where
  "CppMySQLStatement_realBind pos type buf len =
     (if pos > 1024 then on_mach (throw_my CPPMYSQL_STATEMENT_ERROR (Some ''too many bind parameters''))
      else
        bindP get_this (\<lambda>t.
        if ms_m_nBindIndex t \<noteq> pos
        then on_mach (throw_my CPPMYSQL_STATEMENT_ERROR (Some ''bind index error''))
        else
          bindP bind_array (\<lambda>bs.
          seqP (set_bind_array (bs @ [\<lparr>buffer_type = type, buffer = buf, buffer_length = len\<rparr>]))
          (bindP (int_arith (ms_m_nBindIndex t + 1)) (\<lambda>n.
           upd_this (ms_m_nBindIndex_update (\<lambda>_. n)))))))"

text \<open>\<open>szValue\<close> is the address of a string of the client; \<open>strlen(NULL)\<close> is undefined.\<close>

definition CppMySQLStatement_bind_text :: "int \<Rightarrow> nat option \<Rightarrow> ('w my_sst, my_exn, unit) prog" where
  "CppMySQLStatement_bind_text nParam szValue =
     bindP (int_arith (nParam - 1)) (\<lambda>pos s.
     case szValue of
       None \<Rightarrow> (Undef NullDeref, s)
     | Some p \<Rightarrow>
         CppMySQLStatement_realBind pos MYSQL_TYPE_STRING (AtString p)
           (ulong_to_int (of_nat (length (client_str (snd s) p)))) s)"

definition CppMySQLStatement_bind_int :: "int \<Rightarrow> int \<Rightarrow> ('w my_sst, my_exn, unit) prog" where
  "CppMySQLStatement_bind_int nParam nValue =
     seqP (on_mach (\<lambda>m. (Ret (), m\<lparr>s_nValue := nValue\<rparr>)))
     (bindP (int_arith (nParam - 1)) (\<lambda>pos.
      CppMySQLStatement_realBind pos MYSQL_TYPE_LONG AtIntStatic 4))"

definition CppMySQLStatement_bind_double :: "int \<Rightarrow> cdouble \<Rightarrow> ('w my_sst, my_exn, unit) prog" where
  "CppMySQLStatement_bind_double nParam dwValue =
     seqP (on_mach (\<lambda>m. (Ret (), m\<lparr>s_dwValue := dwValue\<rparr>)))
     (bindP (int_arith (nParam - 1)) (\<lambda>pos.
      CppMySQLStatement_realBind pos MYSQL_TYPE_DOUBLE AtDoubleStatic 8))"

definition CppMySQLStatement_reset :: "'w mysql_lib \<Rightarrow> ('w my_sst, my_exn, unit) prog" where
  "CppMySQLStatement_reset lb =
     seqP CppMySQLStatement_checkStmt
     (bindP (my_stmt_call (mysql_stmt_reset lb)) (\<lambda>_.
      bindP get_this (\<lambda>t.
      seqP (if ms_m_pBindArray t \<noteq> None then set_bind_array [] else ret ())
      (upd_this (ms_m_nBindIndex_update (\<lambda>_. 0))))))"

definition CppMySQLStatement_getHandle :: "my_stmt \<Rightarrow> nat option" where
  "CppMySQLStatement_getHandle t = ms_m_pStmt t"

section \<open>Running the operations\<close>

lemma my_stmt_checks [prog_simps]:
  "ms_m_pStmt t = Some h \<Longrightarrow> CppMySQLStatement_checkStmt (t, m) = (Ret (), (t, m))"
  "ms_m_pBindArray t = Some p \<Longrightarrow> CppMySQLStatement_checkBindArray (t, m) = (Ret (), (t, m))"
  by (simp_all add: CppMySQLStatement_checkStmt_def CppMySQLStatement_checkBindArray_def prog_simps)

lemma my_stmt_closed [prog_simps]:
  "ms_m_pStmt t = None \<Longrightarrow> CppMySQLStatement_checkStmt (t, m) =
     (Throw (my_error m CPPMYSQL_STATEMENT_ERROR),
      (t, after_throw CPPMYSQL_STATEMENT_ERROR (Some ''MYSQL_STMT handle error'') m))"
  by (simp add: CppMySQLStatement_checkStmt_def prog_simps)

lemma my_stmt_call_run [prog_simps]:
  "ms_m_pStmt t = Some h \<Longrightarrow> h \<in> live_mstmt m \<Longrightarrow> f h (mlib m) = (r, w') \<Longrightarrow>
   my_stmt_call f (t, m) = (Ret r, (t, m\<lparr>mlib := w'\<rparr>))"
  by (simp add: my_stmt_call_def prog_simps)

lemma bind_array_run [prog_simps]:
  "ms_m_pBindArray t = Some p \<Longrightarrow> heap_bind m p = Some bs \<Longrightarrow> bind_array (t, m) = (Ret bs, (t, m))"
  by (simp add: bind_array_def prog_simps)

lemma set_bind_array_run [prog_simps]:
  "ms_m_pBindArray t = Some p \<Longrightarrow> heap_bind m p = Some bs \<Longrightarrow>
   set_bind_array bs' (t, m) = (Ret (), (t, m\<lparr>heap_bind := (heap_bind m)(p \<mapsto> bs')\<rparr>))"
  by (simp add: set_bind_array_def prog_simps)

lemma realBind_run [prog_simps]:
  "ms_m_nBindIndex t = pos \<Longrightarrow> pos \<le> 1024 \<Longrightarrow> 0 \<le> pos \<Longrightarrow> ms_m_pBindArray t = Some p \<Longrightarrow>
   heap_bind m p = Some bs \<Longrightarrow>
   CppMySQLStatement_realBind pos type buf len (t, m) =
     (Ret (), (t\<lparr>ms_m_nBindIndex := pos + 1\<rparr>,
        m\<lparr>heap_bind := (heap_bind m)(p \<mapsto> bs @ [\<lparr>buffer_type = type, buffer = buf, buffer_length = len\<rparr>])\<rparr>))"
  by (simp add: CppMySQLStatement_realBind_def in_int_def INT_MIN_def INT_MAX_def prog_simps)

lemma realBind_order:
  "ms_m_nBindIndex t \<noteq> pos \<Longrightarrow> pos \<le> 1024 \<Longrightarrow>
   CppMySQLStatement_realBind pos type buf len (t, m) =
     (Throw (my_error m CPPMYSQL_STATEMENT_ERROR),
      (t, after_throw CPPMYSQL_STATEMENT_ERROR (Some ''bind index error'') m))"
  by (simp add: CppMySQLStatement_realBind_def prog_simps)

section \<open>What a statement is executed with\<close>

text \<open>
  The statement as the library documents it: the bind structures of the last
  \<open>mysql_stmt_bind_param\<close>, and for each execution the values its buffers held at that moment.
\<close>

record exec_view =
  ev_binds :: "my_bind list"
  ev_runs :: "my_value list list"

definition exec_contract :: "'w mysql_lib \<Rightarrow> ('w \<Rightarrow> nat \<Rightarrow> exec_view) \<Rightarrow> bool" where
  "exec_contract lb xv \<longleftrightarrow>
     (\<forall>w h bs. \<exists>w'. mysql_stmt_bind_param lb h bs w = (0, w') \<and> xv w' h = (xv w h)\<lparr>ev_binds := bs\<rparr>) \<and>
     (\<forall>w h rd. \<exists>w'. mysql_stmt_execute lb h rd w = (0, w') \<and>
        xv w' h = (xv w h)\<lparr>ev_runs := ev_runs (xv w h) @ [map (rd \<circ> buffer) (ev_binds (xv w h))]\<rparr>) \<and>
     (\<forall>w h. \<exists>n w'. mysql_stmt_affected_rows lb h w = (n, w') \<and> xv w' h = xv w h)"

text \<open>The arguments of one row of binds: an integer, a double or the address of a string.\<close>

datatype my_arg = ArgInt int | ArgDouble cdouble | ArgText nat

fun bind_arg :: "int \<Rightarrow> my_arg \<Rightarrow> ('w my_sst, my_exn, unit) prog" where
  "bind_arg i (ArgInt n) = CppMySQLStatement_bind_int i n"
| "bind_arg i (ArgDouble x) = CppMySQLStatement_bind_double i x"
| "bind_arg i (ArgText p) = CppMySQLStatement_bind_text i (Some p)"

fun bind_args :: "int \<Rightarrow> my_arg list \<Rightarrow> ('w my_sst, my_exn, unit) prog" where
  "bind_args i [] = ret ()"
| "bind_args i (a # as) = seqP (bind_arg i a) (bind_args (i + 1) as)"

text \<open>The value the caller means by an argument.\<close>

fun arg_value :: "(nat \<Rightarrow> string) \<Rightarrow> my_arg \<Rightarrow> my_value" where
  "arg_value cs (ArgInt n) = IntValue n"
| "arg_value cs (ArgDouble x) = DoubleValue x"
| "arg_value cs (ArgText p) = StringValue (cs p)"

text \<open>The last integer and the last double of a row, or what the variables held before.\<close>

fun last_int :: "int \<Rightarrow> my_arg list \<Rightarrow> int" where
  "last_int d [] = d"
| "last_int d (ArgInt n # as) = last_int n as"
| "last_int d (a # as) = last_int d as"

fun last_double :: "cdouble \<Rightarrow> my_arg list \<Rightarrow> cdouble" where
  "last_double d [] = d"
| "last_double d (ArgDouble x # as) = last_double x as"
| "last_double d (a # as) = last_double d as"

text \<open>The value that is delivered for an argument when the two variables hold \<open>n\<close> and \<open>x\<close>.\<close>

fun arg_delivered :: "(nat \<Rightarrow> string) \<Rightarrow> int \<Rightarrow> cdouble \<Rightarrow> my_arg \<Rightarrow> my_value" where
  "arg_delivered cs n x (ArgInt k) = IntValue n"
| "arg_delivered cs n x (ArgDouble y) = DoubleValue x"
| "arg_delivered cs n x (ArgText p) = StringValue (cs p)"

fun arg_buffer :: "my_arg \<Rightarrow> my_buffer" where
  "arg_buffer (ArgInt n) = AtIntStatic"
| "arg_buffer (ArgDouble x) = AtDoubleStatic"
| "arg_buffer (ArgText p) = AtString p"

fun is_ArgInt :: "my_arg \<Rightarrow> bool" where
  "is_ArgInt (ArgInt n) = True"
| "is_ArgInt a = False"

fun is_ArgDouble :: "my_arg \<Rightarrow> bool" where
  "is_ArgDouble (ArgDouble n) = True"
| "is_ArgDouble a = False"

text \<open>A compiled statement of \<open>n\<close> parameters whose vector holds \<open>bs\<close>.\<close>

definition my_stmt_on :: "('w \<Rightarrow> nat \<Rightarrow> exec_view) \<Rightarrow> 'w my_sst \<Rightarrow> nat \<Rightarrow> nat \<Rightarrow> my_bind list \<Rightarrow> exec_view \<Rightarrow> bool" where
  "my_stmt_on xv s h n bs v \<longleftrightarrow>
     ms_m_pStmt (fst s) = Some h \<and> h \<in> live_mstmt (snd s) \<and>
     (\<exists>p. ms_m_pBindArray (fst s) = Some p \<and> heap_bind (snd s) p = Some bs) \<and>
     STMT_COMPILED \<le> ms_m_state (fst s) \<and> ms_m_nParamsCount (fst s) = int n \<and>
     ms_m_nBindIndex (fst s) = int (length bs) \<and> xv (mlib (snd s)) h = v"

lemma bind_arg_run:
  assumes "my_stmt_on xv (t, m) h n bs v" and "length bs \<le> 1024"
  shows "\<exists>t' m' b. bind_arg (int (length bs) + 1) a (t, m) = (Ret (), (t', m')) \<and>
           my_stmt_on xv (t', m') h n (bs @ [b]) v \<and> buffer b = arg_buffer a \<and>
           s_nValue m' = last_int (s_nValue m) [a] \<and> s_dwValue m' = last_double (s_dwValue m) [a] \<and>
           client_str m' = client_str m"
proof -
  let ?k = "int (length bs)"
  obtain p where t: "ms_m_pStmt t = Some h" "h \<in> live_mstmt m" "ms_m_pBindArray t = Some p"
      "heap_bind m p = Some bs" "STMT_COMPILED \<le> ms_m_state t" "ms_m_nParamsCount t = int n"
      "ms_m_nBindIndex t = ?k" "xv (mlib m) h = v"
    using assms(1) by (auto simp: my_stmt_on_def)
  have k: "in_int ?k" "?k \<le> 1024" using assms(2) by (simp_all add: in_int_def INT_MIN_def INT_MAX_def)
  define t' where "t' = t\<lparr>ms_m_nBindIndex := ?k + 1\<rparr>"
  define st where "st b m1 = (m1 :: 'a my_mach)\<lparr>heap_bind := (heap_bind m)(p \<mapsto> bs @ [b])\<rparr>" for b m1
  have on: "my_stmt_on xv (t', st b m1) h n (bs @ [b]) v"
    if "live_mstmt m1 = live_mstmt m" "mlib m1 = mlib m" for b and m1 :: "'a my_mach"
    using t that by (simp add: my_stmt_on_def t'_def st_def)
  have rb: "CppMySQLStatement_realBind ?k ty buf len (t, m1) =
      (Ret (), (t', st \<lparr>buffer_type = ty, buffer = buf, buffer_length = len\<rparr> m1))"
    if "heap_bind m1 = heap_bind m" for ty buf len and m1 :: "'a my_mach"
    using t k that by (simp add: realBind_run t'_def st_def)
  show ?thesis
  proof (cases a)
    case (ArgInt i)
    let ?b = "\<lparr>buffer_type = MYSQL_TYPE_LONG, buffer = AtIntStatic, buffer_length = 4\<rparr>"
    have "bind_arg (?k + 1) a (t, m) = (Ret (), (t', st ?b (m\<lparr>s_nValue := i\<rparr>)))"
      using k rb[of "m\<lparr>s_nValue := i\<rparr>"] by (simp add: ArgInt CppMySQLStatement_bind_int_def prog_simps)
    then show ?thesis
      using on[of "m\<lparr>s_nValue := i\<rparr>" ?b] by (intro exI[of _ t'] exI[of _ "st ?b (m\<lparr>s_nValue := i\<rparr>)"] exI[of _ ?b]) (simp add: ArgInt st_def)
  next
    case (ArgDouble x)
    let ?b = "\<lparr>buffer_type = MYSQL_TYPE_DOUBLE, buffer = AtDoubleStatic, buffer_length = 8\<rparr>"
    have "bind_arg (?k + 1) a (t, m) = (Ret (), (t', st ?b (m\<lparr>s_dwValue := x\<rparr>)))"
      using k rb[of "m\<lparr>s_dwValue := x\<rparr>"] by (simp add: ArgDouble CppMySQLStatement_bind_double_def prog_simps)
    then show ?thesis
      using on[of "m\<lparr>s_dwValue := x\<rparr>" ?b] by (intro exI[of _ t'] exI[of _ "st ?b (m\<lparr>s_dwValue := x\<rparr>)"] exI[of _ ?b]) (simp add: ArgDouble st_def)
  next
    case (ArgText q)
    let ?b = "\<lparr>buffer_type = MYSQL_TYPE_STRING, buffer = AtString q, buffer_length = ulong_to_int (of_nat (length (client_str m q)))\<rparr>"
    have "bind_arg (?k + 1) a (t, m) = (Ret (), (t', st ?b (m)))"
      using k rb[of "m"] by (simp add: ArgText CppMySQLStatement_bind_text_def prog_simps)
    then show ?thesis
      using on[of "m" ?b] by (intro exI[of _ t'] exI[of _ "st ?b (m)"] exI[of _ ?b]) (simp add: ArgText st_def)
  qed
qed

lemma last_int_Cons: "last_int d (a # as) = last_int (last_int d [a]) as"
  by (cases a) simp_all

lemma last_double_Cons: "last_double d (a # as) = last_double (last_double d [a]) as"
  by (cases a) simp_all

lemma bind_args_run:
  "my_stmt_on xv (t, m) h n bs v \<Longrightarrow> length bs + length as \<le> 1025 \<Longrightarrow>
   \<exists>t' m' bs'. bind_args (int (length bs) + 1) as (t, m) = (Ret (), (t', m')) \<and>
     my_stmt_on xv (t', m') h n (bs @ bs') v \<and> map buffer bs' = map arg_buffer as \<and>
     s_nValue m' = last_int (s_nValue m) as \<and> s_dwValue m' = last_double (s_dwValue m) as \<and>
     client_str m' = client_str m"
proof (induction as arbitrary: t m bs)
  case Nil
  then show ?case by (intro exI[of _ t] exI[of _ m] exI[of _ "[]"]) simp
next
  case (Cons a as)
  obtain t1 m1 b where b: "bind_arg (int (length bs) + 1) a (t, m) = (Ret (), (t1, m1))"
      "my_stmt_on xv (t1, m1) h n (bs @ [b]) v" "buffer b = arg_buffer a"
      "s_nValue m1 = last_int (s_nValue m) [a]" "s_dwValue m1 = last_double (s_dwValue m) [a]"
      "client_str m1 = client_str m"
    using bind_arg_run[OF Cons.prems(1), of a] Cons.prems(2) by auto
  have len: "length (bs @ [b]) + length as \<le> 1025" using Cons.prems(2) by simp
  obtain t2 m2 bs' where r: "bind_args (int (length (bs @ [b])) + 1) as (t1, m1) = (Ret (), (t2, m2))"
      "my_stmt_on xv (t2, m2) h n ((bs @ [b]) @ bs') v" "map buffer bs' = map arg_buffer as"
      "s_nValue m2 = last_int (s_nValue m1) as" "s_dwValue m2 = last_double (s_dwValue m1) as"
      "client_str m2 = client_str m1"
    using Cons.IH[OF b(2) len] by blast
  have "bind_args (int (length bs) + 1) (a # as) (t, m) = (Ret (), (t2, m2))"
    using b(1) r(1) by (simp add: prog_simps add.commute)
  with b r show ?case
    unfolding last_int_Cons[of _ a as] last_double_Cons[of _ a as]
    by (intro exI[of _ t2] exI[of _ m2] exI[of _ "b # bs'"]) simp
qed

lemma my_execDML_run:
  assumes "my_stmt_on xv (t, m) h (length bs) bs v" and "exec_contract lb xv" and "bs \<noteq> []"
  shows "\<exists>r t' m'. CppMySQLStatement_execDML lb (t, m) = (Ret r, (t', m')) \<and>
           my_stmt_on xv (t', m') h (length bs) []
             (v\<lparr>ev_binds := bs, ev_runs := ev_runs v @ [map (read_buffer m \<circ> buffer) bs]\<rparr>) \<and>
           s_nValue m' = s_nValue m \<and> s_dwValue m' = s_dwValue m \<and> client_str m' = client_str m"
proof -
  obtain p where t: "ms_m_pStmt t = Some h" "h \<in> live_mstmt m" "ms_m_pBindArray t = Some p"
      "heap_bind m p = Some bs" "\<not> ms_m_state t < STMT_COMPILED" "ms_m_nParamsCount t = int (length bs)"
      "ms_m_nBindIndex t = int (length bs)" "xv (mlib m) h = v"
    using assms(1) by (auto simp: my_stmt_on_def)
  obtain w1 where w1: "mysql_stmt_bind_param lb h bs (mlib m) = (0, w1)" "xv w1 h = v\<lparr>ev_binds := bs\<rparr>"
    using assms(2) t(8) unfolding exec_contract_def by metis
  let ?rd = "read_buffer (m\<lparr>mlib := w1\<rparr>)"
  have rd: "?rd = read_buffer m" by (rule ext) (simp add: read_buffer_def split: my_buffer.split)
  let ?v = "v\<lparr>ev_binds := bs, ev_runs := ev_runs v @ [map (read_buffer m \<circ> buffer) bs]\<rparr>"
  obtain w2 where w2: "mysql_stmt_execute lb h ?rd w1 = (0, w2)" "xv w2 h = ?v"
    using assms(2) w1(2) unfolding exec_contract_def rd by fastforce
  obtain n w3 where w3: "mysql_stmt_affected_rows lb h w2 = (n, w3)" "xv w3 h = ?v"
    using assms(2) w2(2) unfolding exec_contract_def by metis
  let ?t = "t\<lparr>ms_m_state := STMT_EXECUTED, ms_m_nBindIndex := 0\<rparr>"
  let ?m = "m\<lparr>mlib := w3, heap_bind := (heap_bind m)(p \<mapsto> [])\<rparr>"
  have run: "CppMySQLStatement_execute lb (t, m) =
      (Ret (), (?t, m\<lparr>mlib := w2, heap_bind := (heap_bind m)(p \<mapsto> [])\<rparr>))"
    using t(1-7) w1(1) w2(1) assms(3) by (simp add: CppMySQLStatement_execute_def prog_simps)
  then have "CppMySQLStatement_execDML lb (t, m) = (Ret (ulong_to_int n), (?t, ?m))"
    using t(1,2) w3(1) by (simp add: CppMySQLStatement_execDML_def prog_simps)
  moreover have "my_stmt_on xv (?t, ?m) h (length bs) [] ?v"
    using t w3(2) by (simp add: my_stmt_on_def stmt_states)
  ultimately show ?thesis by (intro exI[of _ "ulong_to_int n"] exI[of _ ?t] exI[of _ ?m]) simp
qed

section \<open>Delivered values\<close>

lemma delivered_map:
  "map (read_buffer m \<circ> arg_buffer) as = map (arg_delivered (client_str m) (s_nValue m) (s_dwValue m)) as"
proof (rule map_cong)
  fix a show "(read_buffer m \<circ> arg_buffer) a = arg_delivered (client_str m) (s_nValue m) (s_dwValue m) a"
    by (cases a) (simp_all add: read_buffer_def)
qed simp

text \<open>Binding a row and executing: every integer is the last one, every double the last one.\<close>

lemma bind_execDML_run:
  assumes "my_stmt_on xv (t, m) h (length as) [] v" and "exec_contract lb xv" and "as \<noteq> []"
    and "length as \<le> 1025"
  shows "\<exists>r t' m'. seqP (bind_args 1 as) (CppMySQLStatement_execDML lb) (t, m) = (Ret r, (t', m')) \<and>
     ev_runs (xv (mlib m') h) = ev_runs v @
       [map (arg_delivered (client_str m) (last_int (s_nValue m) as) (last_double (s_dwValue m) as)) as] \<and>
     client_str m' = client_str m \<and> (\<exists>v'. my_stmt_on xv (t', m') h (length as) [] v')"
proof -
  obtain t1 m1 bs where b: "bind_args 1 as (t, m) = (Ret (), (t1, m1))"
      "my_stmt_on xv (t1, m1) h (length as) bs v" "map buffer bs = map arg_buffer as"
      "s_nValue m1 = last_int (s_nValue m) as" "s_dwValue m1 = last_double (s_dwValue m) as"
      "client_str m1 = client_str m"
    using bind_args_run[OF assms(1), of as] assms(4) by auto
  have len: "length bs = length as" using b(3) map_eq_imp_length_eq by blast
  then have "bs \<noteq> []" using assms(3) by auto
  then obtain r t2 m2 where e: "CppMySQLStatement_execDML lb (t1, m1) = (Ret r, (t2, m2))"
      "my_stmt_on xv (t2, m2) h (length bs) []
         (v\<lparr>ev_binds := bs, ev_runs := ev_runs v @ [map (read_buffer m1 \<circ> buffer) bs]\<rparr>)"
      "client_str m2 = client_str m1"
    using my_execDML_run[of xv t1 m1 h bs v lb] b(2) len assms(2) by auto
  have "map (read_buffer m1 \<circ> buffer) bs = map (read_buffer m1) (map arg_buffer as)"
    using b(3) by (metis map_map)
  also have "\<dots> = map (arg_delivered (client_str m) (last_int (s_nValue m) as) (last_double (s_dwValue m) as)) as"
    using delivered_map[of m1 as] b(4-6) by simp
  finally have "ev_runs (xv (mlib m2) h) = ev_runs v @
      [map (arg_delivered (client_str m) (last_int (s_nValue m) as) (last_double (s_dwValue m) as)) as]"
    using e(2) by (simp add: my_stmt_on_def)
  moreover have "seqP (bind_args 1 as) (CppMySQLStatement_execDML lb) (t, m) = (Ret r, (t2, m2))"
    using b(1) e(1) by (simp add: prog_simps)
  ultimately show ?thesis using e(2,3) b(6) len by auto
qed

text \<open>With at most one integer and one double, each argument is delivered as it was meant.\<close>

lemma filter_length_one:
  "length (filter P xs) \<le> 1 \<Longrightarrow> x \<in> set xs \<Longrightarrow> P x \<Longrightarrow> y \<in> set xs \<Longrightarrow> P y \<Longrightarrow> x = y"
proof -
  assume a: "length (filter P xs) \<le> 1" "x \<in> set xs" "P x" "y \<in> set xs" "P y"
  have "u = w" if "length zs \<le> 1" "u \<in> set zs" "w \<in> set zs" for u w and zs :: "'a list"
    using that by (cases zs) auto
  from this[OF a(1), of x y] show "x = y" using a by simp
qed

lemma last_int_in: "\<exists>n. ArgInt n \<in> set as \<Longrightarrow> ArgInt (last_int d as) \<in> set as"
proof (induction as arbitrary: d)
  case (Cons a as)
  then show ?case
  proof (cases "\<exists>n. ArgInt n \<in> set as")
    case False
    have "last_int d' as = d'" if "\<forall>n. ArgInt n \<notin> set as" for d'
      using that by (induction d' as rule: last_int.induct) auto
    with False Cons.prems show ?thesis by (cases a) auto
  qed (cases a; auto)
qed simp

lemma last_double_in: "\<exists>n. ArgDouble n \<in> set as \<Longrightarrow> ArgDouble (last_double d as) \<in> set as"
proof (induction as arbitrary: d)
  case (Cons a as)
  then show ?case
  proof (cases "\<exists>n. ArgDouble n \<in> set as")
    case False
    have "last_double d' as = d'" if "\<forall>n. ArgDouble n \<notin> set as" for d'
      using that by (induction d' as rule: last_double.induct) auto
    with False Cons.prems show ?thesis by (cases a) auto
  qed (cases a; auto)
qed simp

lemma delivered_as_meant:
  assumes "length (filter is_ArgInt as) \<le> 1" and "length (filter is_ArgDouble as) \<le> 1"
  shows "map (arg_delivered cs (last_int d as) (last_double x as)) as = map (arg_value cs) as"
proof (rule map_cong)
  fix a assume a: "a \<in> set as"
  show "arg_delivered cs (last_int d as) (last_double x as) a = arg_value cs a"
  proof (cases a)
    case (ArgInt n)
    then have "ArgInt (last_int d as) \<in> set as" using a last_int_in by blast
    then show ?thesis using filter_length_one[OF assms(1) a] ArgInt by fastforce
  next
    case (ArgDouble n)
    then have "ArgDouble (last_double x as) \<in> set as" using a last_double_in by blast
    then show ?thesis using filter_length_one[OF assms(2) a] ArgDouble by fastforce
  qed simp
qed simp

section \<open>Ownership of the handle and the vector\<close>

datatype my_stmt_ptr = StmtPtr nat | BindPtr nat

definition my_stmt_owns :: "my_stmt \<Rightarrow> my_stmt_ptr set" where
  "my_stmt_owns t = StmtPtr ` set_option (ms_m_pStmt t) \<union> BindPtr ` set_option (ms_m_pBindArray t)"

definition my_stmt_live :: "'w my_mach \<Rightarrow> my_stmt_ptr set" where
  "my_stmt_live m = StmtPtr ` live_mstmt m \<union> BindPtr ` dom (heap_bind m)"

definition my_stmt_ops :: "'w mysql_lib \<Rightarrow> (my_stmt, 'w my_mach, my_exn) class_ops" where
  "my_stmt_ops lb =
     \<lparr>op_copy = CppMySQLStatement_copy, op_assign = CppMySQLStatement_assign,
      op_clear = CppMySQLStatement_clear lb\<rparr>"

definition stmt_fresh_ids :: "'w my_mach \<Rightarrow> bool" where
  "stmt_fresh_ids m \<longleftrightarrow> (\<forall>i \<in> live_mstmt m \<union> dom (heap_bind m). i < my_next m)"

definition my_stmt_acquired :: "'w mysql_lib \<Rightarrow> 'w my_mach \<Rightarrow> my_stmt \<Rightarrow> 'w my_mach \<Rightarrow> bool" where
  "my_stmt_acquired lb m t m' \<longleftrightarrow>
     (t = CppMySQLStatement_default \<and> m' = m) \<or>
     (\<exists>mysql szDML. CppMySQLStatement_new lb mysql szDML m = (Ret t, m'))"

lemma stmt_ptr_sets:
  "p \<notin> A \<Longrightarrow> q \<notin> B \<Longrightarrow>
   {StmtPtr p, BindPtr q} \<inter> (StmtPtr ` A \<union> BindPtr ` B) = {} \<and>
   StmtPtr ` insert p A \<union> BindPtr ` insert q B = StmtPtr ` A \<union> BindPtr ` B \<union> {StmtPtr p, BindPtr q}"
  by auto

lemma stmt_ptr_sets_minus:
  "StmtPtr ` (A - C) \<union> BindPtr ` (B - D) = (StmtPtr ` A \<union> BindPtr ` B) - (StmtPtr ` C \<union> BindPtr ` D)"
  by auto

text \<open>What the constructor does up to its last allocation.\<close>

lemma my_stmt_new_cases:
  assumes "CppMySQLStatement_new lb mysql szDML m = (Ret t, m')"
  shows "ms_m_pStmt t = Some (my_next m) \<and> ms_m_pBindArray t = Some (Suc (my_next m)) \<and>
         live_mstmt m' = insert (my_next m) (live_mstmt m) \<and>
         dom (heap_bind m') = insert (Suc (my_next m)) (dom (heap_bind m)) \<and>
         my_next m' = Suc (Suc (my_next m))"
  using assms
  by (auto simp: CppMySQLStatement_new_def call_stmt_init_def live_call_def my_call_def bindP_def heap_run
      my_fresh_id_run throw_my_run split: if_splits option.splits prod.splits outcome.splits
      simp del: domIff)

lemma my_stmt_new_owns:
  assumes "CppMySQLStatement_new lb mysql szDML m = (Ret t, m')" and "stmt_fresh_ids m"
  shows "stmt_fresh_ids m' \<and> my_stmt_owns t \<inter> my_stmt_live m = {} \<and>
         my_stmt_live m' = my_stmt_live m \<union> my_stmt_owns t"
proof -
  note c = my_stmt_new_cases[OF assms(1)]
  have fr: "i \<in> live_mstmt m \<Longrightarrow> i < my_next m" "heap_bind m i = Some x \<Longrightarrow> i < my_next m" for i x
    using assms(2) by (auto simp: stmt_fresh_ids_def)
  have "stmt_fresh_ids m'"
    unfolding stmt_fresh_ids_def using c by (auto intro: less_SucI dest: fr)
  moreover have "my_next m \<notin> live_mstmt m" "Suc (my_next m) \<notin> dom (heap_bind m)"
    using fr by fastforce+
  moreover have "my_stmt_owns t = {StmtPtr (my_next m), BindPtr (Suc (my_next m))}"
    using c by (auto simp: my_stmt_owns_def)
  ultimately show ?thesis
    unfolding my_stmt_live_def using c stmt_ptr_sets by metis
qed

lemma stmt_clear_handle_run:
  assumes "set_option (ms_m_pStmt t) \<subseteq> live_mstmt m"
  shows "\<exists>w'. stmt_clear_handle lb (t, m) =
     (Ret (), (t\<lparr>ms_m_pStmt := None\<rparr>, m\<lparr>mlib := w', live_mstmt := live_mstmt m - set_option (ms_m_pStmt t)\<rparr>))"
proof (cases "ms_m_pStmt t")
  case None
  then have "t\<lparr>ms_m_pStmt := None\<rparr> = t" by simp
  with None show ?thesis by (auto simp: stmt_clear_handle_def prog_simps intro!: exI[of _ "mlib m"])
next
  case (Some h)
  obtain r w' where "mysql_stmt_close lb h (mlib m) = (r, w')" by (cases "mysql_stmt_close lb h (mlib m)")
  with Some show ?thesis using assms by (auto simp: stmt_clear_handle_def prog_simps)
qed

lemma stmt_clear_binds_run:
  assumes "set_option (ms_m_pBindArray t) \<subseteq> dom (heap_bind m)"
  shows "\<exists>f. stmt_clear_binds (t, m) = (Ret (), (t\<lparr>ms_m_pBindArray := None\<rparr>, m\<lparr>heap_bind := f\<rparr>)) \<and>
     dom f = dom (heap_bind m) - set_option (ms_m_pBindArray t)"
proof (cases "ms_m_pBindArray t")
  case None
  then have "t\<lparr>ms_m_pBindArray := None\<rparr> = t" by simp
  with None show ?thesis by (auto simp: stmt_clear_binds_def prog_simps intro!: exI[of _ "heap_bind m"])
next
  case (Some p)
  then show ?thesis using assms
    by (intro exI[of _ "(heap_bind m)(p := None)"]) (simp add: stmt_clear_binds_def prog_simps)
qed

lemma my_stmt_clear_run:
  assumes "my_stmt_owns t \<subseteq> my_stmt_live m"
  shows "\<exists>m'. CppMySQLStatement_clear lb (t, m) =
             (Ret (), (t\<lparr>ms_m_pStmt := None, ms_m_pBindArray := None\<rparr>, m')) \<and>
           my_stmt_live m' = my_stmt_live m - my_stmt_owns t \<and> (stmt_fresh_ids m \<longrightarrow> stmt_fresh_ids m')"
proof -
  have p: "set_option (ms_m_pStmt t) \<subseteq> live_mstmt m" "set_option (ms_m_pBindArray t) \<subseteq> dom (heap_bind m)"
    using assms by (auto simp: my_stmt_owns_def my_stmt_live_def)
  obtain w' where h: "stmt_clear_handle lb (t, m) = (Ret (), (t\<lparr>ms_m_pStmt := None\<rparr>,
      m\<lparr>mlib := w', live_mstmt := live_mstmt m - set_option (ms_m_pStmt t)\<rparr>))"
    using stmt_clear_handle_run[OF p(1)] by blast
  let ?m1 = "m\<lparr>mlib := w', live_mstmt := live_mstmt m - set_option (ms_m_pStmt t)\<rparr>"
  obtain f where f: "stmt_clear_binds (t\<lparr>ms_m_pStmt := None\<rparr>, ?m1) =
      (Ret (), (t\<lparr>ms_m_pStmt := None, ms_m_pBindArray := None\<rparr>, ?m1\<lparr>heap_bind := f\<rparr>))"
      "dom f = dom (heap_bind m) - set_option (ms_m_pBindArray t)"
    using stmt_clear_binds_run[of "t\<lparr>ms_m_pStmt := None\<rparr>" ?m1] p(2) by auto
  have "CppMySQLStatement_clear lb (t, m) =
      (Ret (), (t\<lparr>ms_m_pStmt := None, ms_m_pBindArray := None\<rparr>, ?m1\<lparr>heap_bind := f\<rparr>))"
    using h f(1) by (simp add: CppMySQLStatement_clear_def prog_simps)
  moreover have "my_stmt_live (?m1\<lparr>heap_bind := f\<rparr>) = my_stmt_live m - my_stmt_owns t"
    using stmt_ptr_sets_minus f(2) by (simp add: my_stmt_live_def my_stmt_owns_def)
  moreover have "stmt_fresh_ids m \<longrightarrow> stmt_fresh_ids (?m1\<lparr>heap_bind := f\<rparr>)"
    unfolding stmt_fresh_ids_def by (simp add: f(2) del: domIff) blast
  ultimately show ?thesis by blast
qed

text \<open>Safe, but not releasing: the assignment forgets the handle and the vector it overwrites.\<close>

interpretation my_stmt_owner: handle_class
    "my_stmt_ops lb" "my_stmt_acquired lb" my_stmt_owns my_stmt_live stmt_fresh_ids
  for lb
proof unfold_locales
  show "op_assign (my_stmt_ops lb) True x x m = (Ret (x, x), m)" for x m
    by (simp add: my_stmt_ops_def CppMySQLStatement_assign_def)
next
  fix m m' :: "'a my_mach" and x assume g: "stmt_fresh_ids m" and "my_stmt_acquired lb m x m'"
  then consider (default) "x = CppMySQLStatement_default" "m' = m"
    | (new) mysql szDML where "CppMySQLStatement_new lb mysql szDML m = (Ret x, m')"
    by (auto simp: my_stmt_acquired_def)
  then show "stmt_fresh_ids m' \<and> my_stmt_owns x \<inter> my_stmt_live m = {} \<and>
      my_stmt_live m' = my_stmt_live m \<union> my_stmt_owns x"
  proof cases
    case default
    then show ?thesis using g by (simp add: CppMySQLStatement_default_def my_stmt_owns_def)
  next
    case new
    then show ?thesis using my_stmt_new_owns[OF _ g] by blast
  qed
next
  fix x n x' :: my_stmt assume "op_copy (my_stmt_ops lb) x = (n, x')"
  then show "my_stmt_owns n = my_stmt_owns x \<and> my_stmt_owns x' = {}"
    by (auto simp: my_stmt_ops_def CppMySQLStatement_copy_def my_stmt_owns_def)
next
  fix m :: "'a my_mach" and x y :: my_stmt
  assume g: "stmt_fresh_ids m" and l: "my_stmt_owns x \<subseteq> my_stmt_live m"
  show "\<exists>x' y' m'. op_assign (my_stmt_ops lb) False x y m = (Ret (x', y'), m') \<and> stmt_fresh_ids m' \<and>
      my_stmt_owns x' = my_stmt_owns y \<and> my_stmt_owns y' = {} \<and> my_stmt_live m' \<subseteq> my_stmt_live m \<and>
      my_stmt_live m - my_stmt_owns x \<subseteq> my_stmt_live m'"
    using g by (simp add: my_stmt_ops_def CppMySQLStatement_assign_def my_stmt_owns_def)
  have "my_stmt_owns (x\<lparr>ms_m_pStmt := None, ms_m_pBindArray := None\<rparr>) = {}"
    by (simp add: my_stmt_owns_def)
  then show "\<exists>r x' m'. op_clear (my_stmt_ops lb) (x, m) = (r, (x', m')) \<and> \<not> is_undef r \<and>
      stmt_fresh_ids m' \<and> my_stmt_owns x' = {} \<and> my_stmt_live m' = my_stmt_live m - my_stmt_owns x"
    using my_stmt_clear_run[OF l, of lb] g by (force simp: my_stmt_ops_def)
qed

end
