(* ===== verification/MysqlDB.thy ===== *)
theory MysqlDB
  imports ConnString MysqlResultSet MysqlStatement
begin

text \<open>
  \<open>CppMySQLDB\<close> of \<open>src/CppMySQL.cpp\<close>: the connection, the operations that produce queries, result
  sets and statements, the transaction counter and the connection string.
\<close>

section \<open>The class\<close>

record my_db =
  mydb_m_pDB :: "nat option"
  mydb_m_inTransaction :: int

type_synonym 'w my_dbst = "my_db \<times> 'w my_mach"

definition CppMySQLDB_new :: "'w mysql_lib \<Rightarrow> ('w my_mach, my_exn, my_db) prog" where
  "CppMySQLDB_new lb =
     bindP (call_init lb) (\<lambda>p.
     if p = None then throw_my CPPMYSQL_DB_ERROR (Some ''mysql init failed!'')
     else ret \<lparr>mydb_m_pDB = p, mydb_m_inTransaction = 0\<rparr>)"

text \<open>A call on the connection, and the exception made of its last error.\<close>

definition my_db_call :: "(nat \<Rightarrow> 'w \<Rightarrow> 'r \<times> 'w) \<Rightarrow> ('w my_dbst, my_exn, 'r) prog" where
  "my_db_call f = bindP get_this (\<lambda>db. on_mach (live_call live_conn (mydb_m_pDB db) f))"

definition my_db_throw :: "'w mysql_lib \<Rightarrow> ('w my_dbst, my_exn, 'a) prog" where
  "my_db_throw lb = bindP get_this (\<lambda>db. on_mach (throw_conn_error lb (mydb_m_pDB db)))"

definition CppMySQLDB_close :: "'w mysql_lib \<Rightarrow> ('w my_dbst, my_exn, unit) prog" where
  "CppMySQLDB_close lb =
     bindP get_this (\<lambda>db.
     if mydb_m_pDB db \<noteq> None
     then seqP (on_mach (call_mysql_close lb (mydb_m_pDB db))) (upd_this (mydb_m_pDB_update (\<lambda>_. None)))
     else ret ())"

definition CppMySQLDB_destroy :: "'w mysql_lib \<Rightarrow> ('w my_dbst, my_exn, unit) prog" where
  "CppMySQLDB_destroy lb =
     bindP get_this (\<lambda>db. if mydb_m_pDB db \<noteq> None then CppMySQLDB_close lb else ret ())"

text \<open>\<open>m_pDB->db\<close>, the name of the selected database.\<close>

definition conn_member_db :: "'w mysql_lib \<Rightarrow> nat option \<Rightarrow> ('w my_mach, 'e, string option) prog" where
  "conn_member_db lb p = live_call live_conn p (\<lambda>c w. (conn_db lb c w, w))"

definition CppMySQLDB_checkDB :: "'w mysql_lib \<Rightarrow> bool \<Rightarrow> ('w my_dbst, my_exn, unit) prog" where
  "CppMySQLDB_checkDB lb isCheck_db =
     bindP get_this (\<lambda>db.
     if mydb_m_pDB db = None
     then on_mach (throw_my CPPMYSQL_DB_ERROR (Some ''Invalid database handle''))
     else if isCheck_db
     then bindP (on_mach (conn_member_db lb (mydb_m_pDB db))) (\<lambda>name.
          if name = None
          then on_mach (throw_my CPPMYSQL_DB_ERROR (Some (''didn'' @ [CHR 0x27] @ ''t select any database'')))
          else ret ())
     else ret ())"

definition CppMySQLDB_connect ::
  "'w mysql_lib \<Rightarrow> string \<Rightarrow> string \<Rightarrow> string \<Rightarrow> string option \<Rightarrow> uint32 \<Rightarrow> ulong \<Rightarrow>
   ('w my_dbst, my_exn, unit) prog" where
  "CppMySQLDB_connect lb host user passwd db port client_flag =
     seqP (CppMySQLDB_checkDB lb False)
     (bindP (my_db_call (\<lambda>c. mysql_real_connect lb c host user passwd db port client_flag)) (\<lambda>connected.
      if \<not> connected then my_db_throw lb else ret ()))"

definition CppMySQLDB_setOptions_arg ::
  "'w mysql_lib \<Rightarrow> mysql_option \<Rightarrow> string option \<Rightarrow> ('w my_dbst, my_exn, unit) prog" where
  "CppMySQLDB_setOptions_arg lb opt arg =
     bindP (my_db_call (\<lambda>c. mysql_options lb c opt arg)) (\<lambda>res.
     if res \<noteq> 0 then on_mach (throw_my CPPMYSQL_DB_ERROR (Some ''mysql_options error'')) else ret ())"

text \<open>\<open>setOptions(opt)\<close> passes a null pointer.\<close>

definition CppMySQLDB_setOptions :: "'w mysql_lib \<Rightarrow> mysql_option \<Rightarrow> ('w my_dbst, my_exn, unit) prog" where
  "CppMySQLDB_setOptions lb opt =
     bindP (my_db_call (\<lambda>c. mysql_options lb c opt None)) (\<lambda>res.
     if res \<noteq> 0 then on_mach (throw_my CPPMYSQL_DB_ERROR (Some ''mysql_options error'')) else ret ())"

subsection \<open>The connection string\<close>

definition throw_session :: "string \<Rightarrow> ('w my_dbst, my_exn, 'a) prog" where
  "throw_session msg = on_mach (throw_my CPPMYSQL_DB_ERROR (Some (''create session: '' @ msg)))"

text \<open>The three options that are set before connecting.\<close>

definition set_compress :: "'w mysql_lib \<Rightarrow> string \<Rightarrow> ('w my_dbst, my_exn, unit) prog" where
  "set_compress lb v =
     (if v = ''true'' then CppMySQLDB_setOptions lb MYSQL_OPT_COMPRESS
      else if v = ''false'' then ret ()
      else if v \<noteq> [] then throw_session ''specify correct compress option (true or false) or skip it''
      else ret ())"

definition set_reconnect :: "'w mysql_lib \<Rightarrow> string \<Rightarrow> ('w my_dbst, my_exn, unit) prog" where
  "set_reconnect lb v =
     (if v = ''true'' then CppMySQLDB_setOptions_arg lb MYSQL_OPT_RECONNECT (Some ''true'')
      else if v = ''false'' then CppMySQLDB_setOptions_arg lb MYSQL_OPT_RECONNECT (Some ''false'')
      else if v \<noteq> [] then throw_session ''specify correct auto-reconnect option (true or false) or skip it''
      else ret ())"

definition set_charset :: "'w mysql_lib \<Rightarrow> string \<Rightarrow> ('w my_dbst, my_exn, unit) prog" where
  "set_charset lb v =
     (if v \<noteq> [] then CppMySQLDB_setOptions_arg lb MYSQL_SET_CHARSET_NAME (Some v) else ret ())"

definition set_s_DBName :: "string \<Rightarrow> ('w my_dbst, my_exn, unit) prog" where
  "set_s_DBName name = on_mach (\<lambda>m. (Ret (), m\<lparr>s_DBName := name\<rparr>))"

definition CppMySQLDB_connect_string :: "'w mysql_lib \<Rightarrow> string \<Rightarrow> ('w my_dbst, my_exn, unit) prog" where
  "CppMySQLDB_connect_string lb szConnectionString =
     (case parse_options szConnectionString default_options of
        None \<Rightarrow> throw_session (''bad connection string format, can not find '' @ [CHR 0x27] @ ''='' @ [CHR 0x27])
      | Some options \<Rightarrow>
          (if options ''user'' = [] then throw_session ''specify user name''
           else
             let db = (if options ''db'' \<noteq> [] then Some (options ''db'') else None)
             in bindP (atoi (options ''port'')) (\<lambda>port.
                if port = 0 \<or> port > 65535
                then throw_session ''specify correct port (numeric in decimal notation)''
                else
                  seqP (set_compress lb (options ''compress''))
                  (seqP (set_reconnect lb (options ''auto-reconnect''))
                  (seqP (set_charset lb (options ''default-character-set''))
                  (seqP (CppMySQLDB_connect lb (options ''host'') (options ''user'') (options ''password'')
                           db (word_of_int port) 0)
                  (set_s_DBName (options ''db''))))))))"

subsection \<open>Statements and queries\<close>

definition CppMySQLDB_open :: "'w mysql_lib \<Rightarrow> string \<Rightarrow> ('w my_dbst, my_exn, unit) prog" where
  "CppMySQLDB_open lb szDBName =
     seqP (CppMySQLDB_checkDB lb False)
     (bindP (my_db_call (\<lambda>c. mysql_select_db lb c szDBName)) (\<lambda>res.
      if 0 \<noteq> res then my_db_throw lb else set_s_DBName szDBName))"

definition CppMySQLDB_execDML :: "'w mysql_lib \<Rightarrow> string \<Rightarrow> ('w my_dbst, my_exn, int) prog" where
  "CppMySQLDB_execDML lb szSQL =
     seqP (CppMySQLDB_checkDB lb True)
     (bindP (my_db_call (\<lambda>c. mysql_real_query lb c szSQL (length szSQL))) (\<lambda>res.
      if res = 0 then bindP (my_db_call (mysql_affected_rows lb)) (\<lambda>n. ret (ulong_to_int n))
      else my_db_throw lb))"

definition CppMySQLDB_execQuery :: "'w mysql_lib \<Rightarrow> string \<Rightarrow> ('w my_dbst, my_exn, my_query) prog" where
  "CppMySQLDB_execQuery lb szSQL =
     seqP (CppMySQLDB_checkDB lb True)
     (bindP (my_db_call (\<lambda>c. mysql_real_query lb c szSQL (length szSQL))) (\<lambda>res.
      if res = 0
      then bindP get_this (\<lambda>db.
           on_mach (bindP (call_store_result lb (mydb_m_pDB db)) (CppMySQLQuery_new lb)))
      else my_db_throw lb))"

definition my_scalar_body :: "int \<Rightarrow> ('w my_qst, my_exn, int) prog" where
  "my_scalar_body nNullValue =
     bindP (bindP CppMySQLQuery_eof (\<lambda>atEnd.
            if atEnd then ret True else bindP CppMySQLQuery_numFields (\<lambda>n. ret (n < 1)))) (\<lambda>invalid.
     if invalid then on_mach (throw_my CPPMYSQL_DB_ERROR (Some ''Invalid scalar query''))
     else CppMySQLQuery_getIntField 0 nNullValue)"

definition CppMySQLDB_execScalar :: "'w mysql_lib \<Rightarrow> string \<Rightarrow> int \<Rightarrow> ('w my_dbst, my_exn, int) prog" where
  "CppMySQLDB_execScalar lb szSQL nNullValue =
     bindP (CppMySQLDB_execQuery lb szSQL) (\<lambda>q.
     with_local (CppMySQLQuery_destroy lb) q (my_scalar_body nNullValue))"

definition my_table_exists_sql :: "string \<Rightarrow> string \<Rightarrow> string" where
  "my_table_exists_sql dbname szTable =
     ''select count(*) from information_schema.tables where table_schema = '' @ [CHR 0x27] @ dbname @
     [CHR 0x27] @ '' and table_name = '' @ [CHR 0x27] @ szTable @ [CHR 0x27]"

text \<open>Formatting into \<open>char szSQL[256]\<close> and reading it back.\<close>

definition format_sql :: "string \<Rightarrow> ('s, 'e, string) prog" where
  "format_sql sql = bindP (sprintf sql (uninit_buf 256)) (\<lambda>buf. lift_outcome (read_cstr buf))"

definition CppMySQLDB_tableExists :: "'w mysql_lib \<Rightarrow> string \<Rightarrow> ('w my_dbst, my_exn, bool) prog" where
  "CppMySQLDB_tableExists lb szTable =
     seqP (CppMySQLDB_checkDB lb True)
     (bindP (\<lambda>s. (Ret (s_DBName (snd s)), s)) (\<lambda>name.
      bindP (format_sql (my_table_exists_sql name szTable)) (\<lambda>szSQL.
      bindP (CppMySQLDB_execScalar lb szSQL 0) (\<lambda>nRet. ret (nRet > 0)))))"

text \<open>
  \<open>getResultSet\<close>: the result is copied and not freed.  The bound \<open>fuel\<close> is on the rows the copy loop reads.
\<close>

definition CppMySQLDB_getResultSet ::
  "nat \<Rightarrow> 'w mysql_lib \<Rightarrow> string \<Rightarrow> ('w my_dbst, my_exn, my_rset) prog" where
  "CppMySQLDB_getResultSet fuel lb szSQL =
     seqP (CppMySQLDB_checkDB lb True)
     (bindP (my_db_call (\<lambda>c. mysql_real_query lb c szSQL (length szSQL))) (\<lambda>res.
      if res = 0
      then bindP get_this (\<lambda>db.
           on_mach (bindP (call_store_result lb (mydb_m_pDB db)) (CppMySQLResultSet_new fuel lb)))
      else my_db_throw lb))"

definition CppMySQLDB_compileStatement :: "'w mysql_lib \<Rightarrow> string \<Rightarrow> ('w my_dbst, my_exn, my_stmt) prog" where
  "CppMySQLDB_compileStatement lb szSQL =
     bindP get_this (\<lambda>db. on_mach (CppMySQLStatement_new lb (mydb_m_pDB db) szSQL))"

subsection \<open>Transactions\<close>

definition count_transaction :: "int \<Rightarrow> ('w my_dbst, my_exn, unit) prog" where
  "count_transaction d =
     bindP get_this (\<lambda>db.
     bindP (int_arith (mydb_m_inTransaction db + d)) (\<lambda>n. upd_this (mydb_m_inTransaction_update (\<lambda>_. n))))"

definition CppMySQLDB_startTransaction :: "'w mysql_lib \<Rightarrow> ('w my_dbst, my_exn, unit) prog" where
  "CppMySQLDB_startTransaction lb =
     seqP (CppMySQLDB_execDML lb ''start transaction;'') (count_transaction 1)"

definition CppMySQLDB_commitTransaction :: "'w mysql_lib \<Rightarrow> ('w my_dbst, my_exn, unit) prog" where
  "CppMySQLDB_commitTransaction lb =
     seqP (CppMySQLDB_checkDB lb True) (seqP (my_db_call (mysql_commit lb)) (count_transaction (- 1)))"

definition CppMySQLDB_rollback :: "'w mysql_lib \<Rightarrow> ('w my_dbst, my_exn, unit) prog" where
  "CppMySQLDB_rollback lb =
     seqP (CppMySQLDB_checkDB lb True) (seqP (my_db_call (mysql_rollback lb)) (count_transaction (- 1)))"

definition CppMySQLDB_isTransaction :: "my_db \<Rightarrow> bool" where
  "CppMySQLDB_isTransaction db \<longleftrightarrow> mydb_m_inTransaction db > 0"

subsection \<open>Databases and the connection\<close>

definition create_db_sql :: "string \<Rightarrow> string" where
  "create_db_sql name =
     ''CREATE DATABASE if not exists '' @ name @ '' default character set '' @ [CHR 0x27] @ ''utf8'' @ [CHR 0x27]"

definition CppMySQLDB_createDB :: "'w mysql_lib \<Rightarrow> string \<Rightarrow> ('w my_dbst, my_exn, unit) prog" where
  "CppMySQLDB_createDB lb szDBName =
     seqP (CppMySQLDB_checkDB lb False)
     (bindP (format_sql (create_db_sql szDBName)) (\<lambda>szSQL.
      bindP (my_db_call (\<lambda>c. mysql_real_query lb c szSQL (length szSQL))) (\<lambda>res.
      if 0 \<noteq> res then my_db_throw lb else ret ())))"

definition CppMySQLDB_dropDB :: "'w mysql_lib \<Rightarrow> string \<Rightarrow> ('w my_dbst, my_exn, unit) prog" where
  "CppMySQLDB_dropDB lb name =
     seqP (CppMySQLDB_checkDB lb False)
     (bindP (format_sql (''DROP DATABASE if exists '' @ name)) (\<lambda>szSQL.
      bindP (my_db_call (\<lambda>c. mysql_real_query lb c szSQL (length szSQL))) (\<lambda>res.
      if 0 \<noteq> res then my_db_throw lb else ret ())))"

definition CppMySQLDB_ping :: "'w mysql_lib \<Rightarrow> ('w my_dbst, my_exn, bool) prog" where
  "CppMySQLDB_ping lb =
     seqP (CppMySQLDB_checkDB lb True) (bindP (my_db_call (mysql_ping lb)) (\<lambda>n. ret (n = 0)))"

definition CppMySQLDB_setCharacterSet :: "'w mysql_lib \<Rightarrow> string \<Rightarrow> ('w my_dbst, my_exn, bool) prog" where
  "CppMySQLDB_setCharacterSet lb szName =
     seqP (CppMySQLDB_checkDB lb False)
     (bindP (my_db_call (\<lambda>c. mysql_set_character_set lb c szName)) (\<lambda>n. ret (0 = n)))"

definition CppMySQLDB_getCharacterSetName :: "'w mysql_lib \<Rightarrow> ('w my_dbst, my_exn, string) prog" where
  "CppMySQLDB_getCharacterSetName lb =
     seqP (CppMySQLDB_checkDB lb False) (my_db_call (mysql_character_set_name lb))"

definition CppMySQLDB_getHandle :: "my_db \<Rightarrow> nat option" where
  "CppMySQLDB_getHandle db = mydb_m_pDB db"

section \<open>Running the operations\<close>

text \<open>A connected object, and one on which a database is selected.\<close>

definition my_db_open :: "'w my_dbst \<Rightarrow> nat \<Rightarrow> bool" where
  "my_db_open s c \<longleftrightarrow> mydb_m_pDB (fst s) = Some c \<and> c \<in> live_conn (snd s)"

definition my_db_ready :: "'w mysql_lib \<Rightarrow> 'w my_dbst \<Rightarrow> nat \<Rightarrow> bool" where
  "my_db_ready lb s c \<longleftrightarrow> my_db_open s c \<and> conn_db lb c (mlib (snd s)) \<noteq> None"

lemma my_db_readyD: "my_db_ready lb s c \<Longrightarrow> my_db_open s c"
  by (simp add: my_db_ready_def)

lemma my_db_call_run [prog_simps]:
  "my_db_open (db, m) c \<Longrightarrow> f c (mlib m) = (r, w') \<Longrightarrow>
   my_db_call f (db, m) = (Ret r, (db, m\<lparr>mlib := w'\<rparr>))"
  by (simp add: my_db_call_def my_db_open_def prog_simps)

lemma my_checkDB_closed [prog_simps]:
  "mydb_m_pDB db = None \<Longrightarrow> CppMySQLDB_checkDB lb chk (db, m) =
     (Throw (my_error m CPPMYSQL_DB_ERROR),
      (db, after_throw CPPMYSQL_DB_ERROR (Some ''Invalid database handle'') m))"
  by (simp add: CppMySQLDB_checkDB_def prog_simps)

lemma my_checkDB_open [prog_simps]:
  "my_db_open (db, m) c \<Longrightarrow> CppMySQLDB_checkDB lb False (db, m) = (Ret (), (db, m))"
  by (simp add: CppMySQLDB_checkDB_def my_db_open_def prog_simps)

lemma my_checkDB_ready [prog_simps]:
  "my_db_ready lb (db, m) c \<Longrightarrow> CppMySQLDB_checkDB lb True (db, m) = (Ret (), (db, m))"
  by (simp add: CppMySQLDB_checkDB_def my_db_open_def my_db_ready_def conn_member_db_def my_call_def prog_simps)

lemma my_db_throw_run:
  assumes "my_db_open (db, m) c"
  shows "\<exists>e m'. my_db_throw lb (db, m) = (Throw e, (db, m')) \<and> mye_m_pErrMess e \<noteq> None \<and>
           mye_m_nErrCode e = uint_to_int (fst (mysql_errno lb c (mlib m))) \<and> live_res m' = live_res m"
proof -
  obtain n w1 where n: "mysql_errno lb c (mlib m) = (n, w1)" by (cases "mysql_errno lb c (mlib m)")
  obtain s w2 where "mysql_error lb c w1 = (s, w2)" by (cases "mysql_error lb c w1")
  then show ?thesis
    using assms n by (simp add: my_db_throw_def my_db_open_def my_error_def prog_simps)
qed

lemma read_write_prefix: "cstring s \<Longrightarrow> read_cstr (write_prefix (s @ [NUL]) buf) = Ret s"
  by (rule read_sprintf)

lemma format_sql_run [prog_simps]:
  "cstring sql \<Longrightarrow> length sql < 256 \<Longrightarrow> format_sql sql s = (Ret sql, s)"
  "\<not> length sql < 256 \<Longrightarrow> format_sql sql s = (Undef BufferOverflow, s)"
  by (simp_all add: format_sql_def sprintf_def uninit_buf_def read_sprintf prog_simps)

section \<open>Queries\<close>

text \<open>
  The server accepts the text and the client library stores this result of it: a new result with
  both cursors at the start.
\<close>

definition stores ::
  "'w mysql_lib \<Rightarrow> 'w res_views \<Rightarrow> nat \<Rightarrow> string \<Rightarrow> 'w my_mach \<Rightarrow> res_view \<Rightarrow> 'w \<Rightarrow> bool" where
  "stores lb rv c sql m v w2 \<longleftrightarrow>
     (\<exists>w1. mysql_real_query lb c sql (length sql) (mlib m) = (0, w1) \<and>
        mysql_store_result lb c (my_next m) w1 = (True, w2)) \<and>
     rv w2 (my_next m) = v \<and> res_wf v \<and> rv_pos v = 0 \<and> rv_fpos v = 0"

definition after_store :: "'w my_mach \<Rightarrow> 'w \<Rightarrow> 'w my_mach" where
  "after_store m w = m\<lparr>my_next := Suc (my_next m), mlib := w, live_res := insert (my_next m) (live_res m)\<rparr>"

lemma after_store_fields [simp]:
  "mlib (after_store m w) = w" "live_res (after_store m w) = insert (my_next m) (live_res m)"
  "my_next (after_store m w) = Suc (my_next m)" "live_conn (after_store m w) = live_conn m"
  "heap_rows (after_store m w) = heap_rows m" "heap_map (after_store m w) = heap_map m"
  "heap_str (after_store m w) = heap_str m"
  "(after_store m w)\<lparr>mlib := w'\<rparr> = after_store m w'"
  by (simp_all add: after_store_def)

lemma store_result_run:
  assumes "my_db_open (db, m) c" and "mysql_store_result lb c (my_next m) (mlib m) = (True, w2)"
  shows "call_store_result lb (Some c) m = (Ret (Some (my_next m)), after_store m w2)"
  using assms by (simp add: call_store_result_def my_db_open_def after_store_def prog_simps)

text \<open>The constructor of a query on a stored result fetches the first row.\<close>

lemma my_query_new_run:
  assumes "row_contract lb rv" and "h \<in> live_res m" and "rv (mlib m) h = v" and "res_wf v"
  shows "\<exists>q w'. CppMySQLQuery_new lb (Some h) m = (Ret q, m\<lparr>mlib := w'\<rparr>) \<and>
           my_query_on rv (q, m\<lparr>mlib := w'\<rparr>) h (rv_fields v) (rv_rows v) 0"
proof -
  obtain w1 where w1: "mysql_data_seek lb h 0 (mlib m) = ((), w1)" "rv w1 h = v\<lparr>rv_pos := 0\<rparr>"
    using row_contractD(1)[OF assms(1), of 0 "mlib m" h] assms(3) by auto
  obtain w2 where w2: "mysql_fetch_row lb h w1 = (row_at (v\<lparr>rv_pos := 0\<rparr>), w2)"
      "rv w2 h = v\<lparr>rv_pos := min 1 (length (rv_rows v))\<rparr>"
    using row_contractD(2)[OF assms(1), of h w1] w1(2) by auto
  obtain w3 where w3: "mysql_num_rows lb h w2 = (of_nat (length (rv_rows v)), w3)"
      "rv w3 h = v\<lparr>rv_pos := min 1 (length (rv_rows v))\<rparr>"
    using row_contractD(3)[OF assms(1), of h w2] w2(2) by auto
  obtain w4 where w4: "mysql_num_fields lb h w3 = (of_nat (length (rv_fields v)), w4)"
      "rv w4 h = v\<lparr>rv_pos := min 1 (length (rv_rows v))\<rparr>"
    using row_contractD(4)[OF assms(1), of h w3] w3(2) by auto
  show ?thesis
    using assms(2,4) w1(1) w2(1) w3(1) w4
    by (auto simp: CppMySQLQuery_new_def load_result_def prog_simps my_query_on_def row_at_def res_wf_def)
qed

lemma my_execQuery_run:
  assumes "my_db_ready lb (db, m) c" and "stores lb rv c sql m v w2" and "row_contract lb rv"
  shows "\<exists>q w'. CppMySQLDB_execQuery lb sql (db, m) = (Ret q, (db, after_store m w')) \<and>
           my_query_on rv (q, after_store m w') (my_next m) (rv_fields v) (rv_rows v) 0"
proof -
  obtain w1 where w1: "mysql_real_query lb c sql (length sql) (mlib m) = (0, w1)"
      "mysql_store_result lb c (my_next m) w1 = (True, w2)"
    and v: "rv w2 (my_next m) = v" "res_wf v"
    using assms(2) by (auto simp: stores_def)
  have o1: "my_db_open (db, m\<lparr>mlib := w1\<rparr>) c" and c: "mydb_m_pDB db = Some c"
    using assms(1) by (simp_all add: my_db_ready_def my_db_open_def)
  have st: "(call_store_result lb (Some c) :: ('a my_mach, my_exn, nat option) prog) (m\<lparr>mlib := w1\<rparr>) = (Ret (Some (my_next m)), after_store m w2)"
    using store_result_run[OF o1, of lb w2] w1(2) by (simp add: after_store_def)
  obtain q w' where q: "CppMySQLQuery_new lb (Some (my_next m)) (after_store m w2) = (Ret q, after_store m w')"
      "my_query_on rv (q, after_store m w') (my_next m) (rv_fields v) (rv_rows v) 0"
    using my_query_new_run[OF assms(3), of "my_next m" "after_store m w2" v] v by auto
  have "bindP (call_store_result lb (Some c)) (CppMySQLQuery_new lb) (m\<lparr>mlib := w1\<rparr>) =
      (Ret q, after_store m w')"
    using st q(1) by (simp add: bindP_Ret)
  then have "CppMySQLDB_execQuery lb sql (db, m) = (Ret q, (db, after_store m w'))"
    using my_checkDB_ready[OF assms(1)] w1(1) c my_db_readyD[OF assms(1)]
    by (simp add: CppMySQLDB_execQuery_def prog_simps)
  with q(2) show ?thesis by blast
qed

lemma my_execQuery_pending:
  assumes "my_db_ready lb (db, m) c" and "stores lb rv c sql m v w2" and "row_contract lb rv"
  shows "\<exists>q m'. CppMySQLDB_execQuery lb sql (db, m) = (Ret q, (db, m')) \<and>
           my_query_pending lb rv d (q, m') (map (map (or_default d)) (rv_rows v))"
  using my_execQuery_run[OF assms] assms(3) unfolding my_query_pending_def by (metis drop0)

text \<open>A statement the server refuses: the exception has the error number of the connection.\<close>

lemma my_execQuery_refused:
  assumes "my_db_ready lb (db, m) c"
    and "mysql_real_query lb c sql (length sql) (mlib m) = (rc, w1)" and "rc \<noteq> 0"
  shows "\<exists>e m'. CppMySQLDB_execQuery lb sql (db, m) = (Throw e, (db, m')) \<and> live_res m' = live_res m \<and>
           mye_m_nErrCode e = uint_to_int (fst (mysql_errno lb c w1))"
proof -
  have "my_db_open (db, m\<lparr>mlib := w1\<rparr>) c"
    using assms(1) by (simp add: my_db_ready_def my_db_open_def)
  from my_db_throw_run[OF this, of lb] show ?thesis
    using my_checkDB_ready[OF assms(1)] my_db_readyD[OF assms(1)] assms(2,3)
    by (auto simp: CppMySQLDB_execQuery_def prog_simps)
qed

section \<open>Scalars\<close>

text \<open>The value for the rows of the result: \<open>None\<close> when there is no first cell.\<close>

definition my_scalar_value :: "string option list list \<Rightarrow> int \<Rightarrow> int option" where
  "my_scalar_value rows n =
     (case rows of
        (cell # cells) # rs \<Rightarrow> Some (case cell of None \<Rightarrow> n | Some s \<Rightarrow> strtol10 s)
      | _ \<Rightarrow> None)"

lemma my_getIntField_run:
  assumes "my_query_on rv (q, m) h flds rows k" and "k < length rows" and "0 \<le> i" and "nat i < length flds"
  shows "CppMySQLQuery_getIntField i n (q, m) =
     (case rows ! k ! nat i of None \<Rightarrow> ret n (q, m) | Some s \<Rightarrow> atoi s (q, m))"
proof -
  note on = my_query_onD[OF assms(1)]
  have "length (rows ! k) = length flds"
    using on(3-5) assms(2) by (auto simp: res_wf_def)
  then have cell: "row_cell i (q, m) = (Ret (rows ! k ! nat i), (q, m))"
    using on(2,10) assms(2-4) by (simp add: row_cell_def nat_less_iff)
  show ?thesis
    using fieldDataIsNull_run[OF cell] my_getStringField_run[OF assms, of "Some []"]
    by (cases "rows ! k ! nat i")
       (simp_all add: CppMySQLQuery_getIntField_def or_default_def nonnull_def prog_simps)
qed

lemma my_scalar_body_run:
  assumes "my_query_on rv (q, m) h flds rows 0"
    and "\<forall>x. my_scalar_value rows n = Some x \<longrightarrow> in_int x"
  shows "my_scalar_body n (q, m) =
     (case my_scalar_value rows n of
        Some x \<Rightarrow> (Ret x, (q, m))
      | None \<Rightarrow> (Throw (my_error m CPPMYSQL_DB_ERROR),
                 (q, after_throw CPPMYSQL_DB_ERROR (Some ''Invalid scalar query'') m)))"
proof -
  note on = my_query_onD[OF assms(1)]
  have n: "uint_to_int (mq_m_numFields q) = int (length flds)"
    using on(3,4,8) by (simp add: uint_to_int_of_nat res_wf_def)
  show ?thesis
  proof (cases rows)
    case Nil
    then show ?thesis
      using on(10) by (simp add: my_scalar_body_def CppMySQLQuery_eof_def my_scalar_value_def prog_simps)
  next
    case (Cons r rs)
    have eof: "CppMySQLQuery_eof (q, m) = (Ret False, (q, m))"
      using on(10) Cons by (simp add: CppMySQLQuery_eof_def prog_simps)
    have nf: "CppMySQLQuery_numFields (q, m) = (Ret (int (length flds)), (q, m))"
      using n by (simp add: CppMySQLQuery_numFields_def prog_simps)
    have len: "length r = length flds" using on(3-5) Cons by (auto simp: res_wf_def)
    show ?thesis
    proof (cases r)
      case Nil
      then show ?thesis
        using eof nf len Cons by (simp add: my_scalar_body_def my_scalar_value_def prog_simps)
    next
      case c: (Cons cell cells)
      then have "CppMySQLQuery_getIntField 0 n (q, m) =
          (case cell of None \<Rightarrow> ret n (q, m) | Some s \<Rightarrow> atoi s (q, m))"
        using my_getIntField_run[OF assms(1), of 0 n] len Cons by (simp flip: length_greater_0_conv)
      then show ?thesis
        using eof nf len[symmetric] Cons c assms(2)
        by (cases cell) (simp_all add: my_scalar_body_def my_scalar_value_def atoi_def prog_simps)
    qed
  qed
qed

lemma my_query_destroy_run:
  assumes "mq_m_pRES q = Some h" and "h \<in> live_res m"
  shows "\<exists>q' m'. CppMySQLQuery_destroy lb (q, m) = (Ret (), (q', m')) \<and> live_res m' = live_res m - {h} \<and>
           live_conn m' = live_conn m"
proof -
  obtain w' where "mysql_free_result lb h (mlib m) = ((), w')"
    by (cases "mysql_free_result lb h (mlib m)") auto
  with assms show ?thesis by (simp add: CppMySQLQuery_destroy_def CppMySQLQuery_clear_def prog_simps)
qed

text \<open>The local query is destroyed on both ways out.\<close>

lemma with_local_run:
  assumes "body (x, m) = (r, (x', m1))" and "\<not> is_undef r" and "dtor (x', m1) = (Ret (), (x'', m2))"
  shows "with_local dtor x body (y, m) = (r, (y, m2))"
  using assms by (simp add: with_local_def)

lemma my_execScalar_run:
  assumes "my_db_ready lb (db, m) c" and "stores lb rv c sql m v w2" and "row_contract lb rv"
    and "\<forall>x. my_scalar_value (rv_rows v) n = Some x \<longrightarrow> in_int x" and "my_next m \<notin> live_res m"
  shows "\<exists>r m'. CppMySQLDB_execScalar lb sql n (db, m) = (r, (db, m')) \<and>
           (case my_scalar_value (rv_rows v) n of
              Some x \<Rightarrow> r = Ret x
            | None \<Rightarrow> \<exists>e. r = Throw e \<and> mye_m_nErrCode e = CPPMYSQL_DB_ERROR) \<and>
           live_res m' = live_res m"
proof -
  let ?h = "my_next m"
  obtain q w' where q: "CppMySQLDB_execQuery lb sql (db, m) = (Ret q, (db, after_store m w'))"
      "my_query_on rv (q, after_store m w') ?h (rv_fields v) (rv_rows v) 0"
    using my_execQuery_run[OF assms(1-3)] by blast
  let ?m = "after_store m w'" and ?r = "case my_scalar_value (rv_rows v) n of
      Some x \<Rightarrow> Ret x | None \<Rightarrow> Throw (my_error (after_store m w') CPPMYSQL_DB_ERROR)"
  have "\<exists>m1. my_scalar_body n (q, ?m) = (?r, (q, m1)) \<and> live_res m1 = live_res ?m"
    using my_scalar_body_run[OF q(2) assms(4)] by (cases "my_scalar_value (rv_rows v) n") simp_all
  then obtain m1 where m1: "my_scalar_body n (q, ?m) = (?r, (q, m1))" "live_res m1 = live_res ?m"
    by blast
  have h: "mq_m_pRES q = Some ?h" "?h \<in> live_res m1" using my_query_onD(1,2)[OF q(2)] m1(2) by simp_all
  obtain q' m2 where m2: "CppMySQLQuery_destroy lb (q, m1) = (Ret (), (q', m2))" "live_res m2 = live_res m1 - {?h}"
    using my_query_destroy_run[OF h, of lb] by blast
  have nu: "\<not> is_undef ?r" by (simp split: option.split)
  have "with_local (CppMySQLQuery_destroy lb) q (my_scalar_body n) (db, ?m) = (?r, (db, m2))"
    by (rule with_local_run[where body = "my_scalar_body n" and x = q and m = ?m and r = ?r and x' = q
          and ?m1.0 = m1 and dtor = "CppMySQLQuery_destroy lb", OF m1(1) nu m2(1)])
  then have "CppMySQLDB_execScalar lb sql n (db, m) = (?r, (db, m2))"
    using q(1) by (simp add: CppMySQLDB_execScalar_def prog_simps)
  moreover have "live_res m2 = live_res m" using m2(2) m1(2) assms(5) by simp
  ultimately show ?thesis
    by (intro exI[of _ ?r] exI[of _ m2]) (simp add: my_error_def split: option.split)
qed

section \<open>Result sets\<close>

text \<open>The copy has every row and field of the result, and the result is still allocated.\<close>

lemma my_getResultSet_run:
  assumes "my_db_ready lb (db, m) c" and "stores lb rv c sql m v w2" and "row_contract lb rv"
    and "field_contract lb rv" and "None \<notin> fst ` set (rv_fields v)" and "length (rv_rows v) < fuel"
  shows "\<exists>t m'. CppMySQLDB_getResultSet fuel lb sql (db, m) = (Ret t, (db, m')) \<and>
           my_rset_on (t, m') (rv_names v) (map (map cell_text) (rv_rows v)) \<and>
           mr_m_nCurrentRow t = 0 \<and> live_res m' = insert (my_next m) (live_res m)"
proof -
  obtain w1 where w1: "mysql_real_query lb c sql (length sql) (mlib m) = (0, w1)"
      "mysql_store_result lb c (my_next m) w1 = (True, w2)"
    and v: "rv w2 (my_next m) = v" "res_wf v" "rv_pos v = 0"
    using assms(2) by (auto simp: stores_def)
  have o1: "my_db_open (db, m\<lparr>mlib := w1\<rparr>) c" and c: "mydb_m_pDB db = Some c"
    using assms(1) by (simp_all add: my_db_ready_def my_db_open_def)
  have st: "(call_store_result lb (Some c) :: ('a my_mach, my_exn, nat option) prog) (m\<lparr>mlib := w1\<rparr>) =
      (Ret (Some (my_next m)), after_store m w2)"
    using store_result_run[OF o1, of lb w2] w1(2) by (simp add: after_store_def)
  obtain t m' where t: "CppMySQLResultSet_new fuel lb (Some (my_next m)) (after_store m w2) = (Ret t, m')"
      "my_rset_on (t, m') (rv_names v) (map (map cell_text) (rv_rows v))" "mr_m_nCurrentRow t = 0"
      "live_res m' = live_res (after_store m w2)"
    using my_rset_new_run[OF assms(3,4), of "my_next m" "after_store m w2" v fuel] v assms(5,6) by auto
  have "bindP (call_store_result lb (Some c)) (CppMySQLResultSet_new fuel lb) (m\<lparr>mlib := w1\<rparr>) = (Ret t, m')"
    using st t(1) by (simp add: bindP_Ret)
  then have "CppMySQLDB_getResultSet fuel lb sql (db, m) = (Ret t, (db, m'))"
    using my_checkDB_ready[OF assms(1)] w1(1) c my_db_readyD[OF assms(1)]
    by (simp add: CppMySQLDB_getResultSet_def prog_simps)
  with t(2-4) show ?thesis by auto
qed

lemma my_getResultSet_pending:
  assumes "my_rset_on (t, m) names rows" and "mr_m_nCurrentRow t = 0"
  shows "my_rset_pending (t, m) rows \<and> my_rset_rows (t, m) = rows"
  using assms my_rset_rows_on[OF assms(1)]
  by (auto simp: my_rset_pending_def intro!: exI[of _ names] exI[of _ "0 :: nat"])

section \<open>Transactions\<close>

fun run_tx_op :: "'w mysql_lib \<Rightarrow> tx_op \<Rightarrow> ('w my_dbst, my_exn, unit) prog" where
  "run_tx_op lb TxStart = CppMySQLDB_startTransaction lb"
| "run_tx_op lb TxCommit = CppMySQLDB_commitTransaction lb"
| "run_tx_op lb TxRollback = CppMySQLDB_rollback lb"

fun run_tx :: "'w mysql_lib \<Rightarrow> tx_op list \<Rightarrow> ('w my_dbst, my_exn, unit) prog" where
  "run_tx lb [] = ret ()"
| "run_tx lb (op # ops) = seqP (run_tx_op lb op) (run_tx lb ops)"

text \<open>What the counter adds up.\<close>

fun tx_step :: "tx_op \<Rightarrow> int" where
  "tx_step TxStart = 1" | "tx_step TxCommit = - 1" | "tx_step TxRollback = - 1"

definition tx_count :: "tx_op list \<Rightarrow> int" where
  "tx_count ops = sum_list (map tx_step ops)"

text \<open>
  The server's side: \<open>tv w c\<close> tells whether connection \<open>c\<close> is inside a transaction.  A new start
  commits the transaction that is open, and an end without one does nothing.
\<close>

definition tx_contract :: "'w mysql_lib \<Rightarrow> ('w \<Rightarrow> nat \<Rightarrow> bool) \<Rightarrow> bool" where
  "tx_contract lb tv \<longleftrightarrow>
     (\<forall>w c. \<exists>w'. mysql_real_query lb c ''start transaction;'' 18 w = (0, w') \<and> tv w' c \<and>
        conn_db lb c w' = conn_db lb c w) \<and>
     (\<forall>w c. \<exists>n w'. mysql_affected_rows lb c w = (n, w') \<and> tv w' c = tv w c \<and>
        conn_db lb c w' = conn_db lb c w) \<and>
     (\<forall>w c. \<exists>w'. mysql_commit lb c w = (False, w') \<and> \<not> tv w' c \<and> conn_db lb c w' = conn_db lb c w) \<and>
     (\<forall>w c. \<exists>w'. mysql_rollback lb c w = (False, w') \<and> \<not> tv w' c \<and> conn_db lb c w' = conn_db lb c w)"

lemma tx_contractD:
  assumes "tx_contract lb tv"
  shows "\<exists>w'. mysql_real_query lb c ''start transaction;'' 18 w = (0, w') \<and> tv w' c \<and> conn_db lb c w' = conn_db lb c w"
    and "\<exists>n w'. mysql_affected_rows lb c w = (n, w') \<and> tv w' c = tv w c \<and> conn_db lb c w' = conn_db lb c w"
    and "\<exists>w'. mysql_commit lb c w = (False, w') \<and> \<not> tv w' c \<and> conn_db lb c w' = conn_db lb c w"
    and "\<exists>w'. mysql_rollback lb c w = (False, w') \<and> \<not> tv w' c \<and> conn_db lb c w' = conn_db lb c w"
  using assms unfolding tx_contract_def by simp_all

lemma count_transaction_run [prog_simps]:
  "in_int (mydb_m_inTransaction db + d) \<Longrightarrow>
   count_transaction d (db, m) = (Ret (), (db\<lparr>mydb_m_inTransaction := mydb_m_inTransaction db + d\<rparr>, m))"
  by (simp add: count_transaction_def prog_simps)

text \<open>An end counts down whatever the server answers.\<close>

lemma commit_run:
  assumes "my_db_ready lb (db, m) c" and "mysql_commit lb c (mlib m) = (failed, w')"
    and "in_int (mydb_m_inTransaction db - 1)"
  shows "CppMySQLDB_commitTransaction lb (db, m) =
     (Ret (), (db\<lparr>mydb_m_inTransaction := mydb_m_inTransaction db - 1\<rparr>, m\<lparr>mlib := w'\<rparr>))"
  using assms my_checkDB_ready[OF assms(1)] my_db_readyD[OF assms(1)]
  by (simp add: CppMySQLDB_commitTransaction_def prog_simps)

lemma rollback_run:
  assumes "my_db_ready lb (db, m) c" and "mysql_rollback lb c (mlib m) = (failed, w')"
    and "in_int (mydb_m_inTransaction db - 1)"
  shows "CppMySQLDB_rollback lb (db, m) =
     (Ret (), (db\<lparr>mydb_m_inTransaction := mydb_m_inTransaction db - 1\<rparr>, m\<lparr>mlib := w'\<rparr>))"
  using assms my_checkDB_ready[OF assms(1)] my_db_readyD[OF assms(1)]
  by (simp add: CppMySQLDB_rollback_def prog_simps)

lemma execDML_ok:
  assumes "my_db_ready lb (db, m) c" and "mysql_real_query lb c sql (length sql) (mlib m) = (0, w1)"
    and "mysql_affected_rows lb c w1 = (n, w2)"
  shows "CppMySQLDB_execDML lb sql (db, m) = (Ret (ulong_to_int n), (db, m\<lparr>mlib := w2\<rparr>))"
proof -
  have "my_db_open (db, m\<lparr>mlib := w1\<rparr>) c" using assms(1) by (simp add: my_db_ready_def my_db_open_def)
  then show ?thesis
    using assms(2,3) my_checkDB_ready[OF assms(1)] my_db_readyD[OF assms(1)]
    by (simp add: CppMySQLDB_execDML_def prog_simps)
qed

lemma start_run:
  assumes "my_db_ready lb (db, m) c" and "mysql_real_query lb c ''start transaction;'' 18 (mlib m) = (0, w1)"
    and "mysql_affected_rows lb c w1 = (n, w2)" and "in_int (mydb_m_inTransaction db + 1)"
  shows "CppMySQLDB_startTransaction lb (db, m) =
     (Ret (), (db\<lparr>mydb_m_inTransaction := mydb_m_inTransaction db + 1\<rparr>, m\<lparr>mlib := w2\<rparr>))"
proof -
  have "length ''start transaction;'' = 18" by simp
  then have "CppMySQLDB_execDML lb ''start transaction;'' (db, m) = (Ret (ulong_to_int n), (db, m\<lparr>mlib := w2\<rparr>))"
    using execDML_ok[OF assms(1) _ assms(3), of "''start transaction;''"] assms(2) by metis
  then show ?thesis using assms(4) by (simp add: CppMySQLDB_startTransaction_def prog_simps)
qed

lemma run_tx_op_run:
  assumes "my_db_ready lb (db, m) c" and "tx_contract lb tv" and "in_int (mydb_m_inTransaction db + tx_step op)"
  shows "\<exists>db' m'. run_tx_op lb op (db, m) = (Ret (), (db', m')) \<and> my_db_ready lb (db', m') c \<and>
     mydb_m_inTransaction db' = mydb_m_inTransaction db + tx_step op \<and>
     tv (mlib m') c = (op = TxStart)"
proof (cases op)
  case TxStart
  obtain w1 where w1: "mysql_real_query lb c ''start transaction;'' 18 (mlib m) = (0, w1)" "tv w1 c"
      "conn_db lb c w1 = conn_db lb c (mlib m)"
    using tx_contractD(1)[OF assms(2)] by blast
  obtain n w2 where w2: "mysql_affected_rows lb c w1 = (n, w2)" "tv w2 c = tv w1 c"
      "conn_db lb c w2 = conn_db lb c w1"
    using tx_contractD(2)[OF assms(2)] by blast
  show ?thesis
    using start_run[OF assms(1) w1(1) w2(1)] TxStart assms(1,3) w1(2,3) w2(2,3)
    by (auto simp: my_db_ready_def my_db_open_def)
next
  case TxCommit
  obtain w1 where w1: "mysql_commit lb c (mlib m) = (False, w1)" "\<not> tv w1 c"
      "conn_db lb c w1 = conn_db lb c (mlib m)"
    using tx_contractD(3)[OF assms(2)] by blast
  show ?thesis
    using commit_run[OF assms(1) w1(1)] TxCommit assms(1,3) w1(2,3)
    by (auto simp: my_db_ready_def my_db_open_def)
next
  case TxRollback
  obtain w1 where w1: "mysql_rollback lb c (mlib m) = (False, w1)" "\<not> tv w1 c"
      "conn_db lb c w1 = conn_db lb c (mlib m)"
    using tx_contractD(4)[OF assms(2)] by blast
  show ?thesis
    using rollback_run[OF assms(1) w1(1)] TxRollback assms(1,3) w1(2,3)
    by (auto simp: my_db_ready_def my_db_open_def)
qed

lemma tx_step_bound: "\<bar>tx_step op\<bar> = 1"
  by (cases op) simp_all

lemma run_tx_run:
  "my_db_ready lb (db, m) c \<Longrightarrow> tx_contract lb tv \<Longrightarrow>
   \<bar>mydb_m_inTransaction db\<bar> + int (length ops) \<le> INT_MAX \<Longrightarrow>
   \<exists>db' m'. run_tx lb ops (db, m) = (Ret (), (db', m')) \<and> my_db_ready lb (db', m') c \<and>
     mydb_m_inTransaction db' = mydb_m_inTransaction db + tx_count ops \<and>
     tv (mlib m') c = tx_state (tv (mlib m) c) ops"
proof (induction ops arbitrary: db m)
  case Nil
  then show ?case by (simp add: tx_count_def)
next
  case (Cons op ops)
  have "in_int (mydb_m_inTransaction db + tx_step op)"
    using Cons.prems(3) tx_step_bound[of op] by (simp add: in_int_def INT_MIN_def INT_MAX_def) linarith
  then obtain db1 m1 where one: "run_tx_op lb op (db, m) = (Ret (), (db1, m1))" "my_db_ready lb (db1, m1) c"
      "mydb_m_inTransaction db1 = mydb_m_inTransaction db + tx_step op" "tv (mlib m1) c = (op = TxStart)"
    using run_tx_op_run[OF Cons.prems(1,2)] by blast
  have "\<bar>mydb_m_inTransaction db1\<bar> + int (length ops) \<le> INT_MAX"
    using Cons.prems(3) one(3) tx_step_bound[of op] by simp
  then show ?case
    using Cons.IH[OF one(2) Cons.prems(2)] one by (auto simp: tx_count_def prog_simps)
qed

text \<open>Uses that never start inside a transaction and never end outside one.\<close>

fun tx_paired :: "bool \<Rightarrow> tx_op list \<Rightarrow> bool" where
  "tx_paired b [] \<longleftrightarrow> True"
| "tx_paired b (op # ops) \<longleftrightarrow> (op = TxStart) = (\<not> b) \<and> tx_paired (op = TxStart) ops"

lemma tx_paired_count:
  "tx_paired b ops \<Longrightarrow> of_bool b + tx_count ops = of_bool (tx_state b ops)"
proof (induction ops arbitrary: b)
  case (Cons op ops)
  then have "tx_paired (op = TxStart) ops" "of_bool b + tx_step op = of_bool (op = TxStart)"
    by (cases op; cases b; simp)+
  then show ?case
    using Cons.IH[of "op = TxStart"] by (simp add: tx_count_def flip: add.assoc)
qed (simp add: tx_count_def)

section \<open>Connecting with a string\<close>

text \<open>
  What the options ask for, written independently of the order of the checks: the values that are
  rejected, the \<open>mysql_options\<close> calls and the arguments of \<open>mysql_real_connect\<close>.
\<close>

definition switch_ok :: "string \<Rightarrow> bool" where
  "switch_ok v \<longleftrightarrow> v \<in> {[], ''true'', ''false''}"

definition session_ok :: "options \<Rightarrow> bool" where
  "session_ok opts \<longleftrightarrow>
     opts ''user'' \<noteq> [] \<and> strtol10 (opts ''port'') \<noteq> 0 \<and> strtol10 (opts ''port'') \<le> 65535 \<and>
     switch_ok (opts ''compress'') \<and> switch_ok (opts ''auto-reconnect'')"

definition session_options :: "options \<Rightarrow> (mysql_option \<times> string option) list" where
  "session_options opts =
     (if opts ''compress'' = ''true'' then [(MYSQL_OPT_COMPRESS, None)] else []) @
     (if opts ''auto-reconnect'' \<noteq> [] then [(MYSQL_OPT_RECONNECT, Some (opts ''auto-reconnect''))] else []) @
     (if opts ''default-character-set'' \<noteq> []
      then [(MYSQL_SET_CHARSET_NAME, Some (opts ''default-character-set''))] else [])"

text \<open>The library accepts these options one after the other.\<close>

fun options_accepted ::
  "'w mysql_lib \<Rightarrow> nat \<Rightarrow> (mysql_option \<times> string option) list \<Rightarrow> 'w \<Rightarrow> 'w option" where
  "options_accepted lb c [] w = Some w"
| "options_accepted lb c (oa # oas) w =
     (case mysql_options lb c (fst oa) (snd oa) w of
        (r, w') \<Rightarrow> (if r = 0 then options_accepted lb c oas w' else None))"

definition session_connects :: "'w mysql_lib \<Rightarrow> nat \<Rightarrow> options \<Rightarrow> 'w \<Rightarrow> 'w \<Rightarrow> bool" where
  "session_connects lb c opts w w2 \<longleftrightarrow>
     (\<exists>w1. options_accepted lb c (session_options opts) w = Some w1 \<and>
        mysql_real_connect lb c (opts ''host'') (opts ''user'') (opts ''password'')
          (if opts ''db'' = [] then None else Some (opts ''db''))
          (word_of_int (strtol10 (opts ''port''))) 0 w1 = (True, w2))"

lemma options_accepted_append:
  "options_accepted lb c (xs @ ys) w = Option.bind (options_accepted lb c xs w) (options_accepted lb c ys)"
  by (induction xs arbitrary: w) (auto split: prod.split)

lemma set_compress_run:
  assumes "my_db_open (db, m) c" and "switch_ok v"
    and "options_accepted lb c (if v = ''true'' then [(MYSQL_OPT_COMPRESS, None)] else []) (mlib m) = Some w1"
  shows "set_compress lb v (db, m) = (Ret (), (db, m\<lparr>mlib := w1\<rparr>))"
  using assms
  by (auto simp: set_compress_def switch_ok_def CppMySQLDB_setOptions_def prog_simps
      split: if_splits prod.splits)

lemma set_reconnect_run:
  assumes "my_db_open (db, m) c" and "switch_ok v"
    and "options_accepted lb c (if v \<noteq> [] then [(MYSQL_OPT_RECONNECT, Some v)] else []) (mlib m) = Some w1"
  shows "set_reconnect lb v (db, m) = (Ret (), (db, m\<lparr>mlib := w1\<rparr>))"
  using assms
  by (auto simp: set_reconnect_def switch_ok_def CppMySQLDB_setOptions_arg_def prog_simps
      split: if_splits prod.splits)

lemma set_charset_run:
  assumes "my_db_open (db, m) c"
    and "options_accepted lb c (if v \<noteq> [] then [(MYSQL_SET_CHARSET_NAME, Some v)] else []) (mlib m) = Some w1"
  shows "set_charset lb v (db, m) = (Ret (), (db, m\<lparr>mlib := w1\<rparr>))"
  using assms
  by (auto simp: set_charset_def CppMySQLDB_setOptions_arg_def prog_simps split: if_splits prod.splits)

lemma my_connect_run:
  assumes "my_db_open (db, m) c"
    and "mysql_real_connect lb c host user passwd name port flag (mlib m) = (True, w1)"
  shows "CppMySQLDB_connect lb host user passwd name port flag (db, m) = (Ret (), (db, m\<lparr>mlib := w1\<rparr>))"
  using assms by (simp add: CppMySQLDB_connect_def prog_simps)

lemma my_db_open_lib [simp]: "my_db_open (db, m\<lparr>mlib := w\<rparr>) c = my_db_open (db, m) c"
  by (simp add: my_db_open_def)

lemma connect_string_run:
  assumes "my_db_open (db, m) c" and "parse_options str default_options = Some opts" and "session_ok opts"
    and "in_int (strtol10 (opts ''port''))" and "session_connects lb c opts (mlib m) w2"
  shows "CppMySQLDB_connect_string lb str (db, m) =
           (Ret (), (db, m\<lparr>mlib := w2, s_DBName := opts ''db''\<rparr>))"
proof -
  obtain w where acc: "options_accepted lb c (session_options opts) (mlib m) = Some w"
    and con: "mysql_real_connect lb c (opts ''host'') (opts ''user'') (opts ''password'')
          (if opts ''db'' \<noteq> [] then Some (opts ''db'') else None)
          (word_of_int (strtol10 (opts ''port''))) 0 w = (True, w2)"
    using assms(5) by (auto simp: session_connects_def split: if_splits)
  obtain w1 w1' where
      a1: "options_accepted lb c (if opts ''compress'' = ''true'' then [(MYSQL_OPT_COMPRESS, None)] else [])
             (mlib m) = Some w1"
    and a2: "options_accepted lb c (if opts ''auto-reconnect'' \<noteq> []
             then [(MYSQL_OPT_RECONNECT, Some (opts ''auto-reconnect''))] else []) w1 = Some w1'"
    and a3: "options_accepted lb c (if opts ''default-character-set'' \<noteq> []
             then [(MYSQL_SET_CHARSET_NAME, Some (opts ''default-character-set''))] else []) w1' = Some w"
    using acc unfolding session_options_def options_accepted_append
    by (auto simp: bind_eq_Some_conv simp del: options_accepted.simps split del: if_split)
  have sw: "switch_ok (opts ''compress'')" "switch_ok (opts ''auto-reconnect'')"
    using assms(3) by (simp_all add: session_ok_def)
  note open' = assms(1)
  have r1: "set_compress lb (opts ''compress'') (db, m) = (Ret (), (db, m\<lparr>mlib := w1\<rparr>))"
    using set_compress_run[OF open' sw(1) a1] .
  have r2: "set_reconnect lb (opts ''auto-reconnect'') (db, m\<lparr>mlib := w1\<rparr>) = (Ret (), (db, m\<lparr>mlib := w1'\<rparr>))"
    using set_reconnect_run[of db "m\<lparr>mlib := w1\<rparr>" c, OF _ sw(2)] open' a2 by simp
  have r3: "set_charset lb (opts ''default-character-set'') (db, m\<lparr>mlib := w1'\<rparr>) = (Ret (), (db, m\<lparr>mlib := w\<rparr>))"
    using set_charset_run[of db "m\<lparr>mlib := w1'\<rparr>" c] open' a3 by simp
  have r4: "CppMySQLDB_connect lb (opts ''host'') (opts ''user'') (opts ''password'')
          (if opts ''db'' \<noteq> [] then Some (opts ''db'') else None)
          (word_of_int (strtol10 (opts ''port''))) 0 (db, m\<lparr>mlib := w\<rparr>) = (Ret (), (db, m\<lparr>mlib := w2\<rparr>))"
    using my_connect_run[of db "m\<lparr>mlib := w\<rparr>" c] open' con by simp
  show ?thesis
    using assms(2-4) r1 r2 r3 r4
    by (simp add: CppMySQLDB_connect_string_def session_ok_def atoi_def set_s_DBName_def Let_def prog_simps
        del: word_of_int_0 split del: if_split)
qed

text \<open>Without user name, usable port or \<open>=\<close> the call fails before the library is touched.\<close>

lemma connect_string_rejects:
  assumes "parse_options str default_options = None \<or>
           (\<exists>opts. parse_options str default_options = Some opts \<and>
              (opts ''user'' = [] \<or> in_int (strtol10 (opts ''port'')) \<and>
                 (strtol10 (opts ''port'') = 0 \<or> strtol10 (opts ''port'') > 65535)))"
  shows "\<exists>msg. CppMySQLDB_connect_string lb str (db, m) =
           (Throw (my_error m CPPMYSQL_DB_ERROR), (db, after_throw CPPMYSQL_DB_ERROR (Some (''create session: '' @ msg)) m))"
  using assms
proof (elim disjE exE conjE)
  assume "parse_options str default_options = None"
  then show ?thesis
    by (auto simp: CppMySQLDB_connect_string_def throw_session_def prog_simps)
next
  fix opts assume "parse_options str default_options = Some opts" "opts ''user'' = []"
  then show ?thesis
    by (auto simp: CppMySQLDB_connect_string_def throw_session_def prog_simps)
next
  fix opts assume o: "parse_options str default_options = Some opts" "in_int (strtol10 (opts ''port''))"
    "strtol10 (opts ''port'') = 0"
  then show ?thesis
    by (cases "opts ''user'' = []")
       (auto simp: CppMySQLDB_connect_string_def throw_session_def atoi_def Let_def prog_simps)
next
  fix opts assume o: "parse_options str default_options = Some opts" "in_int (strtol10 (opts ''port''))"
    "strtol10 (opts ''port'') > 65535"
  then show ?thesis
    by (cases "opts ''user'' = []")
       (auto simp: CppMySQLDB_connect_string_def throw_session_def atoi_def Let_def prog_simps)
qed

section \<open>Statements and names that do not fit\<close>

text \<open>A statement that cannot be prepared stays open: the constructor throws without closing it.\<close>

lemma compile_prepare_error:
  assumes "my_db_open (db, m) c" and "mysql_stmt_init lb c (my_next m) (mlib m) = (True, w1)"
    and "mysql_stmt_prepare lb (my_next m) sql (length sql) w1 = (rc, w2)" and "rc \<noteq> 0"
  shows "\<exists>e m'. CppMySQLDB_compileStatement lb sql (db, m) = (Throw e, (db, m')) \<and>
           mye_m_nErrCode e = CPPMYSQL_STATEMENT_ERROR \<and>
           live_mstmt m' = insert (my_next m) (live_mstmt m)"
proof -
  have "CppMySQLStatement_new lb (Some c) sql m =
      (Throw (my_error (m\<lparr>my_next := Suc (my_next m)\<rparr>) CPPMYSQL_STATEMENT_ERROR),
       after_throw CPPMYSQL_STATEMENT_ERROR (Some ''mysql_stmt_prepare error'')
         (m\<lparr>my_next := Suc (my_next m), live_mstmt := insert (my_next m) (live_mstmt m), mlib := w2\<rparr>))"
    using assms
    by (simp add: CppMySQLStatement_new_def call_stmt_init_def my_db_open_def prog_simps)
       (simp add: my_error_def)
  then show ?thesis
    using assms(1)
    by (simp add: CppMySQLDB_compileStatement_def my_db_open_def my_error_def prog_simps)
qed

lemma compile_run_ok:
  assumes "my_db_open (db, m) c" and "mysql_stmt_init lb c (my_next m) (mlib m) = (True, w1)"
    and "mysql_stmt_prepare lb (my_next m) sql (length sql) w1 = (0, w2)"
    and "mysql_stmt_param_count lb (my_next m) w2 = (of_nat k, w3)" and "int k \<le> INT_MAX"
    and "xv w3 (my_next m) = v"
  shows "\<exists>t m'. CppMySQLDB_compileStatement lb sql (db, m) = (Ret t, (db, m')) \<and>
           my_stmt_on xv (t, m') (my_next m) k [] v \<and> client_str m' = client_str m"
proof -
  let ?h = "my_next m"
  let ?t = "\<lparr>ms_m_pBindArray = Some (Suc ?h), ms_m_state = STMT_COMPILED, ms_m_pStmt = Some ?h,
             ms_m_nParamsCount = int k, ms_m_nBindIndex = 0\<rparr>"
  let ?m = "m\<lparr>my_next := Suc (Suc ?h), mlib := w3, live_mstmt := insert ?h (live_mstmt m),
              heap_bind := (heap_bind m)(Suc ?h \<mapsto> [])\<rparr>"
  have "CppMySQLStatement_new lb (Some c) sql m = (Ret ?t, ?m)"
    using assms
    by (simp add: CppMySQLStatement_new_def call_stmt_init_def my_db_open_def ulong_to_int_of_nat prog_simps)
  then have "CppMySQLDB_compileStatement lb sql (db, m) = (Ret ?t, (db, ?m))"
    using assms(1) by (simp add: CppMySQLDB_compileStatement_def my_db_open_def prog_simps)
  moreover have "my_stmt_on xv (?t, ?m) ?h k [] v"
    using assms(6) by (simp add: my_stmt_on_def)
  ultimately show ?thesis by (intro exI[of _ ?t] exI[of _ ?m]) simp
qed

text \<open>The texts formatted into 256 characters: exactly the names that leave room for the NUL fit.\<close>

lemma my_tableExists_overflow:
  assumes "my_db_ready lb (db, m) c" and "\<not> length (my_table_exists_sql (s_DBName m) szTable) < 256"
  shows "CppMySQLDB_tableExists lb szTable (db, m) = (Undef BufferOverflow, (db, m))"
  using assms my_checkDB_ready[OF assms(1)] by (simp add: CppMySQLDB_tableExists_def prog_simps)

lemma my_table_exists_sql_length:
  "length (my_table_exists_sql name szTable) = 90 + length name + length szTable"
  by (simp add: my_table_exists_sql_def)

lemma my_tableExists_run:
  assumes "my_db_ready lb (db, m) c" and "stores lb rv c sql m v w2" and "row_contract lb rv"
    and "sql = my_table_exists_sql (s_DBName m) szTable" and "cstring (s_DBName m @ szTable)"
    and "length (s_DBName m) + length szTable < 166" and "my_next m \<notin> live_res m"
    and "rv_rows v = [[Some (show_nat n)]]" and "int n \<le> INT_MAX"
  shows "\<exists>m'. CppMySQLDB_tableExists lb szTable (db, m) = (Ret (0 < n), (db, m')) \<and> live_res m' = live_res m"
proof -
  have cell: "my_scalar_value (rv_rows v) 0 = Some (int n)"
    by (simp add: assms(8) my_scalar_value_def strtol10_show_nat)
  then obtain m' where m': "CppMySQLDB_execScalar lb sql 0 (db, m) = (Ret (int n), (db, m'))"
      "live_res m' = live_res m"
    using my_execScalar_run[OF assms(1-3) _ assms(7), of 0] assms(9) by (auto simp: in_int_of_nat)
  have "cstring sql" using assms(4,5) by (simp add: my_table_exists_sql_def NUL_def)
  moreover have "length sql < 256" using assms(4,6) by (simp add: my_table_exists_sql_length)
  ultimately show ?thesis
    using my_checkDB_ready[OF assms(1)] assms(4) m'
    by (simp add: CppMySQLDB_tableExists_def prog_simps)
qed

end
