(* ===== verification/MysqlSample.thy ===== *)
theory MysqlSample
  imports MysqlDB
begin

text \<open>
  A small MySQL library that keeps all the contracts, for evaluating the wrapper on concrete data:
  every query stores the same result, every statement takes two parameters.
\<close>

section \<open>The library\<close>

record my_world =
  mw_res :: "nat \<Rightarrow> res_view"
  mw_exec :: "nat \<Rightarrow> exec_view"
  mw_tx :: "nat \<Rightarrow> bool"
  mw_log :: "nat \<Rightarrow> string list"

definition fresh_result :: "my_fielddef list \<Rightarrow> string option list list \<Rightarrow> res_view" where
  "fresh_result flds rows = \<lparr>rv_fields = flds, rv_rows = rows, rv_pos = 0, rv_fpos = 0\<rparr>"

definition set_res :: "nat \<Rightarrow> res_view \<Rightarrow> my_world \<Rightarrow> my_world" where
  "set_res h v w = w\<lparr>mw_res := (mw_res w)(h := v)\<rparr>"

definition set_exec :: "nat \<Rightarrow> exec_view \<Rightarrow> my_world \<Rightarrow> my_world" where
  "set_exec h v w = w\<lparr>mw_exec := (mw_exec w)(h := v)\<rparr>"

definition set_tx :: "nat \<Rightarrow> bool \<Rightarrow> my_world \<Rightarrow> my_world" where
  "set_tx c b w = w\<lparr>mw_tx := (mw_tx w)(c := b)\<rparr>"

definition sample_lib :: "my_fielddef list \<Rightarrow> string option list list \<Rightarrow> my_world mysql_lib" where
  "sample_lib flds rows =
     \<lparr>mysql_init = (\<lambda>c w. (True, w)),
      mysql_real_connect = (\<lambda>c host user passwd db port flag w. (True, w)),
      mysql_errno = (\<lambda>c w. (1064, w)),
      mysql_error = (\<lambda>c w. (''You have an error in your SQL syntax'', w)),
      mysql_select_db = (\<lambda>c db w. (0, w)),
      mysql_close = (\<lambda>c w. ((), w)),
      mysql_real_query = (\<lambda>c sql n w. (if sql = ''selct'' then 1 else 0,
                            if sql = ''start transaction;'' then set_tx c True w else w)),
      mysql_affected_rows = (\<lambda>c w. (1, w)),
      mysql_store_result = (\<lambda>c h w. (True, set_res h (fresh_result flds rows) w)),
      mysql_commit = (\<lambda>c w. (False, set_tx c False w)),
      mysql_rollback = (\<lambda>c w. (False, set_tx c False w)),
      mysql_ping = (\<lambda>c w. (0, w)),
      mysql_set_character_set = (\<lambda>c s w. (0, w)),
      mysql_character_set_name = (\<lambda>c w. (''utf8'', w)),
      mysql_options = (\<lambda>c opt arg w. (0, w)),
      conn_db = (\<lambda>c w. Some ''test''),
      mysql_data_seek = (\<lambda>h n w. ((), set_res h ((mw_res w h)\<lparr>rv_pos := unat n\<rparr>) w)),
      mysql_fetch_row = (\<lambda>h w. (row_at (mw_res w h),
         set_res h ((mw_res w h)\<lparr>rv_pos := min (Suc (rv_pos (mw_res w h))) (length (rv_rows (mw_res w h)))\<rparr>) w)),
      mysql_num_rows = (\<lambda>h w. (of_nat (length (rv_rows (mw_res w h))), w)),
      mysql_num_fields = (\<lambda>h w. (of_nat (length (rv_fields (mw_res w h))), w)),
      mysql_field_seek = (\<lambda>h n w. (0, set_res h ((mw_res w h)\<lparr>rv_fpos := unat n\<rparr>) w)),
      mysql_fetch_field = (\<lambda>h w. (field_at (mw_res w h),
         if rv_fpos (mw_res w h) < length (rv_fields (mw_res w h))
         then set_res h ((mw_res w h)\<lparr>rv_fpos := Suc (rv_fpos (mw_res w h))\<rparr>) w else w)),
      mysql_fetch_fields = (\<lambda>h w. (rv_fields (mw_res w h), w)),
      mysql_free_result = (\<lambda>h w. ((), w)),
      mysql_stmt_init = (\<lambda>c h w. (True, w)),
      mysql_stmt_prepare = (\<lambda>h sql n w. (if sql = ''selct'' then 1 else 0, w)),
      mysql_stmt_param_count = (\<lambda>h w. (of_nat 2, w)),
      mysql_stmt_bind_param = (\<lambda>h bs w. (0, set_exec h ((mw_exec w h)\<lparr>ev_binds := bs\<rparr>) w)),
      mysql_stmt_execute = (\<lambda>h rd w. (0,
         set_exec h ((mw_exec w h)\<lparr>ev_runs := ev_runs (mw_exec w h) @ [map (rd \<circ> buffer) (ev_binds (mw_exec w h))]\<rparr>) w)),
      mysql_stmt_affected_rows = (\<lambda>h w. (1, w)),
      mysql_stmt_errno = (\<lambda>h w. (0, w)),
      mysql_stmt_error = (\<lambda>h w. ([], w)),
      mysql_stmt_reset = (\<lambda>h w. (False, w)),
      mysql_stmt_close = (\<lambda>h w. (False, w)),
      atof = (\<lambda>s. 0)\<rparr>"

text \<open>The same library keeping a log of the statements of every connection.\<close>

definition log_text :: "nat \<Rightarrow> string \<Rightarrow> my_world \<Rightarrow> my_world" where
  "log_text c sql w = w\<lparr>mw_log := (mw_log w)(c := mw_log w c @ [sql])\<rparr>"

definition my_log_lib :: "my_world mysql_lib" where
  "my_log_lib =
     (sample_lib [] [])
     \<lparr>mysql_real_query := (\<lambda>c sql n w. (0, log_text c sql w)),
      mysql_commit := (\<lambda>c w. (False, log_text c ''commit'' w))\<rparr>"

lemma sample_row_contract: "row_contract (sample_lib flds rows) mw_res"
  by (simp add: row_contract_def sample_lib_def set_res_def)

lemma sample_field_contract: "field_contract (sample_lib flds rows) mw_res"
  by (simp add: field_contract_def sample_lib_def set_res_def)

lemma sample_exec_contract: "exec_contract (sample_lib flds rows) mw_exec"
  by (simp add: exec_contract_def sample_lib_def set_exec_def)

lemma sample_tx_contract: "tx_contract (sample_lib flds rows) mw_tx"
  by (simp add: tx_contract_def sample_lib_def set_tx_def)

lemmas sample_contracts =
  sample_row_contract sample_field_contract sample_exec_contract sample_tx_contract

section \<open>A connection and a result\<close>

definition my_world0 :: my_world where
  "my_world0 = \<lparr>mw_res = (\<lambda>_. fresh_result [] []), mw_exec = (\<lambda>_. \<lparr>ev_binds = [], ev_runs = []\<rparr>), mw_tx = (\<lambda>_. False),
     mw_log = (\<lambda>_. [])\<rparr>"

text \<open>One open connection, number 0; three strings of the client.\<close>

definition my_mach0 :: "my_world my_mach" where
  "my_mach0 =
     \<lparr>mlib = my_world0, my_next = 1, live_conn = {0}, live_res = {}, live_mstmt = {}, s_DBName = ''test'',
      s_nValue = 0, s_dwValue = 0, client_str = (\<lambda>p. if p = 0 then ''David'' else ''Eve''),
      heap_str = Map.empty, heap_rows = Map.empty, heap_map = Map.empty, heap_bind = Map.empty\<rparr>"

definition my_db0 :: my_db where
  "my_db0 = \<lparr>mydb_m_pDB = Some 0, mydb_m_inTransaction = 0\<rparr>"

definition emp_fields :: "my_fielddef list" where
  "emp_fields = [(Some ''empno'', 3), (Some ''empname'', 253)]"

definition emp_values :: "string option list list" where
  "emp_values = [[Some ''7'', Some ''David''], [Some ''8'', None]]"

definition my_emp_lib :: "my_world mysql_lib" where
  "my_emp_lib = sample_lib emp_fields emp_values"

lemma my_emp_contracts:
  "row_contract my_emp_lib mw_res" "field_contract my_emp_lib mw_res"
  "exec_contract my_emp_lib mw_exec" "tx_contract my_emp_lib mw_tx"
  unfolding my_emp_lib_def by (rule sample_contracts)+

lemma my_db0_open: "my_db_open (my_db0, my_mach0) 0"
  by (simp add: my_db_open_def my_db0_def my_mach0_def)

lemma my_db0_ready: "my_db_ready (sample_lib flds rows) (my_db0, my_mach0) 0"
  by (simp add: my_db_ready_def my_db0_open sample_lib_def)

lemma sample_stores:
  assumes "res_wf (fresh_result flds rows)" and "sql \<noteq> ''selct''" and "sql \<noteq> ''start transaction;''"
  shows "stores (sample_lib flds rows) mw_res 0 sql my_mach0 (fresh_result flds rows)
           (set_res 1 (fresh_result flds rows) my_world0)"
  using assms by (simp add: stores_def sample_lib_def my_mach0_def set_res_def fresh_result_def)

lemma emp_result_wf: "res_wf (fresh_result emp_fields emp_values)"
  by (simp add: res_wf_def fresh_result_def emp_fields_def emp_values_def INT_MAX_def)

lemma fresh_result_fields [simp]:
  "rv_fields (fresh_result flds rows) = flds" "rv_rows (fresh_result flds rows) = rows"
  "rv_pos (fresh_result flds rows) = 0" "rv_fpos (fresh_result flds rows) = 0"
  by (simp_all add: fresh_result_def)

lemma emp_values_text:
  "length emp_values = 2"
  "map (map (or_default (Some ''-''))) emp_values = [[Some ''7'', Some ''David''], [Some ''8'', Some ''-'']]"
  "map (map cell_text) emp_values = [[''7'', ''David''], [''8'', ''NULL'']]"
  by (simp_all add: emp_values_def or_default_def cell_text_def)

lemma emp_names_text: "rv_names (fresh_result emp_fields rows) = [''empno'', ''empname'']"
  by (simp add: rv_names_def emp_fields_def)

text \<open>A query on the first row of the result, a result set with a copy of it, and a statement.\<close>

definition my_emp_mach :: "my_world my_mach" where
  "my_emp_mach =
     my_mach0\<lparr>mlib := set_res 1 ((fresh_result emp_fields emp_values)\<lparr>rv_pos := 1\<rparr>) my_world0, my_next := 9,
              live_res := {1}, live_mstmt := {2}, heap_bind := [3 \<mapsto> []],
              heap_rows := [4 \<mapsto> map (map cell_text) emp_values],
              heap_map := [5 \<mapsto> name_map [''empno'', ''empname'']]\<rparr>"

definition my_emp_query :: my_query where
  "my_emp_query =
     \<lparr>mq_m_pRES = Some 1, mq_m_Field = Uninit, mq_m_Row = Some (1, [Some ''7'', Some ''David'']),
      mq_m_numRows = 2, mq_m_numFields = 2\<rparr>"

definition my_emp_rset :: my_rset where
  "my_emp_rset =
     \<lparr>mr_m_pResultSet = Some 4, mr_m_pFieldMap = Some 5, mr_m_nCurrentRow = 0, mr_m_nRows = 2, mr_m_nCols = 2\<rparr>"

definition my_emp_stmt :: my_stmt where
  "my_emp_stmt =
     \<lparr>ms_m_pBindArray = Some 3, ms_m_state = STMT_COMPILED, ms_m_pStmt = Some 2, ms_m_nParamsCount = 2,
      ms_m_nBindIndex = 0\<rparr>"

lemma my_emp_query_on: "my_query_on mw_res (my_emp_query, my_emp_mach) 1 emp_fields emp_values 0"
  by (simp add: my_query_on_def my_emp_query_def my_emp_mach_def my_mach0_def set_res_def fresh_result_def
      res_wf_def emp_fields_def emp_values_def INT_MAX_def Let_def)

lemma my_emp_query_fields:
  "my_query_fields mw_res (my_emp_query, my_emp_mach) 1 ((fresh_result emp_fields emp_values)\<lparr>rv_pos := 1\<rparr>)"
  by (simp add: my_query_fields_def my_emp_query_def my_emp_mach_def my_mach0_def set_res_def fresh_result_def
      res_wf_def emp_fields_def emp_values_def INT_MAX_def)

lemma my_emp_rset_on:
  "my_rset_on (my_emp_rset, my_emp_mach) [''empno'', ''empname''] [[''7'', ''David''], [''8'', ''NULL'']]"
  by (simp add: my_rset_on_def my_emp_rset_def my_emp_mach_def emp_values_text INT_MAX_def)

lemma my_emp_stmt_on:
  "my_stmt_on mw_exec (my_emp_stmt, my_emp_mach) 2 2 [] \<lparr>ev_binds = [], ev_runs = []\<rparr>"
  by (simp add: my_stmt_on_def my_emp_stmt_def my_emp_mach_def my_mach0_def my_world0_def set_res_def)

end
