(* ===== verification/MysqlProperties.thy ===== *)
theory MysqlProperties
  imports MysqlSample
begin

text \<open>
  What the MySQL wrapper guarantees, and where it does not do what its documentation says: the
  properties of \<open>src/CppMySQL.cpp\<close>, each with a concrete instance.
\<close>

section \<open>Queries\<close>

text \<open>
  C7: when the server accepts the text and its result has \<open>rows\<close>, \<open>execQuery\<close> followed by the loop
  \<open>while (!q.eof()) { read every column; q.nextRow(); }\<close> terminates within \<open>length rows + 1\<close> turns,
  reads exactly those rows in order, each value as \<open>getStringField\<close> gives it (the default for NULL),
  and leaves the query at its end; no step is undefined or throws.
\<close>

theorem my_query_traversal:
  assumes "my_db_ready lb (db, m) c" and "stores lb rv c sql m v w2" and "row_contract lb rv"
    and "length (rv_rows v) < fuel"
  shows "\<exists>q m' s'. CppMySQLDB_execQuery lb sql (db, m) = (Ret q, (db, m')) \<and>
           fetch_all fuel CppMySQLQuery_eof (my_query_row d) (CppMySQLQuery_nextRow lb) (q, m') =
             Some (Ret (map (map (or_default d)) (rv_rows v)), s') \<and>
           CppMySQLQuery_eof s' = (Ret True, s')"
proof -
  obtain q m' where q: "CppMySQLDB_execQuery lb sql (db, m) = (Ret q, (db, m'))"
      "my_query_pending lb rv d (q, m') (map (map (or_default d)) (rv_rows v))"
    using my_execQuery_pending[OF assms(1-3)] by blast
  from my_cursor.fetch_all_pending[OF q(2), of fuel] assms(4) obtain s' where
    "fetch_all fuel CppMySQLQuery_eof (my_query_row d) (CppMySQLQuery_nextRow lb) (q, m') =
       Some (Ret (map (map (or_default d)) (rv_rows v)), s')" "my_query_pending lb rv d s' []"
    by auto
  with q(1) show ?thesis using my_cursor.eof_at_end by blast
qed

text \<open>The query the samples make.\<close>

lemma emp_stores:
  "stores my_emp_lib mw_res 0 ''select * from emp'' my_mach0 (fresh_result emp_fields emp_values)
     (set_res 1 (fresh_result emp_fields emp_values) my_world0)"
  unfolding my_emp_lib_def by (rule sample_stores[OF emp_result_wf]) simp_all

lemma my_emp_ready: "my_db_ready my_emp_lib (my_db0, my_mach0) 0"
  unfolding my_emp_lib_def by (rule my_db0_ready)

lemma my_query_traversal_witness:
  "\<exists>q m' s'. CppMySQLDB_execQuery my_emp_lib ''select * from emp'' (my_db0, my_mach0) = (Ret q, (my_db0, m')) \<and>
     fetch_all 3 CppMySQLQuery_eof (my_query_row (Some ''-'')) (CppMySQLQuery_nextRow my_emp_lib) (q, m') =
       Some (Ret [[Some ''7'', Some ''David''], [Some ''8'', Some ''-'']], s')"
proof -
  have "length (rv_rows (fresh_result emp_fields emp_values)) < 3" by (simp add: emp_values_text)
  from my_query_traversal[OF my_emp_ready emp_stores my_emp_contracts(1) this, of "Some ''-''"]
  show ?thesis unfolding fresh_result_fields emp_values_text(2) by blast
qed

text \<open>
  C32: a query positioned with \<open>seekRow(n)\<close> stands on row \<open>n\<close>, or on the last row when there are fewer
  rows, and returns that number; reading the row gives its values, so rows can be read in any order.
\<close>

theorem my_query_seek:
  assumes "my_query_on rv (q, m) h flds rows k" and "row_contract lb rv" and "rows \<noteq> []"
  shows "\<exists>q' m'. CppMySQLQuery_seekRow lb n (q, m) =
             (Ret (of_nat (min (unat n) (length rows - 1))), (q', m')) \<and>
           my_query_row d (q', m') = (Ret (map (or_default d) (rows ! min (unat n) (length rows - 1))), (q', m')) \<and>
           CppMySQLQuery_eof (q', m') = (Ret False, (q', m'))"
proof -
  let ?k = "min (unat n) (length rows - 1)"
  have k: "?k < length rows" using assms(3) by (cases rows) auto
  obtain q' w' where s: "CppMySQLQuery_seekRow lb n (q, m) = (Ret (of_nat ?k), (q', m\<lparr>mlib := w'\<rparr>))"
      "my_query_on rv (q', m\<lparr>mlib := w'\<rparr>) h flds rows ?k"
    using my_seekRow_run[OF assms] by blast
  have "CppMySQLQuery_eof (q', m\<lparr>mlib := w'\<rparr>) = (Ret False, (q', m\<lparr>mlib := w'\<rparr>))"
    using my_query_onD(10)[OF s(2)] k by (simp add: CppMySQLQuery_eof_def prog_simps)
  with s(1) my_query_row_run[OF s(2) k, of d] show ?thesis by blast
qed

lemma my_query_seek_witness:
  "\<exists>q' m'. CppMySQLQuery_seekRow my_emp_lib 100 (my_emp_query, my_emp_mach) = (Ret 1, (q', m')) \<and>
     my_query_row (Some ''-'') (q', m') = (Ret [Some ''8'', Some ''-''], (q', m'))"
proof -
  have "emp_values \<noteq> []" by (simp add: emp_values_def)
  from my_query_seek[OF my_emp_query_on my_emp_contracts(1) this, of 100 "Some ''-''"]
  show ?thesis by (auto simp: emp_values_def or_default_def)
qed

text \<open>
  \<open>fieldIndex\<close> returns the least column of that name, and throws a query error for a name that
  occurs nowhere, wherever the field cursor of the result stood before.
\<close>

theorem my_fieldIndex_least:
  assumes "my_query_fields rv (q, m) h v" and "field_contract lb rv"
  shows "\<exists>r s'. CppMySQLQuery_fieldIndex lb (Some f) (q, m) = (r, s') \<and>
           (if f \<in> set (rv_names v)
            then \<exists>k < length (rv_names v). r = Ret (int k) \<and> rv_names v ! k = f \<and> (\<forall>j < k. rv_names v ! j \<noteq> f)
            else \<exists>e. r = Throw e \<and> mye_m_nErrCode e = CPPMYSQL_QUERY_ERROR)"
proof (cases "least_index f (rv_names v)")
  case None
  then have "f \<notin> set (rv_names v)" by (rule iffD1[OF least_index_None])
  with None show ?thesis
    using my_fieldIndex_run[OF assms, of f] by (auto simp: my_error_def)
next
  case (Some k)
  have "f \<in> set (rv_names v)" using Some least_index_None[of f "rv_names v"] by auto
  then show ?thesis
    using my_fieldIndex_run[OF assms, of f] Some least_index_Some[OF Some] by auto
qed

lemma my_fieldIndex_least_witness:
  "\<exists>s'. CppMySQLQuery_fieldIndex my_emp_lib (Some ''empname'') (my_emp_query, my_emp_mach) = (Ret 1, s')"
proof -
  have n: "rv_names ((fresh_result emp_fields emp_values)\<lparr>rv_pos := 1\<rparr>) = [''empno'', ''empname'']"
    by (simp add: emp_names_text)
  have k: "k = 1" if "k < length [''empno'', ''empname'']" "[''empno'', ''empname''] ! k = ''empname''" for k
    using that by (auto simp: less_Suc_eq numeral_2_eq_2)
  from my_fieldIndex_least[OF my_emp_query_fields my_emp_contracts(2), of "''empname''"]
  show ?thesis unfolding n using k by auto
qed

text \<open>
  C27: \<open>execScalar\<close> returns the first column of the first row read as a decimal integer, the null value
  for NULL, and throws a database error when there is no such cell; the result it stored is freed on
  every one of these ways out.
\<close>

theorem my_execScalar_value:
  assumes "my_db_ready lb (db, m) c" and "stores lb rv c sql m v w2" and "row_contract lb rv"
    and "\<forall>x. my_scalar_value (rv_rows v) n = Some x \<longrightarrow> in_int x" and "my_next m \<notin> live_res m"
  shows "\<exists>r m'. CppMySQLDB_execScalar lb sql n (db, m) = (r, (db, m')) \<and>
           (case rv_rows v of
              (cell # cells) # rs \<Rightarrow> r = Ret (case cell of None \<Rightarrow> n | Some s \<Rightarrow> strtol10 s)
            | _ \<Rightarrow> \<exists>e. r = Throw e \<and> mye_m_nErrCode e = CPPMYSQL_DB_ERROR) \<and>
           live_res m' = live_res m"
  using my_execScalar_run[OF assms] by (auto simp: my_scalar_value_def split: list.split)

lemma my_execScalar_value_witness:
  "\<exists>m'. CppMySQLDB_execScalar my_emp_lib ''select * from emp'' 0 (my_db0, my_mach0) = (Ret 7, (my_db0, m')) \<and>
        live_res m' = {}"
proof -
  have s: "strtol10 ''7'' = 7" using strtol10_show_nat[of 7] by (simp add: show_nat.simps digit_chars)
  have "\<forall>x. my_scalar_value (rv_rows (fresh_result emp_fields emp_values)) 0 = Some x \<longrightarrow> in_int x"
    by (simp add: my_scalar_value_def emp_values_def s in_int_def INT_MIN_def INT_MAX_def)
  moreover have "my_next my_mach0 \<notin> live_res my_mach0" by (simp add: my_mach0_def)
  ultimately show ?thesis
    using my_execScalar_value[OF my_emp_ready emp_stores my_emp_contracts(1), of 0]
    by (auto simp: emp_values_def s my_mach0_def)
qed

section \<open>Result sets\<close>

text \<open>
  C17: \<open>getResultSet\<close> copies the whole result: its rows, read for any list of row numbers in any order
  and then once more from the start, are the rows of the result with every NULL turned into the text
  "NULL", and \<open>FieldColIndex\<close> knows the column names.  The result itself is never freed.
\<close>

theorem my_getResultSet_copies:
  assumes "my_db_ready lb (db, m) c" and "stores lb rv c sql m v w2" and "row_contract lb rv"
    and "field_contract lb rv" and "None \<notin> fst ` set (rv_fields v)"
    and "length (rv_rows v) < fuel" and "\<forall>k \<in> set ks. k < length (rv_rows v)" and "rv_rows v \<noteq> []"
  shows "\<exists>t m' s2 i s3 s4. CppMySQLDB_getResultSet fuel lb sql (db, m) = (Ret t, (db, m')) \<and>
     fetch_rows (\<lambda>k. CppMySQLResultSet_seekRow (of_nat k)) my_rset_row ks (t, m') =
       (Ret (map (\<lambda>k. map cell_text (rv_rows v ! k)) ks), s2) \<and>
     CppMySQLResultSet_seekRow (of_nat 0) s2 = (Ret i, s3) \<and>
     fetch_all fuel CppMySQLResultSet_eof my_rset_row CppMySQLResultSet_nextRow s3 =
       Some (Ret (map (map cell_text) (rv_rows v)), s4) \<and>
     live_res m' = insert (my_next m) (live_res m)"
proof -
  let ?rows = "map (map cell_text) (rv_rows v)"
  obtain t m' where t: "CppMySQLDB_getResultSet fuel lb sql (db, m) = (Ret t, (db, m'))"
      "my_rset_on (t, m') (rv_names v) ?rows" "mr_m_nCurrentRow t = 0" "live_res m' = insert (my_next m) (live_res m)"
    using my_getResultSet_run[OF assms(1-6)] by blast
  have p: "my_rset_pending (t, m') ?rows" and r: "my_rset_rows (t, m') = ?rows"
    using my_getResultSet_pending[OF t(2,3)] by simp_all
  have ks: "\<forall>k \<in> set ks. k < length (my_rset_rows (t, m'))" using assms(7) r by simp
  have len: "my_rset_rows s \<noteq> []" "length (my_rset_rows s) < fuel" if "my_rset_rows s = ?rows" for s :: "'a my_rst"
    using that assms(6,8) by simp_all
  obtain s2 rs' where s2: "fetch_rows (\<lambda>k. CppMySQLResultSet_seekRow (of_nat k)) my_rset_row ks (t, m') =
      (Ret (map ((!) ?rows) ks), s2)" "my_rset_rows s2 = ?rows" "my_rset_pending s2 rs'"
    using my_rset_cursor.fetch_rows_any_order[OF p ks] unfolding r by blast
  obtain i s3 s4 where "CppMySQLResultSet_seekRow (of_nat 0) s2 = (Ret i, s3)"
      "fetch_all fuel CppMySQLResultSet_eof my_rset_row CppMySQLResultSet_nextRow s3 = Some (Ret ?rows, s4)"
    using my_rset_cursor.rewind_fetch_all[OF s2(3) len[OF s2(2)]] unfolding s2(2) by blast
  moreover have "map ((!) ?rows) ks = map (\<lambda>k. map cell_text (rv_rows v ! k)) ks"
    using assms(7) by simp
  ultimately show ?thesis using t(1,4) s2(1) by metis
qed

lemma my_getResultSet_copies_witness:
  "\<exists>t m' s2. CppMySQLDB_getResultSet 3 my_emp_lib ''select * from emp'' (my_db0, my_mach0) = (Ret t, (my_db0, m')) \<and>
     fetch_rows (\<lambda>k. CppMySQLResultSet_seekRow (of_nat k)) my_rset_row [1, 0] (t, m') =
       (Ret [[''8'', ''NULL''], [''7'', ''David'']], s2) \<and> live_res m' = {1}"
proof -
  let ?v = "fresh_result emp_fields emp_values"
  have h: "None \<notin> fst ` set (rv_fields ?v)" "length (rv_rows ?v) < 3" "\<forall>k \<in> set [1, 0]. k < length (rv_rows ?v)"
      "rv_rows ?v \<noteq> []"
    by (simp_all add: emp_fields_def emp_values_def)
  have "map (\<lambda>k. map cell_text (rv_rows ?v ! k)) [1, 0] = [[''8'', ''NULL''], [''7'', ''David'']]"
    by (simp add: emp_values_def cell_text_def)
  moreover have "insert (my_next my_mach0) (live_res my_mach0) = {1}" by (simp add: my_mach0_def)
  ultimately show ?thesis
    using my_getResultSet_copies[OF my_emp_ready emp_stores my_emp_contracts(1,2) h] by metis
qed

section \<open>Ownership\<close>






text \<open>
  C13: statement objects are safe in the same sense (their handle and their vector of parameters have
  one owner each, nothing is closed or deleted twice or used afterwards), for every sequence of
  operations.  Nothing is claimed about leaks: the assignment forgets what it overwrites.
\<close>

theorem my_stmt_ownership:
  assumes "stmt_fresh_ids m0"
    and "reachable_store (my_stmt_ops lb) (my_stmt_acquired lb) m0 (objs, m)"
  shows "owners_ok my_stmt_owns my_stmt_live (objs, m) \<and> (\<forall>u. \<not> store_fault (my_stmt_ops lb) (objs, m) u)"
  using my_stmt_owner.reachable_owners[OF assms] my_stmt_owner.reachable_safe[OF assms] by simp

lemma my_stmt_ownership_witness:
  "\<exists>t m'. CppMySQLStatement_new my_emp_lib (Some 0) ''insert into emp values (?, ?);'' my_mach0 = (Ret t, m') \<and>
     owners_ok my_stmt_owns my_stmt_live ([0 \<mapsto> t], m')"
proof -
  have g: "stmt_fresh_ids my_mach0" by (simp add: stmt_fresh_ids_def my_mach0_def)
  obtain t m' where t: "CppMySQLStatement_new my_emp_lib (Some 0) ''insert into emp values (?, ?);'' my_mach0 = (Ret t, m')"
    by (simp add: CppMySQLStatement_new_def call_stmt_init_def my_mach0_def my_emp_lib_def sample_lib_def prog_simps)
  then have "my_stmt_acquired my_emp_lib my_mach0 t m'" by (auto simp: my_stmt_acquired_def)
  then have "reachable_store (my_stmt_ops my_emp_lib) (my_stmt_acquired my_emp_lib) my_mach0 ([0 \<mapsto> t], m')"
    by (rule reachable_acquire[of "my_stmt_acquired my_emp_lib"])
  from my_stmt_ownership[OF g this] t show ?thesis by blast
qed

section \<open>Prepared statements\<close>



text \<open>
  With two integers in a row the first one is lost: both parameters point to the same file-scope
  variable, so the statement runs with the second value twice.
\<close>

theorem my_bind_two_ints:
  assumes "my_stmt_on xv (t, m) h 2 [] v" and "exec_contract lb xv"
  shows "\<exists>r t' m'. seqP (bind_args 1 [ArgInt i, ArgInt j]) (CppMySQLStatement_execDML lb) (t, m) = (Ret r, (t', m')) \<and>
     ev_runs (xv (mlib m') h) = ev_runs v @ [[IntValue j, IntValue j]]"
proof -
  have n: "length [ArgInt i, ArgInt j] = 2" by simp
  show ?thesis
    using bind_execDML_run[of xv t m h "[ArgInt i, ArgInt j]" v lb, unfolded n, OF assms] by fastforce
qed

lemma my_bind_two_ints_witness:
  "\<exists>r t' m'. seqP (bind_args 1 [ArgInt 1, ArgInt 2]) (CppMySQLStatement_execDML my_emp_lib) (my_emp_stmt, my_emp_mach) = (Ret r, (t', m')) \<and>
     ev_runs (mw_exec (mlib m') 2) = [[IntValue 2, IntValue 2]]"
  using my_bind_two_ints[OF my_emp_stmt_on my_emp_contracts(3), of 1 2] by simp

section \<open>The connection string\<close>

text \<open>
  C6: a connection string written from pairs of names and values, with any amount of white space
  around each of them, is read back: every option has the last value given for it, the options that
  are not named keep their defaults.
\<close>

theorem connection_string_roundtrip:
  assumes "list_all2 padded_pair kvs raws" and "\<forall>kv \<in> set kvs. writable kv" and "kvs \<noteq> []"
  shows "\<exists>opts. parse_options (render_options raws) default_options = Some opts \<and>
           (\<forall>k v. map_of (rev kvs) k = Some v \<longrightarrow> opts k = v) \<and>
           (\<forall>k. k \<notin> fst ` set kvs \<longrightarrow> opts k = default_options k)"
proof -
  have "map_of (rev kvs) k = None" if "k \<notin> fst ` set kvs" for k
    using that map_of_eq_None_iff[of "rev kvs" k] by simp
  then show ?thesis using parse_padded[OF assms, of default_options] by simp
qed

lemma connection_string_roundtrip_witness:
  "\<exists>opts. parse_options '' user = root; db=test'' default_options = Some opts \<and>
     opts ''user'' = ''root'' \<and> opts ''db'' = ''test'' \<and> opts ''port'' = ''3306''"
proof -
  let ?kvs = "[(''user'', ''root''), (''db'', ''test'')]"
  let ?raws = "[('' user '', '' root''), ('' db'', ''test'')]"
  have sp: "padded t t" "padded t (CHR '' '' # t)" "padded t (CHR '' '' # t @ '' '')" for t
    unfolding padded_def
    by (intro exI[of _ "[]"], simp add: blank_def)
       (intro exI[of _ "'' ''"] exI[of _ "[]"], simp add: blank_def isspace_def,
        intro exI[of _ "'' ''"], simp add: blank_def isspace_def)
  have l: "list_all2 padded_pair ?kvs ?raws"
    using sp[of "''user''"] sp[of "''root''"] sp[of "''db''"] sp[of "''test''"] by (simp add: padded_pair_def)
  have w: "\<forall>kv \<in> set ?kvs. writable kv"
    by (simp add: writable_def renderable_def stripped_def isspace_def)
  have r: "render_options ?raws = '' user = root; db=test''" by (simp add: render_pair_def)
  show ?thesis
    using connection_string_roundtrip[OF l w, unfolded r] by (auto simp: default_options_def)
qed

text \<open>
  C24: the string is rejected as malformed exactly when some segment between semicolons has no \<open>=\<close>; in
  particular a string that ends with a semicolon always is.
\<close>

theorem connection_string_malformed:
  "(parse_options s default_options = None \<longleftrightarrow> (\<exists>seg \<in> set (segments s). CHR ''='' \<notin> set seg)) \<and>
   parse_options (s @ '';'') default_options = None"
  by (simp add: parse_options_None segments_snoc)

text \<open>
  C23: connecting with an accepted string calls the library with exactly the options it asks for, in
  the order compression, reconnection, character set, then connects with its host, user, password,
  database (NULL when empty) and port, and records the database as the current one.
\<close>

theorem connection_string_connects:
  assumes "my_db_open (db, m) c" and "parse_options str default_options = Some opts" and "session_ok opts"
    and "in_int (strtol10 (opts ''port''))" and "session_connects lb c opts (mlib m) w2"
  shows "CppMySQLDB_connect_string lb str (db, m) = (Ret (), (db, m\<lparr>mlib := w2, s_DBName := opts ''db''\<rparr>))"
  using connect_string_run[OF assms] .

lemma connection_string_connects_witness:
  "CppMySQLDB_connect_string my_emp_lib ''user=root;db=emp'' (my_db0, my_mach0) =
     (Ret (), (my_db0, my_mach0\<lparr>mlib := my_world0, s_DBName := ''emp''\<rparr>))"
proof -
  let ?opts = "default_options(''user'' := ''root'', ''db'' := ''emp'')"
  have p: "parse_options ''user=root;db=emp'' default_options = Some ?opts"
    by (simp add: parse_options.simps parse_segment_def copyStripped_def skip_trailing.simps isspace_def Let_def)
  have port: "strtol10 (?opts ''port'') = 3306"
    using strtol10_show_nat[of 3306] by (simp add: default_options_def show_nat.simps digit_chars)
  have "in_int (strtol10 (?opts ''port''))" unfolding port by (simp add: in_int_def INT_MIN_def INT_MAX_def)
  moreover have "session_ok ?opts"
    unfolding session_ok_def port by (simp add: switch_ok_def default_options_def)
  moreover have "session_connects my_emp_lib 0 ?opts (mlib my_mach0) my_world0"
    by (simp add: session_connects_def session_options_def default_options_def my_emp_lib_def sample_lib_def
        my_mach0_def)
  ultimately show ?thesis
    using connection_string_connects[OF _ p, of my_db0 my_mach0 0 my_emp_lib my_world0] my_db0_open by simp
qed



section \<open>Transactions\<close>



text \<open>
  otherwise the counter and the server part ways: every start adds one and every end subtracts
  one, whatever the state, so after two starts and a commit \<open>isTransaction\<close> still holds although the
  server has left the transaction, and after a stray commit it misses the next transaction.
\<close>

theorem my_transaction_unpaired:
  assumes "my_db_ready lb (db, m) c" and "tx_contract lb tv" and "mydb_m_inTransaction db = 0"
  shows "(\<exists>db' m'. run_tx lb [TxStart, TxStart, TxCommit] (db, m) = (Ret (), (db', m')) \<and>
            CppMySQLDB_isTransaction db' \<and> \<not> tv (mlib m') c) \<and>
         (\<exists>db' m'. run_tx lb [TxCommit, TxStart] (db, m) = (Ret (), (db', m')) \<and>
            \<not> CppMySQLDB_isTransaction db' \<and> tv (mlib m') c)"
proof -
  have "\<bar>mydb_m_inTransaction db\<bar> + int (length ops) \<le> INT_MAX" if "length ops \<le> 3" for ops :: "tx_op list"
    using that assms(3) by (simp add: INT_MAX_def)
  from run_tx_run[OF assms(1,2) this, of "[TxStart, TxStart, TxCommit]"]
    run_tx_run[OF assms(1,2) this, of "[TxCommit, TxStart]"]
  show ?thesis using assms(3) by (auto simp: CppMySQLDB_isTransaction_def tx_count_def)
qed

lemma my_transaction_unpaired_witness:
  "\<exists>db' m'. run_tx my_emp_lib [TxStart, TxStart, TxCommit] (my_db0, my_mach0) = (Ret (), (db', m')) \<and>
     CppMySQLDB_isTransaction db' \<and> \<not> mw_tx (mlib m') 0"
proof -
  have "mydb_m_inTransaction my_db0 = 0" by (simp add: my_db0_def)
  from my_transaction_unpaired[OF my_emp_ready my_emp_contracts(4) this] show ?thesis by blast
qed

section \<open>Tables by name\<close>

text \<open>
  C38: \<open>tableExists\<close> answers whether the schema lists the table, when its name and the one of the
  current database have together fewer than 166 characters; with more, \<open>sprintf\<close> overflows the array.
\<close>

theorem my_tableExists_names:
  assumes "my_db_ready lb (db, m) c" and "stores lb rv c sql m v w2" and "row_contract lb rv"
    and "sql = my_table_exists_sql (s_DBName m) szTable" and "cstring (s_DBName m @ szTable)"
    and "my_next m \<notin> live_res m" and "rv_rows v = [[Some (show_nat n)]]" and "int n \<le> INT_MAX"
  shows "\<exists>m'. CppMySQLDB_tableExists lb szTable (db, m) =
           (if length (s_DBName m) + length szTable < 166 then Ret (0 < n) else Undef BufferOverflow, (db, m'))"
proof (cases "length (s_DBName m) + length szTable < 166")
  case True
  then show ?thesis using my_tableExists_run[OF assms(1-5) _ assms(6-8)] by auto
next
  case False
  then show ?thesis
    using my_tableExists_overflow[OF assms(1), of szTable] by (auto simp: my_table_exists_sql_length)
qed

lemma my_tableExists_names_witness:
  "\<exists>m'. CppMySQLDB_tableExists (sample_lib [(Some ''count(*)'', 8)] [[Some ''1'']]) ''emp'' (my_db0, my_mach0) =
          (Ret True, (my_db0, m'))"
proof -
  let ?lib = "sample_lib [(Some ''count(*)'', 8)] [[Some ''1'']]"
  let ?v = "fresh_result [(Some ''count(*)'', 8)] [[Some ''1'']]"
  let ?sql = "my_table_exists_sql (s_DBName my_mach0) ''emp''"
  have wf: "res_wf ?v" by (simp add: res_wf_def fresh_result_def INT_MAX_def)
  have st: "stores ?lib mw_res 0 ?sql my_mach0 ?v (set_res 1 ?v my_world0)"
    by (rule sample_stores[OF wf]) (simp_all add: my_table_exists_sql_def)
  have h: "cstring (s_DBName my_mach0 @ ''emp'')" "my_next my_mach0 \<notin> live_res my_mach0"
      "rv_rows ?v = [[Some (show_nat 1)]]" "int 1 \<le> INT_MAX"
    by (simp_all add: my_mach0_def NUL_def show_nat.simps digit_chars[unfolded One_nat_def] INT_MAX_def)
  have l: "length (s_DBName my_mach0) + length ''emp'' < 166" by (simp add: my_mach0_def)
  from my_tableExists_names[OF my_db0_ready st sample_row_contract refl h] l show ?thesis by simp
qed

end
