(* ===== verification/ClassInterfaces.thy ===== *)
theory ClassInterfaces
  imports DatabaseLayer Ownership
begin

text \<open>
  The abstract classes of \<open>include/DatabaseLayer.h\<close> as records of member functions: a value of such
  a record is a class that implements the interface, a client written over the record runs with
  any of them.  A member function of an object of state \<open>'o\<close> is a program over the object and the
  machine, so \<open>'s\<close> below is \<open>'o \<times> 'm\<close>.  Overloads have names of their own (\<open>_by_name\<close> for the ones
  that take a column name), and every function takes all its arguments: the values the declarations
  give for omitted arguments are the constants of the last section.
\<close>

section \<open>The interfaces\<close>

record ('s, 'e) DatabaseException =
  Exception_errorCode :: "('s, 'e, int) prog"
  Exception_errorMessage :: "('s, 'e, string) prog"

text \<open>\<open>'q\<close> is the class the typedef \<open>CppDBQuery\<close> selects.\<close>

record ('s, 'e, 'q) DatabaseLayer_class =
  DB_open :: "string \<Rightarrow> ('s, 'e, unit) prog"
  DB_close :: "('s, 'e, unit) prog"
  DB_tableExists :: "string \<Rightarrow> ('s, 'e, bool) prog"
  DB_execDML :: "string \<Rightarrow> ('s, 'e, int) prog"
  DB_execQuery :: "string \<Rightarrow> ('s, 'e, 'q) prog"
  DB_execScalar :: "string \<Rightarrow> int \<Rightarrow> ('s, 'e, int) prog"
  DB_startTransaction :: "('s, 'e, unit) prog"
  DB_commitTransaction :: "('s, 'e, unit) prog"
  DB_rollback :: "('s, 'e, unit) prog"
  DB_isTransaction :: "('s, 'e, bool) prog"

record ('s, 'e) DatabaseQuery =
  Query_numFields :: "('s, 'e, int) prog"
  Query_fieldIndex :: "string option \<Rightarrow> ('s, 'e, int) prog"
  Query_fieldName :: "int \<Rightarrow> ('s, 'e, string option) prog"
  Query_fieldDataType :: "int \<Rightarrow> ('s, 'e, int) prog"
  Query_fieldValue :: "int \<Rightarrow> ('s, 'e, string option) prog"
  Query_fieldValue_by_name :: "string option \<Rightarrow> ('s, 'e, string option) prog"
  Query_fieldDataIsNull :: "int \<Rightarrow> ('s, 'e, bool) prog"
  Query_eof :: "('s, 'e, bool) prog"
  Query_nextRow :: "('s, 'e, unit) prog"
  Query_clear :: "('s, 'e, unit) prog"
  Query_getIntField :: "int \<Rightarrow> int \<Rightarrow> ('s, 'e, int) prog"
  Query_getIntField_by_name :: "string option \<Rightarrow> int \<Rightarrow> ('s, 'e, int) prog"
  Query_getDoubleField :: "int \<Rightarrow> cdouble \<Rightarrow> ('s, 'e, cdouble) prog"
  Query_getDoubleField_by_name :: "string option \<Rightarrow> cdouble \<Rightarrow> ('s, 'e, cdouble) prog"
  Query_getStringField :: "int \<Rightarrow> string option \<Rightarrow> ('s, 'e, string option) prog"
  Query_getStringField_by_name :: "string option \<Rightarrow> string option \<Rightarrow> ('s, 'e, string option) prog"

record ('s, 'e) DatabaseResultSet =
  ResultSet_numFields :: "('s, 'e, int) prog"
  ResultSet_numRows :: "('s, 'e, ulong) prog"
  ResultSet_FieldColIndex :: "string option \<Rightarrow> ('s, 'e, int) prog"
  ResultSet_fieldName :: "int \<Rightarrow> ('s, 'e, string option) prog"
  ResultSet_fieldValue :: "int \<Rightarrow> ('s, 'e, string option) prog"
  ResultSet_fieldValue_by_name :: "string option \<Rightarrow> ('s, 'e, string option) prog"
  ResultSet_fieldDataIsNull :: "int \<Rightarrow> ('s, 'e, bool) prog"
  ResultSet_eof :: "('s, 'e, bool) prog"
  ResultSet_nextRow :: "('s, 'e, unit) prog"
  ResultSet_seekRow :: "ulong \<Rightarrow> ('s, 'e, int) prog"
  ResultSet_clear :: "('s, 'e, unit) prog"

text \<open>\<open>'p\<close> is what a \<open>const char*\<close> argument is: the text itself, or where it is stored.\<close>

record ('s, 'e, 'p) DatabaseStatement =
  Statement_execDML :: "('s, 'e, int) prog"
  Statement_bind_text :: "int \<Rightarrow> 'p \<Rightarrow> ('s, 'e, unit) prog"
  Statement_bind_int :: "int \<Rightarrow> int \<Rightarrow> ('s, 'e, unit) prog"
  Statement_bind_double :: "int \<Rightarrow> cdouble \<Rightarrow> ('s, 'e, unit) prog"
  Statement_reset :: "('s, 'e, unit) prog"
  Statement_clear :: "('s, 'e, unit) prog"

section \<open>Omitted arguments\<close>

definition default_nNullValue :: int where "default_nNullValue = 0"
definition default_fNullValue :: cdouble where "default_fNullValue = 0" \<comment> \<open>the bits of 0.0\<close>
definition default_szNullValue :: "string option" where "default_szNullValue = Some []"

section \<open>Clients\<close>

text \<open>What a client reads of the current row, over any query class.\<close>

definition read_row ::
  "('s, 'e, 'z) DatabaseQuery_scheme \<Rightarrow> string option \<Rightarrow> ('s, 'e, string option list) prog" where
  "read_row cls d =
     bindP (Query_numFields cls) (\<lambda>n. mapP (\<lambda>i. Query_getStringField cls i d) [0..n - 1])"

end
