(* ===== verification/Demo.thy ===== *)
theory Demo
  imports ClassInterfaces
begin

text \<open>
  The demonstration program \<open>Demos/CppDBDemo.cpp\<close>: the one client of the classes in the
  repository that uses all of them together.  It is compiled against one library by the typedefs of
  \<open>DatabaseLayer.h\<close>; here it is written over a \<open>backend\<close>, the record of what the typedefs and the
  \<open>#ifdef\<close>s select.  Its output is collected as text, its input is the list of characters typed.
  Texts are the bytes of the source file.
\<close>

section \<open>What the typedefs select\<close>

text \<open>
  \<open>be_setup\<close> is the \<open>#ifdef\<close> part before \<open>db.open\<close>, \<open>be_numRows\<close> the member function \<open>numRows\<close> of the
  query class if it has one, \<open>be_text\<close> what becomes of a local character array passed as a
  \<open>const char*\<close> argument.
\<close>

record ('m, 'd, 'q, 't, 'st, 'e, 'p) backend =
  be_db_new :: "('m, 'e, 'd) prog"
  be_db :: "('d \<times> 'm, 'e, 'q) DatabaseLayer_class"
  be_getResultSet :: "string \<Rightarrow> ('d \<times> 'm, 'e, 't) prog"
  be_compileStatement :: "string \<Rightarrow> ('d \<times> 'm, 'e, 'st) prog"
  be_db_destroy :: "('d \<times> 'm, 'e, unit) prog"
  be_query :: "('q \<times> 'm, 'e) DatabaseQuery"
  be_query_assign :: "'q \<Rightarrow> 'q \<Rightarrow> ('m, 'e, 'q \<times> 'q) prog"
  be_query_destroy :: "('q \<times> 'm, 'e, unit) prog"
  be_numRows :: "('q \<times> 'm, 'e, ulong) prog option"
  be_rset :: "('t \<times> 'm, 'e) DatabaseResultSet"
  be_rset_assign :: "'t \<Rightarrow> 't \<Rightarrow> ('m, 'e, 't \<times> 't) prog"
  be_rset_destroy :: "('t \<times> 'm, 'e, unit) prog"
  be_stmt :: "('st \<times> 'm, 'e, 'p) DatabaseStatement"
  be_stmt_destroy :: "('st \<times> 'm, 'e, unit) prog"
  be_exn :: "('e \<times> 'm, 'e) DatabaseException"
  be_exn_destroy :: "('e \<times> 'm, 'e, unit) prog"
  be_gszDB :: string
  be_setup :: "string \<Rightarrow> ('d \<times> 'm, 'e, unit) prog"
  be_create_emp :: string
  be_text :: "string \<Rightarrow> ('m, 'e, 'p) prog"

section \<open>The program's state\<close>

text \<open>The local objects, \<open>None\<close> before they are constructed, and the two output streams.\<close>

record ('m, 'd, 'q, 't, 'st) demo =
  dm_mach :: 'm
  dm_db :: "'d option"
  dm_q :: "'q option"
  dm_t :: "'t option"
  dm_stmt :: "'st option"
  dm_out :: string
  dm_err :: string

text \<open>A member function called on a local object; \<open>get\<close> and \<open>put\<close> name the object.\<close>

definition object_do ::
  "(('m, 'd, 'q, 't, 'st) demo \<Rightarrow> 'o option) \<Rightarrow> ('o option \<Rightarrow> ('m, 'd, 'q, 't, 'st) demo \<Rightarrow> ('m, 'd, 'q, 't, 'st) demo) \<Rightarrow>
   ('o \<times> 'm, 'e, 'a) prog \<Rightarrow> (('m, 'd, 'q, 't, 'st) demo, 'e, 'a) prog" where
  "object_do get put p s =
     (case get s of
        None \<Rightarrow> (Undef UninitRead, s)
      | Some x \<Rightarrow> (case p (x, dm_mach s) of (r, (x', m')) \<Rightarrow> (r, put (Some x') (s\<lparr>dm_mach := m'\<rparr>))))"

abbreviation db_do :: "('d \<times> 'm, 'e, 'a) prog \<Rightarrow> (('m, 'd, 'q, 't, 'st) demo, 'e, 'a) prog" where
  "db_do \<equiv> object_do dm_db (\<lambda>x. dm_db_update (\<lambda>_. x))"

abbreviation q_do :: "('q \<times> 'm, 'e, 'a) prog \<Rightarrow> (('m, 'd, 'q, 't, 'st) demo, 'e, 'a) prog" where
  "q_do \<equiv> object_do dm_q (\<lambda>x. dm_q_update (\<lambda>_. x))"

abbreviation t_do :: "('t \<times> 'm, 'e, 'a) prog \<Rightarrow> (('m, 'd, 'q, 't, 'st) demo, 'e, 'a) prog" where
  "t_do \<equiv> object_do dm_t (\<lambda>x. dm_t_update (\<lambda>_. x))"

abbreviation stmt_do :: "('st \<times> 'm, 'e, 'a) prog \<Rightarrow> (('m, 'd, 'q, 't, 'st) demo, 'e, 'a) prog" where
  "stmt_do \<equiv> object_do dm_stmt (\<lambda>x. dm_stmt_update (\<lambda>_. x))"

definition mach_do :: "('m, 'e, 'a) prog \<Rightarrow> (('m, 'd, 'q, 't, 'st) demo, 'e, 'a) prog" where
  "mach_do p s = (case p (dm_mach s) of (r, m') \<Rightarrow> (r, s\<lparr>dm_mach := m'\<rparr>))"

definition construct :: "('o option \<Rightarrow> 's \<Rightarrow> 's) \<Rightarrow> ('s, 'e, 'o) prog \<Rightarrow> ('s, 'e, unit) prog" where
  "construct put p = bindP p (\<lambda>x s. (Ret (), put (Some x) s))"

text \<open>\<open>x = p();\<close>: the assignment operator on the temporary, then the temporary's destructor.\<close>

definition assign_temp ::
  "(('m, 'd, 'q, 't, 'st) demo \<Rightarrow> 'o option) \<Rightarrow> ('o option \<Rightarrow> ('m, 'd, 'q, 't, 'st) demo \<Rightarrow> ('m, 'd, 'q, 't, 'st) demo) \<Rightarrow>
   ('o \<Rightarrow> 'o \<Rightarrow> ('m, 'e, 'o \<times> 'o) prog) \<Rightarrow> ('o \<times> 'm, 'e, unit) prog \<Rightarrow>
   (('m, 'd, 'q, 't, 'st) demo, 'e, 'o) prog \<Rightarrow> (('m, 'd, 'q, 't, 'st) demo, 'e, unit) prog" where
  "assign_temp get put assign dtor p =
     bindP p (\<lambda>y s.
       case get s of
         None \<Rightarrow> (Undef UninitRead, s)
       | Some x \<Rightarrow>
           bindP (mach_do (\<lambda>m. assign x y m)) (\<lambda>(x', y') s'.
             case dtor (y', dm_mach s') of
               (r, (_, m'')) \<Rightarrow> (r, put (Some x') (s'\<lparr>dm_mach := m''\<rparr>))) s)"

section \<open>Statements of the language\<close>

fun block :: "('s, 'e, unit) prog list \<Rightarrow> ('s, 'e, unit) prog" where
  "block [] = ret ()"
| "block (p # ps) = seqP p (block ps)"

text \<open>\<open>while (cond) body\<close> and \<open>for (; cond(i); i++) body(i)\<close>, with fuel.\<close>

fun while_loop :: "nat \<Rightarrow> ('s, 'e, bool) prog \<Rightarrow> ('s, 'e, unit) prog \<Rightarrow> ('s, 'e, unit) prog" where
  "while_loop 0 cond body = undef OutOfFuel"
| "while_loop (Suc fuel) cond body =
     bindP cond (\<lambda>b. if b then seqP body (while_loop fuel cond body) else ret ())"

fun for_loop :: "nat \<Rightarrow> (int \<Rightarrow> ('s, 'e, bool) prog) \<Rightarrow> (int \<Rightarrow> ('s, 'e, unit) prog) \<Rightarrow> int \<Rightarrow> ('s, 'e, unit) prog" where
  "for_loop 0 cond body i = undef OutOfFuel"
| "for_loop (Suc fuel) cond body i =
     bindP (cond i) (\<lambda>b.
     if b then seqP (body i) (bindP (int_arith (i + 1)) (for_loop fuel cond body)) else ret ())"

text \<open>\<open>for (i = 0; i < n; i++)\<close> with a constant bound needs no fuel.\<close>

definition for_upto :: "nat \<Rightarrow> (int \<Rightarrow> ('s, 'e, unit) prog) \<Rightarrow> ('s, 'e, unit) prog" where
  "for_upto n body = block (map (\<lambda>i. body (int i)) [0..<n])"

definition cout :: "string \<Rightarrow> (('m, 'd, 'q, 't, 'st) demo, 'e, unit) prog" where
  "cout t s = (Ret (), s\<lparr>dm_out := dm_out s @ t\<rparr>)"

definition cerr :: "string \<Rightarrow> (('m, 'd, 'q, 't, 'st) demo, 'e, unit) prog" where
  "cerr t s = (Ret (), s\<lparr>dm_err := dm_err s @ t\<rparr>)"

text \<open>Inserting a null \<open>const char*\<close> is undefined.\<close>

definition cout_ptr :: "string option \<Rightarrow> (('m, 'd, 'q, 't, 'st) demo, 'e, unit) prog" where
  "cout_ptr p = (case p of None \<Rightarrow> undef NullDeref | Some t \<Rightarrow> cout t)"

definition endl :: string where "endl = [CHR 0x0A]"

text \<open>\<open>%0nd\<close>: zeros after the sign up to \<open>n\<close> characters.\<close>

definition pad0 :: "nat \<Rightarrow> int \<Rightarrow> string" where
  "pad0 n i =
     (if i < 0 then ''-'' @ replicate (n - 1 - length (show_nat (nat (- i)))) (CHR ''0'') @ show_nat (nat (- i))
      else replicate (n - length (show_nat (nat i))) (CHR ''0'') @ show_nat (nat i))"

text \<open>\<open>char buf[n]; sprintf(buf, ...)\<close>, and the string the array then holds.\<close>

definition format_buf :: "nat \<Rightarrow> string \<Rightarrow> ('s, 'e, string) prog" where
  "format_buf n t = bindP (sprintf t (uninit_buf n)) (\<lambda>buf. lift_outcome (read_cstr buf))"

section \<open>The texts\<close>

definition banner_dml :: string where
  "banner_dml =
     ''= '' @ [CHR 0xB2, CHR 0xE2, CHR 0xCA, CHR 0xD4] @ ''DML,'' @ [CHR 0xB4, CHR 0xF2,
     CHR 0xD3, CHR 0xA1, CHR 0xD3, CHR 0xB0, CHR 0xCF, CHR 0xEC, CHR 0xD0, CHR 0xD0] @ '' =''"

definition insert_lebron :: string where
  "insert_lebron =
     ''insert into emp values (6, '' @ [CHR 0x27, CHR 0xC0, CHR 0xD5, CHR 0xB2, CHR 0xBC,
     CHR 0xC0, CHR 0xCA, CHR 0xA1, CHR 0xA4, CHR 0xD5, CHR 0xB2, CHR 0xC4, CHR 0xB7, CHR 0xCB,
     CHR 0xB9, CHR 0x27] @ '');''"

definition banner_tx :: string where
  "banner_tx =
     ''= '' @ [CHR 0xB2, CHR 0xE2, CHR 0xCA, CHR 0xD4, CHR 0xCA, CHR 0xC2, CHR 0xCE, CHR 0xF1,
     CHR 0xBA, CHR 0xCD] @ ''execScalar =''"

definition banner_recreate :: string where
  "banner_recreate =
     ''= '' @ [CHR 0xD6, CHR 0xD8, CHR 0xD0, CHR 0xC2, CHR 0xB4, CHR 0xB4, CHR 0xBD, CHR 0xA8,
     CHR 0xB1, CHR 0xED] @ ''emp = ''"

definition banner_query :: string where
  "banner_query =
     ''= '' @ [CHR 0xB2, CHR 0xE2, CHR 0xCA, CHR 0xD4] @ ''CppDBQuery =''"

definition banner_assign :: string where
  "banner_assign =
     ''= '' @ [CHR 0xB8, CHR 0xB3, CHR 0xD6, CHR 0xB5, CHR 0xB9, CHR 0xB9, CHR 0xD4, CHR 0xEC,
     CHR 0xBA, CHR 0xAF, CHR 0xCA, CHR 0xFD, CHR 0xB2, CHR 0xE2, CHR 0xCA, CHR 0xD4] @ '' =''"

definition banner_rset :: string where
  "banner_rset =
     ''= CppDBResultSet'' @ [CHR 0xB2, CHR 0xE2, CHR 0xCA, CHR 0xD4] @ '' =''"

definition banner_other :: string where
  "banner_other =
     [CHR 0xC1, CHR 0xED, CHR 0xD2, CHR 0xBB, CHR 0xD6, CHR 0xD6, CHR 0xCF, CHR 0xD4, CHR 0xCA,
     CHR 0xBE] @ ''ResultSet'' @ [CHR 0xB5, CHR 0xC4, CHR 0xB7, CHR 0xBD, CHR 0xB7, CHR 0xA8]"

definition banner_stmt :: string where
  "banner_stmt =
     ''= '' @ [CHR 0xB2, CHR 0xE2, CHR 0xCA, CHR 0xD4] @ ''CppDBStatement = ''"

definition shuai_sql :: "int \<Rightarrow> string" where
  "shuai_sql i =
     ''insert into emp (empname) values ('' @ [CHR 0x27, CHR 0xCB, CHR 0xA7, CHR 0xB9, CHR 0xF8] @ pad0 2 (i + 1) @
     [CHR 0x27] @ '');''"

definition insert_sql :: "int \<Rightarrow> string" where
  "insert_sql i =
     ''insert into emp values ('' @ show_int i @ '', '' @ [CHR 0x27] @ ''Empname'' @ pad0 6 i @ [CHR 0x27] @ '');''"

definition update_sql :: string where
  "update_sql =
     ''update emp set empname = '' @ [CHR 0x27] @ ''LeBron James'' @ [CHR 0x27] @ '' where empno = 6;''"

definition emp_name :: "int \<Rightarrow> string" where
  "emp_name i = ''EmpName'' @ pad0 2 i"

section \<open>The sections of \<open>main\<close>\<close>

definition demo_table_exists ::
  "('m, 'd, 'q, 't, 'st, 'e, 'p) backend \<Rightarrow> (('m, 'd, 'q, 't, 'st) demo, 'e, unit) prog" where
  "demo_table_exists B =
     bindP (db_do (DB_tableExists (be_db B) ''emp'')) (\<lambda>b.
     cout (endl @ ''emp table exists='' @ (if b then ''TRUE'' else ''FALSE'') @ endl))"

definition demo_dml ::
  "('m, 'd, 'q, 't, 'st, 'e, 'p) backend \<Rightarrow> string \<Rightarrow> string \<Rightarrow> (('m, 'd, 'q, 't, 'st) demo, 'e, int) prog" where
  "demo_dml B sql what =
     bindP (db_do (DB_execDML (be_db B) sql)) (\<lambda>nRows.
     seqP (cout (show_int nRows @ '' rows '' @ what @ endl)) (ret nRows))"

definition db_exec ::
  "('m, 'd, 'q, 't, 'st, 'e, 'p) backend \<Rightarrow> string \<Rightarrow> (('m, 'd, 'q, 't, 'st) demo, 'e, unit) prog" where
  "db_exec B sql = bindP (db_do (DB_execDML (be_db B) sql)) (\<lambda>_. ret ())"

text \<open>Lines 21 to 57; the result is \<open>nRows\<close>, printed again after the table is recreated.\<close>

definition demo_create ::
  "('m, 'd, 'q, 't, 'st, 'e, 'p) backend \<Rightarrow> (('m, 'd, 'q, 't, 'st) demo, 'e, int) prog" where
  "demo_create B =
     seqP (block
       [db_do (be_setup B (be_gszDB B)),
        db_do (DB_open (be_db B) (be_gszDB B)),
        demo_table_exists B,
        cout (endl @ ''Creating emp table'' @ endl),
        db_exec B ''create table emp(empno int, empname char(20));'',
        demo_table_exists B,
        cout (endl @ banner_dml @ endl)])
     (bindP (demo_dml B insert_lebron ''inserted'') (\<lambda>_.
      bindP (demo_dml B update_sql ''updated'') (\<lambda>_.
      bindP (demo_dml B ''delete from emp where empno = 7;'' ''deleted'') (\<lambda>_.
      demo_dml B ''delete from emp where empno = 6;'' ''deleted''))))"

definition demo_insert ::
  "('m, 'd, 'q, 't, 'st, 'e, 'p) backend \<Rightarrow> int \<Rightarrow> (('m, 'd, 'q, 't, 'st) demo, 'e, unit) prog" where
  "demo_insert B i = bindP (format_buf 128 (insert_sql i)) (db_exec B)"

definition demo_insert_rows ::
  "('m, 'd, 'q, 't, 'st, 'e, 'p) backend \<Rightarrow> nat \<Rightarrow> (('m, 'd, 'q, 't, 'st) demo, 'e, unit) prog" where
  "demo_insert_rows B nRowsToCreate =
     block
       [db_do (DB_startTransaction (be_db B)),
        for_upto nRowsToCreate (demo_insert B),
        db_do (DB_commitTransaction (be_db B))]"

definition demo_transaction ::
  "('m, 'd, 'q, 't, 'st, 'e, 'p) backend \<Rightarrow> nat \<Rightarrow> (('m, 'd, 'q, 't, 'st) demo, 'e, unit) prog" where
  "demo_transaction B nRowsToCreate =
     block
       [cout (endl @ banner_tx @ endl),
        cout (endl @ ''Transaction test, creating '' @ show_int (int nRowsToCreate)),
        cout ('' rows please wait...'' @ endl),
        demo_insert_rows B nRowsToCreate,
        bindP (db_do (DB_execScalar (be_db B) ''select count(*) from emp;'' default_nNullValue)) (\<lambda>n.
          cout (show_int n @ '' rows in emp table''))]"

definition demo_recreate ::
  "('m, 'd, 'q, 't, 'st, 'e, 'p) backend \<Rightarrow> int \<Rightarrow> (('m, 'd, 'q, 't, 'st) demo, 'e, unit) prog" where
  "demo_recreate B nRows =
     block
       [cout (endl @ banner_recreate @ endl),
        db_exec B ''drop table emp;'',
        db_exec B (be_create_emp B),
        cout (show_int nRows @ '' rows deleted'' @ endl),
        for_upto 5 (\<lambda>i. bindP (format_buf 128 (shuai_sql i)) (db_exec B))]"

text \<open>\<open>for (fld = 0; fld < n(); fld++) cout << f(fld) << "|";\<close>\<close>

definition print_fields ::
  "nat \<Rightarrow> (('m, 'd, 'q, 't, 'st) demo, 'e, int) prog \<Rightarrow> (int \<Rightarrow> (('m, 'd, 'q, 't, 'st) demo, 'e, string option) prog) \<Rightarrow>
   (('m, 'd, 'q, 't, 'st) demo, 'e, unit) prog" where
  "print_fields fuel n f =
     seqP (for_loop fuel (\<lambda>fld. bindP n (\<lambda>k. ret (fld < k)))
             (\<lambda>fld. bindP (f fld) (\<lambda>p. seqP (cout_ptr p) (cout ''|''))) 0)
     (cout endl)"

definition print_cell ::
  "(('m, 'd, 'q, 't, 'st) demo, 'e, string option) prog \<Rightarrow> string \<Rightarrow> (('m, 'd, 'q, 't, 'st) demo, 'e, unit) prog" where
  "print_cell f sep = bindP f (\<lambda>p. seqP (cout_ptr p) (cout sep))"

text \<open>The loop over the rows of a query, lines 119 to 124.\<close>

definition demo_query_loop ::
  "nat \<Rightarrow> ('m, 'd, 'q, 't, 'st, 'e, 'p) backend \<Rightarrow> (('m, 'd, 'q, 't, 'st) demo, 'e, unit) prog" where
  "demo_query_loop fuel B =
     while_loop fuel (bindP (q_do (Query_eof (be_query B))) (\<lambda>b. ret (\<not> b)))
       (block
          [print_cell (q_do (Query_getStringField (be_query B) 0 default_szNullValue)) ''|'',
           print_cell (q_do (Query_getStringField (be_query B) 1 default_szNullValue)) (''|'' @ endl),
           q_do (Query_nextRow (be_query B))])"

definition demo_query ::
  "nat \<Rightarrow> ('m, 'd, 'q, 't, 'st, 'e, 'p) backend \<Rightarrow> (('m, 'd, 'q, 't, 'st) demo, 'e, unit) prog" where
  "demo_query fuel B =
     block
       [cout (endl @ banner_query @ endl),
        construct (\<lambda>x. dm_q_update (\<lambda>_. x)) (db_do (DB_execQuery (be_db B) ''select * from emp order by 1;'')),
        bindP (q_do (Query_numFields (be_query B))) (\<lambda>n. cout (endl @ ''Num of fields: '' @ show_int n @ endl)),
        (case be_numRows B of
           None \<Rightarrow> bindP (db_do (DB_execScalar (be_db B) ''select count(*) from emp'' default_nNullValue)) (\<lambda>n.
                     cout (endl @ ''Num of rows: '' @ show_int n @ endl @ endl))
         | Some numRows \<Rightarrow> bindP (q_do numRows) (\<lambda>n.
                     cout (endl @ ''Num of rows: '' @ show_nat (unat n) @ endl @ endl))),
        print_fields fuel (q_do (Query_numFields (be_query B))) (\<lambda>fld. q_do (Query_fieldName (be_query B) fld)),
        demo_query_loop fuel B,
        cout (endl @ banner_assign @ endl),
        assign_temp dm_q (\<lambda>x. dm_q_update (\<lambda>_. x)) (be_query_assign B) (be_query_destroy B)
          (db_do (DB_execQuery (be_db B) ''select empname from emp;'')),
        bindP (q_do (Query_numFields (be_query B))) (\<lambda>n. cout (endl @ ''Num of fields: '' @ show_int n @ endl)),
        q_do (Query_clear (be_query B))]"

text \<open>The loop over the row numbers of a result set, lines 148 to 156 and 203 to 211.\<close>

definition demo_rows_loop ::
  "nat \<Rightarrow> ('m, 'd, 'q, 't, 'st, 'e, 'p) backend \<Rightarrow> (('m, 'd, 'q, 't, 'st) demo, 'e, unit) prog" where
  "demo_rows_loop fuel B =
     for_loop fuel (\<lambda>row. bindP (t_do (ResultSet_numRows (be_rset B))) (\<lambda>n. ret (row < ulong_to_int n)))
       (\<lambda>row. seqP (bindP (t_do (ResultSet_seekRow (be_rset B) (int_to_ulong row))) (\<lambda>_. ret ()))
          (print_fields fuel (t_do (ResultSet_numFields (be_rset B)))
             (\<lambda>fld. t_do (ResultSet_fieldValue (be_rset B) fld)))) 0"

definition demo_result_set ::
  "nat \<Rightarrow> ('m, 'd, 'q, 't, 'st, 'e, 'p) backend \<Rightarrow> (('m, 'd, 'q, 't, 'st) demo, 'e, unit) prog" where
  "demo_result_set fuel B =
     block
       [cout (endl @ banner_rset @ endl),
        construct (\<lambda>x. dm_t_update (\<lambda>_. x)) (db_do (be_getResultSet B ''select * from emp order by 1;'')),
        bindP (t_do (ResultSet_numFields (be_rset B))) (\<lambda>n. cout (endl @ ''Num of fields: '' @ show_int n @ endl)),
        bindP (t_do (ResultSet_numRows (be_rset B))) (\<lambda>n.
          cout (endl @ ''Num of rows: '' @ show_nat (unat n) @ endl @ endl)),
        print_fields fuel (t_do (ResultSet_numFields (be_rset B))) (\<lambda>fld. t_do (ResultSet_fieldName (be_rset B) fld)),
        demo_rows_loop fuel B,
        cout (endl @ banner_other @ endl),
        bindP (t_do (ResultSet_seekRow (be_rset B) 0)) (\<lambda>_. ret ()),
        while_loop fuel (bindP (t_do (ResultSet_eof (be_rset B))) (\<lambda>b. ret (\<not> b)))
          (block
             [print_cell (t_do (ResultSet_fieldValue (be_rset B) 0)) ''|'',
              print_cell (t_do (ResultSet_fieldValue (be_rset B) 1)) ''|'',
              cout endl,
              t_do (ResultSet_nextRow (be_rset B))]),
        t_do (ResultSet_clear (be_rset B))]"

text \<open>One turn of the loop with bound parameters, lines 183 to 191.\<close>

definition demo_bind_row ::
  "('m, 'd, 'q, 't, 'st, 'e, 'p) backend \<Rightarrow> int \<Rightarrow> (('m, 'd, 'q, 't, 'st) demo, 'e, unit) prog" where
  "demo_bind_row B i =
     bindP (format_buf 16 (emp_name i)) (\<lambda>t.
     bindP (mach_do (be_text B t)) (\<lambda>buf.
     block
       [stmt_do (Statement_bind_int (be_stmt B) 1 i),
        stmt_do (Statement_bind_text (be_stmt B) 2 buf),
        bindP (stmt_do (Statement_execDML (be_stmt B))) (\<lambda>_. ret ()),
        stmt_do (Statement_reset (be_stmt B))]))"

definition demo_statement ::
  "nat \<Rightarrow> ('m, 'd, 'q, 't, 'st, 'e, 'p) backend \<Rightarrow> nat \<Rightarrow> (('m, 'd, 'q, 't, 'st) demo, 'e, unit) prog" where
  "demo_statement fuel B nRowsToCreate =
     block
       [cout (endl @ banner_stmt @ endl),
        cout ('' rows please wait...'' @ endl),
        db_exec B ''drop table emp;'',
        db_exec B ''create table emp(empno int, empname char(20));'',
        db_do (DB_startTransaction (be_db B)),
        cout (endl @ ''Creating with bind by number'' @ endl),
        construct (\<lambda>x. dm_stmt_update (\<lambda>_. x)) (db_do (be_compileStatement B ''insert into emp values (?, ?);'')),
        for_upto nRowsToCreate (demo_bind_row B),
        stmt_do (Statement_clear (be_stmt B)),
        db_do (DB_commitTransaction (be_db B)),
        bindP (db_do (DB_execScalar (be_db B) ''select count(*) from emp;'' default_nNullValue)) (\<lambda>n.
          cout (show_int n @ '' rows in emp table '' @ endl)),
        assign_temp dm_t (\<lambda>x. dm_t_update (\<lambda>_. x)) (be_rset_assign B) (be_rset_destroy B)
          (db_do (be_getResultSet B ''select * from emp limit 10;'')),
        print_fields fuel (t_do (ResultSet_numFields (be_rset B))) (\<lambda>fld. t_do (ResultSet_fieldName (be_rset B) fld)),
        demo_rows_loop fuel B,
        cout (endl @ ''End of tests'' @ endl)]"

section \<open>The whole program\<close>

definition demo_body ::
  "nat \<Rightarrow> ('m, 'd, 'q, 't, 'st, 'e, 'p) backend \<Rightarrow> (('m, 'd, 'q, 't, 'st) demo, 'e, unit) prog" where
  "demo_body fuel B =
     seqP (construct (\<lambda>x. dm_db_update (\<lambda>_. x)) (mach_do (be_db_new B)))
     (bindP (demo_create B) (\<lambda>nRows.
      block
        [demo_transaction B 25000, demo_recreate B nRows, demo_query fuel B, demo_result_set fuel B,
         demo_statement fuel B 200]))"

text \<open>Leaving the \<open>try\<close> block destroys what was constructed, the last object first.\<close>

definition destroy_local ::
  "(('m, 'd, 'q, 't, 'st) demo \<Rightarrow> 'o option) \<Rightarrow> ('o option \<Rightarrow> ('m, 'd, 'q, 't, 'st) demo \<Rightarrow> ('m, 'd, 'q, 't, 'st) demo) \<Rightarrow>
   ('o \<times> 'm, 'e, unit) prog \<Rightarrow> (('m, 'd, 'q, 't, 'st) demo, 'e, unit) prog" where
  "destroy_local get put dtor s =
     (if get s = None then (Ret (), s)
      else (case object_do get put dtor s of (r, s') \<Rightarrow> (r, put None s')))"

definition demo_unwind ::
  "('m, 'd, 'q, 't, 'st, 'e, 'p) backend \<Rightarrow> (('m, 'd, 'q, 't, 'st) demo, 'e, unit) prog" where
  "demo_unwind B =
     block
       [destroy_local dm_stmt (\<lambda>x. dm_stmt_update (\<lambda>_. x)) (be_stmt_destroy B),
        destroy_local dm_t (\<lambda>x. dm_t_update (\<lambda>_. x)) (be_rset_destroy B),
        destroy_local dm_q (\<lambda>x. dm_q_update (\<lambda>_. x)) (be_query_destroy B),
        destroy_local dm_db (\<lambda>x. dm_db_update (\<lambda>_. x)) (be_db_destroy B)]"

text \<open>A member function of the caught exception, and the handler.\<close>

definition exn_do :: "('e \<times> 'm, 'e, 'a) prog \<Rightarrow> 'e \<Rightarrow> (('m, 'd, 'q, 't, 'st) demo, 'e, 'a) prog" where
  "exn_do p e = mach_do (\<lambda>m. case p (e, m) of (r, (_, m')) \<Rightarrow> (r, m'))"

definition demo_handler ::
  "('m, 'd, 'q, 't, 'st, 'e, 'p) backend \<Rightarrow> 'e \<Rightarrow> (('m, 'd, 'q, 't, 'st) demo, 'e, unit) prog" where
  "demo_handler B e =
     bindP (exn_do (Exception_errorCode (be_exn B)) e) (\<lambda>n.
     bindP (exn_do (Exception_errorMessage (be_exn B)) e) (\<lambda>t.
     seqP (cerr (endl @ ''Exception:'' @ show_int n @ '':'' @ t @ endl))
     (exn_do (be_exn_destroy B) e)))"

definition demo_try ::
  "nat \<Rightarrow> ('m, 'd, 'q, 't, 'st, 'e, 'p) backend \<Rightarrow> (('m, 'd, 'q, 't, 'st) demo, 'e, unit) prog" where
  "demo_try fuel B s =
     (case demo_body fuel B s of
        (Ret _, s') \<Rightarrow> demo_unwind B s'
      | (Throw e, s') \<Rightarrow> seqP (demo_unwind B) (demo_handler B e) s'
      | (Undef u, s') \<Rightarrow> (Undef u, s'))"

text \<open>
  The last loop: prompt, then the next character that is no white space.  At the end of the input
  the extraction fails, \<open>c\<close> keeps its value and the loop runs forever, \<open>None\<close>; otherwise the value is the
  number of prompts.
\<close>

function quit_loop :: "string \<Rightarrow> char \<Rightarrow> nat option" where
  "quit_loop input c =
     (if c = CHR ''q'' \<or> c = CHR ''Q'' then Some 0
      else (case dropWhile isspace input of
              [] \<Rightarrow> None
            | c' # input' \<Rightarrow> map_option Suc (quit_loop input' c')))"
  by pat_completeness auto
termination
proof (relation "measure (length \<circ> fst)")
  fix input c c' input' assume "dropWhile isspace input = c' # input'"
  then have "length (c' # input') \<le> length input" using length_dropWhile_le[of isspace input] by simp
  then show "((input', c'), (input, c)) \<in> measure (length \<circ> fst)" by simp
qed simp

declare quit_loop.simps [simp del]

definition demo_main ::
  "nat \<Rightarrow> ('m, 'd, 'q, 't, 'st, 'e, 'p) backend \<Rightarrow> string \<Rightarrow> 'm \<Rightarrow>
   (('e, int) outcome \<times> ('m, 'd, 'q, 't, 'st) demo) option" where
  "demo_main fuel B input m =
     (case demo_try fuel B
         \<lparr>dm_mach = m, dm_db = None, dm_q = None, dm_t = None, dm_stmt = None, dm_out = [], dm_err = []\<rparr> of
        (Ret _, s) \<Rightarrow>
          map_option (\<lambda>n. (Ret 0, s\<lparr>dm_out := dm_out s @ concat (replicate n ''Press q then enter to quit: '')\<rparr>))
            (quit_loop input (CHR '' ''))
      | (Throw e, s) \<Rightarrow> Some (Throw e, s)
      | (Undef u, s) \<Rightarrow> Some (Undef u, s))"

end
