(* ===== verification/Triples.thy ===== *)
theory Triples
  imports Demo
begin

text \<open>
  Weakest preconditions of programs, for what holds whatever the libraries answer: a program may
  return, throw, or run into undefined behaviour, but not into a memory fault.  Then the triples
  \<open>goes\<close>, in which every way out of a program is accounted for, with a rule for each construct
  of the language of programs.
\<close>

section \<open>Weakest preconditions\<close>

text \<open>The faults that no answer of a library may provoke: they are the ones of the classes' own bookkeeping.\<close>

definition memory_fault :: "ub \<Rightarrow> bool" where
  "memory_fault u \<longleftrightarrow> u \<in> {DoubleFree, UseAfterFree, UninitRead, BufferOverflow}"

definition wlp :: "('s, 'e, 'a) prog \<Rightarrow> ('a \<Rightarrow> 's \<Rightarrow> bool) \<Rightarrow> ('e \<Rightarrow> 's \<Rightarrow> bool) \<Rightarrow> 's \<Rightarrow> bool" where
  "wlp p Q E s \<longleftrightarrow>
     (case p s of
        (Ret a, s') \<Rightarrow> Q a s'
      | (Throw e, s') \<Rightarrow> E e s'
      | (Undef u, _) \<Rightarrow> \<not> memory_fault u)"

named_theorems wlp_simps \<open>weakest preconditions of the parts of a program\<close>

lemma memory_fault_simps [simp]:
  "memory_fault DoubleFree" "memory_fault UseAfterFree" "memory_fault UninitRead" "memory_fault BufferOverflow"
  "\<not> memory_fault NullDeref" "\<not> memory_fault InvalidFree" "\<not> memory_fault OutOfBounds"
  "\<not> memory_fault SignedOverflow" "\<not> memory_fault OutOfFuel"
  by (simp_all add: memory_fault_def)

lemma wlp_ret [wlp_simps]: "wlp (ret a) Q E = Q a"
  by (rule ext) (simp add: wlp_def)

lemma wlp_throw [wlp_simps]: "wlp (throw e) Q E = E e"
  by (rule ext) (simp add: wlp_def)

lemma wlp_undef [wlp_simps]: "wlp (undef u) Q E = (\<lambda>s. \<not> memory_fault u)"
  by (rule ext) (simp add: wlp_def)

text \<open>What the simplifier makes of the three.\<close>

lemma wlp_Pair [wlp_simps]:
  "wlp (Pair (Ret a)) Q E = Q a"
  "wlp (Pair (Throw e)) Q E = E e"
  "wlp (Pair (Undef u)) Q E = (\<lambda>s. \<not> memory_fault u)"
  by (rule ext, simp add: wlp_def)+

lemma wlp_bindP [wlp_simps]:
  "wlp (bindP p k) Q E = (\<lambda>s. wlp p (\<lambda>a. wlp (k a) Q E) E s)"
  by (rule ext) (simp add: wlp_def bindP_def split: prod.split outcome.split)

lemma wlp_seqP [wlp_simps]: "wlp (seqP p q) Q E = (\<lambda>s. wlp p (\<lambda>_. wlp q Q E) E s)"
  by (rule ext) (simp add: seqP_def wlp_bindP)

lemma wlp_if [wlp_simps]:
  "wlp (if b then p else q) Q E = (if b then wlp p Q E else wlp q Q E)"
  by simp

lemma wlp_case_prod [wlp_simps]: "wlp (case x of (a, b) \<Rightarrow> p a b) Q E = (case x of (a, b) \<Rightarrow> wlp (p a b) Q E)"
  by (simp split: prod.split)

lemma wlp_catch_all [wlp_simps]:
  "wlp (catch_all p) Q E = (\<lambda>s. wlp p Q (\<lambda>e. Q ()) s)"
  by (rule ext) (simp add: wlp_def catch_all_def split: prod.split outcome.split)

lemma wlp_get_this [wlp_simps]: "wlp get_this Q E = (\<lambda>s. Q (fst s) s)"
  by (rule ext) (simp add: wlp_def get_this_def)

lemma wlp_upd_this [wlp_simps]: "wlp (upd_this f) Q E = (\<lambda>s. Q () (f (fst s), snd s))"
  by (rule ext) (simp add: wlp_def upd_this_def)

lemma wlp_on_mach [wlp_simps]:
  "wlp (on_mach p) Q E =
     (\<lambda>s. wlp p (\<lambda>a m. Q a (fst s, m)) (\<lambda>e m. E e (fst s, m)) (snd s))"
  by (rule ext) (simp add: wlp_def on_mach_def split: prod.split outcome.split)

lemma wlp_state: "wlp (\<lambda>s. (Ret (f s), g s)) Q E = (\<lambda>s. Q (f s) (g s))"
  by (rule ext) (simp add: wlp_def)

lemma wlp_lift_Ret [wlp_simps]: "wlp (lift_outcome (Ret a)) Q E = Q a"
  by (rule ext) (simp add: wlp_def)

lemma wlp_read_cell [wlp_simps]:
  "wlp (read_cell c) Q E =
     (\<lambda>s. (case c of Uninit \<Rightarrow> False | Init a \<Rightarrow> Q a s))"
  by (rule ext) (simp add: wlp_def read_cell_def split: cell.split)

lemma wlp_int_arith [wlp_simps]:
  "wlp (int_arith i) Q E = (\<lambda>s. in_int i \<longrightarrow> Q i s)"
  by (rule ext) (simp add: wlp_def int_arith_def)

lemma wlp_with_local [wlp_simps]:
  "wlp (with_local dtor x body) Q E =
     (\<lambda>s. wlp body (\<lambda>a. wlp dtor (\<lambda>_ y. Q a (fst s, snd y)) (\<lambda>_ y. Q a (fst s, snd y)))
       (\<lambda>e. wlp dtor (\<lambda>_ y. E e (fst s, snd y)) (\<lambda>_ y. E e (fst s, snd y))) (x, snd s))"
  by (rule ext) (auto simp: wlp_def with_local_def split: prod.splits outcome.splits)

lemma wlp_mono:
  "wlp p Q E s \<Longrightarrow> (\<And>a s'. Q a s' \<Longrightarrow> Q' a s') \<Longrightarrow> (\<And>e s'. E e s' \<Longrightarrow> E' e s') \<Longrightarrow> wlp p Q' E' s"
  by (auto simp: wlp_def split: prod.splits outcome.splits)

section \<open>Triples\<close>

definition goes :: "('e \<Rightarrow> 's \<Rightarrow> bool) \<Rightarrow> ('s \<Rightarrow> bool) \<Rightarrow> ('s, 'e, 'a) prog \<Rightarrow> ('s \<Rightarrow> bool) \<Rightarrow> bool" where
  "goes E I p J \<longleftrightarrow> (\<forall>s. I s \<longrightarrow> wlp p (\<lambda>_. J) E s)"

lemma goesI: "(\<And>s. I s \<Longrightarrow> wlp p (\<lambda>_. J) E s) \<Longrightarrow> goes E I p J"
  by (simp add: goes_def)

lemma goesD: "goes E I p J \<Longrightarrow> I s \<Longrightarrow> wlp p (\<lambda>_. J) E s"
  by (simp add: goes_def)

lemma goes_ret: "goes E I (ret a) I"
  by (simp add: goes_def wlp_ret)

lemma goes_bind:
  "goes E I p K \<Longrightarrow> (\<And>a. goes E K (k a) J) \<Longrightarrow> goes E I (bindP p k) J"
  by (auto simp: goes_def wlp_bindP intro: wlp_mono)

lemma goes_map: "goes E I p J \<Longrightarrow> goes E I (bindP p (\<lambda>a. ret (f a))) J"
  by (rule goes_bind[OF _ goes_ret])

lemma goes_seq: "goes E I p K \<Longrightarrow> goes E K q J \<Longrightarrow> goes E I (seqP p q) J"
  unfolding seqP_def by (rule goes_bind)

lemma goes_if: "goes E I p J \<Longrightarrow> goes E I q J \<Longrightarrow> goes E I (if b then p else q) J"
  by simp

lemma goes_block_Nil: "goes E I (block []) I"
  by (simp add: goes_ret)

lemma goes_block_Cons: "goes E I p K \<Longrightarrow> goes E K (block ps) J \<Longrightarrow> goes E I (block (p # ps)) J"
  by (simp add: goes_seq)

lemma goes_for_upto:
  assumes "\<And>i. i < n \<Longrightarrow> goes E I (body (int i)) I"
  shows "goes E I (for_upto n body) I"
proof -
  have "goes E I (block (map (\<lambda>i. body (int i)) ns)) I" if "set ns \<subseteq> {..<n}" for ns
    using that by (induction ns) (auto intro!: goes_ret goes_seq assms)
  then show ?thesis unfolding for_upto_def by (simp add: lessThan_atLeast0)
qed

lemma goes_while:
  "goes E I cond I \<Longrightarrow> goes E I body I \<Longrightarrow> goes E I (while_loop fuel cond body) I"
proof (induction fuel)
  case 0
  then show ?case by (simp add: goes_def wlp_Pair)
next
  case (Suc fuel)
  then show ?case 
    unfolding while_loop.simps
    by (intro goes_bind[OF Suc.prems(1)] goes_if goes_seq[OF Suc.prems(2)] goes_ret Suc.IH Suc.prems)
qed

lemma goes_int_arith: "goes E I (int_arith i) I"
  by (simp add: goes_def wlp_int_arith)

lemma goes_for:
  "(\<And>i. goes E I (cond i) I) \<Longrightarrow> (\<And>i. goes E I (body i) I) \<Longrightarrow> goes E I (for_loop fuel cond body i) I"
proof (induction fuel arbitrary: i)
  case 0
  then show ?case by (simp add: goes_def wlp_Pair)
next
  case (Suc fuel)
  then show ?case 
    unfolding for_loop.simps
    by (intro goes_bind[OF Suc.prems(1)] goes_if goes_seq[OF Suc.prems(2)] goes_bind[OF goes_int_arith]
        goes_ret Suc.IH Suc.prems)
qed

end
