(* ===== verification/DemoProofs.thy ===== *)
theory DemoProofs
  imports Demo
begin

text \<open>
  What the loops of the demonstration program do with any library that keeps the laws of its
  interfaces: the laws are the locales below, the libraries interpret them in \<open>DemoBackends\<close>.
\<close>

section \<open>Formatting\<close>

lemma cstring_show_nat [simp]: "cstring (show_nat n)"
  using show_nat_digits[of NUL n] by (auto simp: cstring_def isdigit_def NUL_def)

lemma cstring_replicate_0 [simp]: "cstring (replicate n (CHR ''0''))"
  by (auto simp: cstring_def NUL_def)

lemma length_show_nat: "n < 10 ^ k \<Longrightarrow> 0 < k \<Longrightarrow> length (show_nat n) \<le> k"
proof (induction k arbitrary: n)
  case (Suc k)
  show ?case
  proof (cases "n < 10")
    case True
    then show ?thesis by (subst show_nat.simps) simp
  next
    case False
    have "n div 10 < 10 ^ k" using Suc.prems(1) by (simp add: div_less_iff_less_mult mult.commute)
    moreover have "0 < k" using False Suc.prems(1) by (cases k) auto
    ultimately have "length (show_nat (n div 10)) \<le> k" by (rule Suc.IH)
    then show ?thesis using False by (subst show_nat.simps) simp
  qed
qed simp

lemma pad0_of_nat: "pad0 k (int n) = replicate (k - length (show_nat n)) (CHR ''0'') @ show_nat n"
  by (simp add: pad0_def)

lemma show_int_of_nat: "show_int (int n) = show_nat n"
  by (simp add: show_int_def)

lemma format_buf_run [prog_simps]:
  "cstring t \<Longrightarrow> length t < n \<Longrightarrow> format_buf n t s = (Ret t, s)"
  "\<not> length t < n \<Longrightarrow> format_buf n t s = (Undef BufferOverflow, s)"
  by (simp_all add: format_buf_def sprintf_def uninit_buf_def read_sprintf prog_simps)

text \<open>Both arrays of the insert loops are long enough for every row number below the bound.\<close>

lemma format_insert_sql:
  assumes "int i \<le> INT_MAX"
  shows "format_buf 128 (insert_sql (int i)) s = (Ret (insert_sql (int i)), s)"
proof -
  have "length (show_nat i) \<le> 10" using assms by (intro length_show_nat) (simp_all add: INT_MAX_def)
  then show ?thesis
    by (intro format_buf_run(1)) (simp_all add: insert_sql_def show_int_of_nat pad0_of_nat NUL_def)
qed

lemma format_emp_name:
  assumes "i < 10 ^ 8"
  shows "format_buf 16 (emp_name (int i)) s = (Ret (emp_name (int i)), s)"
proof -
  have "length (show_nat i) \<le> 8" using assms by (intro length_show_nat) simp_all
  then show ?thesis
    by (intro format_buf_run(1)) (simp_all add: emp_name_def pad0_of_nat NUL_def)
qed

section \<open>Loops\<close>

text \<open>A loop whose every turn keeps \<open>good\<close> and logs one entry logs the entries in order.\<close>

lemma block_collect:
  assumes "\<And>i s. i \<in> set ns \<Longrightarrow> good s \<Longrightarrow> \<exists>s'. body i s = (Ret (), s') \<and> good s' \<and> lg s' = lg s @ [f i]"
    and "good s"
  shows "\<exists>s'. block (map body ns) s = (Ret (), s') \<and> good s' \<and> lg s' = lg s @ map f ns"
  using assms
proof (induction ns arbitrary: s)
  case (Cons i ns)
  obtain s1 where s1: "body i s = (Ret (), s1)" "good s1" "lg s1 = lg s @ [f i]"
    using Cons.prems by force
  obtain s2 where "block (map body ns) s1 = (Ret (), s2)" "good s2" "lg s2 = lg s1 @ map f ns"
    using Cons.IH[OF _ s1(2)] Cons.prems(1) by force
  with s1 show ?case by (auto simp: prog_simps)
qed simp

lemma for_upto_collect:
  assumes "\<And>i s. i < n \<Longrightarrow> good s \<Longrightarrow> \<exists>s'. body (int i) s = (Ret (), s') \<and> good s' \<and> lg s' = lg s @ [f i]"
    and "good s"
  shows "\<exists>s'. for_upto n body s = (Ret (), s') \<and> good s' \<and> lg s' = lg s @ map f [0..<n]"
  unfolding for_upto_def using assms by (intro block_collect) auto

lemma object_do_run [prog_simps]:
  "get s = Some x \<Longrightarrow> p (x, dm_mach s) = (r, (x', m')) \<Longrightarrow>
   object_do get put p s = (r, put (Some x') (s\<lparr>dm_mach := m'\<rparr>))"
  by (simp add: object_do_def)

lemma mach_do_run [prog_simps]:
  "p (dm_mach s) = (r, m') \<Longrightarrow> mach_do p s = (r, s\<lparr>dm_mach := m'\<rparr>)"
  by (simp add: mach_do_def)

lemma cout_run [prog_simps]:
  "cout t s = (Ret (), s\<lparr>dm_out := dm_out s @ t\<rparr>)"
  "cout_ptr (Some t) s = (Ret (), s\<lparr>dm_out := dm_out s @ t\<rparr>)"
  "cout_ptr None s = (Undef NullDeref, s)"
  by (simp_all add: cout_def cout_ptr_def)

section \<open>Reading a query\<close>

lemma mapP_length: "mapP f is s = (Ret as, s') \<Longrightarrow> length as = length is"
proof (induction "is" arbitrary: s "as")
  case (Cons i "is")
  then show ?case by (auto elim!: bindP_RetE)
qed simp

lemma mapP_two:
  assumes "mapP f [i, j] s = (Ret [a, b], s2)"
  obtains s1 where "f i s = (Ret a, s1)" and "f j s1 = (Ret b, s2)"
  using assms by (auto elim!: bindP_RetE)

text \<open>
  A forward cursor on a query whose row is what \<open>getStringField\<close> gives for every column; asking for
  the number of columns changes nothing.
\<close>

locale text_cursor = cursor "Query_eof cls" "read_row cls d" "Query_nextRow cls" pending
  for cls :: "('q \<times> 'm, 'e) DatabaseQuery" and d :: "string option"
    and pending :: "'q \<times> 'm \<Rightarrow> string option list list \<Rightarrow> bool" +
  assumes numFields_stable: "pending s rs \<Longrightarrow> \<exists>n. Query_numFields cls s = (Ret n, s)"
begin

lemma two_columns:
  assumes "pending s ([a, b] # rs)"
  obtains s1 s2 s3 where "Query_getStringField cls 0 d s = (Ret a, s1)"
    and "Query_getStringField cls 1 d s1 = (Ret b, s2)" and "Query_nextRow cls s2 = (Ret (), s3)"
    and "pending s3 rs"
proof -
  let ?f = "\<lambda>i. Query_getStringField cls i d"
  obtain s3 where "bindP (read_row cls d) (\<lambda>r. seqP (Query_nextRow cls) (ret r)) s = (Ret [a, b], s3)"
      and p3: "pending s3 rs"
    using fetch_current[OF assms] by blast
  then obtain s2 where r: "read_row cls d s = (Ret [a, b], s2)" and n3: "Query_nextRow cls s2 = (Ret (), s3)"
    by (elim bindP_RetE) (auto simp: seqP_def elim!: bindP_RetE)
  obtain n where "Query_numFields cls s = (Ret n, s)" using numFields_stable[OF assms] by blast
  then have m: "mapP ?f [0..n - 1] s = (Ret [a, b], s2)" using r by (simp add: read_row_def prog_simps)
  then have "n = 2" using mapP_length by fastforce
  then have "[0..n - 1] = [0, 1]" by (simp add: upto.simps)
  then obtain s1 where "?f 0 s = (Ret a, s1)" "?f 1 s1 = (Ret b, s2)"
    using m mapP_two[of ?f 0 1 s a b s2] by metis
  with n3 p3 that show ?thesis by blast
qed

end

text \<open>What the loop of the program prints for a row of two texts.\<close>

definition row_line :: "string \<times> string \<Rightarrow> string" where
  "row_line ab = fst ab @ ''|'' @ snd ab @ ''|'' @ endl"

lemma demo_query_turn:
  assumes "dm_q s = Some q" and "Query_eof (be_query B) (q, dm_mach s) = (Ret False, (q, dm_mach s))"
    and "Query_getStringField (be_query B) 0 default_szNullValue (q, dm_mach s) = (Ret (Some a), (q1, m1))"
    and "Query_getStringField (be_query B) 1 default_szNullValue (q1, m1) = (Ret (Some b), (q2, m2))"
    and "Query_nextRow (be_query B) (q2, m2) = (Ret (), (q3, m3))"
  shows "demo_query_loop (Suc fuel) B s =
           demo_query_loop fuel B (s\<lparr>dm_mach := m3, dm_q := Some q3, dm_out := dm_out s @ row_line (a, b)\<rparr>)"
  using assms
  by (cases s) (simp add: demo_query_loop_def print_cell_def row_line_def prog_simps)

lemma demo_query_end:
  "dm_q s = Some q \<Longrightarrow> Query_eof (be_query B) (q, dm_mach s) = (Ret True, (q, dm_mach s)) \<Longrightarrow>
   demo_query_loop (Suc fuel) B s = (Ret (), s)"
  by (cases s) (simp add: demo_query_loop_def prog_simps)

context text_cursor
begin

text \<open>The loop prints every row on a line, and ends.\<close>

lemma demo_query_loop_prints:
  assumes "be_query B = cls" and "d = default_szNullValue"
  shows "dm_q s = Some q \<Longrightarrow> pending (q, dm_mach s) (map (\<lambda>(a, b). [Some a, Some b]) cells) \<Longrightarrow>
    length cells < fuel \<Longrightarrow>
    \<exists>q' m'. demo_query_loop fuel B s =
      (Ret (), s\<lparr>dm_mach := m', dm_q := Some q', dm_out := dm_out s @ concat (map row_line cells)\<rparr>)"
proof (induction cells arbitrary: s q fuel)
  case Nil
  then obtain f where "fuel = Suc f" by (cases fuel) auto
  with Nil show ?case
    using demo_query_end[of s q B f] eof_at_end[of "(q, dm_mach s)"] assms(1)
    by (cases s) (auto intro!: exI[of _ q] exI[of _ "dm_mach s"])
next
  case (Cons ab cells)
  obtain a b where ab: "ab = (a, b)" by (cases ab)
  obtain f where f: "fuel = Suc f" "length cells < f" using Cons.prems(3) by (cases fuel) auto
  let ?rs = "map (\<lambda>(a, b). [Some a, Some b]) cells"
  have p: "pending (q, dm_mach s) ([Some a, Some b] # ?rs)" using Cons.prems(2) by (simp add: ab)
  obtain s1 s2 s3 where t: "Query_getStringField cls 0 d (q, dm_mach s) = (Ret (Some a), s1)"
      "Query_getStringField cls 1 d s1 = (Ret (Some b), s2)" "Query_nextRow cls s2 = (Ret (), s3)" "pending s3 ?rs"
    using two_columns[OF p] by blast
  obtain q1 m1 q2 m2 q3 m3 where s: "s1 = (q1, m1)" "s2 = (q2, m2)" "s3 = (q3, m3)" by (meson surj_pair)
  let ?s = "s\<lparr>dm_mach := m3, dm_q := Some q3, dm_out := dm_out s @ row_line (a, b)\<rparr>"
  have "demo_query_loop fuel B s = demo_query_loop f B ?s"
    using demo_query_turn[of s q B a q1 m1 b q2 m2 q3 m3 f] Cons.prems(1) eof_before_end[OF p] t(1-3) assms f(1)
    by (simp add: s)
  moreover obtain q' m' where "demo_query_loop f B ?s =
      (Ret (), ?s\<lparr>dm_mach := m', dm_q := Some q', dm_out := dm_out ?s @ concat (map row_line cells)\<rparr>)"
    using Cons.IH[of ?s q3 f] t(4) f(2) by (auto simp: s)
  ultimately show ?case
    by (cases s) (auto simp: ab intro!: exI[of _ q'] exI[of _ m'])
qed

end

section \<open>Inserting in a transaction\<close>

text \<open>
  A connection on which the statements of a set are accepted and recorded: \<open>idle\<close> outside a transaction, \<open>busy\<close>
  inside one; \<open>sent\<close> is what the server has been sent.
\<close>

locale recorded_session =
  fixes db :: "('d \<times> 'm, 'e, 'q) DatabaseLayer_class"
    and idle :: "'d \<times> 'm \<Rightarrow> bool" and busy :: "'d \<times> 'm \<Rightarrow> bool" and sent :: "'d \<times> 'm \<Rightarrow> string list"
    and accepted :: "string set" and start_text :: string and commit_text :: string
  assumes exec_recorded:
      "busy x \<Longrightarrow> sql \<in> accepted \<Longrightarrow>
       \<exists>n x'. DB_execDML db sql x = (Ret n, x') \<and> busy x' \<and> sent x' = sent x @ [sql]"
    and start_recorded:
      "idle x \<Longrightarrow> \<exists>x'. DB_startTransaction db x = (Ret (), x') \<and> busy x' \<and> sent x' = sent x @ [start_text]"
    and commit_recorded:
      "busy x \<Longrightarrow> \<exists>x'. DB_commitTransaction db x = (Ret (), x') \<and> idle x' \<and> sent x' = sent x @ [commit_text]"

text \<open>The connection of the program with the machine.\<close>

definition db_at :: "('d \<times> 'm \<Rightarrow> bool) \<Rightarrow> ('m, 'd, 'q, 't, 'st) demo \<Rightarrow> bool" where
  "db_at P s \<longleftrightarrow> (case dm_db s of None \<Rightarrow> False | Some d \<Rightarrow> P (d, dm_mach s))"

definition db_seen :: "('d \<times> 'm \<Rightarrow> 'v) \<Rightarrow> ('m, 'd, 'q, 't, 'st) demo \<Rightarrow> 'v" where
  "db_seen f s = f (the (dm_db s), dm_mach s)"

lemma db_do_seen:
  assumes "db_at P s" and "\<And>d m. P (d, m) \<Longrightarrow> \<exists>r d' m'. p (d, m) = (Ret r, (d', m')) \<and> R r (d, m) (d', m')"
  shows "\<exists>r d m d' m'. dm_db s = Some d \<and> dm_mach s = m \<and>
           db_do p s = (Ret r, s\<lparr>dm_mach := m', dm_db := Some d'\<rparr>) \<and> R r (d, m) (d', m')"
proof -
  obtain d where d: "dm_db s = Some d" "P (d, dm_mach s)"
    using assms(1) by (auto simp: db_at_def split: option.splits)
  obtain r d' m' where "p (d, dm_mach s) = (Ret r, (d', m'))" "R r (d, dm_mach s) (d', m')"
    using assms(2)[OF d(2)] by blast
  with d(1) show ?thesis by (cases s) (auto simp: prog_simps)
qed

context recorded_session
begin

lemma demo_insert_sent:
  assumes "be_db B = db" and "int i \<le> INT_MAX" and "insert_sql (int i) \<in> accepted" and "db_at busy s"
  shows "\<exists>s'. demo_insert B (int i) s = (Ret (), s') \<and> db_at busy s' \<and>
           db_seen sent s' = db_seen sent s @ [insert_sql (int i)]"
proof -
  obtain n d m d' m' where "dm_db s = Some d" "dm_mach s = m"
      "db_do (DB_execDML db (insert_sql (int i))) s = (Ret n, s\<lparr>dm_mach := m', dm_db := Some d'\<rparr>)"
      "busy (d', m') \<and> sent (d', m') = sent (d, m) @ [insert_sql (int i)]"
    using db_do_seen[OF assms(4), of "DB_execDML db (insert_sql (int i))"
        "\<lambda>n x x'. busy x' \<and> sent x' = sent x @ [insert_sql (int i)]"] exec_recorded[OF _ assms(3)] by fastforce
  then show ?thesis
    using assms(1) by (simp add: demo_insert_def db_exec_def format_insert_sql[OF assms(2)] db_at_def db_seen_def prog_simps)
qed

text \<open>The rows go to the server in order, between the start and the commit, and nothing else does.\<close>

lemma demo_insert_rows_sent:
  assumes "be_db B = db" and "int n \<le> INT_MAX" and "\<forall>i < n. insert_sql (int i) \<in> accepted" and "db_at idle s"
  shows "\<exists>s'. demo_insert_rows B n s = (Ret (), s') \<and> db_at idle s' \<and>
           db_seen sent s' =
             db_seen sent s @ start_text # map (\<lambda>i. insert_sql (int i)) [0..<n] @ [commit_text]"
proof -
  obtain s1 where s1: "db_do (DB_startTransaction db) s = (Ret (), s1)" "db_at busy s1"
      "db_seen sent s1 = db_seen sent s @ [start_text]"
    using db_do_seen[OF assms(4), of "DB_startTransaction db" "\<lambda>n x x'. busy x' \<and> sent x' = sent x @ [start_text]"]
      start_recorded by (fastforce simp: db_at_def db_seen_def)
  have turn: "\<exists>s'. demo_insert B (int i) s = (Ret (), s') \<and> db_at busy s' \<and>
      db_seen sent s' = db_seen sent s @ [insert_sql (int i)]" if "i < n" "db_at busy s" for i s
    using demo_insert_sent[OF assms(1) _ _ that(2), of i] that(1) assms(2,3) by simp
  obtain s2 where s2: "for_upto n (demo_insert B) s1 = (Ret (), s2)" "db_at busy s2"
      "db_seen sent s2 = db_seen sent s1 @ map (\<lambda>i. insert_sql (int i)) [0..<n]"
    using for_upto_collect[of n "db_at busy" "demo_insert B" "db_seen sent" "\<lambda>i. insert_sql (int i)" s1, OF turn s1(2)]
    by blast
  obtain s3 where s3: "db_do (DB_commitTransaction db) s2 = (Ret (), s3)" "db_at idle s3"
      "db_seen sent s3 = db_seen sent s2 @ [commit_text]"
    using db_do_seen[OF s2(2), of "DB_commitTransaction db" "\<lambda>n x x'. idle x' \<and> sent x' = sent x @ [commit_text]"]
      commit_recorded by (fastforce simp: db_at_def db_seen_def)
  have "demo_insert_rows B n s = (Ret (), s3)"
    using s1(1) s2(1) s3(1) assms(1) by (simp add: demo_insert_rows_def prog_simps)
  with s1(3) s2(3) s3(2,3) show ?thesis by auto
qed

end

section \<open>Inserting with bound parameters\<close>

text \<open>
  A statement with an integer and a text parameter: one turn of the loop runs it once with the two
  values and makes it ready again; \<open>runs\<close> lists the values of the runs.
\<close>

locale bound_statement =
  fixes st :: "('st \<times> 'm, 'e, 'p) DatabaseStatement" and place :: "string \<Rightarrow> ('m, 'e, 'p) prog"
    and ready :: "'st \<times> 'm \<Rightarrow> bool" and runs :: "'st \<times> 'm \<Rightarrow> 'v list list"
    and int_val :: "int \<Rightarrow> 'v" and text_val :: "string \<Rightarrow> 'v"
  assumes turn: "ready (t, m) \<Longrightarrow>
      \<exists>p m1 t'. place txt m = (Ret p, m1) \<and>
        seqP (Statement_bind_int st 1 i)
        (seqP (Statement_bind_text st 2 p)
        (seqP (Statement_execDML st) (Statement_reset st))) (t, m1) = (Ret (), t') \<and>
        ready t' \<and> runs t' = runs (t, m) @ [[int_val i, text_val txt]]"

definition stmt_at :: "('st \<times> 'm \<Rightarrow> bool) \<Rightarrow> ('m, 'd, 'q, 't, 'st) demo \<Rightarrow> bool" where
  "stmt_at P s \<longleftrightarrow> (case dm_stmt s of None \<Rightarrow> False | Some t \<Rightarrow> P (t, dm_mach s))"

definition stmt_seen :: "('st \<times> 'm \<Rightarrow> 'v) \<Rightarrow> ('m, 'd, 'q, 't, 'st) demo \<Rightarrow> 'v" where
  "stmt_seen f s = f (the (dm_stmt s), dm_mach s)"

context bound_statement
begin

lemma demo_bind_row_runs:
  assumes "be_stmt B = st" and "be_text B = place" and "i < 10 ^ 8" and "stmt_at ready s"
  shows "\<exists>s'. demo_bind_row B (int i) s = (Ret (), s') \<and> stmt_at ready s' \<and>
           stmt_seen runs s' = stmt_seen runs s @ [[int_val (int i), text_val (emp_name (int i))]]"
proof -
  obtain t where t: "dm_stmt s = Some t" "ready (t, dm_mach s)"
    using assms(4) by (auto simp: stmt_at_def split: option.splits)
  obtain p m1 t' where p: "place (emp_name (int i)) (dm_mach s) = (Ret p, m1)"
    and r: "seqP (Statement_bind_int st 1 (int i))
        (seqP (Statement_bind_text st 2 p)
        (seqP (Statement_execDML st) (Statement_reset st))) (t, m1) = (Ret (), t')"
    and t': "ready t'" "runs t' = runs (t, dm_mach s) @ [[int_val (int i), text_val (emp_name (int i))]]"
    using turn[OF t(2)] by blast
  obtain x1 x2 n x3 where x: "Statement_bind_int st 1 (int i) (t, m1) = (Ret (), x1)"
      "Statement_bind_text st 2 p x1 = (Ret (), x2)" "Statement_execDML st x2 = (Ret n, x3)"
      "Statement_reset st x3 = (Ret (), t')"
    using r by (auto simp: seqP_def elim!: bindP_RetE)
  obtain a1 b1 a2 b2 a3 b3 a4 b4 where [simp]: "x1 = (a1, b1)" "x2 = (a2, b2)" "x3 = (a3, b3)" "t' = (a4, b4)"
    by (meson surj_pair)
  have "demo_bind_row B (int i) s = (Ret (), s\<lparr>dm_mach := b4, dm_stmt := Some a4\<rparr>)"
    using p x t(1) assms(1,2)
    by (cases s) (simp add: demo_bind_row_def format_emp_name[OF assms(3)] prog_simps)
  then show ?thesis using t t' by (cases s) (auto simp: stmt_at_def stmt_seen_def)
qed

lemma demo_bind_loop_runs:
  assumes "be_stmt B = st" and "be_text B = place" and "n \<le> 10 ^ 8" and "stmt_at ready s"
  shows "\<exists>s'. for_upto n (demo_bind_row B) s = (Ret (), s') \<and> stmt_at ready s' \<and>
           stmt_seen runs s' =
             stmt_seen runs s @ map (\<lambda>i. [int_val (int i), text_val (emp_name (int i))]) [0..<n]"
  using assms by (intro for_upto_collect demo_bind_row_runs) auto

end

end
