(* ===== verification/DemoSafety.thy ===== *)
theory DemoSafety
  imports Triples DemoProofs
begin

text \<open>
  The demonstration program as a client of a backend that keeps its books: whatever member function
  returns or throws, the objects constructed so far own what is live.  Then no way out of the \<open>try\<close>
  block leaves anything behind, and none runs into a memory fault.
\<close>

section \<open>The parts of the program\<close>

lemma wlp_object_do [wlp_simps]:
  "wlp (object_do get put p) Q E =
     (\<lambda>s. case get s of
            None \<Rightarrow> False
          | Some x \<Rightarrow> wlp p (\<lambda>a y. Q a (put (Some (fst y)) (s\<lparr>dm_mach := snd y\<rparr>)))
                       (\<lambda>e y. E e (put (Some (fst y)) (s\<lparr>dm_mach := snd y\<rparr>))) (x, dm_mach s))"
  by (rule ext) (simp add: wlp_def object_do_def split: option.split prod.split outcome.split)

lemma wlp_mach_do [wlp_simps]:
  "wlp (mach_do p) Q E =
     (\<lambda>s. wlp p (\<lambda>a m. Q a (s\<lparr>dm_mach := m\<rparr>)) (\<lambda>e m. E e (s\<lparr>dm_mach := m\<rparr>)) (dm_mach s))"
  by (rule ext) (simp add: wlp_def mach_do_def split: prod.split outcome.split)

lemma wlp_cout [wlp_simps]:
  "wlp (cout t) Q E = (\<lambda>s. Q () (s\<lparr>dm_out := dm_out s @ t\<rparr>))"
  "wlp (cerr t) Q E = (\<lambda>s. Q () (s\<lparr>dm_err := dm_err s @ t\<rparr>))"
  by (rule ext, simp add: wlp_def cout_def cerr_def)+

lemma wlp_construct [wlp_simps]:
  "wlp (construct put p) Q E = wlp p (\<lambda>x s. Q () (put (Some x) s)) E"
  unfolding construct_def wlp_bindP wlp_state ..

lemma wlp_assign_temp [wlp_simps]:
  "wlp (assign_temp get put assign dtor p) Q E =
     wlp p (\<lambda>y s. case get s of
        None \<Rightarrow> False
      | Some x \<Rightarrow>
          wlp (assign x y)
            (\<lambda>xy m. wlp dtor (\<lambda>_ z. Q () (put (Some (fst xy)) (s\<lparr>dm_mach := snd z\<rparr>)))
               (\<lambda>e z. E e (put (Some (fst xy)) (s\<lparr>dm_mach := snd z\<rparr>))) (snd xy, m))
            (\<lambda>e m. E e (s\<lparr>dm_mach := m\<rparr>)) (dm_mach s)) E"
  unfolding assign_temp_def wlp_bindP
  by (rule ext, rule arg_cong3[where f = "\<lambda>Q E s. wlp p Q E s" for p])
    (auto simp: fun_eq_iff wlp_def bindP_def mach_do_def split: option.splits prod.splits outcome.splits)

lemma wlp_destroy_local:
  "get s = Some x \<Longrightarrow>
   wlp (destroy_local get put dtor) Q E s =
     wlp dtor (\<lambda>a y. Q a (put None (put (Some (fst y)) (s\<lparr>dm_mach := snd y\<rparr>))))
       (\<lambda>e y. E e (put None (put (Some (fst y)) (s\<lparr>dm_mach := snd y\<rparr>)))) (x, dm_mach s)"
  by (simp add: wlp_def destroy_local_def object_do_def split: prod.split outcome.split)

lemma destroy_absent: "get s = None \<Longrightarrow> destroy_local get put dtor s = (Ret (), s)"
  by (simp add: destroy_local_def)

lemma goes_format:
  assumes "\<And>s. (format_buf n t :: ('s, 'e, string) prog) s = (Ret u, s)"
  shows "goes (E :: 'e \<Rightarrow> 's \<Rightarrow> bool) I (format_buf n t) I"
  by (simp add: goes_def wlp_def assms)

lemma format_shuai:
  assumes "i < 5"
  shows "format_buf 128 (shuai_sql (int i)) s = (Ret (shuai_sql (int i)), s)"
proof -
  have p: "pad0 2 (int i + 1) = pad0 2 (int (Suc i))" by (simp add: add.commute)
  have "length (show_nat (Suc i)) \<le> 1" using assms by (intro length_show_nat) simp_all
  then show ?thesis
    unfolding shuai_sql_def p pad0_of_nat by (intro format_buf_run(1)) (simp_all add: NUL_def)
qed

section \<open>Backends that keep their books\<close>

text \<open>
  How far the program has come: which objects it has constructed, whether the connection is open,
  whether \<open>q\<close> still has the rows it was made with.
\<close>

datatype stage = Nothing | Connected | Opened | Reading | Queried | Fetched | Prepared | Finished

fun has_stmt :: "stage \<Rightarrow> bool" where
  "has_stmt n \<longleftrightarrow> n \<in> {Prepared, Finished}"

fun has_rset :: "stage \<Rightarrow> bool" where
  "has_rset n \<longleftrightarrow> n = Fetched \<or> has_stmt n"

fun has_query :: "stage \<Rightarrow> bool" where
  "has_query n \<longleftrightarrow> n \<in> {Reading, Queried} \<or> has_rset n"

fun has_db :: "stage \<Rightarrow> bool" where
  "has_db n \<longleftrightarrow> n = Opened \<or> has_query n"

text \<open>Whether control is leaving the \<open>try\<close> block, and with which exception.\<close>

datatype 'e phase = Running | Leaving "'e option"

text \<open>
  \<open>A x n s\<close> says that in the state \<open>s\<close> the objects of the stage \<open>n\<close> and the exception of the phase \<open>x\<close>
  own what is live.  A part of the program moves from a stage to another, or throws at some stage.
\<close>

definition unwinding ::
  "('e phase \<Rightarrow> stage \<Rightarrow> ('m, 'd, 'q, 't, 'st) demo \<Rightarrow> bool) \<Rightarrow> 'e \<Rightarrow> ('m, 'd, 'q, 't, 'st) demo \<Rightarrow> bool" where
  "unwinding A e s \<longleftrightarrow> (\<exists>n. A (Leaving (Some e)) n s)"

definition never :: "'e \<Rightarrow> 's \<Rightarrow> bool" where
  "never e s \<longleftrightarrow> False"

abbreviation moves ::
  "('e phase \<Rightarrow> stage \<Rightarrow> ('m, 'd, 'q, 't, 'st) demo \<Rightarrow> bool) \<Rightarrow>
   stage \<Rightarrow> (('m, 'd, 'q, 't, 'st) demo, 'e, 'a) prog \<Rightarrow> stage \<Rightarrow> bool" where
  "moves A n p n' \<equiv> goes (unwinding A) (A Running n) p (A Running n')"

locale safe_backend =
  fixes B :: "('m, 'd, 'q, 't, 'st, 'e, 'p) backend"
    and at_stage :: "'e phase \<Rightarrow> stage \<Rightarrow> ('m, 'd, 'q, 't, 'st) demo \<Rightarrow> bool"
    and released :: "'e option \<Rightarrow> ('m, 'd, 'q, 't, 'st) demo \<Rightarrow> bool"
  assumes shape:
      "at_stage ph n s \<Longrightarrow> (dm_db s = None) = (n = Nothing) \<and> (dm_q s = None) = (\<not> has_query n) \<and>
         (dm_t s = None) = (\<not> has_rset n) \<and> (dm_stmt s = None) = (\<not> has_stmt n)"
    and out: "at_stage Running n s \<Longrightarrow> at_stage Running n (s\<lparr>dm_out := t\<rparr>)"
    and leave: "at_stage Running n s \<Longrightarrow> at_stage (Leaving None) n s"
    and db_new: "moves at_stage Nothing (construct (\<lambda>x. dm_db_update (\<lambda>_. x)) (mach_do (be_db_new B))) Connected"
    and db_setup: "moves at_stage Connected (db_do (be_setup B (be_gszDB B))) Connected"
    and db_open: "moves at_stage Connected (db_do (DB_open (be_db B) (be_gszDB B))) Opened"
    and db_ops: "has_db n \<Longrightarrow>
         moves at_stage n (db_do (DB_tableExists (be_db B) ''emp'')) n \<and>
         moves at_stage n (db_do (DB_execDML (be_db B) sql)) n \<and>
         moves at_stage n (db_do (DB_execScalar (be_db B) sql k)) n \<and>
         moves at_stage n (db_do (DB_startTransaction (be_db B))) n \<and>
         moves at_stage n (db_do (DB_commitTransaction (be_db B))) n"
    and query_new: "moves at_stage Opened (construct (\<lambda>x. dm_q_update (\<lambda>_. x)) (db_do (DB_execQuery (be_db B) sql))) Reading"
    and query_ops:
        "moves at_stage Reading (q_do (Query_eof (be_query B))) Reading \<and>
         moves at_stage Reading (q_do (Query_fieldName (be_query B) i)) Reading \<and>
         moves at_stage Reading (q_do (Query_getStringField (be_query B) i d)) Reading \<and>
         moves at_stage Reading (q_do (Query_nextRow (be_query B))) Reading \<and>
         moves at_stage Queried (q_do (Query_clear (be_query B))) Queried"
    and query_numFields: "n \<in> {Reading, Queried} \<Longrightarrow> moves at_stage n (q_do (Query_numFields (be_query B))) n"
    and query_numRows: "be_numRows B = Some p \<Longrightarrow> moves at_stage Reading (q_do p) Reading"
    and query_assign:
      "moves at_stage Reading (assign_temp dm_q (\<lambda>x. dm_q_update (\<lambda>_. x)) (be_query_assign B) (be_query_destroy B)
         (db_do (DB_execQuery (be_db B) sql))) Queried"
    and rset_new: "moves at_stage Queried (construct (\<lambda>x. dm_t_update (\<lambda>_. x)) (db_do (be_getResultSet B sql))) Fetched"
    and rset_ops: "has_rset n \<Longrightarrow>
         moves at_stage n (t_do (ResultSet_eof (be_rset B))) n \<and>
         moves at_stage n (t_do (ResultSet_numFields (be_rset B))) n \<and>
         moves at_stage n (t_do (ResultSet_numRows (be_rset B))) n \<and>
         moves at_stage n (t_do (ResultSet_fieldName (be_rset B) i)) n \<and>
         moves at_stage n (t_do (ResultSet_fieldValue (be_rset B) i)) n \<and>
         moves at_stage n (t_do (ResultSet_seekRow (be_rset B) r)) n \<and>
         moves at_stage n (t_do (ResultSet_nextRow (be_rset B))) n \<and>
         moves at_stage n (t_do (ResultSet_clear (be_rset B))) n"
    and rset_assign:
      "moves at_stage Prepared (assign_temp dm_t (\<lambda>x. dm_t_update (\<lambda>_. x)) (be_rset_assign B) (be_rset_destroy B)
         (db_do (be_getResultSet B sql))) Finished"
    and stmt_new: "moves at_stage Fetched (construct (\<lambda>x. dm_stmt_update (\<lambda>_. x)) (db_do (be_compileStatement B sql))) Prepared"
    and stmt_ops:
        "moves at_stage Prepared (mach_do (be_text B u)) Prepared \<and>
         moves at_stage Prepared (stmt_do (Statement_bind_int (be_stmt B) i k)) Prepared \<and>
         moves at_stage Prepared (stmt_do (Statement_bind_text (be_stmt B) i b)) Prepared \<and>
         moves at_stage Prepared (stmt_do (Statement_execDML (be_stmt B))) Prepared \<and>
         moves at_stage Prepared (stmt_do (Statement_reset (be_stmt B))) Prepared \<and>
         moves at_stage Prepared (stmt_do (Statement_clear (be_stmt B))) Prepared"
    and stmt_destroy: "has_stmt n \<Longrightarrow>
         goes never (at_stage (Leaving x) n) (destroy_local dm_stmt (\<lambda>x. dm_stmt_update (\<lambda>_. x)) (be_stmt_destroy B))
           (at_stage (Leaving x) Fetched)"
    and rset_destroy:
        "goes never (at_stage (Leaving x) Fetched) (destroy_local dm_t (\<lambda>x. dm_t_update (\<lambda>_. x)) (be_rset_destroy B))
           (at_stage (Leaving x) Queried)"
    and query_destroy: "n \<in> {Reading, Queried} \<Longrightarrow>
         goes never (at_stage (Leaving x) n) (destroy_local dm_q (\<lambda>x. dm_q_update (\<lambda>_. x)) (be_query_destroy B))
           (at_stage (Leaving x) Opened)"
    and db_destroy: "\<not> has_query n \<Longrightarrow>
         goes never (at_stage (Leaving x) n) (destroy_local dm_db (\<lambda>x. dm_db_update (\<lambda>_. x)) (be_db_destroy B)) (released x)"
    and handler: "goes never (released (Some e)) (demo_handler B e) (released None)"
begin

lemma cout_safe: "moves at_stage n (cout t) n"
  by (simp add: goes_def wlp_simps out)

lemma goes_cout_ptr: "moves at_stage n (cout_ptr p) n"
  using cout_safe by (cases p) (simp_all add: cout_ptr_def goes_def wlp_simps)

lemma goes_print_cell:
  assumes "moves at_stage n f n"
  shows "moves at_stage n (print_cell f sep) n"
  unfolding print_cell_def by (intro goes_bind[OF assms] goes_seq[OF goes_cout_ptr] cout_safe)

lemma goes_print_fields:
  assumes "moves at_stage n k n"
    and "\<And>i. moves at_stage n (f i) n"
  shows "moves at_stage n (print_fields fuel k f) n"
  unfolding print_fields_def
  by (intro goes_seq[OF goes_for cout_safe] goes_bind[OF assms(1)] goes_bind[OF assms(2)] goes_seq[OF goes_cout_ptr]
      cout_safe goes_ret)

lemma goes_print_int:
  assumes "moves at_stage n p n"
  shows "moves at_stage n (bindP p (\<lambda>k. cout (f k))) n"
  by (intro goes_bind[OF assms] cout_safe)

lemma goes_db_exec:
  "has_db n \<Longrightarrow> moves at_stage n (db_exec B sql) n"
  unfolding db_exec_def using db_ops by (intro goes_bind[OF _ goes_ret]) blast

lemma goes_dml:
  "has_db n \<Longrightarrow> moves at_stage n (demo_dml B sql what) n"
  unfolding demo_dml_def using db_ops by (intro goes_bind[OF _ goes_seq[OF cout_safe goes_ret]]) blast

lemma goes_table_exists:
  "has_db n \<Longrightarrow> moves at_stage n (demo_table_exists B) n"
  unfolding demo_table_exists_def using db_ops by (intro goes_print_int) blast

lemma goes_create: "moves at_stage Connected (demo_create B) Opened"
  unfolding demo_create_def
  by (intro goes_seq[where K = "at_stage Running Opened"] goes_bind[where K = "at_stage Running Opened"] goes_dml
      goes_block_Cons[OF db_setup] goes_block_Cons[OF db_open] goes_block_Cons[OF cout_safe]
      goes_block_Cons[OF goes_table_exists] goes_block_Cons[OF goes_db_exec] goes_block_Nil) simp_all

lemma goes_insert_rows:
  assumes "int k \<le> INT_MAX" and "has_db n"
  shows "moves at_stage n (demo_insert_rows B k) n"
proof -
  have "moves at_stage n (demo_insert B (int i)) n" if "i < k" for i
    unfolding demo_insert_def using that assms(1)
    by (intro goes_bind[OF goes_format[OF format_insert_sql]] goes_db_exec[OF assms(2)]) simp
  moreover have "moves at_stage n (db_do (DB_startTransaction (be_db B))) n"
      "moves at_stage n (db_do (DB_commitTransaction (be_db B))) n"
    using db_ops[OF assms(2)] by blast+
  ultimately show ?thesis
    unfolding demo_insert_rows_def
    by (intro goes_block_Cons[where K = "at_stage Running n"] goes_for_upto goes_block_Nil)
qed

lemma goes_scalar:
  assumes "has_db n"
  shows "moves at_stage n (bindP (db_do (DB_execScalar (be_db B) sql k)) (\<lambda>i. cout (f i))) n"
  using db_ops[OF assms] by (intro goes_print_int) blast

lemma transaction_safe:
  "int k \<le> INT_MAX \<Longrightarrow> moves at_stage Opened (demo_transaction B k) Opened"
  unfolding demo_transaction_def
  by (intro goes_block_Cons[OF cout_safe] goes_block_Cons[OF goes_insert_rows] goes_block_Cons[OF goes_scalar] goes_block_Nil)
    simp_all

lemma goes_recreate: "moves at_stage Opened (demo_recreate B nRows) Opened"
  unfolding demo_recreate_def
  by (intro goes_block_Cons[OF cout_safe] goes_block_Cons[OF goes_db_exec] goes_block_Cons[OF goes_for_upto] goes_block_Nil
      goes_bind[OF goes_format[OF format_shuai]] goes_db_exec) simp_all

lemma goes_query_loop: "moves at_stage Reading (demo_query_loop fuel B) Reading"
proof -
  have q: "moves at_stage Reading (q_do (Query_eof (be_query B))) Reading"
      "moves at_stage Reading (q_do (Query_nextRow (be_query B))) Reading"
      "moves at_stage Reading (q_do (Query_getStringField (be_query B) i d)) Reading" for i d
    using query_ops by blast+
  show ?thesis
    unfolding demo_query_loop_def
    by (intro goes_while goes_bind[OF q(1)] goes_ret goes_block_Cons[OF goes_print_cell] goes_block_Cons[OF q(2)] q(3)
        goes_block_Nil)
qed

lemma goes_num_rows:
  "moves at_stage Reading
    (case be_numRows B of
       None \<Rightarrow> bindP (db_do (DB_execScalar (be_db B) sql k)) (\<lambda>i. cout (f i))
     | Some numRows \<Rightarrow> bindP (q_do numRows) (\<lambda>i. cout (g i))) Reading"
proof (cases "be_numRows B")
  case None
  then show ?thesis by (simp add: goes_scalar)
next
  case (Some p)
  then show ?thesis by (simp add: goes_print_int query_numRows)
qed

lemma goes_query: "moves at_stage Opened (demo_query fuel B) Queried"
proof -
  have n: "moves at_stage Reading (q_do (Query_numFields (be_query B))) Reading"
      "moves at_stage Queried (q_do (Query_numFields (be_query B))) Queried"
    by (simp_all add: query_numFields)
  have q: "moves at_stage Reading (q_do (Query_fieldName (be_query B) i)) Reading"
      "moves at_stage Queried (q_do (Query_clear (be_query B))) Queried" for i
    using query_ops by blast+
  show ?thesis
    unfolding demo_query_def
    by (intro goes_block_Cons[OF cout_safe] goes_block_Cons[OF query_new] goes_block_Cons[OF goes_print_int[OF n(1)]]
        goes_block_Cons[OF goes_num_rows] goes_block_Cons[OF goes_print_fields[OF n(1) q(1)]]
        goes_block_Cons[OF goes_query_loop] goes_block_Cons[OF query_assign] goes_block_Cons[OF goes_print_int[OF n(2)]]
        goes_block_Cons[OF q(2)] goes_block_Nil)
qed

lemma goes_rows_loop:
  assumes "has_rset n"
  shows "moves at_stage n (demo_rows_loop fuel B) n"
proof -
  have t: "moves at_stage n (t_do (ResultSet_numRows (be_rset B))) n"
      "moves at_stage n (t_do (ResultSet_numFields (be_rset B))) n"
      "moves at_stage n (t_do (ResultSet_seekRow (be_rset B) r)) n"
      "moves at_stage n (t_do (ResultSet_fieldValue (be_rset B) i)) n" for r i
    using rset_ops[OF assms] by blast+
  show ?thesis
    unfolding demo_rows_loop_def
    by (intro goes_for goes_bind[OF t(1)] goes_seq[OF goes_map[OF t(3)]] goes_print_fields[OF t(2) t(4)] goes_ret)
qed

lemma goes_result_set: "moves at_stage Queried (demo_result_set fuel B) Fetched"
proof -
  have t: "moves at_stage Fetched (t_do (ResultSet_numRows (be_rset B))) Fetched"
      "moves at_stage Fetched (t_do (ResultSet_numFields (be_rset B))) Fetched"
      "moves at_stage Fetched (t_do (ResultSet_seekRow (be_rset B) r)) Fetched"
      "moves at_stage Fetched (t_do (ResultSet_fieldName (be_rset B) i)) Fetched"
      "moves at_stage Fetched (t_do (ResultSet_fieldValue (be_rset B) i)) Fetched"
      "moves at_stage Fetched (t_do (ResultSet_eof (be_rset B))) Fetched"
      "moves at_stage Fetched (t_do (ResultSet_nextRow (be_rset B))) Fetched"
      "moves at_stage Fetched (t_do (ResultSet_clear (be_rset B))) Fetched" for r i
    using rset_ops[of Fetched] by simp_all
  show ?thesis
    unfolding demo_result_set_def
    by (intro goes_block_Cons[OF cout_safe] goes_block_Cons[OF rset_new] goes_block_Cons[OF goes_print_int[OF t(1)]]
        goes_block_Cons[OF goes_print_int[OF t(2)]] goes_block_Cons[OF goes_print_fields[OF t(2) t(4)]]
        goes_block_Cons[OF goes_rows_loop] goes_block_Cons[OF goes_map[OF t(3)]] goes_block_Cons[OF goes_while]
        goes_block_Cons[OF goes_print_cell[OF t(5)]] goes_block_Cons[OF t(7)] goes_block_Cons[OF t(8)] goes_map[OF t(6)]
        goes_block_Nil) simp_all
qed

lemma goes_bind_row:
  assumes "i < 10 ^ 8"
  shows "moves at_stage Prepared (demo_bind_row B (int i)) Prepared"
proof -
  have st: "moves at_stage Prepared (mach_do (be_text B u)) Prepared"
      "moves at_stage Prepared (stmt_do (Statement_bind_int (be_stmt B) j k)) Prepared"
      "moves at_stage Prepared (stmt_do (Statement_bind_text (be_stmt B) j b)) Prepared"
      "moves at_stage Prepared (stmt_do (Statement_execDML (be_stmt B))) Prepared"
      "moves at_stage Prepared (stmt_do (Statement_reset (be_stmt B))) Prepared"
    for u j k b
    using stmt_ops by blast+
  show ?thesis
    unfolding demo_bind_row_def
    by (intro goes_bind[OF goes_format[OF format_emp_name[OF assms]]] goes_bind[OF st(1)] goes_block_Cons[OF st(2)]
        goes_block_Cons[OF st(3)] goes_block_Cons[OF goes_map[OF st(4)]] goes_block_Cons[OF st(5)] goes_block_Nil)
qed

lemma goes_statement:
  assumes "k \<le> 10 ^ 8"
  shows "moves at_stage Fetched (demo_statement fuel B k) Finished"
proof -
  have d: "moves at_stage Fetched (db_do (DB_startTransaction (be_db B))) Fetched"
      "moves at_stage Prepared (db_do (DB_commitTransaction (be_db B))) Prepared"
    using db_ops by simp_all
  have t: "moves at_stage Finished (t_do (ResultSet_numFields (be_rset B))) Finished"
      "moves at_stage Finished (t_do (ResultSet_fieldName (be_rset B) i)) Finished" for i
    using rset_ops[of Finished] by simp_all
  have c: "moves at_stage Prepared (stmt_do (Statement_clear (be_stmt B))) Prepared"
    using stmt_ops by blast
  show ?thesis
    unfolding demo_statement_def
    by (intro goes_block_Cons[OF cout_safe] goes_block_Cons[OF goes_db_exec] goes_block_Cons[OF d(1)]
        goes_block_Cons[OF stmt_new] goes_block_Cons[OF goes_for_upto] goes_bind_row goes_block_Cons[OF c]
        goes_block_Cons[OF d(2)] goes_block_Cons[OF goes_scalar] goes_block_Cons[OF rset_assign]
        goes_block_Cons[OF goes_print_fields[OF t]] goes_block_Cons[OF goes_rows_loop] goes_block_Nil)
      (use assms in simp_all)
qed

lemma goes_body: "moves at_stage Nothing (demo_body fuel B) Finished"
  unfolding demo_body_def
  by (intro goes_seq[OF db_new] goes_bind[OF goes_create] goes_block_Cons[OF transaction_safe] goes_block_Cons[OF goes_recreate]
      goes_block_Cons[OF goes_query] goes_block_Cons[OF goes_result_set] goes_block_Cons[OF goes_statement] goes_block_Nil)
    (simp_all add: INT_MAX_def)

section \<open>Leaving the program\<close>

lemma unwind_safe: "goes never (at_stage (Leaving x) n) (demo_unwind B) (released x)"
proof -
  let ?A = "at_stage (Leaving x)"
  let ?st = "destroy_local dm_stmt (\<lambda>x. dm_stmt_update (\<lambda>_. x)) (be_stmt_destroy B)"
    and ?t = "destroy_local dm_t (\<lambda>x. dm_t_update (\<lambda>_. x)) (be_rset_destroy B)"
    and ?q = "destroy_local dm_q (\<lambda>x. dm_q_update (\<lambda>_. x)) (be_query_destroy B)"
    and ?db = "destroy_local dm_db (\<lambda>x. dm_db_update (\<lambda>_. x)) (be_db_destroy B)"
  have st: "goes never (?A n) ?st (?A n)" if "\<not> has_stmt n" for n
    using that shape by (auto simp: goes_def wlp_def destroy_absent)
  have t: "goes never (?A n) ?t (?A n)" if "\<not> has_rset n" for n
    using that shape by (auto simp: goes_def wlp_def destroy_absent)
  have q: "goes never (?A n) ?q (?A n)" if "\<not> has_query n" for n
    using that shape by (auto simp: goes_def wlp_def destroy_absent)
  have from_q: "goes never (?A n) (block [?q, ?db]) (released x)" if "\<not> has_rset n" for n
    using that goes_block_Cons[OF query_destroy goes_block_Cons[OF db_destroy goes_block_Nil]]
      goes_block_Cons[OF q goes_block_Cons[OF db_destroy goes_block_Nil], of n]
    by (cases "n \<in> {Reading, Queried}") simp_all
  have from_t: "goes never (?A n) (block [?t, ?q, ?db]) (released x)" if "\<not> has_stmt n" for n
    using that goes_block_Cons[OF rset_destroy from_q] goes_block_Cons[OF t from_q, of n]
    by (cases "n = Fetched") simp_all
  show ?thesis
    using goes_block_Cons[OF stmt_destroy from_t] goes_block_Cons[OF st from_t, of n]
    unfolding demo_unwind_def by (cases "has_stmt n") simp_all
qed

text \<open>Every way out of the \<open>try\<close> block and its handler leaves everything released.\<close>

lemma try_safe: "goes never (at_stage Running Nothing) (demo_try fuel B) (released None)"
proof (rule goesI)
  fix s assume "at_stage Running Nothing s"
  then have body: "wlp (demo_body fuel B) (\<lambda>_. at_stage Running Finished) (unwinding at_stage) s" by (rule goesD[OF goes_body])
  have caught: "goes never (at_stage (Leaving (Some e)) n) (seqP (demo_unwind B) (demo_handler B e)) (released None)" for n e
    by (rule goes_seq[OF unwind_safe handler])
  have "wlp (demo_body fuel B) (\<lambda>_. wlp (demo_unwind B) (\<lambda>_. released None) never)
      (\<lambda>e. wlp (seqP (demo_unwind B) (demo_handler B e)) (\<lambda>_. released None) never) s"
    by (rule wlp_mono[OF body]) (auto simp: unwinding_def intro: goesD[OF unwind_safe] goesD[OF caught] leave)
  then show "wlp (demo_try fuel B) (\<lambda>_. released None) never s"
    by (simp add: wlp_def[of "demo_body fuel B"] wlp_def[of "demo_try fuel B"] demo_try_def wlp_def[of "demo_unwind B"]
        wlp_def[of "seqP _ _"] split: prod.splits outcome.splits)
qed

end

end
