(* ===== verification/SqliteClasses.thy ===== *)
theory SqliteClasses
  imports ClassInterfaces SqliteDB
begin

text \<open>
  The classes declared in \<open>include/CppSQLite3.h\<close>: what each of them declares, as an implementation
  of its interface extended with its constructors, destructor, assignment and the functions the
  interface does not have.
\<close>

section \<open>Exceptions\<close>

record 'w CppSQLite3Exception_class = "(sq_exn \<times> 'w sq_mach, sq_exn) DatabaseException" +
  sqe_new :: "int \<Rightarrow> cmsg \<Rightarrow> bool \<Rightarrow> ('w sq_mach, sq_exn, sq_exn) prog"
  sqe_copy :: "sq_exn \<Rightarrow> sq_exn"
  sqe_assign :: "bool \<Rightarrow> sq_exn \<Rightarrow> sq_exn \<Rightarrow> sq_exn"
  sqe_default_isSqlite3_free :: bool

definition CppSQLite3Exception_members :: "'w sqlite3_lib \<Rightarrow> 'w CppSQLite3Exception_class" where
  "CppSQLite3Exception_members lb =
     \<lparr>Exception_errorCode = bindP get_this (\<lambda>e. ret (CppSQLite3Exception_errorCode e)),
      Exception_errorMessage = bindP get_this (\<lambda>e. lift_outcome (CppSQLite3Exception_errorMessage e)),
      sqe_new = CppSQLite3Exception lb, sqe_copy = CppSQLite3Exception_copy,
      sqe_assign = CppSQLite3Exception_assign, sqe_default_isSqlite3_free = False\<rparr>"

section \<open>Queries\<close>

record 'w CppSQLite3Query_class = "('w sq_qst, sq_exn) DatabaseQuery" +
  sqq_default :: sq_query
  sqq_copy :: "sq_query \<Rightarrow> sq_query \<times> sq_query"
  sqq_new :: "nat option \<Rightarrow> nat option \<Rightarrow> bool \<Rightarrow> ('w sq_mach, sq_exn, sq_query) prog"
  sqq_assign :: "bool \<Rightarrow> sq_query \<Rightarrow> sq_query \<Rightarrow> ('w sq_mach, sq_exn, sq_query \<times> sq_query) prog"
  sqq_destroy :: "('w sq_qst, sq_exn, unit) prog"
  sqq_getBlobField :: "int \<Rightarrow> ('w sq_qst, sq_exn, int \<times> bytes option) prog"
  sqq_getBlobField_by_name :: "string option \<Rightarrow> ('w sq_qst, sq_exn, int \<times> bytes option) prog"
  sqq_getHandle :: "sq_query \<Rightarrow> nat option"

definition CppSQLite3Query_members :: "'w sqlite3_lib \<Rightarrow> 'w CppSQLite3Query_class" where
  "CppSQLite3Query_members lb =
     \<lparr>Query_numFields = CppSQLite3Query_numFields lb, Query_fieldIndex = CppSQLite3Query_fieldIndex lb,
      Query_fieldName = CppSQLite3Query_fieldName lb, Query_fieldDataType = CppSQLite3Query_fieldDataType lb,
      Query_fieldValue = CppSQLite3Query_fieldValue lb,
      Query_fieldValue_by_name = CppSQLite3Query_fieldValue_by_name lb,
      Query_fieldDataIsNull = CppSQLite3Query_fieldDataIsNull lb, Query_eof = CppSQLite3Query_eof lb,
      Query_nextRow = CppSQLite3Query_nextRow lb, Query_clear = CppSQLite3Query_clear lb,
      Query_getIntField = CppSQLite3Query_getIntField lb,
      Query_getIntField_by_name = CppSQLite3Query_getIntField_by_name lb,
      Query_getDoubleField = CppSQLite3Query_getDoubleField lb,
      Query_getDoubleField_by_name = CppSQLite3Query_getDoubleField_by_name lb,
      Query_getStringField = CppSQLite3Query_getStringField lb,
      Query_getStringField_by_name = CppSQLite3Query_getStringField_by_name lb,
      sqq_default = CppSQLite3Query_default, sqq_copy = CppSQLite3Query_copy, sqq_new = CppSQLite3Query_new lb,
      sqq_assign = CppSQLite3Query_assign lb, sqq_destroy = CppSQLite3Query_destroy lb,
      sqq_getBlobField = CppSQLite3Query_getBlobField lb,
      sqq_getBlobField_by_name = CppSQLite3Query_getBlobField_by_name lb,
      sqq_getHandle = CppSQLite3Query_getHandle\<rparr>"

section \<open>Result sets\<close>

record 'w CppSQLite3ResultSet_class = "('w sq_rst, sq_exn) DatabaseResultSet" +
  sqr_default :: sq_rset
  sqr_copy :: "sq_rset \<Rightarrow> sq_rset \<times> sq_rset"
  sqr_new :: "nat option \<Rightarrow> ulong \<Rightarrow> int \<Rightarrow> sq_rset"
  sqr_assign :: "bool \<Rightarrow> sq_rset \<Rightarrow> sq_rset \<Rightarrow> ('w sq_mach, sq_exn, sq_rset \<times> sq_rset) prog"
  sqr_destroy :: "('w sq_rst, sq_exn, unit) prog"

definition CppSQLite3ResultSet_members :: "'w sqlite3_lib \<Rightarrow> 'w CppSQLite3ResultSet_class" where
  "CppSQLite3ResultSet_members lb =
     \<lparr>ResultSet_numFields = CppSQLite3ResultSet_numFields lb, ResultSet_numRows = CppSQLite3ResultSet_numRows lb,
      ResultSet_FieldColIndex = CppSQLite3ResultSet_FieldColIndex lb,
      ResultSet_fieldName = CppSQLite3ResultSet_fieldName lb,
      ResultSet_fieldValue = CppSQLite3ResultSet_fieldValue lb,
      ResultSet_fieldValue_by_name = CppSQLite3ResultSet_fieldValue_by_name lb,
      ResultSet_fieldDataIsNull = CppSQLite3ResultSet_fieldDataIsNull lb,
      ResultSet_eof = CppSQLite3ResultSet_eof, ResultSet_nextRow = CppSQLite3ResultSet_nextRow,
      ResultSet_seekRow = CppSQLite3ResultSet_seekRow, ResultSet_clear = CppSQLite3ResultSet_clear,
      sqr_default = CppSQLite3ResultSet_default, sqr_copy = CppSQLite3ResultSet_copy,
      sqr_new = CppSQLite3ResultSet_new, sqr_assign = CppSQLite3ResultSet_assign,
      sqr_destroy = CppSQLite3ResultSet_destroy\<rparr>"

section \<open>Statements\<close>

record 'w CppSQLite3Statement_class = "('w sq_sst, sq_exn, string option) DatabaseStatement" +
  sqs_default :: sq_stmt
  sqs_copy :: "sq_stmt \<Rightarrow> sq_stmt \<times> sq_stmt"
  sqs_new :: "nat option \<Rightarrow> nat option \<Rightarrow> sq_stmt"
  sqs_assign :: "bool \<Rightarrow> sq_stmt \<Rightarrow> sq_stmt \<Rightarrow> ('w sq_mach, sq_exn, sq_stmt \<times> sq_stmt) prog"
  sqs_destroy :: "('w sq_sst, sq_exn, unit) prog"
  sqs_execQuery :: "('w sq_sst, sq_exn, sq_query) prog"
  sqs_bind_blob :: "int \<Rightarrow> bytes option \<Rightarrow> int \<Rightarrow> ('w sq_sst, sq_exn, unit) prog"
  sqs_bindNull :: "int \<Rightarrow> ('w sq_sst, sq_exn, unit) prog"
  sqs_getHandle :: "sq_stmt \<Rightarrow> nat option"

definition CppSQLite3Statement_members :: "'w sqlite3_lib \<Rightarrow> 'w CppSQLite3Statement_class" where
  "CppSQLite3Statement_members lb =
     \<lparr>Statement_execDML = CppSQLite3Statement_execDML lb, Statement_bind_text = CppSQLite3Statement_bind_text lb,
      Statement_bind_int = CppSQLite3Statement_bind_int lb,
      Statement_bind_double = CppSQLite3Statement_bind_double lb,
      Statement_reset = CppSQLite3Statement_reset lb, Statement_clear = CppSQLite3Statement_clear lb,
      sqs_default = CppSQLite3Statement_default, sqs_copy = CppSQLite3Statement_copy,
      sqs_new = CppSQLite3Statement_new, sqs_assign = CppSQLite3Statement_assign,
      sqs_destroy = CppSQLite3Statement_destroy lb, sqs_execQuery = CppSQLite3Statement_execQuery lb,
      sqs_bind_blob = CppSQLite3Statement_bind_blob lb, sqs_bindNull = CppSQLite3Statement_bindNull lb,
      sqs_getHandle = CppSQLite3Statement_getHandle\<rparr>"

section \<open>Connections\<close>

record 'w CppSQLite3DB_class = "('w sq_dbst, sq_exn, sq_query) DatabaseLayer_class" +
  sqd_default :: sq_db
  sqd_destroy :: "('w sq_dbst, sq_exn, unit) prog"
  sqd_getResultSet :: "string \<Rightarrow> ('w sq_dbst, sq_exn, sq_rset) prog"
  sqd_compileStatement :: "string \<Rightarrow> ('w sq_dbst, sq_exn, sq_stmt) prog"
  sqd_setBusyTimeout :: "int \<Rightarrow> ('w sq_dbst, sq_exn, unit) prog"
  sqd_getDBHandle :: "sq_db \<Rightarrow> nat option"

text \<open>The copy constructor and the assignment are private: no client copies a connection.\<close>

definition CppSQLite3DB_members :: "'w sqlite3_lib \<Rightarrow> 'w CppSQLite3DB_class" where
  "CppSQLite3DB_members lb =
     \<lparr>DB_open = CppSQLite3DB_open lb, DB_close = CppSQLite3DB_close lb,
      DB_tableExists = CppSQLite3DB_tableExists lb, DB_execDML = CppSQLite3DB_execDML lb,
      DB_execQuery = CppSQLite3DB_execQuery lb, DB_execScalar = CppSQLite3DB_execScalar lb,
      DB_startTransaction = CppSQLite3DB_startTransaction lb,
      DB_commitTransaction = CppSQLite3DB_commitTransaction lb, DB_rollback = CppSQLite3DB_rollback lb,
      DB_isTransaction = CppSQLite3DB_isTransaction lb,
      sqd_default = CppSQLite3DB_default, sqd_destroy = CppSQLite3DB_destroy lb,
      sqd_getResultSet = CppSQLite3DB_getResultSet lb, sqd_compileStatement = CppSQLite3DB_compileStatement lb,
      sqd_setBusyTimeout = CppSQLite3DB_setBusyTimeout lb, sqd_getDBHandle = CppSQLite3DB_getDBHandle\<rparr>"

section \<open>The client loops\<close>

lemma read_row_sqlite: "read_row (CppSQLite3Query_members lb) d = query_row lb d"
  by (simp add: read_row_def query_row_def CppSQLite3Query_members_def)

end
