(* ===== verification/SqliteSafety.thy ===== *)
theory SqliteSafety
  imports Triples SqliteClasses
begin

text \<open>
  The SQLite classes as the demonstration program uses them: what is live in the machine is what the
  objects hold, and every member function keeps it that way, whatever the library answers.
\<close>

section \<open>The library\<close>

text \<open>
  Documented in \<open>sqlite3.h\<close>: a failing \<open>sqlite3_prepare_v2\<close> sets the statement to NULL, a successful
  \<open>sqlite3_exec\<close> or \<open>sqlite3_get_table\<close> leaves no message, a failing \<open>sqlite3_get_table\<close> no table, and
  their result codes are not codes of the wrapper.
\<close>

definition sq_documented :: "'w sqlite3_lib \<Rightarrow> bool" where
  "sq_documented lb \<longleftrightarrow>
     (\<forall>d sql h w rc some w'. sqlite3_prepare_v2 lb d sql h w = ((rc, some), w') \<longrightarrow> rc \<noteq> SQLITE_OK \<longrightarrow> \<not> some) \<and>
     (\<forall>d sql w rc err w'. sqlite3_exec lb d sql w = ((rc, err), w') \<longrightarrow>
        (if rc = SQLITE_OK then err = None else \<not> sq_own_code rc)) \<and>
     (\<forall>d sql w rc cells nr nc err w'. sqlite3_get_table lb d sql w = ((rc, cells, nr, nc, err), w') \<longrightarrow>
        (if rc = SQLITE_OK then err = None else cells = None \<and> \<not> sq_own_code rc))"

lemma sq_documentedD:
  assumes "sq_documented lb"
  shows "sqlite3_prepare_v2 lb d sql h w = ((rc, True), w') \<Longrightarrow> rc = SQLITE_OK"
    and "sqlite3_exec lb d sql w = ((SQLITE_OK, err), w') \<Longrightarrow> err = None"
    and "sqlite3_exec lb d sql w = ((rc, err), w') \<Longrightarrow> rc \<noteq> SQLITE_OK \<Longrightarrow> \<not> sq_own_code rc"
    and "sqlite3_get_table lb d sql w = ((SQLITE_OK, cells, nr, nc, err), w') \<Longrightarrow> err = None"
    and "sqlite3_get_table lb d sql w = ((rc, cells, nr, nc, err), w') \<Longrightarrow> rc \<noteq> SQLITE_OK \<Longrightarrow> cells = None"
    and "sqlite3_get_table lb d sql w = ((rc, cells, nr, nc, err), w') \<Longrightarrow> rc \<noteq> SQLITE_OK \<Longrightarrow> \<not> sq_own_code rc"
  using assms unfolding sq_documented_def by (metis (full_types))+

section \<open>Calls\<close>

lemma wlp_lib_call [wlp_simps]:
  "wlp (lib_call f) Q E =
     (\<lambda>m. (\<forall>r w'. f (lib m) = (r, w') \<longrightarrow> Q r (m\<lparr>lib := w'\<rparr>)))"
  by (rule ext) (auto simp: wlp_def lib_call_def split: prod.split)

lemma wlp_db_call [wlp_simps]:
  "wlp (db_call p f) Q E =
     (\<lambda>m. (\<forall>d. p = Some d \<longrightarrow> d \<in> live_db m \<and> wlp (lib_call (f d)) Q E m))"
  by (rule ext) (auto simp: wlp_def db_call_def split: option.split)

lemma wlp_stmt_call [wlp_simps]:
  "wlp (stmt_call p f) Q E =
     (\<lambda>m. (\<forall>h. p = Some h \<longrightarrow> h \<in> live_stmt m \<and> wlp (lib_call (f h)) Q E m))"
  by (rule ext) (auto simp: wlp_def stmt_call_def split: option.split)

lemma wlp_call_step [wlp_simps]:
  "wlp (call_step lb p) Q E =
     (\<lambda>m. set_option p \<subseteq> live_stmt m \<and> wlp (lib_call (sqlite3_step lb p)) Q E m)"
  by (rule ext) (auto simp: wlp_def call_step_def)

lemma wlp_call_errmsg [wlp_simps]:
  "wlp (call_errmsg lb p) Q E =
     (\<lambda>m. set_option p \<subseteq> live_db m \<and> wlp (lib_call (sqlite3_errmsg lb p)) (\<lambda>s. Q (BorrowedMsg s)) E m)"
  by (rule ext) (auto simp: wlp_def call_errmsg_def lib_call_def bindP_def split: prod.split)

lemma wlp_fresh_id [wlp_simps]:
  "wlp fresh_id Q E = (\<lambda>m. Q (next_id m) (m\<lparr>next_id := Suc (next_id m)\<rparr>))"
  by (rule ext) (simp add: wlp_def fresh_id_def)

lemma wlp_call_finalize [wlp_simps]:
  "wlp (call_finalize lb p) Q E =
     (\<lambda>m. set_option p \<subseteq> live_stmt m \<and>
     wlp (lib_call (sqlite3_finalize lb p)) (\<lambda>rc m. Q rc (m\<lparr>live_stmt := live_stmt m - set_option p\<rparr>)) E m)"
  by (rule ext) (auto simp: wlp_def call_finalize_def lib_call_def bindP_def split: prod.split)

lemma wlp_call_free_table [wlp_simps]:
  "wlp (call_free_table p) Q E =
     (\<lambda>m. set_option p \<subseteq> dom (tables m) \<and> Q () (m\<lparr>tables := (tables m) |` (- set_option p)\<rparr>))"
proof (rule ext, cases p)
  fix m :: "'a sq_mach"
  case (Some t)
  have "(tables m) |` (- {t}) = (tables m)(t := None)" by (rule ext) (simp add: restrict_map_def)
  then show "wlp (call_free_table p) Q E m =
      (set_option p \<subseteq> dom (tables m) \<and> Q () (m\<lparr>tables := (tables m) |` (- set_option p)\<rparr>))"
    using Some by (auto simp: wlp_def call_free_table_def)
next
  fix m :: "'a sq_mach"
  case None
  have "tables m |` UNIV = tables m" by (rule ext) (simp add: restrict_map_def)
  then have "m\<lparr>tables := tables m |` UNIV\<rparr> = m" by (cases m) simp
  then show "wlp (call_free_table p) Q E m =
      (set_option p \<subseteq> dom (tables m) \<and> Q () (m\<lparr>tables := (tables m) |` (- set_option p)\<rparr>))"
    using None by (simp add: wlp_def call_free_table_def)
qed

lemma wlp_table_cell [wlp_simps]:
  "wlp (table_cell p i) Q E =
     (\<lambda>m. (\<forall>t. p = Some t \<longrightarrow>
        (\<exists>cs. tables m t = Some cs \<and> (0 \<le> i \<and> i < int (length cs) \<longrightarrow> Q (cs ! nat i) m))))"
  by (rule ext) (auto simp: wlp_def table_cell_def split: option.split)

lemma wlp_call_open [wlp_simps]:
  "wlp (call_open lb f) Q E =
     (\<lambda>m. (\<forall>rc some w'. sqlite3_open lb f (next_id m) (lib m) = ((rc, some), w') \<longrightarrow>
        (if some
         then Q (rc, Some (next_id m)) (m\<lparr>next_id := Suc (next_id m), lib := w', live_db := insert (next_id m) (live_db m)\<rparr>)
         else Q (rc, None) (m\<lparr>next_id := Suc (next_id m), lib := w'\<rparr>))))"
  by (rule ext) (auto simp: wlp_def call_open_def bindP_def fresh_id_def lib_call_def split: prod.split)

lemma wlp_call_close [wlp_simps]:
  "wlp (call_close lb p) Q E =
     (\<lambda>m. wlp (db_call p (sqlite3_close lb))
       (\<lambda>rc m. Q rc (if rc = SQLITE_OK then m\<lparr>live_db := live_db m - set_option p\<rparr> else m)) E m)"
  unfolding call_close_def wlp_bindP wlp_state ..

lemma wlp_call_prepare [wlp_simps]:
  "wlp (call_prepare lb p sql) Q E =
     (\<lambda>m. (\<forall>d. p = Some d \<longrightarrow> d \<in> live_db m \<and>
        (\<forall>rc some w'. sqlite3_prepare_v2 lb d sql (next_id m) (lib m) = ((rc, some), w') \<longrightarrow>
           (if some
            then Q (rc, Some (next_id m)) (m\<lparr>next_id := Suc (next_id m), lib := w', live_stmt := insert (next_id m) (live_stmt m)\<rparr>)
            else Q (rc, None) (m\<lparr>next_id := Suc (next_id m), lib := w'\<rparr>)))))"
  by (rule ext) (auto simp: wlp_def call_prepare_def bindP_def fresh_id_def db_call_def lib_call_def split: prod.split option.split)

section \<open>What is thrown\<close>

definition sq_exn_ok :: "sq_exn \<Rightarrow> bool" where
  "sq_exn_ok e \<longleftrightarrow> (\<exists>t. CppSQLite3Exception_errorMessage e = Ret t)"

lemma read_cstr_terminated:
  "None \<notin> set bs \<Longrightarrow> Some NUL \<in> set bs \<Longrightarrow> \<exists>t. read_cstr bs = Ret t"
  by (induction bs rule: read_cstr.induct) auto

lemma sq_exn_ok_error [simp]: "sq_exn_ok (sq_error lb n msg)"
proof -
  have t: "\<exists>t. read_cstr (write_prefix xs (zeroed_buf 256)) = Ret t" if "length xs \<le> 255" for xs
  proof -
    have "drop (length xs) (zeroed_buf 256) = Some NUL # replicate (255 - length xs) (Some NUL)"
      using that by (simp add: zeroed_buf_def Suc_diff_le flip: replicate_Suc)
    then show ?thesis by (intro read_cstr_terminated) (auto simp: write_prefix_def)
  qed
  show ?thesis
    unfolding sq_exn_ok_def CppSQLite3Exception_errorMessage_def sq_error_def BUF_SIZE_def
    by (cases "build lb") (auto intro!: t)
qed

lemma wlp_throw_sq [wlp_simps]:
  "wlp (throw_sq lb n (BorrowedMsg t) fl) Q E =
     (\<lambda>m. fl \<and> \<not> sq_own_code n \<or> E (sq_error lb n (Some t)) m)"
  by (cases "fl \<and> \<not> sq_own_code n") (auto simp: wlp_def throw_sq_borrowed throw_sq_plain)

section \<open>What is live\<close>

text \<open>The live connections, statements and tables, no message left behind, and new numbers are new.\<close>

definition sq_mem :: "nat set \<Rightarrow> nat set \<Rightarrow> nat set \<Rightarrow> 'w sq_mach \<Rightarrow> bool" where
  "sq_mem D S T m \<longleftrightarrow>
     live_db m = D \<and> live_stmt m = S \<and> dom (tables m) = T \<and> live_msg m = {} \<and> ids_fresh m"

lemma sq_mem_lib [simp]: "sq_mem D S T (m\<lparr>lib := w\<rparr>) = sq_mem D S T m"
  by (simp add: sq_mem_def ids_fresh_def)

lemma sq_memD:
  assumes "sq_mem D S T m"
  shows "live_db m = D" and "live_stmt m = S" and "dom (tables m) = T" and "next_id m \<notin> S" and "next_id m \<notin> T"
  using assms by (auto simp: sq_mem_def ids_fresh_def)

lemma sq_mem_prepare:
  "sq_mem D S T m \<Longrightarrow>
   sq_mem D (insert (next_id m) S) T
     (m\<lparr>next_id := Suc (next_id m), lib := w, live_stmt := insert (next_id m) (live_stmt m)\<rparr>)"
  by (auto simp: sq_mem_def ids_fresh_def less_SucI)

lemma sq_mem_next: "sq_mem D S T m \<Longrightarrow> sq_mem D S T (m\<lparr>next_id := Suc (next_id m)\<rparr>)"
  by (auto simp: sq_mem_def ids_fresh_def less_SucI)

definition query_mem :: "nat set \<Rightarrow> nat set \<Rightarrow> nat set \<Rightarrow> 'w sq_qst \<Rightarrow> bool" where
  "query_mem D S T x \<longleftrightarrow>
     sq_mem D (S \<union> set_option (q_m_pStmt (fst x))) T (snd x) \<and> S \<inter> set_option (q_m_pStmt (fst x)) = {} \<and>
     (\<exists>p. q_m_pDB (fst x) = Init p \<and> set_option p \<subseteq> D) \<and>
     (q_m_pStmt (fst x) = None \<or> q_m_nFieldsCount (fst x) \<noteq> Uninit)"

abbreviation thrown :: "('s \<Rightarrow> bool) \<Rightarrow> sq_exn \<Rightarrow> 's \<Rightarrow> bool" where
  "thrown I e s \<equiv> sq_exn_ok e \<and> I s"

lemmas query_safe_defs =
  goes_def CppSQLite3Query_checkStmt_def query_check_col_def query_stmt_call_def query_throw_errmsg_def wlp_simps

lemma query_mem_lib [simp]: "query_mem D S T (q, m\<lparr>lib := w\<rparr>) = query_mem D S T (q, m)"
  by (simp add: query_mem_def)

lemma query_memD:
  assumes "query_mem D S T (q, m)"
  shows "set_option (q_m_pStmt q) \<subseteq> live_stmt m" and "q_m_pStmt q = None \<or> q_m_nFieldsCount q \<noteq> Uninit"
    and "q_m_pDB q \<noteq> Uninit" and "q_m_pDB q = Init p \<Longrightarrow> set_option p \<subseteq> live_db m"
  using assms by (auto simp: query_mem_def sq_mem_def)

lemma goes_query_eof: "goes (thrown (query_mem D S T)) (query_mem D S T) (CppSQLite3Query_eof lb) (query_mem D S T)"
  by (auto simp: CppSQLite3Query_eof_def query_safe_defs)

lemma goes_query_numFields:
  "goes (thrown (query_mem D S T)) (query_mem D S T) (CppSQLite3Query_numFields lb) (query_mem D S T)"
  by (auto simp: CppSQLite3Query_numFields_def query_safe_defs split: cell.split dest: query_memD)

lemma goes_query_fieldName:
  "goes (thrown (query_mem D S T)) (query_mem D S T) (CppSQLite3Query_fieldName lb i) (query_mem D S T)"
  by (auto simp: CppSQLite3Query_fieldName_def query_safe_defs split: cell.split dest: query_memD)

lemma goes_query_getStringField:
  "goes (thrown (query_mem D S T)) (query_mem D S T) (CppSQLite3Query_getStringField lb i d) (query_mem D S T)"
  by (auto simp: CppSQLite3Query_getStringField_def CppSQLite3Query_fieldDataIsNull_def CppSQLite3Query_fieldDataType_def
      CppSQLite3Query_fieldValue_def query_safe_defs split: cell.split dest: query_memD)

lemma goes_query_getIntField:
  "goes (thrown (query_mem D S T)) (query_mem D S T) (CppSQLite3Query_getIntField lb i n) (query_mem D S T)"
  by (auto simp: CppSQLite3Query_getIntField_def CppSQLite3Query_fieldDataIsNull_def CppSQLite3Query_fieldDataType_def
      query_safe_defs split: cell.split dest: query_memD)

lemma query_mem_finalize:
  "query_mem D S T (q, m) \<Longrightarrow> q_m_pStmt q = Some h \<Longrightarrow>
   query_mem D S T (q\<lparr>q_m_pStmt := None\<rparr>, m\<lparr>live_stmt := live_stmt m - {h}\<rparr>)"
  "query_mem D S T (q, m) \<Longrightarrow> q_m_pStmt q = Some h \<Longrightarrow>
   query_mem D S T (q\<lparr>q_m_pStmt := None\<rparr>, m\<lparr>lib := w, live_stmt := live_stmt m - {h}\<rparr>)"
  by (auto simp: query_mem_def sq_mem_def ids_fresh_def)

lemma query_mem_bEof [simp]: "query_mem D S T (q\<lparr>q_m_bEof := b\<rparr>, m) = query_mem D S T (q, m)"
  by (simp add: query_mem_def)

lemma query_clear_safe:
  assumes "query_mem D S T s"
  shows "wlp (CppSQLite3Query_clear lb) (\<lambda>_ s. query_mem D S T s \<and> q_m_pStmt (fst s) = None)
           (\<lambda>e s. sq_exn_ok e \<and> query_mem D S T s \<and> q_m_pStmt (fst s) = None) s"
  using assms
  by (cases s) (auto simp: CppSQLite3Query_clear_def query_safe_defs split: cell.split dest: query_memD query_mem_finalize)

lemma goes_query_clear:
  "goes (thrown (query_mem D S T)) (query_mem D S T) (CppSQLite3Query_clear lb) (query_mem D S T)"
  by (rule goesI, rule wlp_mono[OF query_clear_safe]) auto

lemma goes_query_nextRow:
  "goes (thrown (query_mem D S T)) (query_mem D S T) (CppSQLite3Query_nextRow lb) (query_mem D S T)"
  by (auto simp: CppSQLite3Query_nextRow_def query_safe_defs split: cell.split dest: query_memD query_mem_finalize)

text \<open>The destructor leaves nothing live but what the others hold.\<close>

lemma query_destroy_safe:
  assumes "query_mem D S T s"
  shows "wlp (CppSQLite3Query_destroy lb) (\<lambda>_ s. sq_mem D S T (snd s)) (\<lambda>_ _. False) s"
  unfolding CppSQLite3Query_destroy_def wlp_catch_all
  by (rule wlp_mono[OF query_clear_safe[OF assms]]) (auto simp: query_mem_def)

text \<open>The assignment from an object that holds \<open>Y\<close>: that is what the target then holds.\<close>

lemma wlp_query_assign:
  "wlp (CppSQLite3Query_assign lb False x y) Q E m =
     wlp (catch_all (CppSQLite3Query_clear lb))
       (\<lambda>_ (x', m'). Q (x'\<lparr>q_m_pStmt := q_m_pStmt y, q_m_bEof := q_m_bEof y, q_m_nFieldsCount := q_m_nFieldsCount y\<rparr>,
          y\<lparr>q_m_pStmt := None\<rparr>) m') (\<lambda>e (x', m'). E e m') (x, m)"
  by (simp add: wlp_def CppSQLite3Query_assign_def split: prod.split outcome.split)

lemma query_assign_safe:
  assumes "query_mem D (S \<union> set_option (q_m_pStmt y)) T (x, m)" and "query_mem D (S \<union> set_option (q_m_pStmt x)) T (y, m)"
    and "S \<inter> set_option (q_m_pStmt x) = {}"
  shows "wlp (CppSQLite3Query_assign lb False x y)
           (\<lambda>(x', y') m'. query_mem D S T (x', m') \<and> q_m_pStmt y' = None) (\<lambda>_ _. False) m"
  unfolding wlp_query_assign wlp_catch_all
  by (rule wlp_mono[OF query_clear_safe[OF assms(1)]]) (use assms(2,3) in \<open>auto simp: query_mem_def\<close>)

section \<open>Result sets\<close>

definition rset_mem :: "nat set \<Rightarrow> nat set \<Rightarrow> nat set \<Rightarrow> 'w sq_rst \<Rightarrow> bool" where
  "rset_mem D S T x \<longleftrightarrow>
     sq_mem D S (T \<union> set_option (rs_m_paszResults (fst x))) (snd x) \<and> T \<inter> set_option (rs_m_paszResults (fst x)) = {}"

lemma rset_memD: "rset_mem D S T (t, m) \<Longrightarrow> set_option (rs_m_paszResults t) \<subseteq> dom (tables m)"
  by (auto simp: rset_mem_def sq_mem_def)

lemma rset_mem_cell: "rset_mem D S T (t, m) \<Longrightarrow> rs_m_paszResults t = Some p \<Longrightarrow> \<exists>cs. tables m p = Some cs"
  using rset_memD by fastforce

lemma rset_mem_row [simp]: "rset_mem D S T (t\<lparr>rs_m_nCurrentRow := r\<rparr>, m) = rset_mem D S T (t, m)"
  by (simp add: rset_mem_def)

lemmas rset_safe_defs =
  goes_def CppSQLite3ResultSet_checkResults_def rset_cell_def rset_index_def CppSQLite3ResultSet_fieldRealIndex_def
  Let_def wlp_simps

lemma goes_rset_numFields:
  "goes (thrown (rset_mem D S T)) (rset_mem D S T) (CppSQLite3ResultSet_numFields lb) (rset_mem D S T)"
  by (auto simp: CppSQLite3ResultSet_numFields_def rset_safe_defs)

lemma goes_rset_numRows:
  "goes (thrown (rset_mem D S T)) (rset_mem D S T) (CppSQLite3ResultSet_numRows lb) (rset_mem D S T)"
  by (auto simp: CppSQLite3ResultSet_numRows_def rset_safe_defs)

lemma goes_rset_fieldName:
  "goes (thrown (rset_mem D S T)) (rset_mem D S T) (CppSQLite3ResultSet_fieldName lb i) (rset_mem D S T)"
  by (auto simp: CppSQLite3ResultSet_fieldName_def rset_safe_defs dest: rset_mem_cell)

lemma goes_rset_fieldValue:
  "goes (thrown (rset_mem D S T)) (rset_mem D S T) (CppSQLite3ResultSet_fieldValue lb i) (rset_mem D S T)"
  by (auto simp: CppSQLite3ResultSet_fieldValue_def rset_safe_defs dest: rset_mem_cell)

lemma goes_rset_seekRow:
  "goes (thrown (rset_mem D S T)) (rset_mem D S T) (CppSQLite3ResultSet_seekRow r) (rset_mem D S T)"
  by (auto simp: CppSQLite3ResultSet_seekRow_def rset_safe_defs)

lemma goes_rset_eof: "goes (thrown (rset_mem D S T)) (rset_mem D S T) CppSQLite3ResultSet_eof (rset_mem D S T)"
  by (auto simp: CppSQLite3ResultSet_eof_def rset_safe_defs)

lemma goes_rset_nextRow: "goes (thrown (rset_mem D S T)) (rset_mem D S T) CppSQLite3ResultSet_nextRow (rset_mem D S T)"
  by (auto simp: CppSQLite3ResultSet_nextRow_def rset_safe_defs)

lemma rset_clear_safe:
  assumes "rset_mem D S T s"
  shows "wlp CppSQLite3ResultSet_clear (\<lambda>_ s. rset_mem D S T s \<and> rs_m_paszResults (fst s) = None) (\<lambda>_ _. False) s"
  using assms
  by (cases s) (auto simp: CppSQLite3ResultSet_clear_def rset_mem_def sq_mem_def ids_fresh_def wlp_simps)

lemma goes_rset_clear: "goes (thrown (rset_mem D S T)) (rset_mem D S T) CppSQLite3ResultSet_clear (rset_mem D S T)"
  by (rule goesI, rule wlp_mono[OF rset_clear_safe]) auto

lemma rset_destroy_safe:
  assumes "rset_mem D S T s"
  shows "wlp CppSQLite3ResultSet_destroy (\<lambda>_ s. sq_mem D S T (snd s)) (\<lambda>_ _. False) s"
  unfolding CppSQLite3ResultSet_destroy_def wlp_catch_all
  by (rule wlp_mono[OF rset_clear_safe[OF assms]]) (auto simp: rset_mem_def)

lemma wlp_rset_assign:
  "wlp (CppSQLite3ResultSet_assign False x y) Q E m =
     wlp (catch_all CppSQLite3ResultSet_clear)
       (\<lambda>_ (x', m'). Q (x'\<lparr>rs_m_paszResults := rs_m_paszResults y, rs_m_nRows := rs_m_nRows y, rs_m_nCols := rs_m_nCols y,
          rs_m_nCurrentRow := rs_m_nCurrentRow y\<rparr>, y\<lparr>rs_m_paszResults := None\<rparr>) m') (\<lambda>e (x', m'). E e m') (x, m)"
  by (simp add: wlp_def CppSQLite3ResultSet_assign_def split: prod.split outcome.split)

lemma rset_assign_safe:
  assumes "rset_mem D S (T \<union> set_option (rs_m_paszResults y)) (x, m)" and "T \<inter> set_option (rs_m_paszResults y) = {}"
  shows "wlp (CppSQLite3ResultSet_assign False x y)
           (\<lambda>(x', y') m'. rset_mem D S T (x', m') \<and> rs_m_paszResults y' = None) (\<lambda>_ _. False) m"
  unfolding wlp_rset_assign wlp_catch_all
  by (rule wlp_mono[OF rset_clear_safe[OF assms(1)]]) (use assms(2) in \<open>auto simp: rset_mem_def\<close>)

section \<open>Statements\<close>

definition stmt_mem :: "nat set \<Rightarrow> nat set \<Rightarrow> nat set \<Rightarrow> 'w sq_sst \<Rightarrow> bool" where
  "stmt_mem D S T x \<longleftrightarrow>
     sq_mem D (S \<union> set_option (st_m_pStmt (fst x))) T (snd x) \<and> S \<inter> set_option (st_m_pStmt (fst x)) = {} \<and>
     set_option (st_m_pDB (fst x)) \<subseteq> D"

lemma stmt_mem_lib [simp]: "stmt_mem D S T (t, m\<lparr>lib := w\<rparr>) = stmt_mem D S T (t, m)"
  by (simp add: stmt_mem_def)

lemma stmt_memD:
  assumes "stmt_mem D S T (t, m)"
  shows "set_option (st_m_pStmt t) \<subseteq> live_stmt m" and "set_option (st_m_pDB t) \<subseteq> live_db m"
  using assms by (auto simp: stmt_mem_def sq_mem_def)

lemmas stmt_safe_defs =
  goes_def CppSQLite3Statement_checkDB_def CppSQLite3Statement_checkStmt_def stmt_handle_call_def stmt_throw_errmsg_def
  stmt_bind_def wlp_simps

lemma goes_stmt_bind_int:
  "goes (thrown (stmt_mem D S T)) (stmt_mem D S T) (CppSQLite3Statement_bind_int lb i n) (stmt_mem D S T)"
  by (auto simp: CppSQLite3Statement_bind_int_def stmt_safe_defs dest: stmt_memD)

lemma goes_stmt_bind_text:
  "goes (thrown (stmt_mem D S T)) (stmt_mem D S T) (CppSQLite3Statement_bind_text lb i t) (stmt_mem D S T)"
  by (auto simp: CppSQLite3Statement_bind_text_def stmt_safe_defs dest: stmt_memD)

lemma goes_stmt_execDML:
  "goes (thrown (stmt_mem D S T)) (stmt_mem D S T) (CppSQLite3Statement_execDML lb) (stmt_mem D S T)"
  by (auto simp: CppSQLite3Statement_execDML_def stmt_safe_defs dest: stmt_memD)

lemma goes_stmt_reset:
  "goes (thrown (stmt_mem D S T)) (stmt_mem D S T) (CppSQLite3Statement_reset lb) (stmt_mem D S T)"
  by (auto simp: CppSQLite3Statement_reset_def stmt_safe_defs dest: stmt_memD)

lemma stmt_mem_finalize:
  "stmt_mem D S T (t, m) \<Longrightarrow> st_m_pStmt t = Some h \<Longrightarrow>
   stmt_mem D S T (t\<lparr>st_m_pStmt := None\<rparr>, m\<lparr>live_stmt := live_stmt m - {h}\<rparr>)"
  "stmt_mem D S T (t, m) \<Longrightarrow> st_m_pStmt t = Some h \<Longrightarrow>
   stmt_mem D S T (t\<lparr>st_m_pStmt := None\<rparr>, m\<lparr>lib := w, live_stmt := live_stmt m - {h}\<rparr>)"
  by (auto simp: stmt_mem_def sq_mem_def ids_fresh_def)

lemma stmt_clear_safe:
  assumes "stmt_mem D S T s"
  shows "wlp (CppSQLite3Statement_clear lb) (\<lambda>_ s. stmt_mem D S T s \<and> st_m_pStmt (fst s) = None)
           (\<lambda>e s. sq_exn_ok e \<and> stmt_mem D S T s \<and> st_m_pStmt (fst s) = None) s"
  using assms
  by (cases s) (auto simp: CppSQLite3Statement_clear_def stmt_safe_defs dest: stmt_memD stmt_mem_finalize)

lemma goes_stmt_clear:
  "goes (thrown (stmt_mem D S T)) (stmt_mem D S T) (CppSQLite3Statement_clear lb) (stmt_mem D S T)"
  by (rule goesI, rule wlp_mono[OF stmt_clear_safe]) auto

lemma stmt_destroy_safe:
  assumes "stmt_mem D S T s"
  shows "wlp (CppSQLite3Statement_destroy lb) (\<lambda>_ s. sq_mem D S T (snd s)) (\<lambda>_ _. False) s"
  unfolding CppSQLite3Statement_destroy_def wlp_catch_all
  by (rule wlp_mono[OF stmt_clear_safe[OF assms]]) (auto simp: stmt_mem_def)

section \<open>Connections\<close>

definition db_mem :: "nat set \<Rightarrow> nat set \<Rightarrow> nat set \<Rightarrow> 'w sq_dbst \<Rightarrow> bool" where
  "db_mem D S T x \<longleftrightarrow> set_option (db_m_pDB (fst x)) = D \<and> sq_mem D S T (snd x)"

lemma db_mem_lib [simp]: "db_mem D S T (db, m\<lparr>lib := w\<rparr>) = db_mem D S T (db, m)"
  by (simp add: db_mem_def)

lemma db_memD: "db_mem D S T (db, m) \<Longrightarrow> set_option (db_m_pDB db) \<subseteq> live_db m"
  by (auto simp: db_mem_def sq_mem_def)

lemmas db_safe_defs = goes_def CppSQLite3DB_checkDB_def wlp_simps

text \<open>A message that \<open>sqlite3_exec\<close> or \<open>sqlite3_get_table\<close> leaves is released by the exception.\<close>

lemma wlp_alloc_throw:
  assumes "\<not> sq_own_code n" and "sq_mem D S T m" and "\<And>m'. sq_mem D S T m' \<Longrightarrow> E (sq_error lb n err) m'"
  shows "wlp (bindP (alloc_msg err) (\<lambda>msg. throw_sq lb n msg True)) Q E m"
proof (cases err)
  case None
  then show ?thesis using assms by (simp add: wlp_def prog_simps)
next
  case (Some t)
  let ?m1 = "m\<lparr>next_id := Suc (next_id m), live_msg := insert (next_id m) (live_msg m)\<rparr>"
  have "sq_mem D S T (?m1\<lparr>live_msg := live_msg ?m1 - {next_id m}\<rparr>)"
    using assms(2) by (auto simp: sq_mem_def ids_fresh_def less_SucI)
  then show ?thesis using Some assms by (simp add: wlp_def prog_simps)
qed

lemma goes_db_execDML:
  fixes lb :: "'w sqlite3_lib"
  assumes "sq_documented lb"
  shows "goes (thrown (db_mem D S T)) (db_mem D S T) (CppSQLite3DB_execDML lb sql) (db_mem D S T)"
proof (rule goesI)
  fix s :: "'w sq_dbst" assume i: "db_mem D S T s"
  obtain db m where s: "s = (db, m)" by (cases s)
  show "wlp (CppSQLite3DB_execDML lb sql) (\<lambda>_. db_mem D S T) (thrown (db_mem D S T)) s"
  proof (cases "db_m_pDB db")
    case None
    then show ?thesis using i by (simp add: s CppSQLite3DB_execDML_def db_safe_defs)
  next
    case (Some d)
    obtain rc err w' where x: "sqlite3_exec lb d sql (lib m) = ((rc, err), w')" by (metis surj_pair)
    have live: "d \<in> live_db m" using db_memD[OF i[unfolded s]] Some by simp
    have m: "sq_mem D S T (m\<lparr>lib := w'\<rparr>)" using i by (simp add: s db_mem_def)
    show ?thesis
    proof (cases "rc = SQLITE_OK")
      case True
      then have "err = None" using sq_documentedD(2)[OF assms] x by blast
      then show ?thesis
        using True x live i Some
        by (auto simp: s CppSQLite3DB_execDML_def db_safe_defs call_exec_def wlp_def[of "alloc_msg None"] alloc_msg_run)
    next
      case False
      then have own: "\<not> sq_own_code rc" using sq_documentedD(3)[OF assms] x by blast
      have E: "thrown (db_mem D S T) (sq_error lb rc err) (db, m')" if "sq_mem D S T m'" for m'
        using that i by (simp add: s db_mem_def)
      note t = wlp_alloc_throw[OF own m, of "\<lambda>e m. thrown (db_mem D S T) e (db, m)" lb err, OF E]
      show ?thesis
        using t False x live Some by (simp add: s CppSQLite3DB_execDML_def db_safe_defs call_exec_def)
    qed
  qed
qed

lemma goes_db_start_commit:
  assumes "sq_documented lb"
  shows "goes (thrown (db_mem D S T)) (db_mem D S T) (CppSQLite3DB_startTransaction lb) (db_mem D S T)"
    and "goes (thrown (db_mem D S T)) (db_mem D S T) (CppSQLite3DB_commitTransaction lb) (db_mem D S T)"
  unfolding CppSQLite3DB_startTransaction_def CppSQLite3DB_commitTransaction_def
  by (intro goes_seq[OF goes_db_execDML[OF assms]] goes_ret)+

lemma db_compile_safe:
  assumes "sq_documented lb" and "db_mem D S T s"
  shows "wlp (CppSQLite3DB_compile lb sql)
           (\<lambda>p x. fst x = fst s \<and> sq_mem D (S \<union> set_option p) T (snd x) \<and> S \<inter> set_option p = {})
           (thrown (db_mem D S T)) s"
  using assms(2)
  by (cases s) (auto simp: CppSQLite3DB_compile_def db_safe_defs db_mem_def sq_mem_next sq_mem_prepare
      dest: sq_documentedD(1)[OF assms(1)] sq_memD)

text \<open>\<open>execQuery\<close> gives a query that holds what is new, or throws and leaves nothing.\<close>

lemma query_new_safe:
  assumes "sq_mem D (S \<union> set_option p) T m" and "S \<inter> set_option p = {}" and "set_option db \<subseteq> D"
  shows "wlp (CppSQLite3Query_new lb db p b) (\<lambda>q m. query_mem D S T (q, m)) E m"
  using assms by (auto simp: CppSQLite3Query_new_def query_mem_def Let_def wlp_simps dest: sq_memD(2))

lemma wlp_checkDB:
  "db_mem D S T s \<Longrightarrow> wlp p Q (thrown (db_mem D S T)) s \<Longrightarrow>
   wlp (seqP (CppSQLite3DB_checkDB lb) p) Q (thrown (db_mem D S T)) s"
  by (simp add: CppSQLite3DB_checkDB_def wlp_simps)

lemma db_execQuery_safe:
  assumes "sq_documented lb" and "db_mem D S T s"
  shows "wlp (CppSQLite3DB_execQuery lb sql)
           (\<lambda>q x. fst x = fst s \<and> query_mem D S T (q, snd x)) (thrown (db_mem D S T)) s"
proof -
  have "set_option (db_m_pDB (fst s)) = D" using assms(2) by (simp add: db_mem_def)
  then show ?thesis
    unfolding CppSQLite3DB_execQuery_def
    by (intro wlp_checkDB[OF assms(2)], subst wlp_bindP, intro wlp_mono[OF db_compile_safe[OF assms]])
      (auto simp: wlp_simps db_mem_def sq_mem_def ids_fresh_def intro!: query_new_safe)
qed

lemma goes_scalar_body: "goes (thrown (query_mem D S T)) (query_mem D S T) (scalar_body lb n) (query_mem D S T)"
  unfolding scalar_body_def
  by (intro goes_bind[where K = "query_mem D S T"] goes_query_eof goes_if goes_ret goes_query_numFields
      goes_query_getIntField) (simp add: goes_def wlp_simps)

lemma db_execScalar_safe:
  assumes "sq_documented lb"
  shows "goes (thrown (db_mem D S T)) (db_mem D S T) (CppSQLite3DB_execScalar lb sql n) (db_mem D S T)"
proof (rule goesI)
  fix s :: "'a sq_dbst" assume s: "db_mem D S T s"
  have local: "wlp (with_local (CppSQLite3Query_destroy lb) q (scalar_body lb n)) (\<lambda>_. db_mem D S T) (thrown (db_mem D S T)) x"
    if "fst x = fst s \<and> query_mem D S T (q, snd x)" for q x
  proof -
    have D: "set_option (db_m_pDB (fst x)) = D" and q: "query_mem D S T (q, snd x)"
      using s that by (simp_all add: db_mem_def)
    show ?thesis
      unfolding wlp_with_local
      by (rule wlp_mono[OF goesD[OF goes_scalar_body q]]; rule wlp_mono[OF query_destroy_safe])
        (auto simp: db_mem_def D)
  qed
  show "wlp (CppSQLite3DB_execScalar lb sql n) (\<lambda>_. db_mem D S T) (thrown (db_mem D S T)) s"
    unfolding CppSQLite3DB_execScalar_def wlp_bindP
    by (rule wlp_mono[OF db_execQuery_safe[OF assms s] local])
qed

lemma goes_db_tableExists:
  assumes "sq_documented lb" and "cstring t" and "length (table_exists_sql t) < 254"
  shows "goes (thrown (db_mem D S T)) (db_mem D S T) (CppSQLite3DB_tableExists lb t) (db_mem D S T)"
proof -
  have c: "cstring (table_exists_sql t)" using assms(2) by (simp add: table_exists_sql_def NUL_def)
  have "read_cstr (snprintf (build lb) 255 (table_exists_sql t) (uninit_buf 256)) =
      (Ret (table_exists_sql t) :: (sq_exn, string) outcome)"
    using read_snprintf_C99_uninit[OF c, of 255 256] read_snprintf_MSVC_uninit[OF c, of 255 256] assms(3)
    by (cases "build lb") auto
  then show ?thesis
    unfolding CppSQLite3DB_tableExists_def
    by (intro goes_bind[where K = "db_mem D S T"] db_execScalar_safe assms(1) goes_ret)
      (simp add: goes_def wlp_simps del: snprintf.simps)
qed

lemma db_compileStatement_safe:
  assumes "sq_documented lb" and "db_mem D S T s"
  shows "wlp (CppSQLite3DB_compileStatement lb sql)
           (\<lambda>t x. fst x = fst s \<and> stmt_mem D S T (t, snd x)) (thrown (db_mem D S T)) s"
proof -
  have "set_option (db_m_pDB (fst s)) = D" using assms(2) by (simp add: db_mem_def)
  then show ?thesis
    unfolding CppSQLite3DB_compileStatement_def
    by (intro wlp_checkDB[OF assms(2)], subst wlp_bindP, intro wlp_mono[OF db_compile_safe[OF assms]])
      (auto simp: wlp_simps stmt_mem_def CppSQLite3Statement_new_def)
qed

lemma db_getResultSet_safe:
  assumes "sq_documented lb" and "db_mem D S T s"
  shows "wlp (CppSQLite3DB_getResultSet lb sql)
           (\<lambda>t x. fst x = fst s \<and> rset_mem D S T (t, snd x)) (thrown (db_mem D S T)) s"
proof -
  obtain db m where s: "s = (db, m)" by (cases s)
  show ?thesis
  proof (cases "db_m_pDB db")
    case None
    then show ?thesis using assms(2) by (simp add: s CppSQLite3DB_getResultSet_def db_safe_defs)
  next
    case (Some d)
    obtain rc cells nr nc err w' where x: "sqlite3_get_table lb d sql (lib m) = ((rc, cells, nr, nc, err), w')"
      by (metis surj_pair)
    have live: "d \<in> live_db m" using db_memD[OF assms(2)[unfolded s]] Some by simp
    have m: "sq_mem D S T (m\<lparr>lib := w'\<rparr>)" using assms(2) by (simp add: s db_mem_def)
    show ?thesis
    proof (cases "rc = SQLITE_OK")
      case True
      then have "err = None" using sq_documentedD(4)[OF assms(1)] x by blast
      then show ?thesis
        using True x live assms(2) Some
        by (cases cells)
          (auto simp: s CppSQLite3DB_getResultSet_def db_safe_defs call_get_table_def wlp_def[of "alloc_msg None"]
            alloc_msg_run wlp_state CppSQLite3ResultSet_new_def rset_mem_def db_mem_def sq_mem_def ids_fresh_def less_SucI)
    next
      case False
      then have own: "\<not> sq_own_code rc" "cells = None" using sq_documentedD(5,6)[OF assms(1)] x by blast+
      have E: "thrown (db_mem D S T) (sq_error lb rc err) (db, m')" if "sq_mem D S T m'" for m'
        using that assms(2) by (simp add: s db_mem_def)
      note t = wlp_alloc_throw[OF own(1) m, of "\<lambda>e m. thrown (db_mem D S T) e (db, m)" lb err, OF E]
      show ?thesis
        using t False x live Some own(2)
        by (simp add: s CppSQLite3DB_getResultSet_def db_safe_defs call_get_table_def wlp_state)
    qed
  qed
qed

lemma db_open_safe:
  assumes "db_mem {} S T s"
  shows "wlp (CppSQLite3DB_open lb f) (\<lambda>_ x. db_mem (set_option (db_m_pDB (fst x))) S T x)
           (\<lambda>e x. sq_exn_ok e \<and> db_mem (set_option (db_m_pDB (fst x))) S T x) s"
  using assms
  by (cases s) (auto simp: CppSQLite3DB_open_def db_mem_def sq_mem_def ids_fresh_def wlp_simps less_SucI)

lemma db_destroy_safe:
  assumes "db_mem D S T s"
  shows "wlp (CppSQLite3DB_destroy lb) (\<lambda>_ x. \<exists>D'. sq_mem D' S T (snd x)) (\<lambda>_ _. False) s"
  using assms
  by (cases s) (auto simp: CppSQLite3DB_destroy_def CppSQLite3DB_close_def db_mem_def sq_mem_def ids_fresh_def wlp_simps)

end
