(* ===== verification/MysqlClasses.thy ===== *)
theory MysqlClasses
  imports ClassInterfaces MysqlDB
begin

text \<open>
  The classes declared in \<open>include/CppMySQL.h\<close>: what each of them declares, as an implementation of
  its interface extended with its constructors, destructor, assignment and the functions the
  interface does not have.  A function that returns \<open>c_str()\<close> never returns a null pointer.
\<close>

section \<open>Exceptions\<close>

record 'w CppMySQLException_class = "(my_exn \<times> 'w my_mach, my_exn) DatabaseException" +
  mye_new :: "int \<Rightarrow> string option \<Rightarrow> ('w my_mach, my_exn, my_exn) prog"
  mye_copy :: "nat option option \<Rightarrow> my_exn \<Rightarrow> ('w my_mach, my_exn, my_exn \<times> my_exn) prog"
  mye_assign :: "bool \<Rightarrow> my_exn \<Rightarrow> my_exn \<Rightarrow> ('w my_mach, my_exn, my_exn \<times> my_exn) prog"
  mye_destroy :: "(my_exn \<times> 'w my_mach, my_exn, unit) prog"

definition CppMySQLException_members :: "'w CppMySQLException_class" where
  "CppMySQLException_members =
     \<lparr>Exception_errorCode = bindP get_this (\<lambda>e. ret (CppMySQLException_errorCode e)),
      Exception_errorMessage = bindP get_this (\<lambda>e. on_mach (CppMySQLException_errorMessage e)),
      mye_new = CppMySQLException, mye_copy = CppMySQLException_copy, mye_assign = CppMySQLException_assign,
      mye_destroy = CppMySQLException_destroy\<rparr>"

section \<open>Queries\<close>

record 'w CppMySQLQuery_class = "('w my_qst, my_exn) DatabaseQuery" +
  myq_default :: my_query
  myq_copy :: "my_query \<Rightarrow> my_query \<times> my_query"
  myq_new :: "nat option \<Rightarrow> ('w my_mach, my_exn, my_query) prog"
  myq_assign :: "bool \<Rightarrow> my_query \<Rightarrow> my_query \<Rightarrow> ('w my_mach, my_exn, my_query \<times> my_query) prog"
  myq_destroy :: "('w my_qst, my_exn, unit) prog"
  myq_numRows :: "('w my_qst, my_exn, ulong) prog"
  myq_seekRow :: "ulong \<Rightarrow> ('w my_qst, my_exn, ulong) prog"
  myq_getHandle :: "my_query \<Rightarrow> nat option"

definition CppMySQLQuery_members :: "'w mysql_lib \<Rightarrow> 'w CppMySQLQuery_class" where
  "CppMySQLQuery_members lb =
     \<lparr>Query_numFields = CppMySQLQuery_numFields, Query_fieldIndex = CppMySQLQuery_fieldIndex lb,
      Query_fieldName = CppMySQLQuery_fieldName lb, Query_fieldDataType = CppMySQLQuery_fieldDataType lb,
      Query_fieldValue = CppMySQLQuery_fieldValue,
      Query_fieldValue_by_name = CppMySQLQuery_fieldValue_by_name lb,
      Query_fieldDataIsNull = CppMySQLQuery_fieldDataIsNull, Query_eof = CppMySQLQuery_eof,
      Query_nextRow = CppMySQLQuery_nextRow lb, Query_clear = CppMySQLQuery_clear lb,
      Query_getIntField = CppMySQLQuery_getIntField,
      Query_getIntField_by_name = CppMySQLQuery_getIntField_by_name lb,
      Query_getDoubleField = CppMySQLQuery_getDoubleField lb,
      Query_getDoubleField_by_name = CppMySQLQuery_getDoubleField_by_name lb,
      Query_getStringField = CppMySQLQuery_getStringField,
      Query_getStringField_by_name = CppMySQLQuery_getStringField_by_name lb,
      myq_default = CppMySQLQuery_default, myq_copy = CppMySQLQuery_copy, myq_new = CppMySQLQuery_new lb,
      myq_assign = CppMySQLQuery_assign lb, myq_destroy = CppMySQLQuery_destroy lb,
      myq_numRows = CppMySQLQuery_numRows, myq_seekRow = CppMySQLQuery_seekRow lb,
      myq_getHandle = CppMySQLQuery_getHandle\<rparr>"

section \<open>Result sets\<close>

record 'w CppMySQLResultSet_class = "('w my_rst, my_exn) DatabaseResultSet" +
  myr_default :: my_rset
  myr_copy :: "my_rset \<Rightarrow> my_rset \<times> my_rset"
  myr_new :: "nat \<Rightarrow> nat option \<Rightarrow> ('w my_mach, my_exn, my_rset) prog"
  myr_assign :: "bool \<Rightarrow> my_rset \<Rightarrow> my_rset \<Rightarrow> ('w my_mach, my_exn, my_rset \<times> my_rset) prog"
  myr_destroy :: "('w my_rst, my_exn, unit) prog"

definition as_pointer :: "('s, 'e, string) prog \<Rightarrow> ('s, 'e, string option) prog" where
  "as_pointer p = bindP p (\<lambda>s. ret (Some s))"

definition CppMySQLResultSet_members :: "'w mysql_lib \<Rightarrow> 'w CppMySQLResultSet_class" where
  "CppMySQLResultSet_members lb =
     \<lparr>ResultSet_numFields = CppMySQLResultSet_numFields, ResultSet_numRows = CppMySQLResultSet_numRows,
      ResultSet_FieldColIndex = CppMySQLResultSet_FieldColIndex,
      ResultSet_fieldName = (\<lambda>n. as_pointer (CppMySQLResultSet_fieldName n)),
      ResultSet_fieldValue = (\<lambda>n. as_pointer (CppMySQLResultSet_fieldValue n)),
      ResultSet_fieldValue_by_name = (\<lambda>f. as_pointer (CppMySQLResultSet_fieldValue_by_name f)),
      ResultSet_fieldDataIsNull = CppMySQLResultSet_fieldDataIsNull,
      ResultSet_eof = CppMySQLResultSet_eof, ResultSet_nextRow = CppMySQLResultSet_nextRow,
      ResultSet_seekRow = CppMySQLResultSet_seekRow, ResultSet_clear = CppMySQLResultSet_clear,
      myr_default = CppMySQLResultSet_default, myr_copy = CppMySQLResultSet_copy,
      myr_new = (\<lambda>fuel. CppMySQLResultSet_new fuel lb), myr_assign = CppMySQLResultSet_assign,
      myr_destroy = CppMySQLResultSet_destroy\<rparr>"

section \<open>Statements\<close>

text \<open>A text is bound by address: what it holds is read when the statement is executed.\<close>

record 'w CppMySQLStatement_class = "('w my_sst, my_exn, nat option) DatabaseStatement" +
  mys_default :: my_stmt
  mys_copy :: "my_stmt \<Rightarrow> my_stmt \<times> my_stmt"
  mys_new :: "nat option \<Rightarrow> string \<Rightarrow> ('w my_mach, my_exn, my_stmt) prog"
  mys_assign :: "bool \<Rightarrow> my_stmt \<Rightarrow> my_stmt \<Rightarrow> ('w my_mach, my_exn, my_stmt \<times> my_stmt) prog"
  mys_destroy :: "('w my_sst, my_exn, unit) prog"
  mys_getHandle :: "my_stmt \<Rightarrow> nat option"

definition CppMySQLStatement_members :: "'w mysql_lib \<Rightarrow> 'w CppMySQLStatement_class" where
  "CppMySQLStatement_members lb =
     \<lparr>Statement_execDML = CppMySQLStatement_execDML lb, Statement_bind_text = CppMySQLStatement_bind_text,
      Statement_bind_int = CppMySQLStatement_bind_int, Statement_bind_double = CppMySQLStatement_bind_double,
      Statement_reset = CppMySQLStatement_reset lb, Statement_clear = CppMySQLStatement_clear lb,
      mys_default = CppMySQLStatement_default, mys_copy = CppMySQLStatement_copy,
      mys_new = CppMySQLStatement_new lb, mys_assign = CppMySQLStatement_assign,
      mys_destroy = CppMySQLStatement_destroy lb, mys_getHandle = CppMySQLStatement_getHandle\<rparr>"

section \<open>Connections\<close>

record 'w CppMySQLDB_class = "('w my_dbst, my_exn, my_query) DatabaseLayer_class" +
  myd_new :: "('w my_mach, my_exn, my_db) prog"
  myd_destroy :: "('w my_dbst, my_exn, unit) prog"
  myd_connect :: "string \<Rightarrow> string \<Rightarrow> string \<Rightarrow> string option \<Rightarrow> uint32 \<Rightarrow> ulong \<Rightarrow> ('w my_dbst, my_exn, unit) prog"
  myd_connect_string :: "string \<Rightarrow> ('w my_dbst, my_exn, unit) prog"
  myd_getResultSet :: "nat \<Rightarrow> string \<Rightarrow> ('w my_dbst, my_exn, my_rset) prog"
  myd_compileStatement :: "string \<Rightarrow> ('w my_dbst, my_exn, my_stmt) prog"
  myd_createDB :: "string \<Rightarrow> ('w my_dbst, my_exn, unit) prog"
  myd_dropDB :: "string \<Rightarrow> ('w my_dbst, my_exn, unit) prog"
  myd_ping :: "('w my_dbst, my_exn, bool) prog"
  myd_setCharacterSet :: "string \<Rightarrow> ('w my_dbst, my_exn, bool) prog"
  myd_getCharacterSetName :: "('w my_dbst, my_exn, string) prog"
  myd_setOptions :: "mysql_option \<Rightarrow> ('w my_dbst, my_exn, unit) prog"
  myd_setOptions_arg :: "mysql_option \<Rightarrow> string option \<Rightarrow> ('w my_dbst, my_exn, unit) prog"
  myd_getHandle :: "my_db \<Rightarrow> nat option"
  myd_default_db :: "string option"
  myd_default_port :: uint32
  myd_default_client_flag :: ulong

definition CppMySQLDB_members :: "'w mysql_lib \<Rightarrow> 'w CppMySQLDB_class" where
  "CppMySQLDB_members lb =
     \<lparr>DB_open = CppMySQLDB_open lb, DB_close = CppMySQLDB_close lb, DB_tableExists = CppMySQLDB_tableExists lb,
      DB_execDML = CppMySQLDB_execDML lb, DB_execQuery = CppMySQLDB_execQuery lb,
      DB_execScalar = CppMySQLDB_execScalar lb, DB_startTransaction = CppMySQLDB_startTransaction lb,
      DB_commitTransaction = CppMySQLDB_commitTransaction lb, DB_rollback = CppMySQLDB_rollback lb,
      DB_isTransaction = bindP get_this (\<lambda>db. ret (CppMySQLDB_isTransaction db)),
      myd_new = CppMySQLDB_new lb, myd_destroy = CppMySQLDB_destroy lb, myd_connect = CppMySQLDB_connect lb,
      myd_connect_string = CppMySQLDB_connect_string lb,
      myd_getResultSet = (\<lambda>fuel. CppMySQLDB_getResultSet fuel lb),
      myd_compileStatement = CppMySQLDB_compileStatement lb,
      myd_createDB = CppMySQLDB_createDB lb, myd_dropDB = CppMySQLDB_dropDB lb, myd_ping = CppMySQLDB_ping lb,
      myd_setCharacterSet = CppMySQLDB_setCharacterSet lb,
      myd_getCharacterSetName = CppMySQLDB_getCharacterSetName lb,
      myd_setOptions = CppMySQLDB_setOptions lb, myd_setOptions_arg = CppMySQLDB_setOptions_arg lb,
      myd_getHandle = CppMySQLDB_getHandle, myd_default_db = None, myd_default_port = 0,
      myd_default_client_flag = 0\<rparr>"

section \<open>The client loops\<close>

lemma read_row_mysql: "read_row (CppMySQLQuery_members lb) d = my_query_row d"
  by (simp add: read_row_def my_query_row_def CppMySQLQuery_members_def)

end
