(* ===== verification/DemoBackends.thy ===== *)
theory DemoBackends
  imports DemoProofs SqliteClasses MysqlClasses
begin

text \<open>
  The two ways \<open>DatabaseLayer.h\<close> selects the classes of the demonstration programs:
  \<open>_SQLITE3_DB\<close> and \<open>_MySQL_DB\<close>.
\<close>

section \<open>SQLite\<close>

type_synonym 'w sq_backend =
  "('w sq_mach, sq_db, sq_query, sq_rset, sq_stmt, sq_exn, string option) backend"

text \<open>\<open>remove_file\<close> is the effect of the C library's \<open>remove\<close> on the files SQLite reads.\<close>

definition sqlite_backend :: "(string \<Rightarrow> 'w \<Rightarrow> 'w) \<Rightarrow> 'w sqlite3_lib \<Rightarrow> 'w sq_backend" where
  "sqlite_backend remove_file lb =
     \<lparr>be_db_new = ret (sqd_default (CppSQLite3DB_members lb)),
      be_db = DatabaseLayer_class.truncate (CppSQLite3DB_members lb),
      be_getResultSet = sqd_getResultSet (CppSQLite3DB_members lb),
      be_compileStatement = sqd_compileStatement (CppSQLite3DB_members lb),
      be_db_destroy = sqd_destroy (CppSQLite3DB_members lb),
      be_query = DatabaseQuery.truncate (CppSQLite3Query_members lb),
      be_query_assign = sqq_assign (CppSQLite3Query_members lb) False,
      be_query_destroy = sqq_destroy (CppSQLite3Query_members lb),
      be_numRows = None,
      be_rset = DatabaseResultSet.truncate (CppSQLite3ResultSet_members lb),
      be_rset_assign = sqr_assign (CppSQLite3ResultSet_members lb) False,
      be_rset_destroy = sqr_destroy (CppSQLite3ResultSet_members lb),
      be_stmt = DatabaseStatement.truncate (CppSQLite3Statement_members lb),
      be_stmt_destroy = sqs_destroy (CppSQLite3Statement_members lb),
      be_exn = DatabaseException.truncate (CppSQLite3Exception_members lb),
      be_exn_destroy = ret (),
      be_gszDB = ''CppSQLite3Demo.db'',
      be_setup = (\<lambda>name. on_mach (\<lambda>m. (Ret (), m\<lparr>lib := remove_file name (lib m)\<rparr>))),
      be_create_emp = ''create table emp(empno integer primary key, empname char(20));'',
      be_text = (\<lambda>t. ret (Some t))\<rparr>"

section \<open>MySQL\<close>

type_synonym 'w my_backend =
  "('w my_mach, my_db, my_query, my_rset, my_stmt, my_exn, nat option) backend"

text \<open>The character arrays of the program are at one address, the stack slot they all occupy.\<close>

definition local_text :: "string \<Rightarrow> ('w my_mach, 'e, nat option) prog" where
  "local_text t m = (Ret (Some 0), m\<lparr>client_str := (client_str m)(0 := t)\<rparr>)"

definition mysql_setup :: "'w mysql_lib \<Rightarrow> string \<Rightarrow> ('w my_dbst, my_exn, unit) prog" where
  "mysql_setup lb gszDB =
     (let db = CppMySQLDB_members lb
      in seqP (myd_connect db ''127.0.0.1'' ''root'' ''root'' (myd_default_db db) (myd_default_port db)
                 (myd_default_client_flag db))
         (seqP (myd_dropDB db gszDB) (myd_createDB db gszDB)))"

definition mysql_backend :: "nat \<Rightarrow> 'w mysql_lib \<Rightarrow> 'w my_backend" where
  "mysql_backend fuel lb =
     \<lparr>be_db_new = myd_new (CppMySQLDB_members lb),
      be_db = DatabaseLayer_class.truncate (CppMySQLDB_members lb),
      be_getResultSet = myd_getResultSet (CppMySQLDB_members lb) fuel,
      be_compileStatement = myd_compileStatement (CppMySQLDB_members lb),
      be_db_destroy = myd_destroy (CppMySQLDB_members lb),
      be_query = DatabaseQuery.truncate (CppMySQLQuery_members lb),
      be_query_assign = myq_assign (CppMySQLQuery_members lb) False,
      be_query_destroy = myq_destroy (CppMySQLQuery_members lb),
      be_numRows = Some (myq_numRows (CppMySQLQuery_members lb)),
      be_rset = DatabaseResultSet.truncate (CppMySQLResultSet_members lb),
      be_rset_assign = myr_assign (CppMySQLResultSet_members lb) False,
      be_rset_destroy = myr_destroy (CppMySQLResultSet_members lb),
      be_stmt = DatabaseStatement.truncate (CppMySQLStatement_members lb),
      be_stmt_destroy = mys_destroy (CppMySQLStatement_members lb),
      be_exn = DatabaseException.truncate CppMySQLException_members,
      be_exn_destroy = mye_destroy CppMySQLException_members,
      be_gszDB = ''CppMySQLDemo'',
      be_setup = mysql_setup lb,
      be_create_emp =
        ''CREATE TABLE emp(empno int not null auto_increment, empname char(20) not null, primary key (empno)) ENGINE=InnoDB;'',
      be_text = local_text\<rparr>"

section \<open>Both libraries keep the laws of the loops\<close>

lemma truncate_query [simp]:
  "Query_eof (DatabaseQuery.truncate c) = Query_eof c" "Query_nextRow (DatabaseQuery.truncate c) = Query_nextRow c"
  "Query_numFields (DatabaseQuery.truncate c) = Query_numFields c"
  "read_row (DatabaseQuery.truncate c) d = read_row c d"
  by (simp_all add: DatabaseQuery.truncate_def read_row_def)

lemma truncate_db [simp]:
  "DB_execDML (DatabaseLayer_class.truncate c) = DB_execDML c"
  "DB_startTransaction (DatabaseLayer_class.truncate c) = DB_startTransaction c"
  "DB_commitTransaction (DatabaseLayer_class.truncate c) = DB_commitTransaction c"
  by (simp_all add: DatabaseLayer_class.truncate_def)

lemma truncate_stmt [simp]:
  "Statement_bind_int (DatabaseStatement.truncate c) = Statement_bind_int c"
  "Statement_bind_text (DatabaseStatement.truncate c) = Statement_bind_text c"
  "Statement_execDML (DatabaseStatement.truncate c) = Statement_execDML c"
  "Statement_reset (DatabaseStatement.truncate c) = Statement_reset c"
  by (simp_all add: DatabaseStatement.truncate_def)

lemma truncate_all [simp]:
  "DB_open (DatabaseLayer_class.truncate c) = DB_open c" "DB_tableExists (DatabaseLayer_class.truncate c) = DB_tableExists c"
  "DB_execQuery (DatabaseLayer_class.truncate c) = DB_execQuery c"
  "DB_execScalar (DatabaseLayer_class.truncate c) = DB_execScalar c"
  "Query_fieldName (DatabaseQuery.truncate d) = Query_fieldName d"
  "Query_getStringField (DatabaseQuery.truncate d) = Query_getStringField d"
  "Query_clear (DatabaseQuery.truncate d) = Query_clear d"
  "ResultSet_eof (DatabaseResultSet.truncate r) = ResultSet_eof r"
  "ResultSet_numFields (DatabaseResultSet.truncate r) = ResultSet_numFields r"
  "ResultSet_numRows (DatabaseResultSet.truncate r) = ResultSet_numRows r"
  "ResultSet_fieldName (DatabaseResultSet.truncate r) = ResultSet_fieldName r"
  "ResultSet_fieldValue (DatabaseResultSet.truncate r) = ResultSet_fieldValue r"
  "ResultSet_seekRow (DatabaseResultSet.truncate r) = ResultSet_seekRow r"
  "ResultSet_nextRow (DatabaseResultSet.truncate r) = ResultSet_nextRow r"
  "ResultSet_clear (DatabaseResultSet.truncate r) = ResultSet_clear r"
  "Statement_clear (DatabaseStatement.truncate t) = Statement_clear t"
  "Exception_errorCode (DatabaseException.truncate e) = Exception_errorCode e"
  "Exception_errorMessage (DatabaseException.truncate e) = Exception_errorMessage e"
  by (simp_all add: DatabaseLayer_class.truncate_def DatabaseQuery.truncate_def DatabaseResultSet.truncate_def
      DatabaseStatement.truncate_def DatabaseException.truncate_def)

lemma sqlite_query_members [simp]:
  "Query_eof (CppSQLite3Query_members lb) = CppSQLite3Query_eof lb"
  "Query_nextRow (CppSQLite3Query_members lb) = CppSQLite3Query_nextRow lb"
  "Query_numFields (CppSQLite3Query_members lb) = CppSQLite3Query_numFields lb"
  "read_row (CppSQLite3Query_members lb) d = query_row lb d"
  unfolding read_row_sqlite by (simp_all add: CppSQLite3Query_members_def)

lemma mysql_query_members [simp]:
  "Query_eof (CppMySQLQuery_members mlb) = CppMySQLQuery_eof"
  "Query_nextRow (CppMySQLQuery_members mlb) = CppMySQLQuery_nextRow mlb"
  "Query_numFields (CppMySQLQuery_members mlb) = CppMySQLQuery_numFields"
  "read_row (CppMySQLQuery_members mlb) d = my_query_row d"
  unfolding read_row_mysql by (simp_all add: CppMySQLQuery_members_def)

interpretation sq_text: text_cursor
    "DatabaseQuery.truncate (CppSQLite3Query_members lb)" d "query_pending lb vw d"
  for lb vw d
proof unfold_locales
  fix s :: "'a sq_qst" and r rs
  show "query_pending lb vw d s [] \<Longrightarrow>
      Query_eof (DatabaseQuery.truncate (CppSQLite3Query_members lb)) s = (Ret True, s)"
    using sq_cursor.eof_at_end by simp
  show "query_pending lb vw d s (r # rs) \<Longrightarrow>
      Query_eof (DatabaseQuery.truncate (CppSQLite3Query_members lb)) s = (Ret False, s)"
    using sq_cursor.eof_before_end by simp
  show "query_pending lb vw d s (r # rs) \<Longrightarrow>
      \<exists>s'. bindP (read_row (DatabaseQuery.truncate (CppSQLite3Query_members lb)) d)
             (\<lambda>r. seqP (Query_nextRow (DatabaseQuery.truncate (CppSQLite3Query_members lb))) (ret r)) s = (Ret r, s') \<and>
           query_pending lb vw d s' rs"
    using sq_cursor.fetch_current by simp
next
  fix s :: "'a sq_qst" and rs
  show "query_pending lb vw d s rs \<Longrightarrow>
      \<exists>n. Query_numFields (DatabaseQuery.truncate (CppSQLite3Query_members lb)) s = (Ret n, s)"
    by (cases s) (auto simp: query_pending_def query_on_def prog_simps)
qed

interpretation my_text: text_cursor
    "DatabaseQuery.truncate (CppMySQLQuery_members lb)" d "my_query_pending lb rv d"
  for lb rv d
proof unfold_locales
  fix s :: "'a my_qst" and r rs
  show "my_query_pending lb rv d s [] \<Longrightarrow>
      Query_eof (DatabaseQuery.truncate (CppMySQLQuery_members lb)) s = (Ret True, s)"
    using my_cursor.eof_at_end by simp
  show "my_query_pending lb rv d s (r # rs) \<Longrightarrow>
      Query_eof (DatabaseQuery.truncate (CppMySQLQuery_members lb)) s = (Ret False, s)"
    using my_cursor.eof_before_end by simp
  show "my_query_pending lb rv d s (r # rs) \<Longrightarrow>
      \<exists>s'. bindP (read_row (DatabaseQuery.truncate (CppMySQLQuery_members lb)) d)
             (\<lambda>r. seqP (Query_nextRow (DatabaseQuery.truncate (CppMySQLQuery_members lb))) (ret r)) s = (Ret r, s') \<and>
           my_query_pending lb rv d s' rs"
    using my_cursor.fetch_current by simp
next
  fix s :: "'a my_qst" and rs
  show "my_query_pending lb rv d s rs \<Longrightarrow>
      \<exists>n. Query_numFields (DatabaseQuery.truncate (CppMySQLQuery_members lb)) s = (Ret n, s)"
    by (cases s) (simp add: CppMySQLQuery_numFields_def prog_simps)
qed

section \<open>Recorded statements\<close>

text \<open>
  The library executes every text of the set \<open>A\<close> and the log \<open>lg w c\<close> of the connection gets it;
  asking for the number of affected rows changes no log.
\<close>

definition sq_records :: "'w sqlite3_lib \<Rightarrow> ('w \<Rightarrow> nat \<Rightarrow> string list) \<Rightarrow> string set \<Rightarrow> bool" where
  "sq_records lb lg A \<longleftrightarrow>
     (\<forall>w d. \<forall>sql \<in> A. \<exists>w'. sqlite3_exec lb d sql w = ((SQLITE_OK, None), w') \<and> lg w' d = lg w d @ [sql]) \<and>
     (\<forall>w d. \<exists>n w'. sqlite3_changes lb d w = (n, w') \<and> lg w' d = lg w d)"

definition my_records :: "'w mysql_lib \<Rightarrow> ('w \<Rightarrow> nat \<Rightarrow> string list) \<Rightarrow> string set \<Rightarrow> bool" where
  "my_records lb lg A \<longleftrightarrow>
     (\<forall>w c. \<forall>sql \<in> A. \<exists>w'. mysql_real_query lb c sql (length sql) w = (0, w') \<and> lg w' c = lg w c @ [sql] \<and>
        conn_db lb c w' = conn_db lb c w) \<and>
     (\<forall>w c. \<exists>n w'. mysql_affected_rows lb c w = (n, w') \<and> lg w' c = lg w c \<and> conn_db lb c w' = conn_db lb c w) \<and>
     (\<forall>w c. \<exists>r w'. mysql_commit lb c w = (r, w') \<and> lg w' c = lg w c @ [''commit''] \<and>
        conn_db lb c w' = conn_db lb c w)"

definition sq_session :: "'w sqlite3_lib \<Rightarrow> ('w \<Rightarrow> nat \<Rightarrow> string list) \<Rightarrow> string set \<Rightarrow> nat \<Rightarrow> 'w sq_dbst \<Rightarrow> bool" where
  "sq_session lb lg A d x \<longleftrightarrow>
     db_open x d \<and> sq_records lb lg A \<and> {''begin transaction;'', ''commit transaction;''} \<subseteq> A"

definition my_session ::
  "'w mysql_lib \<Rightarrow> ('w \<Rightarrow> nat \<Rightarrow> string list) \<Rightarrow> string set \<Rightarrow> nat \<Rightarrow> int \<Rightarrow> 'w my_dbst \<Rightarrow> bool" where
  "my_session lb lg A c n x \<longleftrightarrow>
     my_db_ready lb x c \<and> mydb_m_inTransaction (fst x) = n \<and> my_records lb lg A \<and> ''start transaction;'' \<in> A"

lemma sqlite_db_members [simp]:
  "DB_execDML (CppSQLite3DB_members lb) = CppSQLite3DB_execDML lb"
  "DB_startTransaction (CppSQLite3DB_members lb) = CppSQLite3DB_startTransaction lb"
  "DB_commitTransaction (CppSQLite3DB_members lb) = CppSQLite3DB_commitTransaction lb"
  by (simp_all add: CppSQLite3DB_members_def)

lemma mysql_db_members [simp]:
  "DB_execDML (CppMySQLDB_members mlb) = CppMySQLDB_execDML mlb"
  "DB_startTransaction (CppMySQLDB_members mlb) = CppMySQLDB_startTransaction mlb"
  "DB_commitTransaction (CppMySQLDB_members mlb) = CppMySQLDB_commitTransaction mlb"
  by (simp_all add: CppMySQLDB_members_def)

lemma sq_execDML_recorded:
  assumes "sq_session lb lg A d (db, m)" and "sql \<in> A"
  shows "\<exists>n m'. CppSQLite3DB_execDML lb sql (db, m) = (Ret n, (db, m')) \<and> sq_session lb lg A d (db, m') \<and>
           lg (lib m') d = lg (lib m) d @ [sql]"
proof -
  have s: "db_open (db, m) d" "sq_records lb lg A" using assms(1) by (simp_all add: sq_session_def)
  obtain w1 where w1: "sqlite3_exec lb d sql (lib m) = ((SQLITE_OK, None), w1)" "lg w1 d = lg (lib m) d @ [sql]"
    using s(2) assms(2) unfolding sq_records_def by blast
  obtain n w2 where w2: "sqlite3_changes lb d w1 = (n, w2)" "lg w2 d = lg w1 d"
    using s(2) unfolding sq_records_def by blast
  have "CppSQLite3DB_execDML lb sql (db, m) = (Ret n, (db, m\<lparr>lib := w2\<rparr>))"
    using s(1) w1(1) w2(1) by (simp add: CppSQLite3DB_execDML_def db_open_def call_exec_def prog_simps)
  then show ?thesis using assms(1) w1(2) w2(2) by (auto simp: sq_session_def db_open_def)
qed

interpretation sq_recorded: recorded_session
    "DatabaseLayer_class.truncate (CppSQLite3DB_members lb)" "sq_session lb lg A d" "sq_session lb lg A d"
    "\<lambda>x. lg (lib (snd x)) d" A "''begin transaction;''" "''commit transaction;''"
  for lb lg A d
proof unfold_locales
  fix x :: "'a sq_dbst" and sql
  obtain db m where x [simp]: "x = (db, m)" by (cases x)
  show "sq_session lb lg A d x \<Longrightarrow> sql \<in> A \<Longrightarrow>
    \<exists>n x'. DB_execDML (DatabaseLayer_class.truncate (CppSQLite3DB_members lb)) sql x = (Ret n, x') \<and>
      sq_session lb lg A d x' \<and> lg (lib (snd x')) d = lg (lib (snd x)) d @ [sql]"
    using sq_execDML_recorded[of lb lg A d db m sql] by fastforce
  assume s: "sq_session lb lg A d x"
  then have A: "''begin transaction;'' \<in> A" "''commit transaction;'' \<in> A" by (simp_all add: sq_session_def)
  show "\<exists>x'. DB_startTransaction (DatabaseLayer_class.truncate (CppSQLite3DB_members lb)) x = (Ret (), x') \<and>
      sq_session lb lg A d x' \<and> lg (lib (snd x')) d = lg (lib (snd x)) d @ [''begin transaction;'']"
    using sq_execDML_recorded[of lb lg A d db m, OF _ A(1)] s
    by (fastforce simp: CppSQLite3DB_startTransaction_def prog_simps)
  show "\<exists>x'. DB_commitTransaction (DatabaseLayer_class.truncate (CppSQLite3DB_members lb)) x = (Ret (), x') \<and>
      sq_session lb lg A d x' \<and> lg (lib (snd x')) d = lg (lib (snd x)) d @ [''commit transaction;'']"
    using sq_execDML_recorded[of lb lg A d db m, OF _ A(2)] s
    by (fastforce simp: CppSQLite3DB_commitTransaction_def prog_simps)
qed

lemma my_records_ready:
  "my_db_ready lb (db, m) c \<Longrightarrow> conn_db lb c w' = conn_db lb c (mlib m) \<Longrightarrow>
   my_db_ready lb (db\<lparr>mydb_m_inTransaction := n\<rparr>, m\<lparr>mlib := w'\<rparr>) c"
  "my_db_ready lb (db, m) c \<Longrightarrow> conn_db lb c w' = conn_db lb c (mlib m) \<Longrightarrow>
   my_db_ready lb (db, m\<lparr>mlib := w'\<rparr>) c"
  by (simp_all add: my_db_ready_def my_db_open_def)

lemma my_execDML_recorded:
  assumes "my_session lb lg A c k (db, m)" and "sql \<in> A"
  shows "\<exists>n w'. CppMySQLDB_execDML lb sql (db, m) = (Ret n, (db, m\<lparr>mlib := w'\<rparr>)) \<and>
           my_session lb lg A c k (db, m\<lparr>mlib := w'\<rparr>) \<and> lg w' c = lg (mlib m) c @ [sql] \<and>
           conn_db lb c w' = conn_db lb c (mlib m)"
proof -
  have s: "my_db_ready lb (db, m) c" "my_records lb lg A" using assms(1) by (simp_all add: my_session_def)
  obtain w1 where w1: "mysql_real_query lb c sql (length sql) (mlib m) = (0, w1)" "lg w1 c = lg (mlib m) c @ [sql]"
      "conn_db lb c w1 = conn_db lb c (mlib m)"
    using s(2) assms(2) unfolding my_records_def by blast
  obtain n w2 where w2: "mysql_affected_rows lb c w1 = (n, w2)" "lg w2 c = lg w1 c" "conn_db lb c w2 = conn_db lb c w1"
    using s(2) unfolding my_records_def by blast
  show ?thesis
    using execDML_ok[OF s(1) w1(1) w2(1)] assms(1) w1(2,3) w2(2,3) my_records_ready(2)[OF s(1), of w2]
    by (auto simp: my_session_def)
qed

interpretation my_recorded: recorded_session
    "DatabaseLayer_class.truncate (CppMySQLDB_members lb)" "my_session lb lg A c 0" "my_session lb lg A c 1"
    "\<lambda>x. lg (mlib (snd x)) c" A "''start transaction;''" "''commit''"
  for lb lg A c
proof unfold_locales
  fix x :: "'a my_dbst" and sql
  obtain db m where x [simp]: "x = (db, m)" by (cases x)
  show "my_session lb lg A c 1 x \<Longrightarrow> sql \<in> A \<Longrightarrow>
    \<exists>n x'. DB_execDML (DatabaseLayer_class.truncate (CppMySQLDB_members lb)) sql x = (Ret n, x') \<and>
      my_session lb lg A c 1 x' \<and> lg (mlib (snd x')) c = lg (mlib (snd x)) c @ [sql]"
    using my_execDML_recorded[of lb lg A c 1 db m sql] by fastforce
  show "\<exists>x'. DB_startTransaction (DatabaseLayer_class.truncate (CppMySQLDB_members lb)) x = (Ret (), x') \<and>
      my_session lb lg A c 1 x' \<and> lg (mlib (snd x')) c = lg (mlib (snd x)) c @ [''start transaction;'']"
    if s: "my_session lb lg A c 0 x"
  proof -
    have A: "''start transaction;'' \<in> A" using s by (simp add: my_session_def)
    obtain n w' where e: "CppMySQLDB_execDML lb ''start transaction;'' (db, m) = (Ret n, (db, m\<lparr>mlib := w'\<rparr>))"
        "my_session lb lg A c 0 (db, m\<lparr>mlib := w'\<rparr>)" "lg w' c = lg (mlib m) c @ [''start transaction;'']"
        "conn_db lb c w' = conn_db lb c (mlib m)"
      using my_execDML_recorded[of lb lg A c 0 db m, OF _ A] s by auto
    have "in_int (mydb_m_inTransaction db + 1)"
      using s by (simp add: my_session_def in_int_def INT_MIN_def INT_MAX_def)
    then have "CppMySQLDB_startTransaction lb x = (Ret (), (db\<lparr>mydb_m_inTransaction := mydb_m_inTransaction db + 1\<rparr>, m\<lparr>mlib := w'\<rparr>))"
      using e(1) by (simp add: CppMySQLDB_startTransaction_def prog_simps)
    then show ?thesis using s e(3,4) my_records_ready(1) by (auto simp: my_session_def)
  qed
  show "\<exists>x'. DB_commitTransaction (DatabaseLayer_class.truncate (CppMySQLDB_members lb)) x = (Ret (), x') \<and>
      my_session lb lg A c 0 x' \<and> lg (mlib (snd x')) c = lg (mlib (snd x)) c @ [''commit'']"
    if s: "my_session lb lg A c 1 x"
  proof -
    obtain r w' where w: "mysql_commit lb c (mlib m) = (r, w')" "lg w' c = lg (mlib m) c @ [''commit'']"
        "conn_db lb c w' = conn_db lb c (mlib m)"
      using s unfolding my_session_def my_records_def by blast
    have r: "my_db_ready lb (db, m) c" "in_int (mydb_m_inTransaction db - 1)"
      using s by (simp_all add: my_session_def in_int_def INT_MIN_def INT_MAX_def)
    show ?thesis
      using commit_run[OF r(1) w(1) r(2)] s w(2,3) my_records_ready(1)[OF r(1) w(3)]
      by (auto simp: my_session_def)
  qed
qed

section \<open>Bound parameters\<close>

lemma sqlite_stmt_members [simp]:
  "Statement_bind_int (CppSQLite3Statement_members lb) = CppSQLite3Statement_bind_int lb"
  "Statement_bind_text (CppSQLite3Statement_members lb) = CppSQLite3Statement_bind_text lb"
  "Statement_execDML (CppSQLite3Statement_members lb) = CppSQLite3Statement_execDML lb"
  "Statement_reset (CppSQLite3Statement_members lb) = CppSQLite3Statement_reset lb"
  by (simp_all add: CppSQLite3Statement_members_def)

lemma mysql_stmt_members [simp]:
  "Statement_bind_int (CppMySQLStatement_members mlb) = CppMySQLStatement_bind_int"
  "Statement_bind_text (CppMySQLStatement_members mlb) = CppMySQLStatement_bind_text"
  "Statement_execDML (CppMySQLStatement_members mlb) = CppMySQLStatement_execDML mlb"
  "Statement_reset (CppMySQLStatement_members mlb) = CppMySQLStatement_reset mlb"
  by (simp_all add: CppMySQLStatement_members_def)

definition sq_insert_ready :: "'w sqlite3_lib \<Rightarrow> ('w \<Rightarrow> nat \<Rightarrow> dml_view) \<Rightarrow> nat \<Rightarrow> 'w sq_sst \<Rightarrow> bool" where
  "sq_insert_ready lb dv h s \<longleftrightarrow>
     bind_contract lb dv \<and> dml_contract lb dv \<and>
     stmt_on dv h s (dv (lib (snd s)) h) \<and> dv_ready (dv (lib (snd s)) h) \<and>
     length (dv_params (dv (lib (snd s)) h)) = 2"

interpretation sq_bound: bound_statement
    "DatabaseStatement.truncate (CppSQLite3Statement_members lb)" "\<lambda>nm. ret (Some nm)"
    "sq_insert_ready lb dv h" "\<lambda>s. dv_runs (dv (lib (snd s)) h)" BindInt BindText
  for lb dv h
proof unfold_locales
  fix t and m :: "'a sq_mach" and i nm
  assume r: "sq_insert_ready lb dv h (t, m)"
  let ?r = "[BindInt i, BindText nm]"
  have on: "stmt_on dv h (t, m) (dv (lib m) h)" "bind_contract lb dv" "dml_contract lb dv" "dv_ready (dv (lib m) h)"
      "length ?r = length (dv_params (dv (lib m) h))"
    using r by (simp_all add: sq_insert_ready_def)
  obtain w' v' where run: "seqP (bind_row lb 1 ?r) (seqP (CppSQLite3Statement_execDML lb) (CppSQLite3Statement_reset lb)) (t, m) =
      (Ret (), (t, m\<lparr>lib := w'\<rparr>))" "stmt_on dv h (t, m\<lparr>lib := w'\<rparr>) v'" "dv_ready v'"
      "dv_runs v' = dv_runs (dv (lib m) h) @ [?r]" "dv_params v' = ?r"
    using insert_row_run[OF on] by blast
  have v': "dv w' h = v'" using run(2) by (simp add: stmt_on_def)
  have "bind_row lb 1 ?r = seqP (CppSQLite3Statement_bind_int lb 1 i) (CppSQLite3Statement_bind_text lb 2 (Some nm))"
    by (simp add: seqP_ret_unit)
  then have "seqP (CppSQLite3Statement_bind_int lb 1 i)
      (seqP (CppSQLite3Statement_bind_text lb 2 (Some nm))
        (seqP (CppSQLite3Statement_execDML lb) (CppSQLite3Statement_reset lb))) (t, m) = (Ret (), (t, m\<lparr>lib := w'\<rparr>))"
    using run(1) by (simp only: seqP_assoc)
  moreover have "sq_insert_ready lb dv h (t, m\<lparr>lib := w'\<rparr>)"
    using run(2,3,5) on(2,3) v' by (simp add: sq_insert_ready_def)
  ultimately show "\<exists>p m1 t'. ret (Some nm) m = (Ret p, m1) \<and>
      seqP (Statement_bind_int (DatabaseStatement.truncate (CppSQLite3Statement_members lb)) 1 i)
       (seqP (Statement_bind_text (DatabaseStatement.truncate (CppSQLite3Statement_members lb)) 2 p)
        (seqP (Statement_execDML (DatabaseStatement.truncate (CppSQLite3Statement_members lb)))
          (Statement_reset (DatabaseStatement.truncate (CppSQLite3Statement_members lb))))) (t, m1) = (Ret (), t') \<and>
      sq_insert_ready lb dv h t' \<and>
      dv_runs (dv (lib (snd t')) h) = dv_runs (dv (lib (snd (t, m))) h) @ [?r]"
    using run(4) v' by simp
qed

text \<open>Resetting a statement changes nothing the runs of it depend on.\<close>

definition my_reset_contract :: "'w mysql_lib \<Rightarrow> ('w \<Rightarrow> nat \<Rightarrow> exec_view) \<Rightarrow> bool" where
  "my_reset_contract lb xv \<longleftrightarrow> (\<forall>w h. \<exists>r w'. mysql_stmt_reset lb h w = (r, w') \<and> xv w' h = xv w h)"

definition my_insert_ready :: "'w mysql_lib \<Rightarrow> ('w \<Rightarrow> nat \<Rightarrow> exec_view) \<Rightarrow> nat \<Rightarrow> 'w my_sst \<Rightarrow> bool" where
  "my_insert_ready lb xv h s \<longleftrightarrow>
     exec_contract lb xv \<and> my_reset_contract lb xv \<and> my_stmt_on xv s h 2 [] (xv (mlib (snd s)) h)"

lemma my_reset_run:
  assumes "my_stmt_on xv (t, m) h n bs v" and "my_reset_contract lb xv"
  shows "\<exists>t' m'. CppMySQLStatement_reset lb (t, m) = (Ret (), (t', m')) \<and> my_stmt_on xv (t', m') h n [] v \<and>
           xv (mlib m') h = v"
proof -
  obtain r w' where w': "mysql_stmt_reset lb h (mlib m) = (r, w')" "xv w' h = xv (mlib m) h"
    using assms(2) unfolding my_reset_contract_def by blast
  then show ?thesis
    using assms(1)
    by (auto simp: my_stmt_on_def CppMySQLStatement_reset_def CppMySQLStatement_checkStmt_def my_stmt_call_def
        set_bind_array_def prog_simps)
qed

lemma my_stmt_on_client [simp]:
  "my_stmt_on xv (t, m\<lparr>client_str := f\<rparr>) h n bs v = my_stmt_on xv (t, m) h n bs v"
  by (simp add: my_stmt_on_def)

interpretation my_bound: bound_statement
    "DatabaseStatement.truncate (CppMySQLStatement_members lb)" local_text
    "my_insert_ready lb xv h" "\<lambda>s. ev_runs (xv (mlib (snd s)) h)" IntValue StringValue
  for lb xv h
proof unfold_locales
  fix t and m :: "'a my_mach" and i nm
  assume r: "my_insert_ready lb xv h (t, m)"
  let ?as = "[ArgInt i, ArgText 0]" and ?m1 = "m\<lparr>client_str := (client_str m)(0 := nm)\<rparr>"
  have c: "exec_contract lb xv" "my_reset_contract lb xv" and n: "length ?as = 2"
    using r by (simp_all add: my_insert_ready_def)
  have on: "my_stmt_on xv (t, ?m1) h (length ?as) [] (xv (mlib m) h)"
    using r unfolding n by (simp add: my_insert_ready_def)
  obtain k t2 m2 v2 where run: "seqP (bind_args 1 ?as) (CppMySQLStatement_execDML lb) (t, ?m1) = (Ret k, (t2, m2))"
      "ev_runs (xv (mlib m2) h) = ev_runs (xv (mlib m) h) @ [[IntValue i, StringValue nm]]"
      "my_stmt_on xv (t2, m2) h 2 [] v2"
    using bind_execDML_run[OF on c(1)] unfolding n by fastforce
  obtain t3 m3 where reset: "CppMySQLStatement_reset lb (t2, m2) = (Ret (), (t3, m3))"
      "my_stmt_on xv (t3, m3) h 2 [] v2" "xv (mlib m3) h = v2"
    using my_reset_run[OF run(3) c(2)] by blast
  have v2: "xv (mlib m2) h = v2" using run(3) by (simp add: my_stmt_on_def)
  have b: "seqP (seqP (CppMySQLStatement_bind_int 1 i) (CppMySQLStatement_bind_text 2 (Some 0)))
      (CppMySQLStatement_execDML lb) (t, ?m1) = (Ret k, (t2, m2))"
    using run(1) by (simp add: seqP_ret_unit)
  have "seqP (CppMySQLStatement_bind_int 1 i)
      (seqP (CppMySQLStatement_bind_text 2 (Some 0))
        (seqP (CppMySQLStatement_execDML lb) (CppMySQLStatement_reset lb))) (t, ?m1) =
      seqP (seqP (seqP (CppMySQLStatement_bind_int 1 i) (CppMySQLStatement_bind_text 2 (Some 0)))
        (CppMySQLStatement_execDML lb)) (CppMySQLStatement_reset lb) (t, ?m1)"
    by (simp only: seqP_assoc)
  also have "\<dots> = (Ret (), (t3, m3))"
    using b reset(1) by (simp only: seqP_def[of "seqP _ _" "CppMySQLStatement_reset lb"] bindP_Ret)
  finally have all: "seqP (CppMySQLStatement_bind_int 1 i)
      (seqP (CppMySQLStatement_bind_text 2 (Some 0))
        (seqP (CppMySQLStatement_execDML lb) (CppMySQLStatement_reset lb))) (t, ?m1) = (Ret (), (t3, m3))" .
  have "my_insert_ready lb xv h (t3, m3)" using reset(2,3) c by (simp add: my_insert_ready_def)
  then show "\<exists>p m1 t'. local_text nm m = (Ret p, m1) \<and>
      seqP (Statement_bind_int (DatabaseStatement.truncate (CppMySQLStatement_members lb)) 1 i)
       (seqP (Statement_bind_text (DatabaseStatement.truncate (CppMySQLStatement_members lb)) 2 p)
        (seqP (Statement_execDML (DatabaseStatement.truncate (CppMySQLStatement_members lb)))
          (Statement_reset (DatabaseStatement.truncate (CppMySQLStatement_members lb))))) (t, m1) = (Ret (), t') \<and>
      my_insert_ready lb xv h t' \<and>
      ev_runs (xv (mlib (snd t')) h) = ev_runs (xv (mlib (snd (t, m))) h) @ [[IntValue i, StringValue nm]]"
    using all run(2) v2 reset(3) by (simp add: local_text_def)
qed

end
