(* ===== verification/SqliteDemoSafety.thy ===== *)
theory SqliteDemoSafety
  imports DemoSafety SqliteSafety DemoBackends
begin

text \<open>
  The SQLite backend keeps its books: the live statements are the ones the query and the statement of
  the demonstration program hold, the live tables the ones of its result set, the live connection is
  the one of its database object.
\<close>

section \<open>The books\<close>

type_synonym 'w sq_demo = "('w sq_mach, sq_db, sq_query, sq_rset, sq_stmt) demo"

definition held :: "('o \<Rightarrow> nat option) \<Rightarrow> 'o option \<Rightarrow> nat set" where
  "held f x = (case x of None \<Rightarrow> {} | Some y \<Rightarrow> set_option (f y))"

definition sq_books :: "'w sq_demo \<Rightarrow> bool" where
  "sq_books s \<longleftrightarrow>
     sq_mem (held db_m_pDB (dm_db s)) (held q_m_pStmt (dm_q s) \<union> held st_m_pStmt (dm_stmt s))
       (held rs_m_paszResults (dm_t s)) (dm_mach s) \<and>
     held q_m_pStmt (dm_q s) \<inter> held st_m_pStmt (dm_stmt s) = {} \<and>
     (\<forall>q. dm_q s = Some q \<longrightarrow> (\<exists>p. q_m_pDB q = Init p \<and> set_option p \<subseteq> held db_m_pDB (dm_db s)) \<and>
        (q_m_pStmt q = None \<or> q_m_nFieldsCount q \<noteq> Uninit)) \<and>
     held st_m_pDB (dm_stmt s) \<subseteq> held db_m_pDB (dm_db s)"

definition sq_stage :: "stage \<Rightarrow> 'w sq_demo \<Rightarrow> bool" where
  "sq_stage n s \<longleftrightarrow>
     (dm_db s = None) = (n = Nothing) \<and> (dm_q s = None) = (\<not> has_query n) \<and>
     (dm_t s = None) = (\<not> has_rset n) \<and> (dm_stmt s = None) = (\<not> has_stmt n) \<and>
     (n = Connected \<longrightarrow> held db_m_pDB (dm_db s) = {}) \<and> sq_books s"

definition sq_released :: "'w sq_demo \<Rightarrow> bool" where
  "sq_released s \<longleftrightarrow> (\<exists>D. sq_mem D {} {} (dm_mach s))"

lemma held_simps [simp]: "held f None = {}" "held f (Some x) = set_option (f x)"
  by (simp_all add: held_def)

lemma stage_objects:
  "sq_stage n s \<Longrightarrow> n \<noteq> Nothing \<Longrightarrow> \<exists>x. dm_db s = Some x"
  "sq_stage n s \<Longrightarrow> has_query n \<Longrightarrow> \<exists>x. dm_q s = Some x"
  "sq_stage n s \<Longrightarrow> has_rset n \<Longrightarrow> \<exists>x. dm_t s = Some x"
  "sq_stage n s \<Longrightarrow> has_stmt n \<Longrightarrow> \<exists>x. dm_stmt s = Some x"
  by (auto simp: sq_stage_def)

text \<open>Two pairs of stages in which the same objects own the same.\<close>

lemma sq_stage_same: "sq_stage Queried = sq_stage Reading" "sq_stage Finished = sq_stage Prepared"
  by (simp_all add: fun_eq_iff sq_stage_def)

text \<open>What the books say of one object.\<close>

lemma stage_query:
  assumes "dm_q s = Some q"
  shows "sq_books s \<longleftrightarrow>
     query_mem (held db_m_pDB (dm_db s)) (held st_m_pStmt (dm_stmt s)) (held rs_m_paszResults (dm_t s)) (q, dm_mach s) \<and>
     held st_m_pDB (dm_stmt s) \<subseteq> held db_m_pDB (dm_db s)"
  using assms by (auto simp: sq_books_def query_mem_def Un_commute)

lemma stage_stmt:
  assumes "dm_stmt s = Some t"
  shows "sq_books s \<longleftrightarrow>
     stmt_mem (held db_m_pDB (dm_db s)) (held q_m_pStmt (dm_q s)) (held rs_m_paszResults (dm_t s)) (t, dm_mach s) \<and>
     (\<forall>q. dm_q s = Some q \<longrightarrow> (\<exists>p. q_m_pDB q = Init p \<and> set_option p \<subseteq> held db_m_pDB (dm_db s)) \<and>
        (q_m_pStmt q = None \<or> q_m_nFieldsCount q \<noteq> Uninit))"
  using assms by (auto simp: sq_books_def stmt_mem_def)

lemma stage_rset:
  assumes "dm_t s = Some t"
  shows "sq_books s \<longleftrightarrow>
     rset_mem (held db_m_pDB (dm_db s)) (held q_m_pStmt (dm_q s) \<union> held st_m_pStmt (dm_stmt s)) {} (t, dm_mach s) \<and>
     held q_m_pStmt (dm_q s) \<inter> held st_m_pStmt (dm_stmt s) = {} \<and>
     (\<forall>q. dm_q s = Some q \<longrightarrow> (\<exists>p. q_m_pDB q = Init p \<and> set_option p \<subseteq> held db_m_pDB (dm_db s)) \<and>
        (q_m_pStmt q = None \<or> q_m_nFieldsCount q \<noteq> Uninit)) \<and>
     held st_m_pDB (dm_stmt s) \<subseteq> held db_m_pDB (dm_db s)"
  using assms by (auto simp: sq_books_def rset_mem_def)

lemma stage_db:
  assumes "dm_db s = Some db"
  shows "sq_books s \<longleftrightarrow>
     db_mem (held db_m_pDB (dm_db s)) (held q_m_pStmt (dm_q s) \<union> held st_m_pStmt (dm_stmt s))
       (held rs_m_paszResults (dm_t s)) (db, dm_mach s) \<and>
     held q_m_pStmt (dm_q s) \<inter> held st_m_pStmt (dm_stmt s) = {} \<and>
     (\<forall>q. dm_q s = Some q \<longrightarrow> (\<exists>p. q_m_pDB q = Init p \<and> set_option p \<subseteq> held db_m_pDB (dm_db s)) \<and>
        (q_m_pStmt q = None \<or> q_m_nFieldsCount q \<noteq> Uninit)) \<and>
     held st_m_pDB (dm_stmt s) \<subseteq> held db_m_pDB (dm_db s)"
  using assms by (auto simp: sq_books_def db_mem_def)

section \<open>Member functions called by the program\<close>

definition sq_unwinding :: "sq_exn \<Rightarrow> 'w sq_demo \<Rightarrow> bool" where
  "sq_unwinding e s \<longleftrightarrow> sq_exn_ok e \<and> (\<exists>n. sq_stage n s)"

lemma sq_unwindingI: "sq_exn_ok e \<Longrightarrow> sq_stage n s \<Longrightarrow> sq_unwinding e s"
  by (auto simp: sq_unwinding_def)

text \<open>A member function that keeps the memory of its object, called on a local object of the program.\<close>

lemma goes_object_do:
  fixes p :: "('o \<times> 'w sq_mach, sq_exn, 'a) prog"
  assumes "\<And>D S T. goes (thrown (M D S T)) (M D S T) p (M D S T)"
    and "\<And>s. sq_stage n s \<Longrightarrow> \<exists>x D S T. get s = Some x \<and> M D S T (x, dm_mach s) \<and>
           (\<forall>x' m'. M D S T (x', m') \<longrightarrow> sq_stage n (put (Some x') (s\<lparr>dm_mach := m'\<rparr>)))"
  shows "goes sq_unwinding (sq_stage n) (object_do get put p) (sq_stage n)"
proof (rule goesI)
  fix s :: "'w sq_demo" assume "sq_stage n s"
  then obtain x D S T where x: "get s = Some x" "M D S T (x, dm_mach s)"
      and after: "\<And>x' m'. M D S T (x', m') \<Longrightarrow> sq_stage n (put (Some x') (s\<lparr>dm_mach := m'\<rparr>))"
    using assms(2) by blast
  show "wlp (object_do get put p) (\<lambda>_. sq_stage n) sq_unwinding s"
    unfolding wlp_object_do x(1) option.case
    by (rule wlp_mono[OF goesD[OF assms(1) x(2)]]) (auto intro: after sq_unwindingI[OF _ after])
qed

lemma goes_q_do:
  assumes "\<And>D S T. goes (thrown (query_mem D S T)) (query_mem D S T) p (query_mem D S T)" and "has_query n"
  shows "goes sq_unwinding (sq_stage n) (q_do p) (sq_stage n)"
proof (rule goes_object_do[OF assms(1)])
  fix s :: "'a sq_demo" assume s: "sq_stage n s"
  then obtain q where q: "dm_q s = Some q" using stage_objects(2) assms(2) by blast
  show "\<exists>x D S T. dm_q s = Some x \<and> query_mem D S T (x, dm_mach s) \<and>
      (\<forall>x' m'. query_mem D S T (x', m') \<longrightarrow> sq_stage n (s\<lparr>dm_mach := m', dm_q := Some x'\<rparr>))"
    using s q
    by (intro exI[of _ q] exI[of _ "held db_m_pDB (dm_db s)"] exI[of _ "held st_m_pStmt (dm_stmt s)"]
        exI[of _ "held rs_m_paszResults (dm_t s)"]) (auto simp: sq_stage_def stage_query)
qed

lemma goes_t_do:
  assumes "\<And>D S T. goes (thrown (rset_mem D S T)) (rset_mem D S T) p (rset_mem D S T)" and "has_rset n"
  shows "goes sq_unwinding (sq_stage n) (t_do p) (sq_stage n)"
proof (rule goes_object_do[OF assms(1)])
  fix s :: "'a sq_demo" assume s: "sq_stage n s"
  then obtain t where t: "dm_t s = Some t" using stage_objects(3) assms(2) by blast
  show "\<exists>x D S T. dm_t s = Some x \<and> rset_mem D S T (x, dm_mach s) \<and>
      (\<forall>x' m'. rset_mem D S T (x', m') \<longrightarrow> sq_stage n (s\<lparr>dm_mach := m', dm_t := Some x'\<rparr>))"
    using s t
    by (intro exI[of _ t] exI[of _ "held db_m_pDB (dm_db s)"]
        exI[of _ "held q_m_pStmt (dm_q s) \<union> held st_m_pStmt (dm_stmt s)"] exI[of _ "{}"])
      (simp add: sq_stage_def stage_rset)
qed

lemma goes_stmt_do:
  assumes "\<And>D S T. goes (thrown (stmt_mem D S T)) (stmt_mem D S T) p (stmt_mem D S T)" and "has_stmt n"
  shows "goes sq_unwinding (sq_stage n) (stmt_do p) (sq_stage n)"
proof (rule goes_object_do[OF assms(1)])
  fix s :: "'a sq_demo" assume s: "sq_stage n s"
  then obtain t where t: "dm_stmt s = Some t" using stage_objects(4) assms(2) by blast
  show "\<exists>x D S T. dm_stmt s = Some x \<and> stmt_mem D S T (x, dm_mach s) \<and>
      (\<forall>x' m'. stmt_mem D S T (x', m') \<longrightarrow> sq_stage n (s\<lparr>dm_mach := m', dm_stmt := Some x'\<rparr>))"
    using s t
    by (intro exI[of _ t] exI[of _ "held db_m_pDB (dm_db s)"] exI[of _ "held q_m_pStmt (dm_q s)"]
        exI[of _ "held rs_m_paszResults (dm_t s)"]) (simp add: sq_stage_def stage_stmt)
qed

lemma stage_db_after:
  assumes "sq_stage n s" and "dm_db s = Some db" and "has_db n"
    and "db_mem (held db_m_pDB (dm_db s)) (held q_m_pStmt (dm_q s) \<union> held st_m_pStmt (dm_stmt s))
       (held rs_m_paszResults (dm_t s)) (db', m')"
  shows "sq_stage n (s\<lparr>dm_mach := m', dm_db := Some db'\<rparr>)"
proof -
  have "held db_m_pDB (Some db') = held db_m_pDB (dm_db s)" using assms(4) by (simp add: db_mem_def)
  then show ?thesis
    using assms stage_db[of s db] stage_db[of "s\<lparr>dm_mach := m', dm_db := Some db'\<rparr>" db'] by (auto simp: sq_stage_def)
qed

lemma goes_db_do:
  assumes "\<And>D S T. goes (thrown (db_mem D S T)) (db_mem D S T) p (db_mem D S T)" and "has_db n"
  shows "goes sq_unwinding (sq_stage n) (db_do p) (sq_stage n)"
proof (rule goes_object_do[OF assms(1)])
  fix s :: "'a sq_demo" assume s: "sq_stage n s"
  then obtain db where db: "dm_db s = Some db" using stage_objects(1) assms(2) by fastforce
  have i: "db_mem (held db_m_pDB (dm_db s)) (held q_m_pStmt (dm_q s) \<union> held st_m_pStmt (dm_stmt s))
      (held rs_m_paszResults (dm_t s)) (db, dm_mach s)"
    using s stage_db[OF db] by (simp add: sq_stage_def)
  show "\<exists>x D S T. dm_db s = Some x \<and> db_mem D S T (x, dm_mach s) \<and>
      (\<forall>x' m'. db_mem D S T (x', m') \<longrightarrow> sq_stage n (s\<lparr>dm_mach := m', dm_db := Some x'\<rparr>))"
    using db i stage_db_after[OF s db assms(2)] by blast
qed

section \<open>New objects\<close>

text \<open>What \<open>execQuery\<close>, \<open>getResultSet\<close> and \<open>compileStatement\<close> have in common: a new object that owns what is new.\<close>

lemma db_do_new:
  assumes "\<And>D S T x. db_mem D S T x \<Longrightarrow>
      wlp p (\<lambda>y x'. fst x' = fst x \<and> M D S T (y, snd x')) (thrown (db_mem D S T)) x"
    and "sq_stage n s" and "has_db n"
    and "\<And>y m. M (held db_m_pDB (dm_db s)) (held q_m_pStmt (dm_q s) \<union> held st_m_pStmt (dm_stmt s))
           (held rs_m_paszResults (dm_t s)) (y, m) \<Longrightarrow> Q y (s\<lparr>dm_mach := m\<rparr>)"
  shows "wlp (db_do p) Q sq_unwinding s"
proof -
  obtain db where db: "dm_db s = Some db" using stage_objects(1) assms(2,3) by fastforce
  have same: "s\<lparr>dm_mach := m, dm_db := Some db\<rparr> = s\<lparr>dm_mach := m\<rparr>" for m using db by (cases s) simp
  have i: "db_mem (held db_m_pDB (dm_db s)) (held q_m_pStmt (dm_q s) \<union> held st_m_pStmt (dm_stmt s))
      (held rs_m_paszResults (dm_t s)) (db, dm_mach s)"
    using assms(2) stage_db[OF db] by (simp add: sq_stage_def)
  show ?thesis
    unfolding wlp_object_do db option.case
    by (rule wlp_mono[OF assms(1)[OF i]])
      (auto simp: same intro: assms(4) sq_unwindingI[OF _ stage_db_after[OF assms(2) db assms(3)]])
qed

lemma sq_query_new:
  fixes lb :: "'w sqlite3_lib"
  assumes "sq_documented lb"
  shows "goes sq_unwinding (sq_stage Opened)
    (construct (\<lambda>x. dm_q_update (\<lambda>_. x)) (db_do (CppSQLite3DB_execQuery lb sql))) (sq_stage Reading)"
proof (rule goesI)
  fix s :: "'w sq_demo" assume s: "sq_stage Opened s"
  show "wlp (construct (\<lambda>x. dm_q_update (\<lambda>_. x)) (db_do (CppSQLite3DB_execQuery lb sql)))
      (\<lambda>_. sq_stage Reading) sq_unwinding s"
    unfolding wlp_construct
    by (rule db_do_new[OF db_execQuery_safe[OF assms] s]) (use s in \<open>auto simp: sq_stage_def stage_query\<close>)
qed

lemma sq_rset_new:
  fixes lb :: "'w sqlite3_lib"
  assumes "sq_documented lb"
  shows "goes sq_unwinding (sq_stage Queried)
    (construct (\<lambda>x. dm_t_update (\<lambda>_. x)) (db_do (CppSQLite3DB_getResultSet lb sql))) (sq_stage Fetched)"
proof (rule goesI)
  fix s :: "'w sq_demo" assume s: "sq_stage Queried s"
  show "wlp (construct (\<lambda>x. dm_t_update (\<lambda>_. x)) (db_do (CppSQLite3DB_getResultSet lb sql)))
      (\<lambda>_. sq_stage Fetched) sq_unwinding s"
    unfolding wlp_construct
    by (rule db_do_new[OF db_getResultSet_safe[OF assms] s]) (use s in \<open>auto simp: sq_stage_def sq_books_def rset_mem_def\<close>)
qed

lemma sq_stmt_new:
  fixes lb :: "'w sqlite3_lib"
  assumes "sq_documented lb"
  shows "goes sq_unwinding (sq_stage Fetched)
    (construct (\<lambda>x. dm_stmt_update (\<lambda>_. x)) (db_do (CppSQLite3DB_compileStatement lb sql))) (sq_stage Prepared)"
proof (rule goesI)
  fix s :: "'w sq_demo" assume s: "sq_stage Fetched s"
  show "wlp (construct (\<lambda>x. dm_stmt_update (\<lambda>_. x)) (db_do (CppSQLite3DB_compileStatement lb sql)))
      (\<lambda>_. sq_stage Prepared) sq_unwinding s"
    unfolding wlp_construct
    by (rule db_do_new[OF db_compileStatement_safe[OF assms] s]) (use s in \<open>auto simp: sq_stage_def sq_books_def stmt_mem_def\<close>)
qed

section \<open>Assignments\<close>

lemma destroy_empty:
  "q_m_pStmt q = None \<Longrightarrow> CppSQLite3Query_destroy lb (q, m) = (Ret (), (q, m))"
  "rs_m_paszResults t = None \<Longrightarrow> CppSQLite3ResultSet_destroy (t, m) = (Ret (), (t, m))"
  by (simp_all add: CppSQLite3Query_destroy_def CppSQLite3Query_clear_def CppSQLite3ResultSet_destroy_def
      CppSQLite3ResultSet_clear_def prog_simps)

lemma sq_query_assigned:
  fixes lb :: "'w sqlite3_lib"
  assumes "sq_documented lb" and "has_query n"
  shows "goes sq_unwinding (sq_stage n)
    (assign_temp dm_q (\<lambda>x. dm_q_update (\<lambda>_. x)) (CppSQLite3Query_assign lb False) (CppSQLite3Query_destroy lb)
       (db_do (CppSQLite3DB_execQuery lb sql))) (sq_stage n)"
proof (rule goesI)
  fix s :: "'w sq_demo" assume s: "sq_stage n s"
  obtain x where x: "dm_q s = Some x" using stage_objects(2)[OF s assms(2)] by blast
  let ?D = "held db_m_pDB (dm_db s)" and ?S = "held st_m_pStmt (dm_stmt s)" and ?T = "held rs_m_paszResults (dm_t s)"
  have b: "query_mem ?D ?S ?T (x, dm_mach s)" using s stage_query[OF x] by (simp add: sq_stage_def)
  have assign: "wlp (CppSQLite3Query_assign lb False x y)
      (\<lambda>xy m. wlp (CppSQLite3Query_destroy lb) (\<lambda>_ z. sq_stage n (s\<lparr>dm_mach := snd z, dm_q := Some (fst xy)\<rparr>))
         (\<lambda>e z. sq_unwinding e (s\<lparr>dm_mach := snd z, dm_q := Some (fst xy)\<rparr>)) (snd xy, m))
      (\<lambda>e m. sq_unwinding e (s\<lparr>dm_mach := m\<rparr>)) m"
    if "query_mem ?D (held q_m_pStmt (dm_q s) \<union> ?S) ?T (y, m)" for y m
  proof -
    have m: "query_mem ?D (?S \<union> set_option (q_m_pStmt y)) ?T (x, m)"
        "query_mem ?D (?S \<union> set_option (q_m_pStmt x)) ?T (y, m)" "?S \<inter> set_option (q_m_pStmt x) = {}"
      using b that by (auto simp: query_mem_def x Un_ac)
    show ?thesis
      by (rule wlp_mono[OF query_assign_safe[OF m]])
        (use s x in \<open>auto simp: wlp_def destroy_empty sq_stage_def stage_query\<close>)
  qed
  show "wlp (assign_temp dm_q (\<lambda>x. dm_q_update (\<lambda>_. x)) (CppSQLite3Query_assign lb False) (CppSQLite3Query_destroy lb)
      (db_do (CppSQLite3DB_execQuery lb sql))) (\<lambda>_. sq_stage n) sq_unwinding s"
    unfolding wlp_assign_temp
    by (rule db_do_new[OF db_execQuery_safe[OF assms(1)] s]) (use assms(2) x assign in simp_all)
qed

lemma sq_rset_assigned:
  fixes lb :: "'w sqlite3_lib"
  assumes "sq_documented lb" and "has_rset n"
  shows "goes sq_unwinding (sq_stage n)
    (assign_temp dm_t (\<lambda>x. dm_t_update (\<lambda>_. x)) (CppSQLite3ResultSet_assign False) CppSQLite3ResultSet_destroy
       (db_do (CppSQLite3DB_getResultSet lb sql))) (sq_stage n)"
proof (rule goesI)
  fix s :: "'w sq_demo" assume s: "sq_stage n s"
  obtain x where x: "dm_t s = Some x" using stage_objects(3)[OF s assms(2)] by blast
  let ?D = "held db_m_pDB (dm_db s)" and ?S = "held q_m_pStmt (dm_q s) \<union> held st_m_pStmt (dm_stmt s)"
  have assign: "wlp (CppSQLite3ResultSet_assign False x y)
      (\<lambda>xy m. wlp CppSQLite3ResultSet_destroy (\<lambda>_ z. sq_stage n (s\<lparr>dm_mach := snd z, dm_t := Some (fst xy)\<rparr>))
         (\<lambda>e z. sq_unwinding e (s\<lparr>dm_mach := snd z, dm_t := Some (fst xy)\<rparr>)) (snd xy, m))
      (\<lambda>e m. sq_unwinding e (s\<lparr>dm_mach := m\<rparr>)) m"
    if "rset_mem ?D ?S (held rs_m_paszResults (dm_t s)) (y, m)" for y m
  proof -
    have m: "rset_mem ?D ?S ({} \<union> set_option (rs_m_paszResults y)) (x, m)" "{} \<inter> set_option (rs_m_paszResults y) = {}"
      using that by (auto simp: rset_mem_def x Un_ac)
    show ?thesis
      by (rule wlp_mono[OF rset_assign_safe[OF m]])
        (use s x in \<open>auto simp: wlp_def destroy_empty sq_stage_def stage_rset\<close>)
  qed
  show "wlp (assign_temp dm_t (\<lambda>x. dm_t_update (\<lambda>_. x)) (CppSQLite3ResultSet_assign False) CppSQLite3ResultSet_destroy
      (db_do (CppSQLite3DB_getResultSet lb sql))) (\<lambda>_. sq_stage n) sq_unwinding s"
    unfolding wlp_assign_temp
    by (rule db_do_new[OF db_getResultSet_safe[OF assms(1)] s]) (use assms(2) x assign in simp_all)
qed

section \<open>Opening and destroying\<close>

lemma sq_db_new:
  "goes sq_unwinding (sq_stage Nothing)
     (construct (\<lambda>x. dm_db_update (\<lambda>_. x)) (mach_do (ret CppSQLite3DB_default))) (sq_stage Connected)"
  by (auto simp: goes_def wlp_simps sq_stage_def sq_books_def CppSQLite3DB_default_def)

lemma sq_db_setup:
  "goes sq_unwinding (sq_stage Connected) (db_do (on_mach (\<lambda>m. (Ret (), m\<lparr>lib := f (lib m)\<rparr>)))) (sq_stage Connected)"
  by (auto simp: goes_def wlp_simps wlp_state sq_stage_def sq_books_def split: option.split)

lemma sq_db_open:
  fixes lb :: "'w sqlite3_lib"
  shows "goes sq_unwinding (sq_stage Connected) (db_do (CppSQLite3DB_open lb f)) (sq_stage Opened)"
proof (rule goesI)
  fix s :: "'w sq_demo" assume s: "sq_stage Connected s"
  obtain db where db: "dm_db s = Some db" using stage_objects(1)[OF s] by blast
  have i: "db_mem {} {} {} (db, dm_mach s)" using s db by (auto simp: sq_stage_def sq_books_def db_mem_def)
  have after: "sq_stage Opened (s\<lparr>dm_mach := m', dm_db := Some db'\<rparr>)"
    if "db_mem (set_option (db_m_pDB db')) {} {} (db', m')" for db' m'
    using s that by (simp add: sq_stage_def sq_books_def db_mem_def)
  show "wlp (db_do (CppSQLite3DB_open lb f)) (\<lambda>_. sq_stage Opened) sq_unwinding s"
    unfolding wlp_object_do db option.case
    by (rule wlp_mono[OF db_open_safe[OF i]]) (auto intro: after sq_unwindingI[OF _ after])
qed

lemma sq_stmt_destroyed:
  assumes "has_stmt n"
  shows "goes never (sq_stage n) (destroy_local dm_stmt (\<lambda>x. dm_stmt_update (\<lambda>_. x)) (CppSQLite3Statement_destroy lb))
     (sq_stage Fetched)"
proof (rule goesI)
  fix s :: "'a sq_demo" assume "sq_stage n s"
  then have s: "sq_stage Prepared s" using assms by (auto simp: sq_stage_same)
  obtain t where t: "dm_stmt s = Some t" using stage_objects(4)[OF s] by auto
  have i: "stmt_mem (held db_m_pDB (dm_db s)) (held q_m_pStmt (dm_q s)) (held rs_m_paszResults (dm_t s)) (t, dm_mach s)"
    using s stage_stmt[OF t] by (auto simp: sq_stage_def)
  show "wlp (destroy_local dm_stmt (\<lambda>x. dm_stmt_update (\<lambda>_. x)) (CppSQLite3Statement_destroy lb)) (\<lambda>_. sq_stage Fetched) never s"
    unfolding wlp_destroy_local[where get = dm_stmt, OF t]
    by (rule wlp_mono[OF stmt_destroy_safe[OF i]]) (use s in \<open>auto simp: sq_stage_def sq_books_def\<close>)
qed

lemma sq_rset_destroyed:
  "goes never (sq_stage Fetched) (destroy_local dm_t (\<lambda>x. dm_t_update (\<lambda>_. x)) CppSQLite3ResultSet_destroy) (sq_stage Queried)"
proof (rule goesI)
  fix s :: "'a sq_demo" assume s: "sq_stage Fetched s"
  obtain t where t: "dm_t s = Some t" using stage_objects(3)[OF s] by auto
  have i: "rset_mem (held db_m_pDB (dm_db s)) (held q_m_pStmt (dm_q s)) {} (t, dm_mach s)"
    using s stage_rset[OF t] by (auto simp: sq_stage_def)
  show "wlp (destroy_local dm_t (\<lambda>x. dm_t_update (\<lambda>_. x)) CppSQLite3ResultSet_destroy) (\<lambda>_. sq_stage Queried) never s"
    unfolding wlp_destroy_local[where get = dm_t, OF t]
    by (rule wlp_mono[OF rset_destroy_safe[OF i]]) (use s in \<open>auto simp: sq_stage_def sq_books_def\<close>)
qed

lemma sq_query_destroyed:
  assumes "n \<in> {Reading, Queried}"
  shows "goes never (sq_stage n) (destroy_local dm_q (\<lambda>x. dm_q_update (\<lambda>_. x)) (CppSQLite3Query_destroy lb)) (sq_stage Opened)"
proof (rule goesI)
  fix s :: "'a sq_demo" assume "sq_stage n s"
  then have s: "sq_stage Reading s" using assms by (auto simp: sq_stage_same)
  obtain q where q: "dm_q s = Some q" using stage_objects(2)[OF s] by auto
  have i: "query_mem (held db_m_pDB (dm_db s)) {} {} (q, dm_mach s)"
    using s stage_query[OF q] by (auto simp: sq_stage_def)
  show "wlp (destroy_local dm_q (\<lambda>x. dm_q_update (\<lambda>_. x)) (CppSQLite3Query_destroy lb)) (\<lambda>_. sq_stage Opened) never s"
    unfolding wlp_destroy_local[where get = dm_q, OF q]
    by (rule wlp_mono[OF query_destroy_safe[OF i]]) (use s in \<open>auto simp: sq_stage_def sq_books_def\<close>)
qed

lemma sq_db_destroyed:
  assumes "\<not> has_query n"
  shows "goes never (sq_stage n) (destroy_local dm_db (\<lambda>x. dm_db_update (\<lambda>_. x)) (CppSQLite3DB_destroy lb)) sq_released"
proof (rule goesI)
  fix s :: "'a sq_demo" assume s: "sq_stage n s"
  then have m: "sq_mem (held db_m_pDB (dm_db s)) {} {} (dm_mach s)"
    using assms by (cases n) (auto simp: sq_stage_def sq_books_def)
  show "wlp (destroy_local dm_db (\<lambda>x. dm_db_update (\<lambda>_. x)) (CppSQLite3DB_destroy lb)) (\<lambda>_. sq_released) never s"
  proof (cases "dm_db s")
    case None
    then show ?thesis using m by (auto simp: destroy_absent wlp_def sq_released_def)
  next
    case (Some db)
    have i: "db_mem (held db_m_pDB (dm_db s)) {} {} (db, dm_mach s)" using m Some by (simp add: db_mem_def)
    show ?thesis
      unfolding wlp_destroy_local[where get = dm_db, OF Some]
      by (rule wlp_mono[OF db_destroy_safe[OF i]]) (auto simp: sq_released_def)
  qed
qed

text \<open>
  Without the documented behaviour the books promise nothing; an exception on its way owns nothing,
  but its text can be read.
\<close>

definition sq_at :: "'w sqlite3_lib \<Rightarrow> sq_exn phase \<Rightarrow> stage \<Rightarrow> 'w sq_demo \<Rightarrow> bool" where
  "sq_at lb x n s \<longleftrightarrow> sq_documented lb \<and> sq_stage n s \<and> (\<forall>e. x = Leaving (Some e) \<longrightarrow> sq_exn_ok e)"

definition sq_left :: "sq_exn option \<Rightarrow> 'w sq_demo \<Rightarrow> bool" where
  "sq_left x s \<longleftrightarrow> sq_released s \<and> (\<forall>e. x = Some e \<longrightarrow> sq_exn_ok e)"

lemma sq_moves:
  assumes "sq_documented lb \<Longrightarrow> goes sq_unwinding (sq_stage n) p (sq_stage n')"
  shows "moves (sq_at lb) n p n'"
proof (rule goesI)
  fix s assume s: "sq_at lb Running n s"
  then show "wlp p (\<lambda>_. sq_at lb Running n') (unwinding (sq_at lb)) s"
    by (intro wlp_mono[OF goesD[OF assms]]) (auto simp: sq_at_def unwinding_def sq_unwinding_def)
qed

lemma sq_leaves:
  assumes "goes never (sq_stage n) p (sq_stage n')"
  shows "goes never (sq_at lb (Leaving x) n) p (sq_at lb (Leaving x) n')"
proof (rule goesI)
  fix s assume s: "sq_at lb (Leaving x) n s"
  then show "wlp p (\<lambda>_. sq_at lb (Leaving x) n') never s"
    by (intro wlp_mono[OF goesD[OF assms]]) (auto simp: sq_at_def)
qed

lemma sq_handler:
  "goes never (sq_left (Some e)) (demo_handler (sqlite_backend rm lb) e) (sq_left None)"
proof (rule goesI)
  fix s :: "'a sq_demo" assume s: "sq_left (Some e) s"
  then obtain t where "CppSQLite3Exception_errorMessage e = Ret t" by (auto simp: sq_left_def sq_exn_ok_def)
  then show "wlp (demo_handler (sqlite_backend rm lb) e) (\<lambda>_. sq_left None) never s"
    using s
    by (simp add: demo_handler_def exn_do_def sqlite_backend_def CppSQLite3Exception_members_def mach_do_def
        wlp_def cerr_def sq_left_def sq_released_def prog_simps)
qed

lemma sq_db_left:
  assumes "\<not> has_query n"
  shows "goes never (sq_at lb (Leaving x) n) (destroy_local dm_db (\<lambda>x. dm_db_update (\<lambda>_. x)) (CppSQLite3DB_destroy lb)) (sq_left x)"
proof (rule goesI)
  fix s assume s: "sq_at lb (Leaving x) n s"
  then show "wlp (destroy_local dm_db (\<lambda>x. dm_db_update (\<lambda>_. x)) (CppSQLite3DB_destroy lb)) (\<lambda>_. sq_left x) never s"
    by (intro wlp_mono[OF goesD[OF sq_db_destroyed[OF assms]]]) (auto simp: sq_at_def sq_left_def)
qed

interpretation sq_safe: safe_backend "sqlite_backend rm lb" "sq_at lb" sq_left for rm lb
proof -
  have emp: "cstring ''emp''" "length (table_exists_sql ''emp'') < 254" by (simp_all add: NUL_def table_exists_sql_length)
  have buf: "goes sq_unwinding (sq_stage Prepared) (mach_do (ret u)) (sq_stage Prepared :: 'a sq_demo \<Rightarrow> bool)"
    for u :: "string option"
    by (simp add: goes_def wlp_simps)
  note members = CppSQLite3DB_members_def CppSQLite3Query_members_def CppSQLite3ResultSet_members_def
    CppSQLite3Statement_members_def
  note d = goes_db_do[OF goes_db_execDML] goes_db_do[OF db_execScalar_safe]
    goes_db_do[OF goes_db_tableExists[OF _ emp]] goes_db_do[OF goes_db_start_commit(1)]
    goes_db_do[OF goes_db_start_commit(2)]
  note q = goes_q_do[OF goes_query_eof] goes_q_do[OF goes_query_numFields] goes_q_do[OF goes_query_fieldName]
    goes_q_do[OF goes_query_getStringField] goes_q_do[OF goes_query_nextRow] goes_q_do[OF goes_query_clear]
  note t = goes_t_do[OF goes_rset_eof] goes_t_do[OF goes_rset_numFields] goes_t_do[OF goes_rset_numRows]
    goes_t_do[OF goes_rset_fieldName] goes_t_do[OF goes_rset_fieldValue] goes_t_do[OF goes_rset_seekRow]
    goes_t_do[OF goes_rset_nextRow] goes_t_do[OF goes_rset_clear]
  note st = goes_stmt_do[OF goes_stmt_bind_int] goes_stmt_do[OF goes_stmt_bind_text] goes_stmt_do[OF goes_stmt_execDML]
    goes_stmt_do[OF goes_stmt_reset] goes_stmt_do[OF goes_stmt_clear] buf
  note new = sq_db_new sq_db_setup sq_db_open sq_query_new sq_rset_new[unfolded sq_stage_same]
    sq_stmt_new sq_query_assigned sq_rset_assigned
  have out: "sq_at lb Running n s \<Longrightarrow> sq_at lb Running n (s\<lparr>dm_out := u\<rparr>)" for n u and s :: "'a sq_demo"
    by (simp add: sq_at_def sq_stage_def sq_books_def)
  have leave: "sq_at lb Running n s \<Longrightarrow> sq_at lb (Leaving None) n s" for n and s :: "'a sq_demo"
    by (simp add: sq_at_def)
  have shape: "(dm_db s = None) = (n = Nothing) \<and> (dm_q s = None) = (\<not> has_query n) \<and>
      (dm_t s = None) = (\<not> has_rset n) \<and> (dm_stmt s = None) = (\<not> has_stmt n)"
    if "sq_at lb x n s" for x n and s :: "'a sq_demo"
    using that by (simp only: sq_at_def sq_stage_def)
  show "safe_backend (sqlite_backend rm lb) (sq_at lb) sq_left"
    by unfold_locales
      (use shape out leave sq_handler[of _ rm lb] in \<open>auto simp: sqlite_backend_def members sq_stage_same
         intro!: sq_moves sq_leaves new d q t st sq_stmt_destroyed sq_rset_destroyed sq_query_destroyed sq_db_left\<close>)
qed

end
