(* ===== verification/MysqlMemory.thy ===== *)
theory MysqlMemory
  imports Triples MysqlClasses
begin

text \<open>
  What is live in the machine of the MySQL classes, as a set of numbered things of seven kinds, and
  the weakest preconditions of the calls.  Nothing is asked of the library.
\<close>

section \<open>Calls\<close>

lemma wlp_my_call [wlp_simps]:
  "wlp (my_call f) Q E = (\<lambda>m. \<forall>r w'. f (mlib m) = (r, w') \<longrightarrow> Q r (m\<lparr>mlib := w'\<rparr>))"
  by (rule ext) (auto simp: wlp_def my_call_def split: prod.split)

lemma wlp_live_call [wlp_simps]:
  "wlp (live_call live p f) Q E = (\<lambda>m. \<forall>h. p = Some h \<longrightarrow> h \<in> live m \<and> wlp (my_call (f h)) Q E m)"
  by (rule ext) (auto simp: wlp_def live_call_def split: option.split)

lemma wlp_my_fresh_id [wlp_simps]:
  "wlp my_fresh_id Q E = (\<lambda>m. Q (my_next m) (m\<lparr>my_next := Suc (my_next m)\<rparr>))"
  by (rule ext) (simp add: wlp_def my_fresh_id_def)

lemma wlp_call_init [wlp_simps]:
  "wlp (call_init lb) Q E =
     (\<lambda>m. \<forall>some w'. mysql_init lb (my_next m) (mlib m) = (some, w') \<longrightarrow>
        (if some
         then Q (Some (my_next m)) (m\<lparr>my_next := Suc (my_next m), mlib := w', live_conn := insert (my_next m) (live_conn m)\<rparr>)
         else Q None (m\<lparr>my_next := Suc (my_next m), mlib := w'\<rparr>)))"
  by (rule ext) (auto simp: wlp_def call_init_def bindP_def my_fresh_id_def my_call_def split: prod.split)

lemma wlp_call_mysql_close [wlp_simps]:
  "wlp (call_mysql_close lb p) Q E =
     wlp (live_call live_conn p (mysql_close lb)) (\<lambda>_ m. Q () (m\<lparr>live_conn := live_conn m - set_option p\<rparr>)) E"
  by (simp add: call_mysql_close_def wlp_bindP wlp_state)

lemma wlp_call_store_result [wlp_simps]:
  "wlp (call_store_result lb p) Q E =
     (\<lambda>m. \<forall>c. p = Some c \<longrightarrow> c \<in> live_conn m \<and>
        (\<forall>some w'. mysql_store_result lb c (my_next m) (mlib m) = (some, w') \<longrightarrow>
        (if some
         then Q (Some (my_next m)) (m\<lparr>my_next := Suc (my_next m), mlib := w', live_res := insert (my_next m) (live_res m)\<rparr>)
         else Q None (m\<lparr>my_next := Suc (my_next m), mlib := w'\<rparr>))))"
  by (rule ext)
    (auto simp: wlp_def call_store_result_def bindP_def my_fresh_id_def live_call_def my_call_def split: prod.split option.split)

lemma wlp_call_stmt_init [wlp_simps]:
  "wlp (call_stmt_init lb p) Q E =
     (\<lambda>m. \<forall>c. p = Some c \<longrightarrow> c \<in> live_conn m \<and>
        (\<forall>some w'. mysql_stmt_init lb c (my_next m) (mlib m) = (some, w') \<longrightarrow>
        (if some
         then Q (Some (my_next m)) (m\<lparr>my_next := Suc (my_next m), mlib := w', live_mstmt := insert (my_next m) (live_mstmt m)\<rparr>)
         else Q None (m\<lparr>my_next := Suc (my_next m), mlib := w'\<rparr>))))"
  by (rule ext)
    (auto simp: wlp_def call_stmt_init_def bindP_def my_fresh_id_def live_call_def my_call_def split: prod.split option.split)

lemma wlp_call_free_result [wlp_simps]:
  "wlp (call_free_result lb p) Q E =
     (\<lambda>m. case p of None \<Rightarrow> Q () m
        | Some h \<Rightarrow> h \<in> live_res m \<and> (\<forall>w'. mysql_free_result lb h (mlib m) = ((), w') \<longrightarrow>
            Q () (m\<lparr>mlib := w', live_res := live_res m - {h}\<rparr>)))"
  by (rule ext) (auto simp: wlp_def call_free_result_def bindP_def my_call_def split: prod.split option.split)

lemma wlp_call_stmt_close [wlp_simps]:
  "wlp (call_stmt_close lb p) Q E =
     (\<lambda>m. \<forall>h. p = Some h \<longrightarrow> h \<in> live_mstmt m \<and> (\<forall>r w'. mysql_stmt_close lb h (mlib m) = (r, w') \<longrightarrow>
            Q () (m\<lparr>mlib := w', live_mstmt := live_mstmt m - {h}\<rparr>)))"
  by (rule ext) (auto simp: wlp_def call_stmt_close_def bindP_def my_call_def split: prod.split option.split)

lemma wlp_call_stmt_execute [wlp_simps]:
  "wlp (call_stmt_execute lb p) Q E =
     (\<lambda>m. wlp (live_call live_mstmt p (\<lambda>h. mysql_stmt_execute lb h (read_buffer m))) Q E m)"
  by (rule ext) (simp add: wlp_def call_stmt_execute_def)

lemma wlp_new [wlp_simps]:
  "wlp (new_str t) Q E = (\<lambda>m. Q (my_next m) (m\<lparr>my_next := Suc (my_next m), heap_str := (heap_str m)(my_next m \<mapsto> t)\<rparr>))"
  "wlp (new_rows r) Q E = (\<lambda>m. Q (my_next m) (m\<lparr>my_next := Suc (my_next m), heap_rows := (heap_rows m)(my_next m \<mapsto> r)\<rparr>))"
  "wlp (new_map k) Q E = (\<lambda>m. Q (my_next m) (m\<lparr>my_next := Suc (my_next m), heap_map := (heap_map m)(my_next m \<mapsto> k)\<rparr>))"
  "wlp new_bind Q E = (\<lambda>m. Q (my_next m) (m\<lparr>my_next := Suc (my_next m), heap_bind := (heap_bind m)(my_next m \<mapsto> [])\<rparr>))"
  by (rule ext, simp add: wlp_def heap_run)+

lemma wlp_delete [wlp_simps]:
  "wlp (delete_str p) Q E = (\<lambda>m. case p of None \<Rightarrow> Q () m
     | Some a \<Rightarrow> a \<in> dom (heap_str m) \<and> Q () (m\<lparr>heap_str := (heap_str m)(a := None)\<rparr>))"
  "wlp (delete_rows p) Q E = (\<lambda>m. case p of None \<Rightarrow> Q () m
     | Some a \<Rightarrow> a \<in> dom (heap_rows m) \<and> Q () (m\<lparr>heap_rows := (heap_rows m)(a := None)\<rparr>))"
  "wlp (delete_map p) Q E = (\<lambda>m. case p of None \<Rightarrow> Q () m
     | Some a \<Rightarrow> a \<in> dom (heap_map m) \<and> Q () (m\<lparr>heap_map := (heap_map m)(a := None)\<rparr>))"
  "wlp (delete_bind p) Q E = (\<lambda>m. case p of None \<Rightarrow> Q () m
     | Some a \<Rightarrow> a \<in> dom (heap_bind m) \<and> Q () (m\<lparr>heap_bind := (heap_bind m)(a := None)\<rparr>))"
  by (rule ext, auto simp: wlp_def delete_str_def delete_rows_def delete_map_def delete_bind_def split: option.split)+

lemma wlp_deref [wlp_simps]:
  "wlp (deref heap p) Q E = (\<lambda>m. \<forall>a. p = Some a \<longrightarrow> a \<in> dom (heap m) \<and> (\<forall>x. heap m a = Some x \<longrightarrow> Q x m))"
  by (rule ext) (auto simp: wlp_def deref_def split: option.split)

lemma wlp_store_bind [wlp_simps]:
  "wlp (store_bind p bs) Q E =
     (\<lambda>m. \<forall>a. p = Some a \<longrightarrow> a \<in> dom (heap_bind m) \<and> Q () (m\<lparr>heap_bind := (heap_bind m)(a \<mapsto> bs)\<rparr>))"
  by (rule ext) (auto simp: store_bind_def wlp_simps wlp_state)

lemma wlp_vector_at [wlp_simps]:
  "wlp (vector_at xs i) Q E = (\<lambda>s. i < length xs \<longrightarrow> Q (xs ! i) s)"
  by (rule ext) (auto simp: wlp_def vector_at_def)

lemma wlp_throw_my [wlp_simps]:
  "wlp (throw_my n t) Q E = (\<lambda>m. E (my_error m n) (after_throw n t m))"
  by (rule ext) (simp add: wlp_def throw_my_run)

section \<open>What is live\<close>

datatype kind = Conn | Res | MStmt | Str | Rows | Names | Binds

type_synonym books = "(kind \<times> nat) set"

definition of_kind :: "kind \<Rightarrow> books \<Rightarrow> nat set" where
  "of_kind k B = {i. (k, i) \<in> B}"

definition my_mem :: "string \<Rightarrow> books \<Rightarrow> 'w my_mach \<Rightarrow> bool" where
  "my_mem N B m \<longleftrightarrow>
     live_conn m = of_kind Conn B \<and> live_res m = of_kind Res B \<and> live_mstmt m = of_kind MStmt B \<and>
     dom (heap_str m) = of_kind Str B \<and> dom (heap_rows m) = of_kind Rows B \<and> dom (heap_map m) = of_kind Names B \<and>
     dom (heap_bind m) = of_kind Binds B \<and> my_fresh m \<and> s_DBName m = N"

definition e_owns :: "my_exn \<Rightarrow> books" where
  "e_owns e = Pair Str ` set_option (mye_m_pErrMess e)"

text \<open>
  What an operation that throws may lose: results (at most \<open>n\<close>), a statement, rows or names, but no
  connection, no text of an exception and no parameters.
\<close>

definition lost :: "nat \<Rightarrow> books \<Rightarrow> bool" where
  "lost n L \<longleftrightarrow> fst ` L \<subseteq> {Res, MStmt, Rows, Names} \<and> finite L \<and> card (of_kind Res L) \<le> n"

definition my_thrown :: "nat \<Rightarrow> (books \<Rightarrow> 's \<Rightarrow> bool) \<Rightarrow> books \<Rightarrow> my_exn \<Rightarrow> 's \<Rightarrow> bool" where
  "my_thrown n I B e s \<longleftrightarrow>
     (\<exists>L. lost n L \<and> B \<inter> L = {} \<and> B \<inter> e_owns e = {} \<and> I (B \<union> e_owns e \<union> L) s)"

text \<open>An object beside which \<open>B\<close> is live.\<close>

definition my_holds :: "('o \<Rightarrow> books) \<Rightarrow> string \<Rightarrow> books \<Rightarrow> 'o \<times> 'w my_mach \<Rightarrow> bool" where
  "my_holds own N B x \<longleftrightarrow> my_mem N (B \<union> own (fst x)) (snd x) \<and> B \<inter> own (fst x) = {}"

lemma of_kind_simps [simp]:
  "of_kind k {} = {}" "of_kind k (A \<union> B) = of_kind k A \<union> of_kind k B"
  "of_kind k (insert (k', i) B) = (if k = k' then insert i (of_kind k B) else of_kind k B)"
  "of_kind k (Pair k' ` X) = (if k = k' then X else {})" "of_kind k (B - A) = of_kind k B - of_kind k A"
  "of_kind k (e_owns e) = (if k = Str then set_option (mye_m_pErrMess e) else {})"
  by (auto simp: of_kind_def e_owns_def)

lemma finite_of_kind [simp]: "finite B \<Longrightarrow> finite (of_kind k B)"
  using finite_vimageI[of B "Pair k"] by (simp add: of_kind_def vimage_def inj_on_def)

lemma lost_none [simp]: "lost n {}"
  by (simp add: lost_def)

lemma my_mem_same [simp]:
  "my_mem N B (m\<lparr>mlib := w\<rparr>) = my_mem N B m" "my_mem N B (m\<lparr>s_nValue := i\<rparr>) = my_mem N B m"
  "my_mem N B (m\<lparr>s_dwValue := d\<rparr>) = my_mem N B m" "my_mem N B (m\<lparr>client_str := f\<rparr>) = my_mem N B m"
  by (simp_all add: my_mem_def my_fresh_def)

lemma my_mem_fresh: "my_mem N B m \<Longrightarrow> (k, my_next m) \<notin> B"
  by (cases k) (auto simp: my_mem_def my_fresh_def of_kind_def)

lemma my_memD:
  assumes "my_mem N B m"
  shows "live_conn m = of_kind Conn B" "live_res m = of_kind Res B" "live_mstmt m = of_kind MStmt B"
    "dom (heap_str m) = of_kind Str B" "dom (heap_rows m) = of_kind Rows B" "dom (heap_map m) = of_kind Names B"
    "dom (heap_bind m) = of_kind Binds B"
  using assms by (simp_all add: my_mem_def)

text \<open>Something new is live, or something is no longer.\<close>

lemma my_mem_next: "my_mem N B m \<Longrightarrow> my_mem N B (m\<lparr>my_next := Suc (my_next m)\<rparr>)"
  by (auto simp: my_mem_def my_fresh_def less_SucI)

lemma my_mem_new:
  assumes "my_mem N B m"
  shows "my_mem N (insert (Conn, my_next m) B) (m\<lparr>my_next := Suc (my_next m), live_conn := insert (my_next m) (live_conn m)\<rparr>)"
    "my_mem N (insert (Res, my_next m) B) (m\<lparr>my_next := Suc (my_next m), live_res := insert (my_next m) (live_res m)\<rparr>)"
    "my_mem N (insert (MStmt, my_next m) B) (m\<lparr>my_next := Suc (my_next m), live_mstmt := insert (my_next m) (live_mstmt m)\<rparr>)"
    "my_mem N (insert (Rows, my_next m) B) (m\<lparr>my_next := Suc (my_next m), heap_rows := (heap_rows m)(my_next m \<mapsto> r)\<rparr>)"
    "my_mem N (insert (Names, my_next m) B) (m\<lparr>my_next := Suc (my_next m), heap_map := (heap_map m)(my_next m \<mapsto> k)\<rparr>)"
    "my_mem N (insert (Binds, my_next m) B) (m\<lparr>my_next := Suc (my_next m), heap_bind := (heap_bind m)(my_next m \<mapsto> b)\<rparr>)"
    "my_mem N (insert (Str, my_next m) B) (after_throw n t m)"
  using assms by (auto simp: my_mem_def my_fresh_def after_throw_def less_SucI)

lemma my_mem_old:
  assumes "my_mem N B m"
  shows "my_mem N (B - {(Conn, h)}) (m\<lparr>live_conn := live_conn m - {h}\<rparr>)"
    "my_mem N (B - {(Res, h)}) (m\<lparr>live_res := live_res m - {h}\<rparr>)"
    "my_mem N (B - {(MStmt, h)}) (m\<lparr>live_mstmt := live_mstmt m - {h}\<rparr>)"
    "my_mem N (B - {(Str, h)}) (m\<lparr>heap_str := (heap_str m)(h := None)\<rparr>)"
    "my_mem N (B - {(Rows, h)}) (m\<lparr>heap_rows := (heap_rows m)(h := None)\<rparr>)"
    "my_mem N (B - {(Names, h)}) (m\<lparr>heap_map := (heap_map m)(h := None)\<rparr>)"
    "my_mem N (B - {(Binds, h)}) (m\<lparr>heap_bind := (heap_bind m)(h := None)\<rparr>)"
  using assms by (auto simp: my_mem_def my_fresh_def)

lemma my_mem_set:
  assumes "my_mem N B m"
  shows "(Rows, p) \<in> B \<Longrightarrow> my_mem N B (m\<lparr>heap_rows := (heap_rows m)(p \<mapsto> r)\<rparr>)"
    "(Names, p) \<in> B \<Longrightarrow> my_mem N B (m\<lparr>heap_map := (heap_map m)(p \<mapsto> k)\<rparr>)"
    "(Binds, p) \<in> B \<Longrightarrow> my_mem N B (m\<lparr>heap_bind := (heap_bind m)(p \<mapsto> b)\<rparr>)"
  using assms by (auto simp: my_mem_def my_fresh_def of_kind_def)

lemma my_error_owns: "e_owns (my_error m n) = {(Str, my_next m)}"
  by (simp add: e_owns_def my_error_def)

text \<open>What the thrower alone knew of is lost with it.\<close>

lemma my_thrown_lose:
  assumes "my_thrown 0 I (B \<union> X) e s" and "lost n X" and "B \<inter> X = {}"
  shows "my_thrown n I B e s"
proof -
  from assms(1) obtain L where L: "lost 0 L" "(B \<union> X) \<inter> L = {}" "(B \<union> X) \<inter> e_owns e = {}" "I (B \<union> X \<union> e_owns e \<union> L) s"
    unfolding my_thrown_def by blast
  have "card (of_kind Res X \<union> of_kind Res L) \<le> n"
    using card_Un_le[of "of_kind Res X" "of_kind Res L"] assms(2) L(1) by (simp add: lost_def)
  then have "lost n (X \<union> L)" using assms(2) L(1) by (auto simp: lost_def image_Un)
  moreover have "B \<union> X \<union> e_owns e \<union> L = B \<union> e_owns e \<union> (X \<union> L)" by blast
  moreover have "B \<inter> (X \<union> L) = {}" "B \<inter> e_owns e = {}" using L(2,3) assms(3) by blast+
  ultimately show ?thesis using L(4) unfolding my_thrown_def by metis
qed

text \<open>A throw of the wrapper itself loses nothing.\<close>

lemma my_holds_throw:
  assumes "my_holds own N B (x, m)"
  shows "my_thrown 0 (my_holds own N) B (my_error m n) (x, after_throw n t m)"
proof -
  have m: "my_mem N (B \<union> own x) m" "B \<inter> own x = {}" using assms by (simp_all add: my_holds_def)
  then show ?thesis
    using my_mem_new(7)[OF m(1), of n t] my_mem_fresh[OF m(1), of Str]
    by (auto simp: my_thrown_def my_holds_def my_error_owns intro!: exI[of _ "{}"])
qed

end
