(* ===== verification/MysqlSafety.thy ===== *)
theory MysqlSafety
  imports MysqlMemory
begin

text \<open>
  The queries and connections of the MySQL classes as the demonstration program uses them: what is
  live in the machine is what the objects and the exception on its way hold.
\<close>

section \<open>Queries\<close>

definition q_owns :: "my_query \<Rightarrow> books" where
  "q_owns q = Pair Res ` set_option (mq_m_pRES q)"

text \<open>The current row is one of the result the query holds.\<close>

definition my_reading :: "string \<Rightarrow> books \<Rightarrow> 'w my_qst \<Rightarrow> bool" where
  "my_reading N B x \<longleftrightarrow>
     my_holds q_owns N B x \<and> (\<forall>h cs. mq_m_Row (fst x) = Some (h, cs) \<longrightarrow> mq_m_pRES (fst x) = Some h)"

lemma of_kind_owns [simp]: "of_kind k (q_owns q) = (if k = Res then set_option (mq_m_pRES q) else {})"
  by (simp add: q_owns_def)

lemma my_holds_lib [simp]: "my_holds own N B (x, m\<lparr>mlib := w\<rparr>) = my_holds own N B (x, m)"
  by (simp add: my_holds_def)

lemma my_reading_lib [simp]:
  "my_reading N B (q, m\<lparr>mlib := w\<rparr>) = my_reading N B (q, m)"
  "my_reading N B (q\<lparr>mq_m_Field := f\<rparr>, m) = my_reading N B (q, m)"
  by (simp_all add: my_reading_def my_holds_def q_owns_def)

lemma my_reading_row [simp]:
  "my_reading N B (q, m) \<Longrightarrow> mq_m_pRES q = Some h \<Longrightarrow> my_reading N B (q\<lparr>mq_m_Row := map_option (Pair h) r\<rparr>, m)"
  by (auto simp: my_reading_def my_holds_def q_owns_def)

lemma my_reading_throw:
  assumes "my_reading N B (q, m)"
  shows "my_thrown 0 (my_reading N) B (my_error m n) (q, after_throw n t m)"
  using assms my_holds_throw[of q_owns N B q m n t] by (auto simp: my_thrown_def my_reading_def)

lemma my_reading_res: "my_reading N B (q, m) \<Longrightarrow> mq_m_pRES q = Some h \<Longrightarrow> h \<in> live_res m"
  by (auto simp: my_reading_def my_holds_def my_mem_def)

lemma my_reading_live:
  assumes "my_reading N B (q, m)" and "mq_m_Row q = Some (h, cs)"
  shows "h \<in> live_res m"
proof -
  have "mq_m_pRES q = Some h" using assms by (simp add: my_reading_def)
  with assms(1) show ?thesis by (rule my_reading_res)
qed

lemma wlp_row_cell [wlp_simps]:
  "wlp (row_cell i) Q E =
     (\<lambda>s. \<forall>h cs. mq_m_Row (fst s) = Some (h, cs) \<longrightarrow>
        h \<in> live_res (snd s) \<and> (0 \<le> i \<and> i < int (length cs) \<longrightarrow> Q (cs ! nat i) s))"
  by (rule ext) (auto simp: wlp_def row_cell_def split: option.split)

lemma wlp_field_def [wlp_simps]:
  "wlp (field_def f) Q E = (\<lambda>s. fst f \<in> live_res (snd s) \<and> Q (snd f) s)"
  by (rule ext) (auto simp: wlp_def field_def_def)

lemma wlp_nonnull [wlp_simps]: "wlp (nonnull p) Q E = (\<lambda>s. \<forall>t. p = Some t \<longrightarrow> Q t s)"
  by (rule ext) (auto simp: wlp_def nonnull_def split: option.split)

lemmas my_query_defs =
  goes_def CppMySQLQuery_checkRES_def seek_field_def next_field_def fetch_field_def fetch_row_def wlp_simps

lemmas my_reading_rules = my_reading_res my_reading_live my_reading_throw

lemma goes_my_query_eof: "goes (my_thrown 0 (my_reading N) B) (my_reading N B) CppMySQLQuery_eof (my_reading N B)"
  by (auto simp: CppMySQLQuery_eof_def my_query_defs)

lemma goes_my_query_count:
  "goes (my_thrown 0 I B) (I B) CppMySQLQuery_numFields (I B)" "goes (my_thrown 0 I B) (I B) CppMySQLQuery_numRows (I B)"
  by (auto simp: CppMySQLQuery_numFields_def CppMySQLQuery_numRows_def my_query_defs)

lemma goes_my_query_fieldName:
  "goes (my_thrown 0 (my_reading N) B) (my_reading N B) (CppMySQLQuery_fieldName lb i) (my_reading N B)"
  by (auto simp: CppMySQLQuery_fieldName_def my_query_defs split: option.split intro: my_reading_rules)

lemma goes_my_query_getStringField:
  "goes (my_thrown 0 (my_reading N) B) (my_reading N B) (CppMySQLQuery_getStringField i d) (my_reading N B)"
  by (auto simp: CppMySQLQuery_getStringField_def CppMySQLQuery_fieldDataIsNull_def CppMySQLQuery_fieldValue_def
      my_query_defs intro: my_reading_rules)

lemma goes_my_query_getIntField:
  "goes (my_thrown 0 (my_reading N) B) (my_reading N B) (CppMySQLQuery_getIntField i n) (my_reading N B)"
  unfolding CppMySQLQuery_getIntField_def CppMySQLQuery_fieldDataIsNull_def atoi_def
  by (intro goes_bind[where K = "my_reading N B"] goes_if goes_ret goes_my_query_getStringField goes_int_arith)
    (auto simp: my_query_defs intro: my_reading_rules)

lemma goes_my_query_nextRow:
  "goes (my_thrown 0 (my_reading N) B) (my_reading N B) (CppMySQLQuery_nextRow lb) (my_reading N B)"
  by (auto simp: CppMySQLQuery_nextRow_def my_query_defs intro: my_reading_rules)

text \<open>A cleared query holds nothing; its row may point into what has been freed.\<close>

lemma my_query_clear_safe:
  assumes "my_holds q_owns N B s"
  shows "wlp (CppMySQLQuery_clear lb) (\<lambda>_ s. my_holds q_owns N B s \<and> mq_m_pRES (fst s) = None) (\<lambda>_ _. False) s"
proof -
  obtain q m where s: "s = (q, m)" by (cases s)
  show ?thesis
  proof (cases "mq_m_pRES q")
    case None
    then show ?thesis using assms by (simp add: s CppMySQLQuery_clear_def wlp_simps)
  next
    case (Some h)
    then have m: "my_mem N (insert (Res, h) B) m" "(Res, h) \<notin> B" using assms by (auto simp: s my_holds_def q_owns_def)
    have "my_mem N B (m\<lparr>mlib := w, live_res := live_res m - {h}\<rparr>)" for w
      using my_mem_old(2)[of N "insert (Res, h) B" "m\<lparr>mlib := w\<rparr>" h] m by simp
    then show ?thesis
      using Some m(1) by (simp add: s CppMySQLQuery_clear_def wlp_simps my_holds_def q_owns_def my_memD)
  qed
qed

lemma goes_my_query_clear:
  "goes (my_thrown 0 (my_holds q_owns N) B) (my_holds q_owns N B) (CppMySQLQuery_clear lb) (my_holds q_owns N B)"
  by (rule goesI, rule wlp_mono[OF my_query_clear_safe]) auto

lemma my_query_destroy_safe:
  assumes "my_holds q_owns N B s"
  shows "wlp (CppMySQLQuery_destroy lb) (\<lambda>_ s. my_mem N B (snd s)) (\<lambda>_ _. False) s"
  unfolding CppMySQLQuery_destroy_def
  by (rule wlp_mono[OF my_query_clear_safe[OF assms]]) (auto simp: my_holds_def q_owns_def)

lemma load_result_safe:
  assumes "my_mem N B m" and "(Res, h) \<in> B"
  shows "wlp (load_result lb (Some h)) (\<lambda>(row, rows, flds) m. my_mem N B m \<and> (\<forall>h' cs. row = Some (h', cs) \<longrightarrow> h' = h)) E m"
  using assms by (auto simp: load_result_def fetch_row_def wlp_simps my_memD of_kind_def)

lemma my_query_new_safe:
  assumes "my_mem N (B \<union> Pair Res ` set_option p) m" and "B \<inter> Pair Res ` set_option p = {}"
  shows "wlp (CppMySQLQuery_new lb p) (\<lambda>q m. my_reading N B (q, m)) E m"
proof (cases p)
  case None
  then show ?thesis using assms by (simp add: CppMySQLQuery_new_def wlp_simps my_reading_def my_holds_def q_owns_def)
next
  case (Some h)
  then show ?thesis
    unfolding CppMySQLQuery_new_def using assms(2)
    by (simp add: wlp_bindP, intro wlp_mono[OF load_result_safe[OF assms(1)]])
      (auto simp: wlp_simps my_reading_def my_holds_def q_owns_def)
qed

lemma wlp_my_query_assign:
  "wlp (CppMySQLQuery_assign lb False x y) Q E m =
     wlp (catch_all (CppMySQLQuery_clear lb)) (\<lambda>_ (x', m').
       let x1 = x'\<lparr>mq_m_pRES := mq_m_pRES y, mq_m_Field := Init None\<rparr>; y' = y\<lparr>mq_m_pRES := None\<rparr>
       in if mq_m_pRES y \<noteq> None
          then wlp (load_result lb (mq_m_pRES y)) (\<lambda>(row, rows, flds).
                 Q (x1\<lparr>mq_m_Row := row, mq_m_numRows := rows, mq_m_numFields := flds\<rparr>, y')) E m'
          else Q (x1, y') m') (\<lambda>e (x', m'). E e m') (x, m)"
  by (auto simp: wlp_def CppMySQLQuery_assign_def Let_def bindP_def split: prod.split outcome.split)

lemma my_query_assign_safe:
  assumes "my_holds q_owns N (B \<union> q_owns y) (x, m)" and "B \<inter> q_owns y = {}"
  shows "wlp (CppMySQLQuery_assign lb False x y)
           (\<lambda>(x', y') m'. my_holds q_owns N B (x', m') \<and> mq_m_pRES y' = None) (\<lambda>_ _. False) m"
proof -
  have new: "wlp (load_result lb (Some h)) (\<lambda>(row, rows, flds). my_mem N (insert (Res, h) B)) (\<lambda>_ _. False) m'"
    if "my_mem N (insert (Res, h) B) m'" for m' h
    by (rule wlp_mono[OF load_result_safe[OF that]]) auto
  show ?thesis
    unfolding wlp_my_query_assign wlp_catch_all
    by (rule wlp_mono[OF my_query_clear_safe[OF assms(1)]])
      (use assms(2) new in \<open>auto simp: my_holds_def q_owns_def Let_def\<close>)
qed

section \<open>Connections\<close>

definition db_owns :: "my_db \<Rightarrow> books" where
  "db_owns db = Pair Conn ` set_option (mydb_m_pDB db)"

lemma db_owns_count [simp]: "db_owns (db\<lparr>mydb_m_inTransaction := n\<rparr>) = db_owns db"
  by (simp add: db_owns_def)

lemma my_db_live: "my_holds db_owns N B (db, m) \<Longrightarrow> mydb_m_pDB db = Some c \<Longrightarrow> c \<in> live_conn m"
  by (auto simp: my_holds_def my_mem_def db_owns_def)

lemma my_db_count [simp]:
  "my_holds db_owns N B (db\<lparr>mydb_m_inTransaction := n\<rparr>, m) = my_holds db_owns N B (db, m)"
  by (simp add: my_holds_def)

lemmas my_db_defs =
  goes_def CppMySQLDB_checkDB_def conn_member_db_def my_db_call_def my_db_throw_def throw_conn_error_def
  count_transaction_def wlp_simps

lemmas my_db_rules = my_db_live my_holds_throw

lemma goes_my_db_execDML:
  "goes (my_thrown 0 (my_holds db_owns N) B) (my_holds db_owns N B) (CppMySQLDB_execDML lb sql) (my_holds db_owns N B)"
  by (auto simp: CppMySQLDB_execDML_def my_db_defs intro: my_db_rules)

lemma goes_my_db_start_commit:
  "goes (my_thrown 0 (my_holds db_owns N) B) (my_holds db_owns N B) (CppMySQLDB_startTransaction lb) (my_holds db_owns N B)"
  "goes (my_thrown 0 (my_holds db_owns N) B) (my_holds db_owns N B) (CppMySQLDB_commitTransaction lb) (my_holds db_owns N B)"
proof -
  show "goes (my_thrown 0 (my_holds db_owns N) B) (my_holds db_owns N B) (CppMySQLDB_startTransaction lb) (my_holds db_owns N B)"
    unfolding CppMySQLDB_startTransaction_def
    by (rule goes_seq[OF goes_my_db_execDML]) (auto simp: my_db_defs)
  show "goes (my_thrown 0 (my_holds db_owns N) B) (my_holds db_owns N B) (CppMySQLDB_commitTransaction lb) (my_holds db_owns N B)"
    by (auto simp: CppMySQLDB_commitTransaction_def my_db_defs intro: my_db_rules)
qed

text \<open>A new handle of a live connection.\<close>

lemma store_result_safe:
  assumes "my_mem N B m" and "Pair Conn ` set_option p \<subseteq> B"
  shows "wlp (call_store_result lb p)
           (\<lambda>h m. my_mem N (B \<union> Pair Res ` set_option h) m \<and> B \<inter> Pair Res ` set_option h = {}) E m"
proof -
  have "my_mem N (insert (Res, my_next m) B) (m\<lparr>my_next := Suc (my_next m), mlib := w, live_res := insert (my_next m) (live_res m)\<rparr>)"
    for w using assms(1) by (auto simp: my_mem_def my_fresh_def less_SucI)
  then show ?thesis
    using assms my_mem_next[OF assms(1)] my_mem_fresh[OF assms(1)]
    by (auto simp: wlp_simps my_memD of_kind_def)
qed

lemma stmt_init_safe:
  assumes "my_mem N B m" and "Pair Conn ` set_option p \<subseteq> B"
  shows "wlp (call_stmt_init lb p)
           (\<lambda>h m. my_mem N (B \<union> Pair MStmt ` set_option h) m \<and> B \<inter> Pair MStmt ` set_option h = {}) E m"
proof -
  have "my_mem N (insert (MStmt, my_next m) B)
      (m\<lparr>my_next := Suc (my_next m), mlib := w, live_mstmt := insert (my_next m) (live_mstmt m)\<rparr>)"
    for w using assms(1) by (auto simp: my_mem_def my_fresh_def less_SucI)
  then show ?thesis
    using assms my_mem_next[OF assms(1)] my_mem_fresh[OF assms(1)]
    by (auto simp: wlp_simps my_memD of_kind_def)
qed

text \<open>
  \<open>execQuery\<close> and \<open>getResultSet\<close> send the text, store the result and make an object of it with the
  connection as before.
\<close>

lemma stored_safe:
  assumes "my_holds db_owns N B s"
    and "\<And>p m. my_mem N (B \<union> db_owns (fst s) \<union> Pair Res ` set_option p) m \<Longrightarrow>
           (B \<union> db_owns (fst s)) \<inter> Pair Res ` set_option p = {} \<Longrightarrow>
           wlp (K p) (\<lambda>y m. Q y (fst s, m)) (\<lambda>e m. E e (fst s, m)) m"
    and "\<And>m n t. my_holds db_owns N B (fst s, m) \<Longrightarrow> E (my_error m n) (fst s, after_throw n t m)"
  shows "wlp (seqP (CppMySQLDB_checkDB lb True)
     (bindP (my_db_call (\<lambda>c. mysql_real_query lb c sql (length sql))) (\<lambda>res.
      if res = 0 then bindP get_this (\<lambda>db. on_mach (bindP (call_store_result lb (mydb_m_pDB db)) K))
      else my_db_throw lb))) Q E s"
proof -
  obtain db m where s: "s = (db, m)" by (cases s)
  have stored: "wlp (call_store_result lb (mydb_m_pDB db)) (\<lambda>p. wlp (K p) (\<lambda>y m. Q y (db, m)) (\<lambda>e m. E e (db, m)))
      (\<lambda>e m. E e (db, m)) m'" if "my_holds db_owns N B (db, m')" for m'
    by (rule wlp_mono[OF store_result_safe[where B = "B \<union> db_owns db" and N = N]])
      (use that assms(2) in \<open>auto simp: s my_holds_def db_owns_def\<close>)
  show ?thesis
    using assms(1,3) stored
    by (auto simp: s my_db_defs simp del: wlp_call_store_result intro: my_db_live)
qed

lemma my_thrown_mem:
  "my_thrown n (my_mem N) (B \<union> own x) e m \<Longrightarrow> B \<inter> own x = {} \<Longrightarrow> my_thrown n (my_holds own N) B e (x, m)"
  by (fastforce simp: my_thrown_def my_holds_def Un_ac)

lemma my_db_execQuery_safe:
  assumes "my_holds db_owns N B s"
  shows "wlp (CppMySQLDB_execQuery lb sql) (\<lambda>q x. fst x = fst s \<and> my_reading N (B \<union> db_owns (fst s)) (q, snd x))
           (my_thrown 0 (my_holds db_owns N) B) s"
  unfolding CppMySQLDB_execQuery_def
  by (rule stored_safe[OF assms]) (auto intro!: wlp_mono[OF my_query_new_safe] my_holds_throw)

lemma goes_my_scalar_body:
  "goes (my_thrown 0 (my_reading N) B) (my_reading N B) (my_scalar_body n) (my_reading N B)"
  unfolding my_scalar_body_def
  by (intro goes_bind[where K = "my_reading N B"] goes_my_query_eof goes_if goes_ret goes_my_query_count(1)
      goes_my_query_getIntField) (auto simp: goes_def wlp_simps intro: my_reading_throw)

lemma goes_my_db_execScalar:
  "goes (my_thrown 0 (my_holds db_owns N) B) (my_holds db_owns N B) (CppMySQLDB_execScalar lb sql n) (my_holds db_owns N B)"
proof (rule goesI)
  fix s :: "'a my_dbst" assume s: "my_holds db_owns N B s"
  then have disj: "B \<inter> db_owns (fst s) = {}" by (simp add: my_holds_def)
  let ?B = "B \<union> db_owns (fst s)"
  have local: "wlp (with_local (CppMySQLQuery_destroy lb) q (my_scalar_body n)) (\<lambda>_. my_holds db_owns N B)
      (my_thrown 0 (my_holds db_owns N) B) x"
    if x: "fst x = fst s \<and> my_reading N ?B (q, snd x)" for q x
  proof -
    have ret: "wlp (CppMySQLQuery_destroy lb) (\<lambda>_ y. my_holds db_owns N B (fst s, snd y)) (\<lambda>_ y. my_holds db_owns N B (fst s, snd y)) z"
      if "my_reading N ?B z" for z
      by (rule wlp_mono[OF my_query_destroy_safe[of N ?B]])
        (use that disj in \<open>auto simp: my_reading_def my_holds_def\<close>)
    have exn: "wlp (CppMySQLQuery_destroy lb) (\<lambda>_ y. my_thrown 0 (my_holds db_owns N) B e (fst s, snd y))
        (\<lambda>_ y. my_thrown 0 (my_holds db_owns N) B e (fst s, snd y)) z"
      if "my_thrown 0 (my_reading N) ?B e z" for e z
    proof -
      obtain L where L: "lost 0 L" "?B \<inter> L = {}" "?B \<inter> e_owns e = {}" "my_reading N (?B \<union> e_owns e \<union> L) z"
        using \<open>my_thrown 0 (my_reading N) ?B e z\<close> by (auto simp: my_thrown_def)
      have mem: "my_thrown 0 (my_holds db_owns N) B e (fst s, m)" if "my_mem N (?B \<union> e_owns e \<union> L) m" for m :: "'a my_mach"
        using L that disj by (intro my_thrown_mem) (auto simp: my_thrown_def)
      have h: "my_holds q_owns N (?B \<union> e_owns e \<union> L) z" using L(4) by (simp add: my_reading_def)
      show ?thesis by (rule wlp_mono[OF my_query_destroy_safe[OF h]]) (auto simp: mem)
    qed
    show ?thesis
      unfolding wlp_with_local
      by (rule wlp_mono[OF goesD[OF goes_my_scalar_body[of N ?B]]]) (use x ret exn in auto)
  qed
  show "wlp (CppMySQLDB_execScalar lb sql n) (\<lambda>_. my_holds db_owns N B) (my_thrown 0 (my_holds db_owns N) B) s"
    unfolding CppMySQLDB_execScalar_def wlp_bindP
    by (rule wlp_mono[OF my_db_execQuery_safe[OF s] local])
qed

lemma wlp_format_sql:
  assumes "cstring t" and "length t < 256"
  shows "wlp (format_sql t) Q E = Q t"
  by (rule ext) (simp add: wlp_def format_sql_run(1)[OF assms])

lemma goes_format_sql: "cstring t \<Longrightarrow> length t < 256 \<Longrightarrow> goes E I (format_sql t) I"
  by (simp add: goes_def wlp_format_sql)

lemma goes_my_checkDB:
  "goes (my_thrown 0 (my_holds db_owns N) B) (my_holds db_owns N B) (CppMySQLDB_checkDB lb b) (my_holds db_owns N B)"
  by (auto simp: my_db_defs intro: my_db_rules)

lemma goes_my_db_tableExists:
  assumes "cstring (my_table_exists_sql N t)" and "length (my_table_exists_sql N t) < 256"
  shows "goes (my_thrown 0 (my_holds db_owns N) B) (my_holds db_owns N B) (CppMySQLDB_tableExists lb t) (my_holds db_owns N B)"
proof (rule goesI)
  fix s :: "'a my_dbst" assume s: "my_holds db_owns N B s"
  obtain db m where dm: "s = (db, m)" by (cases s)
  then have N: "s_DBName m = N" using s by (simp add: my_holds_def my_mem_def)
  have "wlp (bindP (CppMySQLDB_execScalar lb (my_table_exists_sql N t) 0) (\<lambda>nRet. ret (nRet > 0)))
      (\<lambda>_. my_holds db_owns N B) (my_thrown 0 (my_holds db_owns N) B) s"
    by (rule goesD[OF goes_map[OF goes_my_db_execScalar] s])
  then show "wlp (CppMySQLDB_tableExists lb t) (\<lambda>_. my_holds db_owns N B) (my_thrown 0 (my_holds db_owns N) B) s"
    using s by (auto simp: dm CppMySQLDB_tableExists_def wlp_state wlp_format_sql[OF assms] N my_db_defs intro: my_db_rules)
qed

lemma my_db_open_safe:
  assumes "my_holds db_owns N B s"
  shows "wlp (CppMySQLDB_open lb name) (\<lambda>_. my_holds db_owns name B) (my_thrown 0 (my_holds db_owns N) B) s"
proof -
  have new: "my_holds db_owns name B (db, m\<lparr>s_DBName := name, mlib := w\<rparr>)" if "my_holds db_owns N B (db, m)" for db w and m :: "'a my_mach"
    using that by (simp add: my_holds_def my_mem_def my_fresh_def)
  show ?thesis
    using assms new
    by (cases s) (auto simp: CppMySQLDB_open_def set_s_DBName_def wlp_state my_db_defs intro: my_db_rules)
qed

lemma goes_mysql_setup:
  assumes "cstring (create_db_sql name)" and "length (create_db_sql name) < 256"
    and "cstring (''DROP DATABASE if exists '' @ name)" and "length (''DROP DATABASE if exists '' @ name) < 256"
  shows "goes (my_thrown 0 (my_holds db_owns N) B) (my_holds db_owns N B)
    (seqP (CppMySQLDB_connect lb h u p d port fl) (seqP (CppMySQLDB_dropDB lb name) (CppMySQLDB_createDB lb name)))
    (my_holds db_owns N B)"
proof (intro goes_seq[where K = "my_holds db_owns N B"])
  show "goes (my_thrown 0 (my_holds db_owns N) B) (my_holds db_owns N B) (CppMySQLDB_connect lb h u p d port fl) (my_holds db_owns N B)"
    by (auto simp: CppMySQLDB_connect_def my_db_defs intro: my_db_rules)
  have query: "goes (my_thrown 0 (my_holds db_owns N) B) (my_holds db_owns N B)
      (bindP (my_db_call f) (\<lambda>res. if 0 \<noteq> res then my_db_throw lb else ret ())) (my_holds db_owns N B)"
    for f :: "nat \<Rightarrow> 'a \<Rightarrow> int \<times> 'a"
    by (auto simp: my_db_defs intro: my_db_rules)
  show "goes (my_thrown 0 (my_holds db_owns N) B) (my_holds db_owns N B) (CppMySQLDB_dropDB lb name) (my_holds db_owns N B)"
    unfolding CppMySQLDB_dropDB_def
    by (intro goes_seq[OF goes_my_checkDB] goes_bind[OF goes_format_sql[OF assms(3,4)]] query)
  show "goes (my_thrown 0 (my_holds db_owns N) B) (my_holds db_owns N B) (CppMySQLDB_createDB lb name) (my_holds db_owns N B)"
    unfolding CppMySQLDB_createDB_def
    by (intro goes_seq[OF goes_my_checkDB] goes_bind[OF goes_format_sql[OF assms(1,2)]] query)
qed

text \<open>The constructor throws without a handle; the destructor closes the one there is.\<close>

lemma my_mem_throw:
  "my_mem N B m \<Longrightarrow> my_thrown 0 (my_mem N) B (my_error m n) (after_throw n t m)"
  using my_mem_new(7)[of N B m n t] my_mem_fresh[of N B m Str]
  by (auto simp: my_thrown_def my_error_owns intro!: exI[of _ "{}"])

lemma my_db_new_safe:
  assumes "my_mem N B m"
  shows "wlp (CppMySQLDB_new lb) (\<lambda>db m. my_holds db_owns N B (db, m)) (my_thrown 0 (my_mem N) B) m"
proof -
  have "my_mem N (insert (Conn, my_next m) B)
      (m\<lparr>my_next := Suc (my_next m), mlib := w, live_conn := insert (my_next m) (live_conn m)\<rparr>)" for w
    using assms by (auto simp: my_mem_def my_fresh_def less_SucI)
  moreover have "my_mem N B (m\<lparr>my_next := Suc (my_next m)\<rparr>)" by (rule my_mem_next[OF assms])
  ultimately show ?thesis
    using my_mem_fresh[OF assms]
    by (auto simp: CppMySQLDB_new_def wlp_simps my_holds_def db_owns_def intro!: my_mem_throw)
qed

lemma my_db_destroy_safe:
  assumes "my_holds db_owns N B s"
  shows "wlp (CppMySQLDB_destroy lb) (\<lambda>_ s. my_mem N B (snd s)) (\<lambda>_ _. False) s"
proof -
  obtain db m where s: "s = (db, m)" by (cases s)
  have "my_mem N B (m\<lparr>mlib := w, live_conn := live_conn m - {c}\<rparr>)" if "mydb_m_pDB db = Some c" for w c
    using my_mem_old(1)[of N "insert (Conn, c) B" "m\<lparr>mlib := w\<rparr>" c] assms that by (simp add: s my_holds_def db_owns_def)
  then show ?thesis
    using assms my_db_live[of N B db m]
    by (cases "mydb_m_pDB db")
      (auto simp: s CppMySQLDB_destroy_def CppMySQLDB_close_def wlp_simps my_holds_def db_owns_def)
qed

end
