(* ===== verification/MysqlHeapSafety.thy ===== *)
theory MysqlHeapSafety
  imports MysqlSafety
begin

text \<open>
  The result sets and statements, which keep vectors and maps on the heap: what a constructor that
  throws loses is among the findings.
\<close>

section \<open>Result sets\<close>

definition t_owns :: "my_rset \<Rightarrow> books" where
  "t_owns t = Pair Rows ` set_option (mr_m_pResultSet t) \<union> Pair Names ` set_option (mr_m_pFieldMap t)"

lemma t_owns_row [simp]: "t_owns (mr_m_nCurrentRow_update f t) = t_owns t"
  by (simp add: t_owns_def)

lemma my_rset_row [simp]: "my_holds t_owns N B (mr_m_nCurrentRow_update f t, m) = my_holds t_owns N B (t, m)"
  by (simp add: my_holds_def)

lemma my_rset_rows: "my_holds t_owns N B (t, m) \<Longrightarrow> mr_m_pResultSet t = Some p \<Longrightarrow> \<exists>y. heap_rows m p = Some y"
  by (rule domD) (simp add: my_holds_def my_mem_def t_owns_def)

lemma my_rset_names: "my_holds t_owns N B (t, m) \<Longrightarrow> mr_m_pFieldMap t = Some p \<Longrightarrow> \<exists>y. heap_map m p = Some y"
  by (rule domD) (simp add: my_holds_def my_mem_def t_owns_def)

lemmas my_rset_defs =
  goes_def CppMySQLResultSet_checkResults_def CppMySQLResultSet_checkFields_def my_rset_cell_def as_pointer_def Let_def
  wlp_simps

lemmas my_rset_rules = my_rset_rows my_rset_names my_holds_throw

lemma goes_my_rset_count:
  "goes (my_thrown 0 (my_holds t_owns N) B) (my_holds t_owns N B) CppMySQLResultSet_numFields (my_holds t_owns N B)"
  "goes (my_thrown 0 (my_holds t_owns N) B) (my_holds t_owns N B) CppMySQLResultSet_numRows (my_holds t_owns N B)"
  by (auto simp: CppMySQLResultSet_numFields_def CppMySQLResultSet_numRows_def my_rset_defs intro: my_rset_rules)

lemma goes_my_rset_fieldName:
  "goes (my_thrown 0 (my_holds t_owns N) B) (my_holds t_owns N B) (as_pointer (CppMySQLResultSet_fieldName i)) (my_holds t_owns N B)"
  by (auto simp: CppMySQLResultSet_fieldName_def my_rset_defs split: option.split intro: my_rset_rules)

lemma goes_my_rset_fieldValue:
  "goes (my_thrown 0 (my_holds t_owns N) B) (my_holds t_owns N B) (as_pointer (CppMySQLResultSet_fieldValue i)) (my_holds t_owns N B)"
  by (auto simp: CppMySQLResultSet_fieldValue_def my_rset_defs intro: my_rset_rules)

lemma goes_my_rset_walk:
  "goes (my_thrown 0 (my_holds t_owns N) B) (my_holds t_owns N B) CppMySQLResultSet_eof (my_holds t_owns N B)"
  "goes (my_thrown 0 (my_holds t_owns N) B) (my_holds t_owns N B) CppMySQLResultSet_nextRow (my_holds t_owns N B)"
  "goes (my_thrown 0 (my_holds t_owns N) B) (my_holds t_owns N B) (CppMySQLResultSet_seekRow r) (my_holds t_owns N B)"
  by (auto simp: CppMySQLResultSet_eof_def CppMySQLResultSet_nextRow_def CppMySQLResultSet_seekRow_def my_rset_defs)

lemma my_rset_clear_safe:
  assumes "my_holds t_owns N B s"
  shows "wlp CppMySQLResultSet_clear (\<lambda>_ s. my_holds t_owns N B s \<and> mr_m_pResultSet (fst s) = None \<and> mr_m_pFieldMap (fst s) = None)
           (\<lambda>_ _. False) s"
proof -
  have fields: "wlp rset_clear_fields (\<lambda>_ s. my_holds t_owns N B s \<and> mr_m_pFieldMap (fst s) = None) (\<lambda>_ _. False) s"
  proof (cases "mr_m_pFieldMap (fst s)")
    case None
    then show ?thesis using assms by (simp add: rset_clear_fields_def wlp_simps)
  next
    case (Some q)
    let ?B = "B \<union> Pair Rows ` set_option (mr_m_pResultSet (fst s))"
    have m: "my_mem N (insert (Names, q) ?B) (snd s)" "(Names, q) \<notin> ?B" "B \<inter> Pair Rows ` set_option (mr_m_pResultSet (fst s)) = {}"
      using assms Some by (auto simp: my_holds_def t_owns_def)
    have "my_mem N ?B ((snd s)\<lparr>heap_map := (heap_map (snd s))(q := None)\<rparr>)"
      using my_mem_old(6)[OF m(1), of q] m(2) by (simp add: Diff_insert0)
    moreover have "q \<in> dom (heap_map (snd s))" using m(1) by (simp add: my_memD)
    ultimately show ?thesis
      using Some m(3) by (simp add: rset_clear_fields_def wlp_simps my_holds_def t_owns_def)
  qed
  have rows: "wlp rset_clear_rows (\<lambda>_ s. my_holds t_owns N B s \<and> mr_m_pResultSet (fst s) = None \<and> mr_m_pFieldMap (fst s) = None)
      (\<lambda>_ _. False) s" if "my_holds t_owns N B s \<and> mr_m_pFieldMap (fst s) = None" for s
  proof (cases "mr_m_pResultSet (fst s)")
    case None
    then show ?thesis using that by (simp add: rset_clear_rows_def wlp_simps)
  next
    case (Some p)
    have m: "my_mem N (insert (Rows, p) B) (snd s)" "(Rows, p) \<notin> B"
      using that Some by (auto simp: my_holds_def t_owns_def)
    have "my_mem N B ((snd s)\<lparr>heap_rows := (heap_rows (snd s))(p := None)\<rparr>)"
      using my_mem_old(5)[OF m(1), of p] m(2) by (simp add: Diff_insert0)
    moreover have "p \<in> dom (heap_rows (snd s))" using m(1) by (simp add: my_memD)
    ultimately show ?thesis
      using Some that by (simp add: rset_clear_rows_def wlp_simps my_holds_def t_owns_def)
  qed
  show ?thesis
    unfolding CppMySQLResultSet_clear_def wlp_seqP by (rule wlp_mono[OF fields rows])
qed

lemma goes_my_rset_clear:
  "goes (my_thrown 0 (my_holds t_owns N) B) (my_holds t_owns N B) CppMySQLResultSet_clear (my_holds t_owns N B)"
  by (rule goesI, rule wlp_mono[OF my_rset_clear_safe]) auto

lemma my_rset_destroy_safe:
  assumes "my_holds t_owns N B s"
  shows "wlp CppMySQLResultSet_destroy (\<lambda>_ s. my_mem N B (snd s)) (\<lambda>_ _. False) s"
  unfolding CppMySQLResultSet_destroy_def wlp_catch_all
  by (rule wlp_mono[OF my_rset_clear_safe[OF assms]]) (auto simp: my_holds_def t_owns_def)

lemma wlp_my_rset_assign:
  "wlp (CppMySQLResultSet_assign False x y) Q E m =
     wlp (catch_all CppMySQLResultSet_clear)
       (\<lambda>_ (x', m'). Q (x'\<lparr>mr_m_pResultSet := mr_m_pResultSet y, mr_m_pFieldMap := mr_m_pFieldMap y,
            mr_m_nRows := mr_m_nRows y, mr_m_nCols := mr_m_nCols y, mr_m_nCurrentRow := mr_m_nCurrentRow y\<rparr>,
          y\<lparr>mr_m_pResultSet := None, mr_m_pFieldMap := None\<rparr>) m') (\<lambda>e (x', m'). E e m') (x, m)"
  by (simp add: wlp_def CppMySQLResultSet_assign_def split: prod.split outcome.split)

lemma my_rset_assign_safe:
  assumes "my_holds t_owns N (B \<union> t_owns y) (x, m)" and "B \<inter> t_owns y = {}"
  shows "wlp (CppMySQLResultSet_assign False x y)
           (\<lambda>(x', y') m'. my_holds t_owns N B (x', m') \<and> mr_m_pResultSet y' = None \<and> mr_m_pFieldMap y' = None)
           (\<lambda>_ _. False) m"
  unfolding wlp_my_rset_assign wlp_catch_all
  by (rule wlp_mono[OF my_rset_clear_safe[OF assms(1)]]) (use assms(2) in \<open>auto simp: my_holds_def t_owns_def Un_ac\<close>)

subsection \<open>The copy\<close>

lemma wlp_row_elem [wlp_simps]:
  "wlp (row_elem row i) Q E = (\<lambda>m. fst row \<in> live_res m \<and> wlp (vector_at (snd row) i) Q E m)"
  by (rule ext) (auto simp: wlp_def row_elem_def)

lemma goes_mapP: "(\<And>i. goes E I (f i) I) \<Longrightarrow> goes E I (mapP f is) I"
  by (induction "is") (auto intro!: goes_bind[where K = I] goes_ret)

text \<open>The loops of the constructor change only what the new vector and the new map hold.\<close>

lemma fetch_row_safe:
  "my_mem N B m \<Longrightarrow> (Res, h) \<in> B \<Longrightarrow>
   wlp (fetch_row lb (Some h)) (\<lambda>row m. my_mem N B m \<and> (\<forall>r. row = Some r \<longrightarrow> fst r = h)) E m"
  by (auto simp: fetch_row_def wlp_simps my_memD of_kind_def)

lemma push_row_safe:
  assumes "my_mem N B m" and "(Rows, p) \<in> B"
  shows "wlp (push_row p r) (\<lambda>_. my_mem N B) E m"
proof -
  have "p \<in> dom (heap_rows m)" using assms by (simp add: my_memD of_kind_def)
  then show ?thesis using my_mem_set(1)[OF assms] by (auto simp: push_row_def wlp_simps wlp_state)
qed

lemma build_rows_safe:
  "my_mem N B m \<Longrightarrow> (Rows, p) \<in> B \<Longrightarrow> (Res, h) \<in> B \<Longrightarrow> (\<forall>r. row = Some r \<longrightarrow> fst r = h) \<Longrightarrow>
   wlp (build_rows fuel lb (Some h) p nCols row) (\<lambda>_. my_mem N B) (\<lambda>_ _. False) m"
proof (induction fuel arbitrary: row m)
  case 0
  then show ?case by (simp add: wlp_Pair)
next
  case (Suc fuel)
  show ?case
  proof (cases row)
    case None
    then show ?thesis using Suc.prems by (simp add: wlp_Pair)
  next
    case (Some r)
    have "goes (\<lambda>_ _. False) (my_mem N B) (row_strings nCols r) (my_mem N B)"
      unfolding row_strings_def using Suc.prems(3,4) Some
      by (intro goes_mapP) (auto simp: goes_def wlp_simps my_memD of_kind_def)
    then have strings: "wlp (row_strings nCols r) (\<lambda>_. my_mem N B) (\<lambda>_ _. False) m" using Suc.prems(1) by (rule goesD)
    have "wlp (seqP (push_row p strs) (bindP (fetch_row lb (Some h)) (build_rows fuel lb (Some h) p nCols)))
        (\<lambda>_. my_mem N B) (\<lambda>_ _. False) m'" if "my_mem N B m'" for strs m'
      unfolding wlp_seqP wlp_bindP
      by (rule wlp_mono[OF push_row_safe[OF that Suc.prems(2)]], rule wlp_mono[OF fetch_row_safe[OF _ Suc.prems(3)]])
        (auto intro: Suc.IH Suc.prems(2,3))
    then show ?thesis
      unfolding build_rows.simps Some option.case wlp_bindP[of "row_strings nCols r"]
      by (intro wlp_mono[OF strings]) auto
  qed
qed

lemma insert_field_safe:
  assumes "my_mem N B m" and "(Names, q) \<in> B"
  shows "wlp (insert_field q k v) (\<lambda>_. my_mem N B) E m"
proof -
  have "q \<in> dom (heap_map m)" using assms by (simp add: my_memD of_kind_def)
  then show ?thesis using my_mem_set(2)[OF assms] by (auto simp: insert_field_def wlp_simps wlp_state)
qed

lemma build_fields_safe:
  "my_mem N B m \<Longrightarrow> (Names, q) \<in> B \<Longrightarrow> (Res, h) \<in> B \<Longrightarrow>
   wlp (build_fields lb (Some h) q cols) (\<lambda>_. my_mem N B) (my_thrown 0 (my_mem N) B) m"
proof (induction cols arbitrary: m)
  case (Cons n cols)
  have "wlp (seqP (insert_field q (int n) nm) (build_fields lb (Some h) q cols)) (\<lambda>_. my_mem N B)
      (my_thrown 0 (my_mem N) B) m'" if "my_mem N B m'" for nm m'
    unfolding wlp_seqP
    by (rule wlp_mono[OF insert_field_safe[OF that Cons.prems(2)]])
      (auto intro: Cons.IH Cons.prems(2,3))
  then show ?case
    using Cons.prems by (auto simp: wlp_simps my_memD of_kind_def split: option.split prod.split intro: my_mem_throw)
qed (simp add: wlp_ret)

lemma buildResultSet_safe:
  assumes "my_mem N B m" and "(Res, h) \<in> B"
  shows "wlp (CppMySQLResultSet_buildResultSet fuel lb (Some h))
           (\<lambda>(p, nRows, nCols) m. (Rows, p) \<notin> B \<and> my_mem N (insert (Rows, p) B) m) (\<lambda>_ _. False) m"
proof -
  let ?p = "my_next m" and ?m = "m\<lparr>my_next := Suc (my_next m), heap_rows := (heap_rows m)(my_next m \<mapsto> [])\<rparr>"
  let ?B = "insert (Rows, ?p) B"
  have p: "my_mem N ?B ?m" "(Rows, ?p) \<notin> B" "(Res, h) \<in> ?B"
    using my_mem_new(4)[OF assms(1)] my_mem_fresh[OF assms(1)] assms(2) by simp_all
  have build: "wlp (bindP (fetch_row lb (Some h)) (\<lambda>row.
      seqP (build_rows fuel lb (Some h) ?p nCols row) (ret (?p, nRows, nCols))))
      (\<lambda>(p, nRows, nCols) m. (Rows, p) \<notin> B \<and> my_mem N (insert (Rows, p) B) m) (\<lambda>_ _. False) m'"
    if "my_mem N ?B m'" for m' nCols and nRows :: ulong
    unfolding wlp_bindP wlp_seqP wlp_ret
    by (rule wlp_mono[OF fetch_row_safe[OF that p(3)]], rule wlp_mono[OF build_rows_safe])
      (use p in auto)
  have "h \<in> live_res m" using assms by (simp add: my_memD of_kind_def)
  then show ?thesis
    unfolding CppMySQLResultSet_buildResultSet_def wlp_bindP[of "new_rows []"] wlp_new
      wlp_bindP[of "live_call live_res (Some h) (mysql_num_fields lb)"]
      wlp_bindP[of "live_call live_res (Some h) (mysql_num_rows lb)"] wlp_live_call wlp_my_call
    by (auto intro!: build simp: p(1))
qed

lemma my_rset_new_safe:
  assumes "my_mem N B m" and "Pair Res ` set_option p \<subseteq> B"
  shows "wlp (CppMySQLResultSet_new fuel lb p) (\<lambda>t m. my_holds t_owns N B (t, m)) (my_thrown 0 (my_mem N) B) m"
proof (cases p)
  case None
  then show ?thesis using assms by (simp add: CppMySQLResultSet_new_def wlp_simps my_holds_def t_owns_def)
next
  case (Some h)
  have fields: "wlp (bindP (CppMySQLResultSet_buildFieldMap lb (Some h) nCols) (\<lambda>q.
      ret \<lparr>mr_m_pResultSet = Some v, mr_m_pFieldMap = Some q, mr_m_nCurrentRow = 0, mr_m_nRows = nRows, mr_m_nCols = nCols\<rparr>))
      (\<lambda>t m. my_holds t_owns N B (t, m)) (my_thrown 0 (my_mem N) B) m'"
    if v: "(Rows, v) \<notin> B" "my_mem N (insert (Rows, v) B) m'" for v nRows nCols m'
  proof -
    let ?q = "my_next m'" and ?m = "m'\<lparr>my_next := Suc (my_next m'), heap_map := (heap_map m')(my_next m' \<mapsto> [])\<rparr>"
    let ?B = "insert (Names, ?q) (insert (Rows, v) B)"
    have q: "my_mem N ?B ?m" "(Names, ?q) \<notin> insert (Rows, v) B" "(Res, h) \<in> ?B"
      using my_mem_new(5)[OF v(2)] my_mem_fresh[OF v(2), of Names] assms(2) Some by simp_all
    have B: "?B = B \<union> {(Names, ?q), (Rows, v)}" by auto
    have exn: "my_thrown 0 (my_mem N) B e m" if "my_thrown 0 (my_mem N) ?B e m" for e m
      using that unfolding B by (rule my_thrown_lose) (use q(2) v(1) in \<open>auto simp: lost_def\<close>)
    have "wlp (build_fields lb (Some h) ?q [0..<unat nCols]) (\<lambda>_. my_mem N ?B) (my_thrown 0 (my_mem N) B) ?m"
      by (rule wlp_mono[OF build_fields_safe[OF q(1) _ q(3)]]) (auto intro: exn)
    then show ?thesis
      unfolding CppMySQLResultSet_buildFieldMap_def
      by (simp add: wlp_simps, rule wlp_mono) (use q(2) v(1) in \<open>auto simp: my_holds_def t_owns_def insert_commute\<close>)
  qed
  have h: "(Res, h) \<in> B" using assms(2) Some by simp
  show ?thesis
    unfolding CppMySQLResultSet_new_def using Some
    by (simp, subst wlp_bindP, intro wlp_mono[OF buildResultSet_safe[OF assms(1) h]]) (auto intro!: fields)
qed

text \<open>
  \<open>getResultSet\<close>: the result stays behind, whether the copy is made or an exception is thrown.
\<close>

lemma my_db_getResultSet_safe:
  assumes "my_holds db_owns N B s"
  shows "wlp (CppMySQLDB_getResultSet fuel lb sql)
           (\<lambda>t x. fst x = fst s \<and> (\<exists>h. (B \<union> db_owns (fst s)) \<inter> Pair Res ` set_option h = {} \<and>
              my_holds t_owns N (B \<union> db_owns (fst s) \<union> Pair Res ` set_option h) (t, snd x)))
           (my_thrown 1 (my_holds db_owns N) B) s"
proof -
  let ?B = "B \<union> db_owns (fst s)"
  have disj: "B \<inter> db_owns (fst s) = {}" using assms by (simp add: my_holds_def)
  have exn: "my_thrown 1 (my_holds db_owns N) B e (fst s, m)"
    if t: "my_thrown 0 (my_mem N) (?B \<union> Pair Res ` set_option h) e m" and h: "?B \<inter> Pair Res ` set_option h = {}" for e m h
  proof (rule my_thrown_mem[where own = db_owns, OF _ disj], rule my_thrown_lose[OF t _ h])
    show "lost 1 (Pair Res ` set_option h)" by (cases h) (auto simp: lost_def)
  qed
  have thrown: "my_thrown 1 (my_holds db_owns N) B e x" if "my_thrown 0 (my_holds db_owns N) B e x" for e x
    by (rule my_thrown_lose[where X = "{}"]) (use that in simp_all)
  show ?thesis
    unfolding CppMySQLDB_getResultSet_def
  proof (rule stored_safe[OF assms])
    fix h and m :: "'a my_mach" assume m: "my_mem N (?B \<union> Pair Res ` set_option h) m" "?B \<inter> Pair Res ` set_option h = {}"
    show "wlp (CppMySQLResultSet_new fuel lb h)
        (\<lambda>t m. fst (fst s, m) = fst s \<and> (\<exists>h. ?B \<inter> Pair Res ` set_option h = {} \<and>
           my_holds t_owns N (?B \<union> Pair Res ` set_option h) (t, snd (fst s, m))))
        (\<lambda>e m. my_thrown 1 (my_holds db_owns N) B e (fst s, m)) m"
      by (rule wlp_mono[OF my_rset_new_safe[OF m(1)]]) (use m(2) exn[OF _ m(2)] in auto)
  next
    fix m :: "'a my_mach" and n t assume "my_holds db_owns N B (fst s, m)"
    then show "my_thrown 1 (my_holds db_owns N) B (my_error m n) (fst s, after_throw n t m)"
      by (rule thrown[OF my_holds_throw])
  qed
qed

section \<open>Statements\<close>

definition st_owns :: "my_stmt \<Rightarrow> books" where
  "st_owns t = Pair MStmt ` set_option (ms_m_pStmt t) \<union> Pair Binds ` set_option (ms_m_pBindArray t)"

lemma st_owns_same [simp]:
  "st_owns (t\<lparr>ms_m_nBindIndex := i\<rparr>) = st_owns t" "st_owns (t\<lparr>ms_m_state := n\<rparr>) = st_owns t"
  by (simp_all add: st_owns_def)

lemma my_stmt_same [simp]:
  "my_holds st_owns N B (t\<lparr>ms_m_nBindIndex := i\<rparr>, m) = my_holds st_owns N B (t, m)"
  "my_holds st_owns N B (t\<lparr>ms_m_state := n\<rparr>, m) = my_holds st_owns N B (t, m)"
  "my_holds st_owns N B (t, m\<lparr>s_nValue := v\<rparr>) = my_holds st_owns N B (t, m)"
  by (simp_all add: my_holds_def)

lemma my_stmt_live: "my_holds st_owns N B (t, m) \<Longrightarrow> ms_m_pStmt t = Some h \<Longrightarrow> h \<in> live_mstmt m"
  by (simp add: my_holds_def my_mem_def st_owns_def)

lemma my_stmt_binds: "my_holds st_owns N B (t, m) \<Longrightarrow> ms_m_pBindArray t = Some p \<Longrightarrow> \<exists>y. heap_bind m p = Some y"
  by (rule domD) (simp add: my_holds_def my_mem_def st_owns_def)

lemma my_stmt_set [simp]:
  assumes "my_holds st_owns N B (t, m)" and "ms_m_pBindArray t = Some p"
  shows "my_holds st_owns N B (t, m\<lparr>heap_bind := (heap_bind m)(p \<mapsto> bs)\<rparr>)"
    and "my_holds st_owns N B (t, m\<lparr>mlib := w, heap_bind := (heap_bind m)(p \<mapsto> bs)\<rparr>)"
  using assms my_mem_set(3)[of N "B \<union> st_owns t" m p bs] my_mem_set(3)[of N "B \<union> st_owns t" "m\<lparr>mlib := w\<rparr>" p bs]
  by (simp_all add: my_holds_def st_owns_def)

lemmas my_stmt_defs =
  goes_def CppMySQLStatement_checkStmt_def CppMySQLStatement_checkBindArray_def my_stmt_call_def bind_array_def
  set_bind_array_def throw_stmt_error_def CppMySQLStatement_realBind_def wlp_simps

lemmas my_stmt_rules = my_stmt_live my_stmt_binds my_holds_throw

lemma goes_read_state: "(\<And>a. goes E I (p a) I) \<Longrightarrow> goes E I (\<lambda>s. p (f s) s) I"
  by (simp add: goes_def wlp_def)

lemma goes_my_stmt_bind:
  "goes (my_thrown 0 (my_holds st_owns N) B) (my_holds st_owns N B) (CppMySQLStatement_bind_int i v) (my_holds st_owns N B)"
  "goes (my_thrown 0 (my_holds st_owns N) B) (my_holds st_owns N B) (CppMySQLStatement_bind_text i t) (my_holds st_owns N B)"
proof -
  have real: "goes (my_thrown 0 (my_holds st_owns N) B) (my_holds st_owns N B) (CppMySQLStatement_realBind pos type buf len)
      (my_holds st_owns N B)" for pos type buf len
    by (auto simp: my_stmt_defs intro: my_stmt_rules)
  show "goes (my_thrown 0 (my_holds st_owns N) B) (my_holds st_owns N B) (CppMySQLStatement_bind_int i v) (my_holds st_owns N B)"
    unfolding CppMySQLStatement_bind_int_def
    by (intro goes_seq[OF _ goes_bind[OF goes_int_arith real]]) (auto simp: goes_def wlp_simps wlp_state)
  show "goes (my_thrown 0 (my_holds st_owns N) B) (my_holds st_owns N B) (CppMySQLStatement_bind_text i t) (my_holds st_owns N B)"
    unfolding CppMySQLStatement_bind_text_def
  proof (rule goes_bind[OF goes_int_arith], cases t)
    fix pos
    case None
    then show "goes (my_thrown 0 (my_holds st_owns N) B) (my_holds st_owns N B)
        (\<lambda>s. case t of None \<Rightarrow> (Undef NullDeref, s) | Some p \<Rightarrow> CppMySQLStatement_realBind pos MYSQL_TYPE_STRING (AtString p)
           (ulong_to_int (of_nat (length (client_str (snd s) p)))) s) (my_holds st_owns N B)"
      by (simp add: goes_def wlp_def)
  next
    fix pos p
    case (Some p)
    then show "goes (my_thrown 0 (my_holds st_owns N) B) (my_holds st_owns N B)
        (\<lambda>s. case t of None \<Rightarrow> (Undef NullDeref, s) | Some p \<Rightarrow> CppMySQLStatement_realBind pos MYSQL_TYPE_STRING (AtString p)
           (ulong_to_int (of_nat (length (client_str (snd s) p)))) s) (my_holds st_owns N B)"
      using goes_read_state[OF real[of pos MYSQL_TYPE_STRING "AtString p"]] by simp
  qed
qed

lemma goes_my_stmt_execDML:
  "goes (my_thrown 0 (my_holds st_owns N) B) (my_holds st_owns N B) (CppMySQLStatement_execDML lb) (my_holds st_owns N B)"
  by (auto simp: CppMySQLStatement_execDML_def CppMySQLStatement_execute_def my_stmt_defs
      intro: my_stmt_rules)

lemma goes_my_stmt_reset:
  "goes (my_thrown 0 (my_holds st_owns N) B) (my_holds st_owns N B) (CppMySQLStatement_reset lb) (my_holds st_owns N B)"
  by (auto simp: CppMySQLStatement_reset_def my_stmt_defs intro: my_stmt_rules)

lemma my_stmt_clear_safe:
  assumes "my_holds st_owns N B s"
  shows "wlp (CppMySQLStatement_clear lb) (\<lambda>_ s. my_holds st_owns N B s \<and> ms_m_pStmt (fst s) = None \<and> ms_m_pBindArray (fst s) = None)
           (\<lambda>_ _. False) s"
proof -
  have handle: "wlp (stmt_clear_handle lb) (\<lambda>_ s. my_holds st_owns N B s \<and> ms_m_pStmt (fst s) = None) (\<lambda>_ _. False) s"
  proof (cases "ms_m_pStmt (fst s)")
    case None
    then show ?thesis using assms by (simp add: stmt_clear_handle_def wlp_simps)
  next
    case (Some h)
    let ?B = "B \<union> Pair Binds ` set_option (ms_m_pBindArray (fst s))"
    have m: "my_mem N (insert (MStmt, h) ?B) (snd s)" "(MStmt, h) \<notin> ?B" "B \<inter> Pair Binds ` set_option (ms_m_pBindArray (fst s)) = {}"
      using assms Some by (auto simp: my_holds_def st_owns_def)
    have "my_mem N ?B ((snd s)\<lparr>mlib := w, live_mstmt := live_mstmt (snd s) - {h}\<rparr>)" for w
      using my_mem_old(3)[of N "insert (MStmt, h) ?B" "(snd s)\<lparr>mlib := w\<rparr>" h] m(1,2) by (simp add: Diff_insert0)
    moreover have "h \<in> live_mstmt (snd s)" using m(1) by (simp add: my_memD)
    ultimately show ?thesis
      using Some m(3) by (simp add: stmt_clear_handle_def wlp_simps my_holds_def st_owns_def)
  qed
  have binds: "wlp stmt_clear_binds (\<lambda>_ s. my_holds st_owns N B s \<and> ms_m_pStmt (fst s) = None \<and> ms_m_pBindArray (fst s) = None)
      (\<lambda>_ _. False) s" if "my_holds st_owns N B s \<and> ms_m_pStmt (fst s) = None" for s
  proof (cases "ms_m_pBindArray (fst s)")
    case None
    then show ?thesis using that by (simp add: stmt_clear_binds_def wlp_simps)
  next
    case (Some p)
    have m: "my_mem N (insert (Binds, p) B) (snd s)" "(Binds, p) \<notin> B"
      using that Some by (auto simp: my_holds_def st_owns_def)
    have "my_mem N B ((snd s)\<lparr>heap_bind := (heap_bind (snd s))(p := None)\<rparr>)"
      using my_mem_old(7)[OF m(1), of p] m(2) by (simp add: Diff_insert0)
    moreover have "p \<in> dom (heap_bind (snd s))" using m(1) by (simp add: my_memD)
    ultimately show ?thesis
      using Some that by (simp add: stmt_clear_binds_def wlp_simps my_holds_def st_owns_def)
  qed
  show ?thesis
    unfolding CppMySQLStatement_clear_def wlp_seqP by (rule wlp_mono[OF handle binds])
qed

lemma goes_my_stmt_clear:
  "goes (my_thrown 0 (my_holds st_owns N) B) (my_holds st_owns N B) (CppMySQLStatement_clear lb) (my_holds st_owns N B)"
  by (rule goesI, rule wlp_mono[OF my_stmt_clear_safe]) auto

lemma my_stmt_destroy_safe:
  assumes "my_holds st_owns N B s"
  shows "wlp (CppMySQLStatement_destroy lb) (\<lambda>_ s. my_mem N B (snd s)) (\<lambda>_ _. False) s"
  unfolding CppMySQLStatement_destroy_def wlp_catch_all
  by (rule wlp_mono[OF my_stmt_clear_safe[OF assms]]) (auto simp: my_holds_def st_owns_def)

text \<open>A constructor that throws leaves the handle it has opened.\<close>

lemma my_stmt_new_safe:
  assumes "my_mem N B m" and "Pair Conn ` set_option p \<subseteq> B"
  shows "wlp (CppMySQLStatement_new lb p sql) (\<lambda>t m. my_holds st_owns N B (t, m)) (my_thrown 0 (my_mem N) B) m"
proof -
  have opened: "wlp (bindP (live_call live_mstmt (Some h) (\<lambda>h. mysql_stmt_prepare lb h sql (length sql))) (\<lambda>res.
      if res \<noteq> 0 then throw_my CPPMYSQL_STATEMENT_ERROR (Some ''mysql_stmt_prepare error'')
      else bindP (live_call live_mstmt (Some h) (mysql_stmt_param_count lb)) (\<lambda>n.
           bindP new_bind (\<lambda>b.
           ret \<lparr>ms_m_pBindArray = Some b, ms_m_state = STMT_COMPILED, ms_m_pStmt = Some h,
                ms_m_nParamsCount = ulong_to_int n, ms_m_nBindIndex = 0\<rparr>))))
      (\<lambda>t m. my_holds st_owns N B (t, m)) (my_thrown 0 (my_mem N) B) m"
    if m: "my_mem N (insert (MStmt, h) B) m" and h: "(MStmt, h) \<notin> B" for h m
  proof -
    have B: "insert (MStmt, h) B = B \<union> {(MStmt, h)}" by simp
    have exn: "my_thrown 0 (my_mem N) B (my_error m' n) (after_throw n t m')" if m': "my_mem N (insert (MStmt, h) B) m'" for m' n t
      using my_mem_throw[OF m', of n t] unfolding B by (rule my_thrown_lose) (use h in \<open>auto simp: lost_def\<close>)
    have new: "my_mem N (insert (MStmt, h) (insert (Binds, my_next m) B))
        (m\<lparr>mlib := w, my_next := Suc (my_next m), heap_bind := (heap_bind m)(my_next m \<mapsto> [])\<rparr>)" for w
      using my_mem_new(6)[of N "insert (MStmt, h) B" "m\<lparr>mlib := w\<rparr>"] m by (simp add: insert_commute)
    show ?thesis
      using m h new my_mem_fresh[OF m, of Binds]
      by (auto simp: wlp_simps my_memD my_holds_def st_owns_def insert_commute intro!: exn)
  qed
  show ?thesis
  proof (cases p)
    case None
    then show ?thesis using my_mem_throw[OF assms(1)] by (simp add: CppMySQLStatement_new_def wlp_simps)
  next
    case (Some c)
    show ?thesis
      unfolding CppMySQLStatement_new_def
      by (simp only: Some option.distinct if_False, subst wlp_bindP,
          intro wlp_mono[OF stmt_init_safe[OF assms(1) assms(2)[unfolded Some]]])
        (auto simp: wlp_throw_my intro!: opened my_mem_throw)
  qed
qed

lemma my_db_compileStatement_safe:
  assumes "my_holds db_owns N B s"
  shows "wlp (CppMySQLDB_compileStatement lb sql)
           (\<lambda>t x. fst x = fst s \<and> my_holds st_owns N (B \<union> db_owns (fst s)) (t, snd x)) (my_thrown 0 (my_holds db_owns N) B) s"
proof -
  have m: "my_mem N (B \<union> db_owns (fst s)) (snd s)" and disj: "B \<inter> db_owns (fst s) = {}"
    using assms by (simp_all add: my_holds_def)
  have "wlp (CppMySQLStatement_new lb (mydb_m_pDB (fst s)) sql) (\<lambda>t m. my_holds st_owns N (B \<union> db_owns (fst s)) (t, m))
      (my_thrown 0 (my_mem N) (B \<union> db_owns (fst s))) (snd s)"
    by (rule my_stmt_new_safe[OF m]) (simp add: db_owns_def)
  then show ?thesis
    unfolding CppMySQLDB_compileStatement_def wlp_bindP wlp_get_this wlp_on_mach
    by (rule wlp_mono) (auto intro: my_thrown_mem[where own = db_owns, OF _ disj])
qed

end
