(* ===== verification/MysqlDemoSafety.thy ===== *)
theory MysqlDemoSafety
  imports DemoSafety MysqlHeapSafety DemoBackends
begin

text \<open>
  The MySQL backend keeps its books: what is live is what the objects of the demonstration program and
  the exception on its way own, and what is lost, which is at most the results of the two calls of
  \<open>getResultSet\<close> as long as nothing is thrown.
\<close>

section \<open>The books\<close>

type_synonym 'w my_demo = "('w my_mach, my_db, my_query, my_rset, my_stmt) demo"

definition own_of :: "('o \<Rightarrow> books) \<Rightarrow> 'o option \<Rightarrow> books" where
  "own_of own x = (case x of None \<Rightarrow> {} | Some y \<Rightarrow> own y)"

definition all_owned :: "'w my_demo \<Rightarrow> books" where
  "all_owned s =
     own_of db_owns (dm_db s) \<union> own_of q_owns (dm_q s) \<union> own_of t_owns (dm_t s) \<union> own_of st_owns (dm_stmt s)"

fun pending :: "my_exn phase \<Rightarrow> books" where
  "pending Running = {}"
| "pending (Leaving y) = own_of e_owns y"

definition my_books :: "my_exn phase \<Rightarrow> string \<Rightarrow> books \<Rightarrow> 'w my_demo \<Rightarrow> bool" where
  "my_books x N L s \<longleftrightarrow> my_mem N (all_owned s \<union> pending x \<union> L) (dm_mach s) \<and> L \<inter> all_owned s = {}"

text \<open>What may have been lost: results of \<open>getResultSet\<close>, and more when an exception is on its way.\<close>

definition results_lost :: "stage \<Rightarrow> nat" where
  "results_lost n = (if n = Finished then 2 else if has_rset n then 1 else 0)"

fun my_lost :: "my_exn phase \<Rightarrow> stage \<Rightarrow> books \<Rightarrow> bool" where
  "my_lost Running n L \<longleftrightarrow> fst ` L \<subseteq> {Res} \<and> lost (results_lost n) L"
| "my_lost (Leaving None) n L \<longleftrightarrow> fst ` L \<subseteq> {Res} \<and> lost 2 L"
| "my_lost (Leaving (Some e)) n L \<longleftrightarrow> lost 2 L"

definition row_ok :: "my_query \<Rightarrow> bool" where
  "row_ok q \<longleftrightarrow> (\<forall>h cs. mq_m_Row q = Some (h, cs) \<longrightarrow> mq_m_pRES q = Some h)"

definition my_shape :: "stage \<Rightarrow> 'w my_demo \<Rightarrow> bool" where
  "my_shape n s \<longleftrightarrow>
     (dm_db s = None) = (n = Nothing) \<and> (dm_q s = None) = (\<not> has_query n) \<and>
     (dm_t s = None) = (\<not> has_rset n) \<and> (dm_stmt s = None) = (\<not> has_stmt n)"

definition gszDB :: string where
  "gszDB = ''CppMySQLDemo''"

definition my_at :: "my_exn phase \<Rightarrow> stage \<Rightarrow> 'w my_demo \<Rightarrow> bool" where
  "my_at x n s \<longleftrightarrow>
     my_shape n s \<and> (x = Running \<and> n = Reading \<longrightarrow> pred_option row_ok (dm_q s)) \<and>
     (\<exists>N L. my_lost x n L \<and> (x = Running \<and> has_db n \<longrightarrow> N = gszDB) \<and> my_books x N L s)"

definition my_left :: "my_exn option \<Rightarrow> 'w my_demo \<Rightarrow> bool" where
  "my_left y s \<longleftrightarrow>
     (\<exists>N L. lost 2 L \<and> (y = None \<and> dm_err s = [] \<longrightarrow> fst ` L \<subseteq> {Res}) \<and> my_mem N (own_of e_owns y \<union> L) (dm_mach s))"

lemma own_of_simps [simp]: "own_of own None = {}" "own_of own (Some x) = own x"
  by (simp_all add: own_of_def)

lemma lost_Un: "lost k A \<Longrightarrow> lost n B \<Longrightarrow> lost (k + n) (A \<union> B)"
  using card_Un_le[of "of_kind Res A" "of_kind Res B"] by (auto simp: lost_def image_Un)

lemma lost_mono: "lost k A \<Longrightarrow> k \<le> n \<Longrightarrow> lost n A"
  by (auto simp: lost_def)

lemma results_lost_le: "results_lost n \<le> 2"
  by (simp add: results_lost_def)

lemma lost_no_str: "lost n L \<Longrightarrow> (Str, i) \<notin> L"
  by (auto simp: lost_def)

section \<open>One object of the program\<close>

text \<open>
  A local object of the program: how it is read and replaced, what it owns, and what all the others
  own, which is of other kinds.
\<close>

locale demo_part =
  fixes own :: "'o \<Rightarrow> books"
    and rest :: "'w my_demo \<Rightarrow> books"
    and get :: "'w my_demo \<Rightarrow> 'o option"
    and put :: "'o option \<Rightarrow> 'w my_demo \<Rightarrow> 'w my_demo"
    and has :: "stage \<Rightarrow> bool"
  assumes get_put: "get (put x s) = x" "get (s\<lparr>dm_mach := m\<rparr>) = get s"
    and mach_put: "dm_mach (put x s) = dm_mach s"
    and rest_put: "rest (put x s) = rest s" "rest (s\<lparr>dm_mach := m\<rparr>) = rest s"
    and owned: "all_owned s = rest s \<union> own_of own (get s)"
    and apart: "rest s \<inter> own y = {}" "(Str, i) \<notin> own y"
    and shape: "my_shape n s \<Longrightarrow> has n \<Longrightarrow> get s \<noteq> None"
      "my_shape n s \<Longrightarrow> has n \<Longrightarrow> my_shape n (put (Some y) (s\<lparr>dm_mach := m\<rparr>))"
begin

lemma books_part:
  assumes "get s = Some x"
  shows "my_books y N L s \<longleftrightarrow> my_holds own N (rest s \<union> pending y \<union> L) (x, dm_mach s) \<and> L \<inter> rest s = {}"
proof -
  have own: "all_owned s = rest s \<union> own x" using owned[of s] assms by simp
  have "pending y \<inter> own x = {}"
    using apart(2) by (cases y rule: pending.cases) (auto simp: own_of_def e_owns_def split: option.splits)
  then have "(rest s \<union> pending y \<union> L) \<inter> own x = {} \<and> L \<inter> rest s = {} \<longleftrightarrow> L \<inter> (rest s \<union> own x) = {}"
    using apart(1)[of s x] by blast
  moreover have "rest s \<union> own x \<union> pending y \<union> L = rest s \<union> pending y \<union> L \<union> own x" by blast
  ultimately show ?thesis unfolding my_books_def my_holds_def own fst_conv snd_conv by metis
qed

text \<open>A member function that leaves what is beside the object as it is.\<close>

lemma do_moves:
  assumes safe: "\<And>N B. has_db n \<longrightarrow> N = gszDB \<Longrightarrow>
      goes (my_thrown 0 (\<lambda>B x. my_holds own N B x \<and> P (fst x)) B) (\<lambda>x. my_holds own N B x \<and> P (fst x)) p
        (\<lambda>x. my_holds own N B x \<and> P (fst x))"
    and n: "has n"
    and P: "\<And>s x. my_at Running n s \<Longrightarrow> get s = Some x \<Longrightarrow> P x"
      "\<And>s x m. n = Reading \<Longrightarrow> P x \<Longrightarrow> pred_option row_ok (dm_q s) \<Longrightarrow>
         pred_option row_ok (dm_q (put (Some x) (s\<lparr>dm_mach := m\<rparr>)))"
  shows "moves my_at n (object_do get put p) n"
proof (rule goesI)
  fix s :: "'w my_demo" assume s: "my_at Running n s"
  then obtain N L where sh: "my_shape n s" and L: "my_lost Running n L" "has_db n \<longrightarrow> N = gszDB" and b: "my_books Running N L s"
    and row: "n = Reading \<longrightarrow> pred_option row_ok (dm_q s)"
    unfolding my_at_def by blast
  obtain x where x: "get s = Some x" using shape(1)[OF sh n] by blast
  let ?s = "\<lambda>y m. put (Some y) (s\<lparr>dm_mach := m\<rparr>)"
  have h: "my_holds own N (rest s \<union> L) (x, dm_mach s)" and disj: "L \<inter> rest s = {}"
    using b books_part[OF x, of Running] by simp_all
  have after: "my_at Running n (?s y m)" if "my_holds own N (rest s \<union> L) (y, m)" and "P y" for y m
  proof -
    have "my_books Running N L (?s y m)"
      using that books_part[of "?s y m" y Running N L] disj by (simp add: get_put rest_put mach_put)
    then show ?thesis
      using shape(2)[OF sh n, of y m] L P(2)[of y s m] that(2) row unfolding my_at_def by blast
  qed
  have thrown: "unwinding my_at e (?s y m)" if "my_thrown 0 (\<lambda>B x. my_holds own N B x \<and> P (fst x)) (rest s \<union> L) e (y, m)" for e y m
  proof -
    from that obtain L' where L': "lost 0 L'" "(rest s \<union> L) \<inter> L' = {}" "my_holds own N (rest s \<union> L \<union> e_owns e \<union> L') (y, m)"
      unfolding my_thrown_def fst_conv by blast
    have "rest s \<union> L \<union> e_owns e \<union> L' = rest s \<union> pending (Leaving (Some e)) \<union> (L \<union> L')" by auto
    moreover have "(L \<union> L') \<inter> rest s = {}" using L'(2) disj by blast
    ultimately have "my_books (Leaving (Some e)) N (L \<union> L') (?s y m)"
      using L'(3) books_part[of "?s y m" y "Leaving (Some e)" N "L \<union> L'"] by (simp add: get_put rest_put mach_put)
    moreover have "lost 2 (L \<union> L')"
      using lost_Un[OF _ L'(1), of "results_lost n" L] L(1) results_lost_le[of n] by (simp add: lost_mono)
    ultimately show ?thesis
      using shape(2)[OF sh n, of y m] unfolding unwinding_def my_at_def my_lost.simps by blast
  qed
  show "wlp (object_do get put p) (\<lambda>_. my_at Running n) (unwinding my_at) s"
    unfolding wlp_object_do x option.case
    by (rule wlp_mono[OF goesD[OF safe[OF L(2), of "rest s \<union> L"]]]) (use h P(1)[OF s x] in \<open>auto intro: after thrown\<close>)
qed

text \<open>The destructor releases what the object owns.\<close>

lemma destroyed:
  assumes safe: "\<And>N B s. my_holds own N B s \<Longrightarrow> wlp p (\<lambda>_ s. my_mem N B (snd s)) (\<lambda>_ _. False) s"
    and n: "has n"
    and n': "\<And>s y m. my_shape n s \<Longrightarrow> my_shape n' (put None (put (Some y) (s\<lparr>dm_mach := m\<rparr>)))"
  shows "goes never (my_at (Leaving e) n) (destroy_local get put p) (my_at (Leaving e) n')"
proof (rule goesI)
  fix s :: "'w my_demo" assume s: "my_at (Leaving e) n s"
  then obtain N L where sh: "my_shape n s" and L: "my_lost (Leaving e) n L" and b: "my_books (Leaving e) N L s"
    unfolding my_at_def by blast
  obtain x where x: "get s = Some x" using shape(1)[OF sh n] by blast
  have h: "my_holds own N (rest s \<union> pending (Leaving e) \<union> L) (x, dm_mach s)" and disj: "L \<inter> rest s = {}"
    using b books_part[OF x] by simp_all
  have "my_at (Leaving e) n' (put None (put (Some y) (s\<lparr>dm_mach := m\<rparr>)))"
    if "my_mem N (rest s \<union> pending (Leaving e) \<union> L) m" for y m
    using that L disj n'[OF sh, of y m] owned[of "put None (put (Some y) (s\<lparr>dm_mach := m\<rparr>))"]
    by (cases e) (auto simp: my_at_def my_books_def get_put rest_put mach_put)
  then show "wlp (destroy_local get put p) (\<lambda>_. my_at (Leaving e) n') never s"
    unfolding wlp_destroy_local[where get = get, OF x]
    by (intro wlp_mono[OF safe[OF h]]) simp_all
qed

end

interpretation db_part: demo_part db_owns "\<lambda>s. own_of q_owns (dm_q s) \<union> own_of t_owns (dm_t s) \<union> own_of st_owns (dm_stmt s)"
    dm_db "\<lambda>x. dm_db_update (\<lambda>_. x)" "\<lambda>n. n \<noteq> Nothing"
  by unfold_locales
    (auto simp: all_owned_def my_shape_def own_of_def db_owns_def q_owns_def t_owns_def st_owns_def split: option.splits)

interpretation q_part: demo_part q_owns "\<lambda>s. own_of db_owns (dm_db s) \<union> own_of t_owns (dm_t s) \<union> own_of st_owns (dm_stmt s)"
    dm_q "\<lambda>x. dm_q_update (\<lambda>_. x)" has_query
  by unfold_locales
    (auto simp: all_owned_def my_shape_def own_of_def db_owns_def q_owns_def t_owns_def st_owns_def split: option.splits)

interpretation t_part: demo_part t_owns "\<lambda>s. own_of db_owns (dm_db s) \<union> own_of q_owns (dm_q s) \<union> own_of st_owns (dm_stmt s)"
    dm_t "\<lambda>x. dm_t_update (\<lambda>_. x)" has_rset
  by unfold_locales
    (auto simp: all_owned_def my_shape_def own_of_def db_owns_def q_owns_def t_owns_def st_owns_def split: option.splits)

interpretation stmt_part: demo_part st_owns "\<lambda>s. own_of db_owns (dm_db s) \<union> own_of q_owns (dm_q s) \<union> own_of t_owns (dm_t s)"
    dm_stmt "\<lambda>x. dm_stmt_update (\<lambda>_. x)" has_stmt
  by unfold_locales
    (auto simp: all_owned_def my_shape_def own_of_def db_owns_def q_owns_def t_owns_def st_owns_def split: option.splits)

section \<open>New objects\<close>

text \<open>
  A member function of the connection that makes an object: the object, with \<open>L'\<close> lost, is beside all that was
  there, or at most \<open>k\<close> results are lost with the exception.
\<close>

lemma my_db_do_new:
  fixes p :: "('w my_dbst, my_exn, 'y) prog"
  assumes safe: "\<And>N B x. my_holds db_owns N B x \<Longrightarrow>
      wlp p (\<lambda>y x'. fst x' = fst x \<and> M N (B \<union> db_owns (fst x)) (y, snd x')) (my_thrown k (my_holds db_owns N) B) x"
    and s: "my_at Running n s" and n: "has_db n" and k: "results_lost n + k \<le> 2"
    and Q: "\<And>L y m. my_lost Running n L \<Longrightarrow> L \<inter> all_owned s = {} \<Longrightarrow> M gszDB (all_owned s \<union> L) (y, m) \<Longrightarrow> Q y (s\<lparr>dm_mach := m\<rparr>)"
  shows "wlp (db_do p) Q (unwinding my_at) s"
proof -
  obtain L where sh: "my_shape n s" and L: "my_lost Running n L" and b: "my_books Running gszDB L s"
    using s n unfolding my_at_def by blast
  have n': "n \<noteq> Nothing" using n by auto
  obtain db where db: "dm_db s = Some db" using db_part.shape(1)[OF sh n'] by blast
  let ?rest = "own_of q_owns (dm_q s) \<union> own_of t_owns (dm_t s) \<union> own_of st_owns (dm_stmt s)"
  have h: "my_holds db_owns gszDB (?rest \<union> L) (db, dm_mach s)" and disj: "L \<inter> ?rest = {}"
    using b db_part.books_part[OF db, of Running] by simp_all
  have same: "s\<lparr>dm_mach := m, dm_db := Some db\<rparr> = s\<lparr>dm_mach := m\<rparr>" for m using db by (cases s) simp
  have new: "Q y (s\<lparr>dm_mach := m\<rparr>)" if "M gszDB (?rest \<union> L \<union> db_owns db) (y, m)" for y m
  proof (rule Q[OF L])
    show "L \<inter> all_owned s = {}" using b by (simp add: my_books_def)
    have "?rest \<union> L \<union> db_owns db = all_owned s \<union> L" using db by (auto simp: all_owned_def)
    with that show "M gszDB (all_owned s \<union> L) (y, m)" by simp
  qed
  have thrown: "unwinding my_at e (s\<lparr>dm_mach := m, dm_db := Some y\<rparr>)"
    if "my_thrown k (my_holds db_owns gszDB) (?rest \<union> L) e (y, m)" for e y m
  proof -
    let ?s = "s\<lparr>dm_mach := m, dm_db := Some y\<rparr>"
    from that obtain L' where L': "lost k L'" "(?rest \<union> L) \<inter> L' = {}" "my_holds db_owns gszDB (?rest \<union> L \<union> e_owns e \<union> L') (y, m)"
      unfolding my_thrown_def by blast
    have "?rest \<union> L \<union> e_owns e \<union> L' = ?rest \<union> pending (Leaving (Some e)) \<union> (L \<union> L')" by auto
    moreover have "(L \<union> L') \<inter> ?rest = {}" using L'(2) disj by blast
    ultimately have "my_books (Leaving (Some e)) gszDB (L \<union> L') ?s"
      using L'(3) db_part.books_part[of ?s y "Leaving (Some e)" gszDB "L \<union> L'"] by simp
    moreover have "lost 2 (L \<union> L')" using lost_Un[OF _ L'(1), of "results_lost n" L] L k by (simp add: lost_mono)
    ultimately show ?thesis
      using db_part.shape(2)[OF sh n', of y m] unfolding unwinding_def my_at_def my_lost.simps by blast
  qed
  show ?thesis
    unfolding wlp_object_do db option.case
    by (rule wlp_mono[OF safe[OF h]]) (auto simp: same intro: new thrown)
qed

text \<open>What \<open>getResultSet\<close> makes, with the result it loses.\<close>

definition my_copied :: "string \<Rightarrow> books \<Rightarrow> 'w my_rst \<Rightarrow> bool" where
  "my_copied N B x \<longleftrightarrow>
     (\<exists>h. B \<inter> Pair Res ` set_option h = {} \<and> my_holds t_owns N (B \<union> Pair Res ` set_option h) x)"

lemma my_query_made:
  "moves my_at Opened (construct (\<lambda>x. dm_q_update (\<lambda>_. x)) (db_do (CppMySQLDB_execQuery lb sql))) Reading"
proof (rule goesI)
  fix s :: "'a my_demo" assume s: "my_at Running Opened s"
  have sh: "my_shape Opened s" using s by (simp add: my_at_def)
  show "wlp (construct (\<lambda>x. dm_q_update (\<lambda>_. x)) (db_do (CppMySQLDB_execQuery lb sql)))
      (\<lambda>_. my_at Running Reading) (unwinding my_at) s"
    unfolding wlp_construct
  proof (rule my_db_do_new[OF my_db_execQuery_safe s])
    fix L q and m :: "'a my_mach" assume L: "my_lost Running Opened L" "L \<inter> all_owned s = {}" "my_reading gszDB (all_owned s \<union> L) (q, m)"
    let ?s = "s\<lparr>dm_mach := m, dm_q := Some q\<rparr>"
    have "all_owned ?s = all_owned s \<union> q_owns q" using sh by (auto simp: all_owned_def my_shape_def)
    moreover have "L \<inter> q_owns q = {}" using L(3) by (auto simp: my_reading_def my_holds_def)
    ultimately have "my_books Running gszDB L ?s"
      using L by (simp add: my_books_def my_reading_def my_holds_def Un_ac Int_Un_distrib)
    moreover have "my_shape Reading ?s" using sh by (simp add: my_shape_def)
    moreover have "row_ok q" using L(3) by (simp add: my_reading_def row_ok_def)
    ultimately show "my_at Running Reading ?s"
      using L(1) by (auto simp: my_at_def results_lost_def)
  qed (simp_all add: results_lost_def)
qed

lemma my_rset_made:
  "moves my_at Queried (construct (\<lambda>x. dm_t_update (\<lambda>_. x)) (db_do (CppMySQLDB_getResultSet fuel lb sql))) Fetched"
proof (rule goesI)
  fix s :: "'a my_demo" assume s: "my_at Running Queried s"
  have sh: "my_shape Queried s" using s by (simp add: my_at_def)
  show "wlp (construct (\<lambda>x. dm_t_update (\<lambda>_. x)) (db_do (CppMySQLDB_getResultSet fuel lb sql)))
      (\<lambda>_. my_at Running Fetched) (unwinding my_at) s"
    unfolding wlp_construct
  proof (rule my_db_do_new[OF my_db_getResultSet_safe[folded my_copied_def] s])
    fix L t and m :: "'a my_mach" assume L: "my_lost Running Queried L" "L \<inter> all_owned s = {}" "my_copied gszDB (all_owned s \<union> L) (t, m)"
    let ?s = "s\<lparr>dm_mach := m, dm_t := Some t\<rparr>"
    from L(3) obtain h where h: "(all_owned s \<union> L) \<inter> Pair Res ` set_option h = {}"
        "my_holds t_owns gszDB (all_owned s \<union> L \<union> Pair Res ` set_option h) (t, m)"
      unfolding my_copied_def by blast
    let ?L = "L \<union> Pair Res ` set_option h"
    have own: "all_owned ?s = all_owned s \<union> t_owns t" using sh by (auto simp: all_owned_def my_shape_def)
    have "?L \<inter> t_owns t = {}" "my_mem gszDB (all_owned s \<union> ?L \<union> t_owns t) m"
      using h(2) by (auto simp: my_holds_def Un_ac)
    moreover have "?L \<inter> all_owned s = {}" using h(1) L(2) by blast
    ultimately have "my_books Running gszDB ?L ?s"
      using own by (simp add: my_books_def Un_ac Int_Un_distrib)
    moreover have "my_shape Fetched ?s" using sh by (simp add: my_shape_def)
    moreover have "lost 1 (Pair Res ` set_option h)" by (cases h) (auto simp: lost_def)
    then have "lost 1 ?L" using lost_Un[of 0 L 1] L(1) by (simp add: results_lost_def)
    then have "my_lost Running Fetched ?L" using L(1) by (auto simp: results_lost_def)
    ultimately show "my_at Running Fetched ?s" by (auto simp: my_at_def)
  qed (simp_all add: results_lost_def)
qed

lemma my_stmt_made:
  "moves my_at Fetched (construct (\<lambda>x. dm_stmt_update (\<lambda>_. x)) (db_do (CppMySQLDB_compileStatement lb sql))) Prepared"
proof (rule goesI)
  fix s :: "'a my_demo" assume s: "my_at Running Fetched s"
  have sh: "my_shape Fetched s" using s by (simp add: my_at_def)
  show "wlp (construct (\<lambda>x. dm_stmt_update (\<lambda>_. x)) (db_do (CppMySQLDB_compileStatement lb sql)))
      (\<lambda>_. my_at Running Prepared) (unwinding my_at) s"
    unfolding wlp_construct
  proof (rule my_db_do_new[OF my_db_compileStatement_safe s])
    fix L t and m :: "'a my_mach" assume L: "my_lost Running Fetched L" "L \<inter> all_owned s = {}" "my_holds st_owns gszDB (all_owned s \<union> L) (t, m)"
    let ?s = "s\<lparr>dm_mach := m, dm_stmt := Some t\<rparr>"
    have "all_owned ?s = all_owned s \<union> st_owns t" using sh by (auto simp: all_owned_def my_shape_def)
    moreover have "L \<inter> st_owns t = {}" using L(3) by (auto simp: my_holds_def)
    ultimately have "my_books Running gszDB L ?s"
      using L by (simp add: my_books_def my_holds_def Un_ac Int_Un_distrib)
    moreover have "my_shape Prepared ?s" using sh by (simp add: my_shape_def)
    ultimately show "my_at Running Prepared ?s"
      using L(1) by (auto simp: my_at_def results_lost_def)
  qed (simp_all add: results_lost_def)
qed

section \<open>Assignments\<close>

lemma my_destroy_empty:
  "mq_m_pRES q = None \<Longrightarrow> CppMySQLQuery_destroy lb (q, m) = (Ret (), (q, m))"
  "mr_m_pResultSet t = None \<Longrightarrow> mr_m_pFieldMap t = None \<Longrightarrow> CppMySQLResultSet_destroy (t, m) = (Ret (), (t, m))"
  by (simp_all add: CppMySQLQuery_destroy_def CppMySQLQuery_clear_def CppMySQLResultSet_destroy_def
      CppMySQLResultSet_clear_def rset_clear_fields_def rset_clear_rows_def prog_simps)

lemma my_query_assigned:
  "moves my_at Reading (assign_temp dm_q (\<lambda>x. dm_q_update (\<lambda>_. x)) (CppMySQLQuery_assign lb False) (CppMySQLQuery_destroy lb)
     (db_do (CppMySQLDB_execQuery lb sql))) Queried"
proof (rule goesI)
  fix s :: "'a my_demo" assume s: "my_at Running Reading s"
  have sh: "my_shape Reading s" using s by (simp add: my_at_def)
  obtain x where x: "dm_q s = Some x" using q_part.shape(1)[OF sh] by auto
  let ?rest = "own_of db_owns (dm_db s) \<union> own_of t_owns (dm_t s) \<union> own_of st_owns (dm_stmt s)"
  have own: "all_owned s = ?rest \<union> q_owns x" and apart: "?rest \<inter> q_owns x = {}"
    using q_part.owned[of s] q_part.apart(1)[of s] x by simp_all
  have after: "my_at Running Queried (s\<lparr>dm_mach := m, dm_q := Some x'\<rparr>)"
    if "my_holds q_owns gszDB (?rest \<union> L) (x', m)" "my_lost Running Reading L" "L \<inter> ?rest = {}" for L x' m
  proof -
    have "my_books Running gszDB L (s\<lparr>dm_mach := m, dm_q := Some x'\<rparr>)"
      using that q_part.books_part[of "s\<lparr>dm_mach := m, dm_q := Some x'\<rparr>" x' Running gszDB L] by simp
    then show ?thesis using sh that(2) by (auto simp: my_at_def my_shape_def results_lost_def)
  qed
  show "wlp (assign_temp dm_q (\<lambda>x. dm_q_update (\<lambda>_. x)) (CppMySQLQuery_assign lb False) (CppMySQLQuery_destroy lb)
      (db_do (CppMySQLDB_execQuery lb sql))) (\<lambda>_. my_at Running Queried) (unwinding my_at) s"
    unfolding wlp_assign_temp
  proof (rule my_db_do_new[OF my_db_execQuery_safe s])
    fix L y and m :: "'a my_mach"
    assume L: "my_lost Running Reading L" "L \<inter> all_owned s = {}" "my_reading gszDB (all_owned s \<union> L) (y, m)"
    let ?B = "?rest \<union> L"
    have "my_mem gszDB (?B \<union> q_owns y \<union> q_owns x) m" "(?B \<union> q_owns x) \<inter> q_owns y = {}"
      using L(3) own by (simp_all add: my_reading_def my_holds_def Un_ac)
    moreover have "?B \<inter> q_owns x = {}" "L \<inter> ?rest = {}" using L(2) own apart by auto
    ultimately have "my_holds q_owns gszDB (?B \<union> q_owns y) (x, m)" "?B \<inter> q_owns y = {}" and disj: "L \<inter> ?rest = {}"
      by (auto simp: my_holds_def)
    note assign = my_query_assign_safe[OF this(1,2)]
    show "case dm_q (s\<lparr>dm_mach := m\<rparr>) of None \<Rightarrow> False
        | Some x \<Rightarrow> wlp (CppMySQLQuery_assign lb False x y)
            (\<lambda>xy m'. wlp (CppMySQLQuery_destroy lb)
              (\<lambda>_ z. my_at Running Queried (s\<lparr>dm_mach := m, dm_mach := snd z, dm_q := Some (fst xy)\<rparr>))
              (\<lambda>e z. unwinding my_at e (s\<lparr>dm_mach := m, dm_mach := snd z, dm_q := Some (fst xy)\<rparr>)) (snd xy, m'))
            (\<lambda>e m'. unwinding my_at e (s\<lparr>dm_mach := m, dm_mach := m'\<rparr>)) (dm_mach (s\<lparr>dm_mach := m\<rparr>))"
      using x
      by (simp, intro wlp_mono[OF assign]) (auto simp: wlp_def my_destroy_empty intro!: after[OF _ L(1) disj])
  qed (simp_all add: results_lost_def)
qed

lemma my_rset_assigned:
  "moves my_at Prepared (assign_temp dm_t (\<lambda>x. dm_t_update (\<lambda>_. x)) (CppMySQLResultSet_assign False) CppMySQLResultSet_destroy
     (db_do (CppMySQLDB_getResultSet fuel lb sql))) Finished"
proof (rule goesI)
  fix s :: "'a my_demo" assume s: "my_at Running Prepared s"
  have sh: "my_shape Prepared s" using s by (simp add: my_at_def)
  obtain x where x: "dm_t s = Some x" using t_part.shape(1)[OF sh] by auto
  let ?rest = "own_of db_owns (dm_db s) \<union> own_of q_owns (dm_q s) \<union> own_of st_owns (dm_stmt s)"
  have own: "all_owned s = ?rest \<union> t_owns x" and apart: "?rest \<inter> t_owns x = {}"
    using t_part.owned[of s] t_part.apart(1)[of s] x by simp_all
  have after: "my_at Running Finished (s\<lparr>dm_mach := m, dm_t := Some x'\<rparr>)"
    if "my_holds t_owns gszDB (?rest \<union> L) (x', m)" "my_lost Running Finished L" "L \<inter> ?rest = {}" for L x' m
  proof -
    have "my_books Running gszDB L (s\<lparr>dm_mach := m, dm_t := Some x'\<rparr>)"
      using that t_part.books_part[of "s\<lparr>dm_mach := m, dm_t := Some x'\<rparr>" x' Running gszDB L] by simp
    then show ?thesis using sh that(2) by (auto simp: my_at_def my_shape_def)
  qed
  show "wlp (assign_temp dm_t (\<lambda>x. dm_t_update (\<lambda>_. x)) (CppMySQLResultSet_assign False) CppMySQLResultSet_destroy
      (db_do (CppMySQLDB_getResultSet fuel lb sql))) (\<lambda>_. my_at Running Finished) (unwinding my_at) s"
    unfolding wlp_assign_temp
  proof (rule my_db_do_new[OF my_db_getResultSet_safe[folded my_copied_def] s])
    fix L y and m :: "'a my_mach"
    assume L: "my_lost Running Prepared L" "L \<inter> all_owned s = {}" "my_copied gszDB (all_owned s \<union> L) (y, m)"
    from L(3) obtain h where h: "(all_owned s \<union> L) \<inter> Pair Res ` set_option h = {}"
        "my_holds t_owns gszDB (all_owned s \<union> L \<union> Pair Res ` set_option h) (y, m)"
      unfolding my_copied_def by blast
    let ?L = "L \<union> Pair Res ` set_option h"
    let ?B = "?rest \<union> ?L"
    have "lost 1 (Pair Res ` set_option h)" by (cases h) (auto simp: lost_def)
    then have "lost 2 ?L" using lost_Un[of 1 L 1] L(1) by (simp add: results_lost_def numeral_2_eq_2)
    then have lost: "my_lost Running Finished ?L" using L(1) by (auto simp: results_lost_def)
    have "my_mem gszDB (?B \<union> t_owns y \<union> t_owns x) m" "(?B \<union> t_owns x) \<inter> t_owns y = {}"
      using h(2) own by (simp_all add: my_holds_def Un_ac)
    moreover have "?B \<inter> t_owns x = {}" "?L \<inter> ?rest = {}" using L(2) h(1) own apart by auto
    ultimately have "my_holds t_owns gszDB (?B \<union> t_owns y) (x, m)" "?B \<inter> t_owns y = {}" and disj: "?L \<inter> ?rest = {}"
      by (auto simp: my_holds_def)
    note assign = my_rset_assign_safe[OF this(1,2)]
    show "case dm_t (s\<lparr>dm_mach := m\<rparr>) of None \<Rightarrow> False
        | Some x \<Rightarrow> wlp (CppMySQLResultSet_assign False x y)
            (\<lambda>xy m'. wlp CppMySQLResultSet_destroy
              (\<lambda>_ z. my_at Running Finished (s\<lparr>dm_mach := m, dm_mach := snd z, dm_t := Some (fst xy)\<rparr>))
              (\<lambda>e z. unwinding my_at e (s\<lparr>dm_mach := m, dm_mach := snd z, dm_t := Some (fst xy)\<rparr>)) (snd xy, m'))
            (\<lambda>e m'. unwinding my_at e (s\<lparr>dm_mach := m, dm_mach := m'\<rparr>)) (dm_mach (s\<lparr>dm_mach := m\<rparr>))"
      using x
      by (simp, intro wlp_mono[OF assign]) (auto simp: wlp_def my_destroy_empty intro!: after[OF _ lost disj])
  qed (simp_all add: results_lost_def)
qed

section \<open>Opening and leaving\<close>

lemma my_db_made:
  "moves my_at Nothing (construct (\<lambda>x. dm_db_update (\<lambda>_. x)) (mach_do (CppMySQLDB_new lb))) Connected"
proof (rule goesI)
  fix s :: "'a my_demo" assume s: "my_at Running Nothing s"
  then obtain N L where sh: "my_shape Nothing s" and L: "my_lost Running Nothing L" and b: "my_books Running N L s"
    unfolding my_at_def by blast
  have none: "all_owned s = {}" using sh by (simp add: all_owned_def my_shape_def)
  then have m: "my_mem N L (dm_mach s)" using b by (simp add: my_books_def)
  have new: "my_at Running Connected (s\<lparr>dm_mach := m, dm_db := Some db\<rparr>)" if "my_holds db_owns N L (db, m)" for db m
  proof -
    have "all_owned (s\<lparr>dm_mach := m, dm_db := Some db\<rparr>) = db_owns db" using sh by (simp add: all_owned_def my_shape_def)
    then have "my_books Running N L (s\<lparr>dm_mach := m, dm_db := Some db\<rparr>)"
      using that by (simp add: my_books_def my_holds_def Un_commute)
    then show ?thesis using sh L by (auto simp: my_at_def my_shape_def results_lost_def)
  qed
  have thrown: "unwinding my_at e (s\<lparr>dm_mach := m\<rparr>)" if "my_thrown 0 (my_mem N) L e m" for e m
  proof -
    from that obtain L' where L': "lost 0 L'" "my_mem N (L \<union> e_owns e \<union> L') m" unfolding my_thrown_def by blast
    have "all_owned (s\<lparr>dm_mach := m\<rparr>) = {}" using none by (simp add: all_owned_def)
    moreover have "L \<union> e_owns e \<union> L' = e_owns e \<union> (L \<union> L')" by blast
    ultimately have "my_books (Leaving (Some e)) N (L \<union> L') (s\<lparr>dm_mach := m\<rparr>)" using L'(2) by (simp add: my_books_def)
    moreover have "my_shape Nothing (s\<lparr>dm_mach := m\<rparr>)" using sh by (simp add: my_shape_def)
    moreover have "lost 2 (L \<union> L')" using lost_Un[of 0 L 0 L'] L L'(1) by (auto simp: results_lost_def intro: lost_mono)
    ultimately show ?thesis unfolding unwinding_def my_at_def my_lost.simps by blast
  qed
  show "wlp (construct (\<lambda>x. dm_db_update (\<lambda>_. x)) (mach_do (CppMySQLDB_new lb))) (\<lambda>_. my_at Running Connected) (unwinding my_at) s"
    unfolding wlp_construct wlp_mach_do
    by (rule wlp_mono[OF my_db_new_safe[OF m]]) (auto intro: new thrown)
qed

text \<open>Opening sets the name of the database.\<close>

lemma my_db_opened: "moves my_at Connected (db_do (CppMySQLDB_open lb gszDB)) Opened"
proof (rule goesI)
  fix s :: "'a my_demo" assume s: "my_at Running Connected s"
  then obtain N L where sh: "my_shape Connected s" and L: "my_lost Running Connected L" and b: "my_books Running N L s"
    unfolding my_at_def by blast
  obtain db where db: "dm_db s = Some db" using db_part.shape(1)[OF sh] by auto
  have rest: "own_of q_owns (dm_q s) \<union> own_of t_owns (dm_t s) \<union> own_of st_owns (dm_stmt s) = {}"
    using sh by (simp add: my_shape_def)
  have h: "my_holds db_owns N L (db, dm_mach s)" using b db_part.books_part[OF db, of Running N L] rest by simp
  have new: "my_at Running Opened (s\<lparr>dm_mach := m, dm_db := Some y\<rparr>)" if "my_holds db_owns gszDB L (y, m)" for y m
  proof -
    have "my_books Running gszDB L (s\<lparr>dm_mach := m, dm_db := Some y\<rparr>)"
      using that db_part.books_part[of "s\<lparr>dm_mach := m, dm_db := Some y\<rparr>" y Running gszDB L] rest by simp
    then show ?thesis using sh L by (auto simp: my_at_def my_shape_def results_lost_def)
  qed
  have thrown: "unwinding my_at e (s\<lparr>dm_mach := m, dm_db := Some y\<rparr>)" if "my_thrown 0 (my_holds db_owns N) L e (y, m)" for e y m
  proof -
    let ?s = "s\<lparr>dm_mach := m, dm_db := Some y\<rparr>"
    from that obtain L' where L': "lost 0 L'" "my_holds db_owns N (L \<union> e_owns e \<union> L') (y, m)" unfolding my_thrown_def by blast
    have "L \<union> e_owns e \<union> L' = pending (Leaving (Some e)) \<union> (L \<union> L')" by auto
    then have "my_books (Leaving (Some e)) N (L \<union> L') ?s"
      using L'(2) db_part.books_part[of ?s y "Leaving (Some e)" N "L \<union> L'"] rest by simp
    moreover have "my_shape Connected ?s" using sh by (simp add: my_shape_def)
    moreover have "lost 2 (L \<union> L')" using lost_Un[of 0 L 0 L'] L L'(1) by (auto simp: results_lost_def intro: lost_mono)
    ultimately show ?thesis unfolding unwinding_def my_at_def my_lost.simps by blast
  qed
  show "wlp (db_do (CppMySQLDB_open lb gszDB)) (\<lambda>_. my_at Running Opened) (unwinding my_at) s"
    unfolding wlp_object_do db option.case
    by (rule wlp_mono[OF my_db_open_safe[OF h]]) (auto intro: new thrown)
qed

lemma my_db_left:
  assumes "\<not> has_query n"
  shows "goes never (my_at (Leaving e) n) (destroy_local dm_db (\<lambda>x. dm_db_update (\<lambda>_. x)) (CppMySQLDB_destroy lb)) (my_left e)"
proof (rule goesI)
  fix s :: "'a my_demo" assume s: "my_at (Leaving e) n s"
  then obtain N L where sh: "my_shape n s" and L: "my_lost (Leaving e) n L" and b: "my_books (Leaving e) N L s"
    unfolding my_at_def by blast
  have rest: "own_of q_owns (dm_q s) \<union> own_of t_owns (dm_t s) \<union> own_of st_owns (dm_stmt s) = {}"
    using sh assms by (auto simp: my_shape_def)
  have left: "my_left e (s\<lparr>dm_mach := m, dm_db := None\<rparr>)" if "my_mem N (own_of e_owns e \<union> L) m" for m
    using that L by (cases e) (auto simp: my_left_def)
  show "wlp (destroy_local dm_db (\<lambda>x. dm_db_update (\<lambda>_. x)) (CppMySQLDB_destroy lb)) (\<lambda>_. my_left e) never s"
  proof (cases "dm_db s")
    case None
    then have "all_owned s = {}" using rest by (auto simp: all_owned_def)
    then have "my_left e (s\<lparr>dm_mach := dm_mach s, dm_db := None\<rparr>)" using b by (intro left) (simp add: my_books_def)
    then show ?thesis using None by (cases s) (simp add: wlp_def destroy_absent)
  next
    case (Some db)
    have h: "my_holds db_owns N (own_of e_owns e \<union> L) (db, dm_mach s)"
      using b db_part.books_part[OF Some, of "Leaving e" N L] rest by simp
    show ?thesis
      unfolding wlp_destroy_local[where get = dm_db, OF Some]
      by (rule wlp_mono[OF my_db_destroy_safe[OF h]]) (auto dest: left)
  qed
qed

lemma my_handled: "goes never (my_left (Some e)) (demo_handler (mysql_backend f lb) e) (my_left None)"
proof (rule goesI)
  fix s :: "'a my_demo" assume s: "my_left (Some e) s"
  then obtain N L where L: "lost 2 L" and m: "my_mem N (e_owns e \<union> L) (dm_mach s)" by (auto simp: my_left_def)
  have L_str: "(Str, i) \<notin> L" for i using lost_no_str[OF L] .
  show "wlp (demo_handler (mysql_backend f lb) e) (\<lambda>_. my_left None) never s"
  proof (cases "mye_m_pErrMess e")
    case None
    then have "e_owns e = {}" by (simp add: e_owns_def)
    then show ?thesis
      using None m L
      by (auto simp: demo_handler_def exn_do_def mysql_backend_def CppMySQLException_members_def DatabaseException.truncate_def
          CppMySQLException_errorMessage_def CppMySQLException_destroy_def mach_do_def wlp_def cerr_def my_left_def prog_simps)
  next
    case (Some p)
    have own: "e_owns e \<union> L = insert (Str, p) L" using Some by (simp add: e_owns_def)
    have d: "p \<in> dom (heap_str (dm_mach s))" using m own by (simp add: my_memD)
    then obtain t where t: "heap_str (dm_mach s) p = Some t" by blast
    have "my_mem N L (dm_mach s\<lparr>heap_str := (heap_str (dm_mach s))(p := None)\<rparr>)"
      using my_mem_old(4)[OF m[unfolded own], of p] L_str by simp
    then show ?thesis
      using Some L t
      by (auto simp: demo_handler_def exn_do_def mysql_backend_def CppMySQLException_members_def DatabaseException.truncate_def
          CppMySQLException_errorMessage_def CppMySQLException_destroy_def mach_do_def wlp_def cerr_def my_left_def prog_simps delete_live(1)[OF d])
  qed
qed

section \<open>The backend\<close>

text \<open>Member functions called on the four objects.\<close>

lemma my_db_moves:
  assumes "\<And>N B. has_db n \<longrightarrow> N = gszDB \<Longrightarrow>
      goes (my_thrown 0 (my_holds db_owns N) B) (my_holds db_owns N B) p (my_holds db_owns N B)"
    and "n \<noteq> Nothing"
  shows "moves my_at n (db_do p) n"
  by (rule db_part.do_moves[where P = "\<lambda>_. True"]) (use assms in simp_all)

lemma my_t_moves:
  assumes "\<And>N B. goes (my_thrown 0 (my_holds t_owns N) B) (my_holds t_owns N B) p (my_holds t_owns N B)" and "has_rset n"
  shows "moves my_at n (t_do p) n"
  by (rule t_part.do_moves[where P = "\<lambda>_. True"]) (use assms in simp_all)

lemma my_stmt_moves:
  assumes "\<And>N B. goes (my_thrown 0 (my_holds st_owns N) B) (my_holds st_owns N B) p (my_holds st_owns N B)" and "has_stmt n"
  shows "moves my_at n (stmt_do p) n"
  by (rule stmt_part.do_moves[where P = "\<lambda>_. True"]) (use assms in simp_all)

lemma my_q_moves:
  assumes "\<And>N B. goes (my_thrown 0 (my_holds q_owns N) B) (my_holds q_owns N B) p (my_holds q_owns N B)"
  shows "moves my_at Queried (q_do p) Queried"
  by (rule q_part.do_moves[where P = "\<lambda>_. True"]) (use assms in simp_all)

lemma my_reading_split: "my_reading N = (\<lambda>B x. my_holds q_owns N B x \<and> row_ok (fst x))"
  by (simp add: fun_eq_iff my_reading_def row_ok_def)

lemma my_q_reads:
  assumes "\<And>N B. goes (my_thrown 0 (my_reading N) B) (my_reading N B) p (my_reading N B)"
  shows "moves my_at Reading (q_do p) Reading"
  by (rule q_part.do_moves[where P = row_ok, OF assms[unfolded my_reading_split]]) (simp_all add: my_at_def)

lemma wlp_local_text [wlp_simps]:
  "wlp (local_text u) Q E = (\<lambda>m. Q (Some 0) (m\<lparr>client_str := (client_str m)(0 := u)\<rparr>))"
  by (rule ext) (simp add: wlp_def local_text_def)

lemma my_buffer: "moves my_at Prepared (mach_do (local_text u)) Prepared"
  by (auto simp: goes_def wlp_simps my_at_def my_shape_def my_books_def all_owned_def)

lemma my_q_numFields: "n \<in> {Reading, Queried} \<Longrightarrow> moves my_at n (q_do CppMySQLQuery_numFields) n"
  using my_q_reads[OF goes_my_query_count(1)] my_q_moves[OF goes_my_query_count(1)] by auto

lemma my_destroyed:
  "has_stmt n \<Longrightarrow> goes never (my_at (Leaving e) n) (destroy_local dm_stmt (\<lambda>x. dm_stmt_update (\<lambda>_. x)) (CppMySQLStatement_destroy lb))
     (my_at (Leaving e) Fetched)"
  "goes never (my_at (Leaving e) Fetched) (destroy_local dm_t (\<lambda>x. dm_t_update (\<lambda>_. x)) CppMySQLResultSet_destroy)
     (my_at (Leaving e) Queried)"
  "n \<in> {Reading, Queried} \<Longrightarrow>
   goes never (my_at (Leaving e) n) (destroy_local dm_q (\<lambda>x. dm_q_update (\<lambda>_. x)) (CppMySQLQuery_destroy lb)) (my_at (Leaving e) Opened)"
proof -
  show "has_stmt n \<Longrightarrow> goes never (my_at (Leaving e) n) (destroy_local dm_stmt (\<lambda>x. dm_stmt_update (\<lambda>_. x)) (CppMySQLStatement_destroy lb))
     (my_at (Leaving e) Fetched)"
    by (rule stmt_part.destroyed[OF my_stmt_destroy_safe]) (auto simp: my_shape_def)
  show "goes never (my_at (Leaving e) Fetched) (destroy_local dm_t (\<lambda>x. dm_t_update (\<lambda>_. x)) CppMySQLResultSet_destroy)
     (my_at (Leaving e) Queried)"
    by (rule t_part.destroyed[OF my_rset_destroy_safe]) (auto simp: my_shape_def)
  show "n \<in> {Reading, Queried} \<Longrightarrow>
     goes never (my_at (Leaving e) n) (destroy_local dm_q (\<lambda>x. dm_q_update (\<lambda>_. x)) (CppMySQLQuery_destroy lb)) (my_at (Leaving e) Opened)"
    by (rule q_part.destroyed[OF my_query_destroy_safe]) (auto simp: my_shape_def)
qed

lemma my_db_ops:
  assumes "has_db n"
  shows "moves my_at n (db_do (CppMySQLDB_tableExists lb ''emp'')) n" and "moves my_at n (db_do (CppMySQLDB_execDML lb sql)) n"
    and "moves my_at n (db_do (CppMySQLDB_execScalar lb sql k)) n" and "moves my_at n (db_do (CppMySQLDB_startTransaction lb)) n"
    and "moves my_at n (db_do (CppMySQLDB_commitTransaction lb)) n"
proof -
  have n: "n \<noteq> Nothing" using assms by auto
  have emp: "cstring (my_table_exists_sql gszDB ''emp'')" "length (my_table_exists_sql gszDB ''emp'') < 256"
    by (simp_all add: my_table_exists_sql_def gszDB_def NUL_def)
  show "moves my_at n (db_do (CppMySQLDB_tableExists lb ''emp'')) n"
    using goes_my_db_tableExists[OF emp] assms by (intro my_db_moves n) simp
qed (intro my_db_moves goes_my_db_execDML goes_my_db_execScalar goes_my_db_start_commit; use assms in auto)+

lemma my_db_setup: "moves my_at Connected (db_do (mysql_setup lb gszDB)) Connected"
proof (rule my_db_moves)
  have sql: "cstring (create_db_sql gszDB)" "length (create_db_sql gszDB) < 256"
      "cstring (''DROP DATABASE if exists '' @ gszDB)" "length (''DROP DATABASE if exists '' @ gszDB) < 256"
    by (simp_all add: create_db_sql_def gszDB_def NUL_def)
  show "goes (my_thrown 0 (my_holds db_owns N) B) (my_holds db_owns N B) (mysql_setup lb gszDB) (my_holds db_owns N B)" for N B
    using goes_mysql_setup[OF sql] by (simp add: mysql_setup_def CppMySQLDB_members_def Let_def)
qed simp

interpretation my_safe: safe_backend "mysql_backend f lb" my_at my_left for f lb
proof -
  note members = CppMySQLDB_members_def CppMySQLQuery_members_def CppMySQLResultSet_members_def CppMySQLStatement_members_def
  note reads = my_q_reads[OF goes_my_query_eof] my_q_reads[OF goes_my_query_fieldName] my_q_reads[OF goes_my_query_getStringField]
    my_q_reads[OF goes_my_query_nextRow] my_q_reads[OF goes_my_query_count(2)] my_q_moves[OF goes_my_query_clear] my_q_numFields
  note t = my_t_moves[OF goes_my_rset_walk(1)] my_t_moves[OF goes_my_rset_walk(2)] my_t_moves[OF goes_my_rset_walk(3)]
    my_t_moves[OF goes_my_rset_count(1)] my_t_moves[OF goes_my_rset_count(2)] my_t_moves[OF goes_my_rset_fieldName]
    my_t_moves[OF goes_my_rset_fieldValue] my_t_moves[OF goes_my_rset_clear]
  note st = my_stmt_moves[OF goes_my_stmt_bind(1)] my_stmt_moves[OF goes_my_stmt_bind(2)] my_stmt_moves[OF goes_my_stmt_execDML]
    my_stmt_moves[OF goes_my_stmt_reset] my_stmt_moves[OF goes_my_stmt_clear] my_buffer
  note new = my_db_made my_db_setup[unfolded gszDB_def] my_db_opened[unfolded gszDB_def] my_query_made my_rset_made my_stmt_made
    my_query_assigned my_rset_assigned my_db_left my_destroyed my_db_ops
  have out: "my_at Running n s \<Longrightarrow> my_at Running n (s\<lparr>dm_out := u\<rparr>)" for n u and s :: "'a my_demo"
    by (simp add: my_at_def my_shape_def my_books_def all_owned_def)
  have leave: "my_at Running n s \<Longrightarrow> my_at (Leaving None) n s" for n and s :: "'a my_demo"
    unfolding my_at_def my_books_def my_lost.simps pending.simps own_of_simps
    using lost_mono[OF _ results_lost_le[of n]] by blast
  have shape: "(dm_db s = None) = (n = Nothing) \<and> (dm_q s = None) = (\<not> has_query n) \<and>
      (dm_t s = None) = (\<not> has_rset n) \<and> (dm_stmt s = None) = (\<not> has_stmt n)"
    if "my_at x n s" for x n and s :: "'a my_demo"
    using that by (simp only: my_at_def my_shape_def)
  show "safe_backend (mysql_backend f lb) my_at my_left"
    by unfold_locales
      (use shape out leave my_handled[of _ f lb] in \<open>auto simp: mysql_backend_def members
         intro!: new reads t st\<close>)
qed

text \<open>What is live when the exception, if any, has been handled.\<close>

lemma my_left_released:
  assumes "my_left None s"
  shows "live_conn (dm_mach s) = {}" and "heap_str (dm_mach s) = Map.empty" and "heap_bind (dm_mach s) = Map.empty"
    and "finite (live_res (dm_mach s))" and "card (live_res (dm_mach s)) \<le> 2"
    and "dm_err s = [] \<Longrightarrow>
      live_mstmt (dm_mach s) = {} \<and> heap_rows (dm_mach s) = Map.empty \<and> heap_map (dm_mach s) = Map.empty"
proof -
  obtain N L where L: "lost 2 L" "dm_err s = [] \<longrightarrow> fst ` L \<subseteq> {Res}" and m: "my_mem N L (dm_mach s)"
    using assms by (auto simp: my_left_def)
  note live = my_memD[OF m]
  have none: "of_kind k L = {}" if "k \<notin> fst ` L" for k
    using that by (force simp: of_kind_def)
  have kinds: "Conn \<notin> fst ` L" "Str \<notin> fst ` L" "Binds \<notin> fst ` L"
    using L(1) by (auto simp: lost_def)
  show "live_conn (dm_mach s) = {}" "heap_str (dm_mach s) = Map.empty" "heap_bind (dm_mach s) = Map.empty"
    using live none[OF kinds(1)] none[OF kinds(2)] none[OF kinds(3)] by simp_all
  show "finite (live_res (dm_mach s))" "card (live_res (dm_mach s)) \<le> 2"
    using live L(1) by (simp_all add: lost_def)
  show "live_mstmt (dm_mach s) = {} \<and> heap_rows (dm_mach s) = Map.empty \<and> heap_map (dm_mach s) = Map.empty"
    if "dm_err s = []"
  proof -
    have "MStmt \<notin> fst ` L" "Rows \<notin> fst ` L" "Names \<notin> fst ` L" using L(2) that by auto
    then show ?thesis using live none[of MStmt] none[of Rows] none[of Names] by simp
  qed
qed

end
