(* ===== verification/DemoProperties.thy ===== *)
theory DemoProperties
  imports SqliteDemoSafety MysqlDemoSafety SqliteSample MysqlSample
begin

text \<open>
  Properties that span the components: what the demonstration program does with either library.
\<close>

section \<open>The whole program\<close>

definition demo_start :: "'m \<Rightarrow> ('m, 'd, 'q, 't, 'st) demo" where
  "demo_start m = \<lparr>dm_mach = m, dm_db = None, dm_q = None, dm_t = None, dm_stmt = None, dm_out = [], dm_err = []\<rparr>"

text \<open>
  C4: whatever the SQLite library answers, the \<open>try\<close> block of the demonstration program with its handler
  either returns, all statements finalized, all tables and all messages freed, or it runs into
  undefined behaviour that is none of these: a second release, a use after a release, a read of memory
  never written, a write past an array.  It never lets an exception out.  (Of the connection this is not
  said: \<open>sqlite3_close\<close> may refuse, and the destructor does not look at its answer.)
\<close>

theorem demo_leaves_nothing:
  assumes "sq_documented lb"
    and "live_db m = {}" and "live_stmt m = {}" and "tables m = Map.empty" and "live_msg m = {}"
  shows "\<exists>r s. demo_try fuel (sqlite_backend rm lb) (demo_start m) = (r, s) \<and>
           (r = Ret () \<and> live_stmt (dm_mach s) = {} \<and> tables (dm_mach s) = Map.empty \<and> live_msg (dm_mach s) = {} \<or>
            (\<exists>u. r = Undef u \<and> \<not> memory_fault u))"
proof -
  have "sq_at lb Running Nothing (demo_start m)"
    using assms by (simp add: sq_at_def sq_stage_def sq_books_def sq_mem_def ids_fresh_def demo_start_def)
  from goesD[OF sq_safe.try_safe this, of fuel rm] show ?thesis
    by (auto simp: wlp_def never_def sq_left_def sq_released_def sq_mem_def split: prod.splits outcome.splits)
qed

lemma inert_documented: "sq_documented inert_lib"
  by (simp add: sq_documented_def inert_lib_def sqlite_codes sq_own_code_def sq_error_codes)

definition no_handles :: "unit sq_mach" where
  "no_handles = \<lparr>lib = (), next_id = 0, live_db = {}, live_stmt = {}, tables = Map.empty, live_msg = {}\<rparr>"

lemma inert_fields [simp]:
  "sqlite3_open inert_lib f d w = ((SQLITE_OK, True), w)" "sqlite3_close inert_lib d w = (SQLITE_OK, w)"
  "sqlite3_prepare_v2 inert_lib d sql h w = ((SQLITE_ERROR, False), w)"
  "sqlite3_errmsg inert_lib p w = (''not an error'', w)" "build inert_lib = C99"
  by (simp_all add: inert_lib_def)

abbreviation inert_error :: sq_exn where
  "inert_error \<equiv> sq_error (inert_lib :: unit sqlite3_lib) SQLITE_ERROR (Some ''not an error'')"

lemma inert_tableExists:
  fixes m :: "unit sq_mach"
  assumes "db_m_pDB db = Some d" and "d \<in> live_db m"
  shows "CppSQLite3DB_tableExists inert_lib ''emp'' (db, m) = (Throw inert_error, (db, m\<lparr>next_id := Suc (next_id m)\<rparr>))"
proof -
  have c: "CppSQLite3DB_compile inert_lib sql (db, m) = (Throw inert_error, (db, m\<lparr>next_id := Suc (next_id m)\<rparr>))" for sql
    using compile_error[of db m d inert_lib sql SQLITE_ERROR "lib m" "''not an error''" "lib m"] assms
    by (simp add: db_open_def sqlite_codes)
  have "cstring (table_exists_sql ''emp'')" by (simp add: cstring_table_exists_sql NUL_def)
  then have "(read_cstr (snprintf C99 255 (table_exists_sql ''emp'') (uninit_buf 256)) :: (sq_exn, string) outcome) =
      Ret (take 254 (table_exists_sql ''emp''))"
    using read_snprintf_C99_uninit[of _ 255 256] by simp
  then show ?thesis
    using assms c
    by (simp add: CppSQLite3DB_tableExists_def CppSQLite3DB_execScalar_def CppSQLite3DB_execQuery_def prog_simps
        del: snprintf.simps)
qed

lemma inert_body:
  "demo_body fuel (sqlite_backend (\<lambda>_ w. w) inert_lib) (demo_start no_handles) =
     (Throw inert_error, (demo_start no_handles)
        \<lparr>dm_mach := no_handles\<lparr>next_id := 2, live_db := {0}\<rparr>, dm_db := Some \<lparr>db_m_pDB = Some 0\<rparr>\<rparr>)"
  by (simp add: demo_body_def demo_create_def demo_table_exists_def no_handles_def demo_start_def sqlite_backend_def
      CppSQLite3DB_members_def CppSQLite3DB_default_def CppSQLite3DB_open_def call_open_def construct_def
      inert_tableExists prog_simps)

lemma demo_leaves_nothing_witness:
  "\<exists>s. demo_try 3 (sqlite_backend (\<lambda>_ w. w) inert_lib) (demo_start no_handles) = (Ret (), s) \<and>
     live_stmt (dm_mach s) = {} \<and> tables (dm_mach s) = Map.empty \<and> live_msg (dm_mach s) = {}"
proof -
  have "CppSQLite3Exception_errorMessage inert_error = Ret ''[sqlite3] not an error''"
    using errorMessage_sq_error[of "Some ''not an error''" "inert_lib :: unit sqlite3_lib" SQLITE_ERROR]
    by (simp add: NUL_def GET_ERROR_MESSAGE_def sq_class_name_def sq_error_codes sqlite_codes)
  then have "is_ret (fst (demo_try 3 (sqlite_backend (\<lambda>_ w. w) inert_lib) (demo_start no_handles)))"
    unfolding demo_try_def inert_body
    by (simp add: demo_unwind_def destroy_local_def demo_start_def no_handles_def sqlite_backend_def
      CppSQLite3DB_members_def CppSQLite3DB_destroy_def CppSQLite3DB_close_def call_close_def demo_handler_def exn_do_def
      CppSQLite3Exception_members_def prog_simps cerr_def)
  then show ?thesis
    using demo_leaves_nothing[OF inert_documented, of no_handles 3 "\<lambda>_ w. w"] by (auto simp: no_handles_def)
qed

text \<open>
  C5: with the MySQL library, whatever it answers, the \<open>try\<close> block with its handler either returns with the
  connection closed and every exception text and every parameter array freed, or it runs into undefined
  behaviour that is no memory fault.  At most two results are never freed, one for each call of
  \<open>getResultSet\<close>; and when no exception was reported, nothing else is: a constructor that throws is
  what loses the statement, the rows or the names it had allocated.
\<close>

theorem demo_mysql_safe:
  assumes "live_conn m = {}" and "live_res m = {}" and "live_mstmt m = {}"
    and "heap_str m = Map.empty" and "heap_rows m = Map.empty" and "heap_map m = Map.empty" and "heap_bind m = Map.empty"
  shows "\<exists>r s. demo_try fuel (mysql_backend bound lb) (demo_start m) = (r, s) \<and>
           (r = Ret () \<and> live_conn (dm_mach s) = {} \<and> heap_str (dm_mach s) = Map.empty \<and>
              heap_bind (dm_mach s) = Map.empty \<and> finite (live_res (dm_mach s)) \<and> card (live_res (dm_mach s)) \<le> 2 \<and>
              (dm_err s = [] \<longrightarrow>
                 live_mstmt (dm_mach s) = {} \<and> heap_rows (dm_mach s) = Map.empty \<and> heap_map (dm_mach s) = Map.empty) \<or>
            (\<exists>u. r = Undef u \<and> \<not> memory_fault u))"
proof -
  have "my_mem (s_DBName m) {} m" using assms by (simp add: my_mem_def my_fresh_def)
  then have "my_at Running Nothing (demo_start m)"
    unfolding my_at_def my_books_def
    by (auto simp: my_shape_def all_owned_def demo_start_def intro!: exI[of _ "s_DBName m"] exI[of _ "{}"])
  from goesD[OF my_safe.try_safe this, of fuel bound lb] show ?thesis
    by (auto simp: wlp_def never_def my_left_released split: prod.splits outcome.splits)
qed

text \<open>A library whose server cannot be reached.\<close>

definition refusing_lib :: "my_world mysql_lib" where
  "refusing_lib = (sample_lib [] [])
     \<lparr>mysql_real_connect := (\<lambda>c host user passwd db port flag w. (False, w)), mysql_errno := (\<lambda>c w. (2003, w)),
      mysql_error := (\<lambda>c w. (''Can't connect to MySQL server'', w))\<rparr>"

definition no_my_handles :: "my_world my_mach" where
  "no_my_handles = my_mach0\<lparr>my_next := 0, live_conn := {}\<rparr>"

lemma refusing_fields [simp]:
  "mysql_init refusing_lib c w = (True, w)" "mysql_real_connect refusing_lib c host user passwd db port flag w = (False, w)"
  "mysql_errno refusing_lib c w = (2003, w)" "mysql_error refusing_lib c w = (''Can't connect to MySQL server'', w)"
  "mysql_close refusing_lib c w = ((), w)"
  by (simp_all add: refusing_lib_def sample_lib_def)

lemma refusing_new:
  "CppMySQLDB_new refusing_lib no_my_handles = (Ret my_db0, no_my_handles\<lparr>my_next := 1, live_conn := {0}\<rparr>)"
  by (simp add: CppMySQLDB_new_def call_init_def no_my_handles_def my_mach0_def my_db0_def prog_simps)

abbreviation unreachable :: string where
  "unreachable \<equiv> ''Can't connect to MySQL server''"

lemma refusing_setup:
  assumes "my_db_open (my_db0, m) 0"
  shows "mysql_setup refusing_lib name (my_db0, m) =
    (Throw (my_error m 2003), (my_db0, after_throw 2003 (Some unreachable) m))"
proof -
  have t: "my_db_throw refusing_lib (my_db0, m) = (Throw (my_error m 2003), (my_db0, after_throw 2003 (Some unreachable) m))"
    using assms by (simp add: my_db_throw_def my_db_open_def uint_to_int_def prog_simps)
  have c: "my_db_call (\<lambda>c. mysql_real_connect refusing_lib c h u p d q fl) (my_db0, m) = (Ret False, (my_db0, m))" for h u p d q fl
    using my_db_call_run[OF assms, of "\<lambda>c. mysql_real_connect refusing_lib c h u p d q fl" False "mlib m"] by simp
  have "CppMySQLDB_connect refusing_lib h u p d q fl (my_db0, m) =
      (Throw (my_error m 2003), (my_db0, after_throw 2003 (Some unreachable) m))" for h u p d q fl
    using assms by (simp add: CppMySQLDB_connect_def t c prog_simps)
  then show ?thesis by (simp add: mysql_setup_def CppMySQLDB_members_def prog_simps)
qed

definition my_connected :: "my_world my_mach" where
  "my_connected = no_my_handles\<lparr>my_next := 1, live_conn := {0}\<rparr>"

lemma refusing_body:
  "demo_body fuel (mysql_backend bound refusing_lib) (demo_start no_my_handles) =
    (Throw (my_error my_connected 2003),
     (demo_start no_my_handles)\<lparr>dm_mach := after_throw 2003 (Some unreachable) my_connected, dm_db := Some my_db0\<rparr>)"
proof -
  have "my_db_open (my_db0, my_connected) 0" by (simp add: my_db_open_def my_db0_def my_connected_def)
  from refusing_setup[OF this] show ?thesis
    by (simp add: demo_body_def demo_create_def mysql_backend_def construct_def demo_start_def
        refusing_new[folded my_connected_def] CppMySQLDB_members_def prog_simps)
qed

lemma refusing_close:
  assumes "0 \<in> live_conn m"
  shows "\<exists>db. CppMySQLDB_destroy refusing_lib (my_db0, m) = (Ret (), (db, m\<lparr>live_conn := live_conn m - {0}\<rparr>))"
  using assms
  by (simp add: CppMySQLDB_destroy_def CppMySQLDB_close_def call_mysql_close_def my_db0_def prog_simps)

lemma refusing_unwind:
  assumes "0 \<in> live_conn m"
  shows "demo_unwind (mysql_backend bound refusing_lib) ((demo_start m')\<lparr>dm_mach := m, dm_db := Some my_db0\<rparr>) =
    (Ret (), demo_start (m\<lparr>live_conn := live_conn m - {0}\<rparr>))"
  using refusing_close[OF assms]
  by (auto simp: demo_unwind_def destroy_local_def object_do_def demo_start_def mysql_backend_def
      CppMySQLDB_members_def prog_simps)

lemma handler_returns:
  assumes "mye_m_pErrMess e = Some p" and "heap_str (dm_mach s) p = Some t"
  shows "is_ret (fst (demo_handler (mysql_backend bound lb) e s))"
proof -
  have "p \<in> dom (heap_str (dm_mach s))" using assms(2) by blast
  then show ?thesis
    using assms
    by (simp add: demo_handler_def exn_do_def mysql_backend_def mach_do_def CppMySQLException_members_def
        CppMySQLException_destroy_def CppMySQLException_errorMessage_def cerr_def prog_simps)
qed

lemma demo_mysql_safe_witness:
  "\<exists>s. demo_try 3 (mysql_backend 3 refusing_lib) (demo_start no_my_handles) = (Ret (), s) \<and>
     live_conn (dm_mach s) = {} \<and> heap_str (dm_mach s) = Map.empty \<and> card (live_res (dm_mach s)) \<le> 2"
proof -
  have live: "0 \<in> live_conn (after_throw 2003 (Some unreachable) my_connected)" by (simp add: my_connected_def)
  have handled: "is_ret (fst (demo_handler (mysql_backend 3 refusing_lib) (my_error my_connected 2003)
      (demo_start (after_throw 2003 (Some unreachable) my_connected\<lparr>live_conn := {}\<rparr>))))"
    by (rule handler_returns[of _ "my_next my_connected" _ "my_message 2003 (Some unreachable)"])
      (simp_all add: my_error_def demo_start_def after_throw_def)
  have "is_ret (fst (demo_try 3 (mysql_backend 3 refusing_lib) (demo_start no_my_handles)))"
    unfolding demo_try_def refusing_body
    using refusing_unwind[OF live, of 3 no_my_handles] handled by (simp add: my_connected_def prog_simps)
  then show ?thesis
    using demo_mysql_safe[of no_my_handles 3 3 refusing_lib] by (auto simp: no_my_handles_def my_mach0_def)
qed

section \<open>Reading\<close>

text \<open>
  C14: compiled against either library, the loop of the demonstration program that prints a query ends
  within one turn more than there are rows, and prints the same text for the same pending rows: one
  line for each of them, in order.
\<close>

theorem demo_query_prints_same:
  assumes "query_pending slb vw default_szNullValue (sq, dm_mach s) (map (\<lambda>(a, b). [Some a, Some b]) cells)"
    and "my_query_pending mlb rv default_szNullValue (mq, dm_mach t) (map (\<lambda>(a, b). [Some a, Some b]) cells)"
    and "dm_q s = Some sq" and "dm_q t = Some mq" and "length cells < fuel"
  shows "\<exists>s' t'. demo_query_loop fuel (sqlite_backend rm slb) s = (Ret (), s') \<and>
           demo_query_loop fuel (mysql_backend bound mlb) t = (Ret (), t') \<and>
           dm_out s' = dm_out s @ concat (map row_line cells) \<and>
           dm_out t' = dm_out t @ concat (map row_line cells)"
proof -
  have "be_query (sqlite_backend rm slb) = DatabaseQuery.truncate (CppSQLite3Query_members slb)"
    by (simp add: sqlite_backend_def)
  from sq_text.demo_query_loop_prints[OF this refl assms(3,1,5)] obtain s' where
    "demo_query_loop fuel (sqlite_backend rm slb) s = (Ret (), s')" "dm_out s' = dm_out s @ concat (map row_line cells)"
    by force
  moreover have "be_query (mysql_backend bound mlb) = DatabaseQuery.truncate (CppMySQLQuery_members mlb)"
    by (simp add: mysql_backend_def)
  from my_text.demo_query_loop_prints[OF this refl assms(4,2,5)] obtain t' where
    "demo_query_loop fuel (mysql_backend bound mlb) t = (Ret (), t')" "dm_out t' = dm_out t @ concat (map row_line cells)"
    by force
  ultimately show ?thesis by blast
qed

text \<open>The program on the sample queries.\<close>

definition demo_on :: "'m \<Rightarrow> 'd option \<Rightarrow> 'q option \<Rightarrow> 'st option \<Rightarrow> ('m, 'd, 'q, 't, 'st) demo" where
  "demo_on m db q st =
     \<lparr>dm_mach = m, dm_db = db, dm_q = q, dm_t = None, dm_stmt = st, dm_out = [], dm_err = []\<rparr>"

lemma demo_on_fields [simp]:
  "dm_mach (demo_on m db q st) = m" "dm_db (demo_on m db q st) = db" "dm_q (demo_on m db q st) = q"
  "dm_stmt (demo_on m db q st) = st" "dm_out (demo_on m db q st) = []"
  by (simp_all add: demo_on_def)

lemma emp_cells:
  "map (\<lambda>(a, b). [Some a, Some b]) [(''7'', ''David''), (''8'', [])] =
     map (map (string_field default_szNullValue)) emp_rows"
  "map (\<lambda>(a, b). [Some a, Some b]) [(''7'', ''David''), (''8'', [])] =
     map (map (or_default default_szNullValue)) emp_values"
  by (simp_all add: emp_rows_def emp_values_def int_cell_def text_cell_def null_cell_def string_field_def
      or_default_def default_szNullValue_def show_int_def show_nat.simps digit_chars sqlite_codes)

lemma demo_query_prints_same_witness:
  "\<exists>s' t'. demo_query_loop 3 (sqlite_backend (\<lambda>_ w. w) emp_lib)
       (demo_on (one_stmt emp_world) (Some conn0) (Some emp_query) (None :: sq_stmt option)) = (Ret (), s') \<and>
     demo_query_loop 3 (mysql_backend 3 my_emp_lib)
       (demo_on my_emp_mach (Some my_db0) (Some my_emp_query) (None :: my_stmt option)) = (Ret (), t') \<and>
     dm_out s' = ''7|David|'' @ endl @ ''8||'' @ endl \<and> dm_out t' = ''7|David|'' @ endl @ ''8||'' @ endl"
proof -
  let ?cells = "[(''7'', ''David''), (''8'', [])] :: (string \<times> string) list"
  have s: "query_pending emp_lib query_view default_szNullValue (emp_query, one_stmt emp_world)
      (map (\<lambda>(a, b). [Some a, Some b]) ?cells)"
    unfolding emp_cells(1) query_pending_def using emp_query_on emp_contracts
    by (auto intro!: exI[of _ "1 :: nat"] exI[of _ "stmt_stepped (stmt_fresh emp_names emp_rows SQLITE_DONE)"]
        simp: emp_query_def emp_rows_def stmt_stepped_def stmt_fresh_def)
  have t: "my_query_pending my_emp_lib mw_res default_szNullValue (my_emp_query, my_emp_mach)
      (map (\<lambda>(a, b). [Some a, Some b]) ?cells)"
    unfolding emp_cells(2) my_query_pending_def using my_emp_query_on my_emp_contracts(1)
    by (intro conjI exI[of _ "1 :: nat"] exI[of _ emp_fields] exI[of _ emp_values] exI[of _ "0 :: nat"]) simp_all
  let ?s = "demo_on (one_stmt emp_world) (Some conn0) (Some emp_query) (None :: sq_stmt option) ::
      ((nat \<Rightarrow> stmt_view) sq_mach, sq_db, sq_query, sq_rset, sq_stmt) demo"
  let ?t = "demo_on my_emp_mach (Some my_db0) (Some my_emp_query) (None :: my_stmt option) ::
      (my_world my_mach, my_db, my_query, my_rset, my_stmt) demo"
  have "length ?cells < 3" by simp
  from demo_query_prints_same[of emp_lib query_view emp_query ?s ?cells my_emp_lib mw_res my_emp_query ?t 3
      "\<lambda>_ w. w" 3] s t this
  show ?thesis by (auto simp: row_line_def)
qed

section \<open>Writing\<close>

text \<open>
  C15: the insert loop of the demonstration program, on an open connection that accepts its statements,
  sends the library exactly the start of a transaction, one insert for every row number in order, and
  the commit; every insert fits its array of 128 characters.
\<close>

theorem demo_rows_in_transaction:
  assumes "db_at (sq_session slb slg A d) s" and "db_at (my_session mlb mlg A c 0) t"
    and "\<forall>i < n. insert_sql (int i) \<in> A" and "int n \<le> INT_MAX"
  shows "\<exists>s' t'. demo_insert_rows (sqlite_backend rm slb) n s = (Ret (), s') \<and>
           demo_insert_rows (mysql_backend bound mlb) n t = (Ret (), t') \<and>
           db_seen (\<lambda>x. slg (lib (snd x)) d) s' =
             db_seen (\<lambda>x. slg (lib (snd x)) d) s @
             ''begin transaction;'' # map (\<lambda>i. insert_sql (int i)) [0..<n] @ [''commit transaction;''] \<and>
           db_seen (\<lambda>x. mlg (mlib (snd x)) c) t' =
             db_seen (\<lambda>x. mlg (mlib (snd x)) c) t @
             ''start transaction;'' # map (\<lambda>i. insert_sql (int i)) [0..<n] @ [''commit'']"
proof -
  have "be_db (sqlite_backend rm slb) = DatabaseLayer_class.truncate (CppSQLite3DB_members slb)"
    by (simp add: sqlite_backend_def)
  note s = sq_recorded.demo_insert_rows_sent[OF this assms(4,3,1)]
  have "be_db (mysql_backend bound mlb) = DatabaseLayer_class.truncate (CppMySQLDB_members mlb)"
    by (simp add: mysql_backend_def)
  note t = my_recorded.demo_insert_rows_sent[OF this assms(4,3,2)]
  show ?thesis using s t by blast
qed

lemma log_lib_records: "sq_records log_lib (\<lambda>w. w) UNIV"
  by (simp add: sq_records_def log_lib_def inert_lib_def)

lemma my_log_lib_records: "my_records my_log_lib mw_log UNIV"
  by (simp add: my_records_def my_log_lib_def sample_lib_def log_text_def) blast

lemma my_log_ready: "my_db_ready my_log_lib (my_db0, my_mach0) 0"
  by (simp add: my_db_ready_def my_db0_open my_log_lib_def sample_lib_def)

lemma demo_rows_in_transaction_witness:
  "\<exists>s' t'. demo_insert_rows (sqlite_backend (\<lambda>_ w. w) log_lib) 2
       (demo_on (one_conn (\<lambda>_. [])) (Some conn0) (None :: sq_query option) (None :: sq_stmt option)) = (Ret (), s') \<and>
     demo_insert_rows (mysql_backend 3 my_log_lib) 2
       (demo_on my_mach0 (Some my_db0) (None :: my_query option) (None :: my_stmt option)) = (Ret (), t') \<and>
     lib (dm_mach s') 0 = [''begin transaction;'', insert_sql 0, insert_sql 1, ''commit transaction;''] \<and>
     mw_log (mlib (dm_mach t')) 0 = [''start transaction;'', insert_sql 0, insert_sql 1, ''commit'']"
proof -
  let ?s = "demo_on (one_conn (\<lambda>_. [])) (Some conn0) None None ::
      ((nat \<Rightarrow> string list) sq_mach, sq_db, sq_query, sq_rset, sq_stmt) demo"
  let ?t = "demo_on my_mach0 (Some my_db0) None None :: (my_world my_mach, my_db, my_query, my_rset, my_stmt) demo"
  have s: "db_at (sq_session log_lib (\<lambda>w. w) UNIV 0) ?s"
    by (simp add: db_at_def sq_session_def conn0_open log_lib_records)
  have t: "db_at (my_session my_log_lib mw_log UNIV 0 0) ?t"
    by (simp add: db_at_def my_session_def my_log_ready my_log_lib_records) (simp add: my_db0_def)
  have n: "\<forall>i < 2. insert_sql (int i) \<in> UNIV" "int 2 \<le> INT_MAX" by (simp_all add: INT_MAX_def)
  have l: "map (\<lambda>i. insert_sql (int i)) [0..<2] = [insert_sql 0, insert_sql 1]" by (simp add: upt_rec numeral_2_eq_2)
  have z: "db_seen (\<lambda>x. lib (snd x) 0) ?s = []" "db_seen (\<lambda>x. mw_log (mlib (snd x)) 0) ?t = []"
    by (simp_all add: db_seen_def one_conn_def my_mach0_def my_world0_def)
  from demo_rows_in_transaction[OF s t n, of "\<lambda>_ w. w" 3, unfolded l z]
  show ?thesis by (auto simp: db_seen_def)
qed




end
