(* ===== verification/Threads.thy ===== *)
theory Threads
  imports Prelude
begin

text \<open>
  Threads that share memory, as the multithreaded demonstration program uses them: a thread is a
  list of commands it has still to execute, a command runs one statement of the source at a time,
  and the scheduler takes any unfinished thread in every step.  The counter \<open>nThreads\<close>, through which
  the main thread waits for the others, is a part of the configuration of its own, so that the
  commands that write it can be told from the others.
\<close>

section \<open>Commands\<close>

text \<open>
  \<open>Exec\<close> is a statement without control flow, over the thread's own variables and the shared state.
  \<open>Try body unwind handler\<close> is a \<open>try\<close> block: \<open>unwind\<close> destroys the objects declared in it, on both
  ways out.  While its body runs, \<open>EndTry\<close> marks where it ends.  \<open>Destroy\<close> is \<open>unwind\<close> during the
  handling of an exception, where another exception would end the program.  \<open>WaitThreads\<close> is
  \<open>while (nThreads) Sleep(100);\<close>, \<open>StartThread\<close> is \<open>_beginthread\<close>, whose result the program ignores.
\<close>

datatype ('s, 'e) cmd =
    Exec "('s, 'e, unit) prog"
  | Destroy "('s, 'e, unit) prog"
  | Try "('s, 'e) cmd list" "('s, 'e, unit) prog" "'e \<Rightarrow> ('s, 'e) cmd list"
  | EndTry "('s, 'e, unit) prog" "'e \<Rightarrow> ('s, 'e) cmd list"
  | While "('s, 'e, bool) prog" "('s, 'e) cmd list"
  | SetThreads int
  | EndThread
  | StartThread "('s, 'e) cmd list"
  | WaitThreads

text \<open>What remains after an exception: the innermost enclosing handler and what follows it.\<close>

fun caught_at :: "'e \<Rightarrow> ('s, 'e) cmd list \<Rightarrow> ('s, 'e) cmd list option" where
  "caught_at e [] = None"
| "caught_at e (EndTry c h # k) = Some (Destroy c # h e @ k)"
| "caught_at e (_ # k) = caught_at e k"

text \<open>The effect of a command: go on, start a thread, undefined behaviour, or \<open>std::terminate\<close>.\<close>

datatype ('s, 'e) effect =
    Next "('s, 'e) cmd list" int 's
  | Begin "('s, 'e) cmd list" "('s, 'e) cmd list"
  | Fault ub
  | Terminate

definition raise :: "'e \<Rightarrow> ('s, 'e) cmd list \<Rightarrow> int \<Rightarrow> 's \<Rightarrow> ('s, 'e) effect" where
  "raise e k n s = (case caught_at e k of None \<Rightarrow> Terminate | Some k' \<Rightarrow> Next k' n s)"

fun run_cmd :: "('s, 'e) cmd \<Rightarrow> ('s, 'e) cmd list \<Rightarrow> int \<Rightarrow> 's \<Rightarrow> ('s, 'e) effect" where
  "run_cmd (Exec p) k n s =
     (case p s of (Ret _, s') \<Rightarrow> Next k n s' | (Throw e, s') \<Rightarrow> raise e k n s' | (Undef u, s') \<Rightarrow> Fault u)"
| "run_cmd (Destroy p) k n s =
     (case p s of (Ret _, s') \<Rightarrow> Next k n s' | (Throw e, s') \<Rightarrow> Terminate | (Undef u, s') \<Rightarrow> Fault u)"
| "run_cmd (Try b c h) k n s = Next (b @ EndTry c h # k) n s"
| "run_cmd (EndTry c h) k n s = Next (Exec c # k) n s"
| "run_cmd (While b body) k n s =
     (case b s of
        (Ret True, s') \<Rightarrow> Next (body @ While b body # k) n s'
      | (Ret False, s') \<Rightarrow> Next k n s'
      | (Throw e, s') \<Rightarrow> raise e k n s'
      | (Undef u, s') \<Rightarrow> Fault u)"
| "run_cmd (SetThreads i) k n s = Next k i s"
| "run_cmd EndThread k n s = (if in_int (n - 1) then Next k (n - 1) s else Fault SignedOverflow)"
| "run_cmd (StartThread t) k n s = Begin t k"
| "run_cmd WaitThreads k n s = Next (if n = 0 then k else WaitThreads # k) n s"

section \<open>Interleaving\<close>

text \<open>
  Thread 0 is the main thread; when it has finished the process has ended.  \<open>own\<close> holds the
  variables of one thread, and a new thread starts with \<open>fresh_own\<close>.
\<close>

record ('own, 'shared, 'e) config =
  threads :: "(('own \<times> 'shared, 'e) cmd list \<times> 'own) list"
  nThreads :: int
  shared :: 'shared
  fresh_own :: 'own

text \<open>
  \<open>Turn i\<close> is a step of thread \<open>i\<close>; \<open>NoThread i\<close> is one in which \<open>_beginthread\<close> fails to start a
  thread.
\<close>

datatype label = Turn nat | NoThread nat

inductive step :: "label \<Rightarrow> ('own, 'shared, 'e) config \<Rightarrow> ('own, 'shared, 'e) config \<Rightarrow> bool" where
  step_next:
    "\<lbrakk>fst (threads C ! 0) \<noteq> []; i < length (threads C); threads C ! i = (c # k, l);
      run_cmd c k (nThreads C) (l, shared C) = Next k' n (l', s)\<rbrakk> \<Longrightarrow>
     step (Turn i) C (C\<lparr>threads := (threads C)[i := (k', l')], nThreads := n, shared := s\<rparr>)"
| step_begin:
    "\<lbrakk>fst (threads C ! 0) \<noteq> []; i < length (threads C); threads C ! i = (c # k, l);
      run_cmd c k (nThreads C) (l, shared C) = Begin t k'\<rbrakk> \<Longrightarrow>
     step (Turn i) C (C\<lparr>threads := (threads C)[i := (k', l)] @ [(t, fresh_own C)]\<rparr>)"
| step_no_thread:
    "\<lbrakk>fst (threads C ! 0) \<noteq> []; i < length (threads C); threads C ! i = (c # k, l);
      run_cmd c k (nThreads C) (l, shared C) = Begin t k'\<rbrakk> \<Longrightarrow>
     step (NoThread i) C (C\<lparr>threads := (threads C)[i := (k', l)]\<rparr>)"

inductive run :: "('own, 'shared, 'e) config \<Rightarrow> label list \<Rightarrow> ('own, 'shared, 'e) config \<Rightarrow> bool" where
  run_nil: "run C [] C"
| run_snoc: "\<lbrakk>run C ls C'; step a C' C''\<rbrakk> \<Longrightarrow> run C (ls @ [a]) C''"

text \<open>The same steps as a function, to execute a given schedule.\<close>

fun turn :: "nat \<Rightarrow> ('own, 'shared, 'e) config \<Rightarrow> ('own, 'shared, 'e) config option" where
  "turn i C =
     (if fst (threads C ! 0) = [] \<or> length (threads C) \<le> i then None
      else case threads C ! i of
        ([], l) \<Rightarrow> None
      | (c # k, l) \<Rightarrow>
          (case run_cmd c k (nThreads C) (l, shared C) of
             Next k' n (l', s) \<Rightarrow> Some (C\<lparr>threads := (threads C)[i := (k', l')], nThreads := n, shared := s\<rparr>)
           | Begin t k' \<Rightarrow> Some (C\<lparr>threads := (threads C)[i := (k', l)] @ [(t, fresh_own C)]\<rparr>)
           | Fault u \<Rightarrow> None
           | Terminate \<Rightarrow> None))"

fun turns :: "nat list \<Rightarrow> ('own, 'shared, 'e) config \<Rightarrow> ('own, 'shared, 'e) config option" where
  "turns [] C = Some C"
| "turns (i # is) C = (case turn i C of None \<Rightarrow> None | Some C' \<Rightarrow> turns is C')"

declare turn.simps [simp del]

lemma turn_step: "turn i C = Some C' \<Longrightarrow> step (Turn i) C C'"
  by (auto simp: turn.simps intro: step_next step_begin
      split: if_splits prod.splits list.splits effect.splits)

lemma run_cons: "run C' ls C'' \<Longrightarrow> step a C C' \<Longrightarrow> run C (a # ls) C''"
proof (induction rule: run.induct)
  case (run_nil C')
  from run_snoc[OF run.run_nil this] show ?case by simp
next
  case (run_snoc C' ls C1 b C2)
  from run.run_snoc[OF run_snoc.IH[OF run_snoc.prems] run_snoc.hyps(2)] show ?case by simp
qed

lemma run_trans: "run C' ls' C'' \<Longrightarrow> run C ls C' \<Longrightarrow> run C (ls @ ls') C''"
proof (induction rule: run.induct)
  case (run_snoc C' ls' C1 b C2)
  from run.run_snoc[OF run_snoc.IH[OF run_snoc.prems] run_snoc.hyps(2)] show ?case by simp
qed simp

lemma turns_run: "turns is C = Some C' \<Longrightarrow> run C (map Turn is) C'"
  by (induction "is" arbitrary: C) (auto intro: run_nil run_cons turn_step split: option.splits)

section \<open>Counting threads\<close>

text \<open>The threads the main thread has started and that have not finished.\<close>

definition live_threads :: "('own, 'shared, 'e) config \<Rightarrow> nat" where
  "live_threads C = length (filter (\<lambda>t. fst t \<noteq> []) (tl (threads C)))"

text \<open>
  A discipline on the commands a thread has left, in one of four phases: the main thread with no
  other thread (\<open>Idle\<close>), between setting the counter to 1 and starting a thread (\<open>Armed\<close>) and
  afterwards until it has waited (\<open>Busy\<close>); and another thread (\<open>Working\<close>), which decrements the counter
  as its last command, on every way out of its \<open>try\<close> block.
\<close>

datatype phase = Idle | Armed | Busy | Working

lemma ex_phase: "(\<exists>p. P p) \<longleftrightarrow> P Idle \<or> P Armed \<or> P Busy \<or> P Working"
  by (metis phase.exhaust)

fun is_exec :: "('s, 'e) cmd \<Rightarrow> bool" where
  "is_exec (Exec p) = True"
| "is_exec _ = False"

inductive phased :: "phase \<Rightarrow> ('s, 'e) cmd list \<Rightarrow> bool" where
  ph_nil: "p = Idle \<or> p = Busy \<Longrightarrow> phased p []"
| ph_exec: "\<lbrakk>p \<noteq> Armed; phased p k; \<And>e k'. caught_at e k = Some k' \<Longrightarrow> phased p k'\<rbrakk> \<Longrightarrow> phased p (Exec q # k)"
| ph_destroy: "\<lbrakk>p \<noteq> Armed; phased p k\<rbrakk> \<Longrightarrow> phased p (Destroy q # k)"
| ph_try: "\<lbrakk>p \<noteq> Armed; phased p (b @ EndTry c h # k)\<rbrakk> \<Longrightarrow> phased p (Try b c h # k)"
| ph_endtry: "\<lbrakk>p \<noteq> Armed; phased p (Exec c # k)\<rbrakk> \<Longrightarrow> phased p (EndTry c h # k)"
| ph_while:
    "\<lbrakk>p \<noteq> Armed; list_all is_exec b; phased p k; \<And>e k'. caught_at e k = Some k' \<Longrightarrow> phased p k'\<rbrakk> \<Longrightarrow>
     phased p (While cond b # k)"
| ph_set: "phased Armed k \<Longrightarrow> phased Idle (SetThreads 1 # k)"
| ph_start: "\<lbrakk>phased Working t; phased Busy k\<rbrakk> \<Longrightarrow> phased Armed (StartThread t # k)"
| ph_wait: "\<lbrakk>p = Idle \<or> p = Busy; phased Idle k\<rbrakk> \<Longrightarrow> phased p (WaitThreads # k)"
| ph_end: "phased Working [EndThread]"

inductive_cases phased_exec: "phased p (Exec q # k)"
inductive_cases phased_destroy: "phased p (Destroy q # k)"
inductive_cases phased_try: "phased p (Try b c h # k)"
inductive_cases phased_endtry: "phased p (EndTry c h # k)"
inductive_cases phased_while: "phased p (While cond b # k)"
inductive_cases phased_set: "phased p (SetThreads i # k)"
inductive_cases phased_start: "phased p (StartThread t # k)"
inductive_cases phased_wait: "phased p (WaitThreads # k)"
inductive_cases phased_end: "phased p (EndThread # k)"
inductive_cases phased_working_nil: "phased Working []"

lemma caught_at_execs: "list_all is_exec b \<Longrightarrow> caught_at e (b @ k) = caught_at e k"
proof (induction b)
  case (Cons c b)
  then show ?case by (cases c) (simp_all)
qed simp

lemma phased_execs:
  "\<lbrakk>p \<noteq> Armed; list_all is_exec b; phased p k; \<And>e k'. caught_at e k = Some k' \<Longrightarrow> phased p k'\<rbrakk> \<Longrightarrow> phased p (b @ k)"
proof (induction b)
  case (Cons c b)
  then show ?case by (cases c) (auto simp: caught_at_execs intro!: ph_exec)
qed simp

lemma phased_while_body:
  assumes "phased p (While cond b # k)"
  shows "phased p (b @ While cond b # k)"
proof (rule phased_execs)
  from assms show "p \<noteq> Armed" "list_all is_exec b" by (auto elim: phased_while)
  show "phased p (While cond b # k)" by (rule assms)
  show "\<And>e k'. caught_at e (While cond b # k) = Some k' \<Longrightarrow> phased p k'"
    using assms by (auto elim: phased_while)
qed

text \<open>What a step leaves of the discipline: the phase moves with the counter.\<close>

definition moves :: "phase \<Rightarrow> int \<Rightarrow> ('s, 'e) cmd list \<Rightarrow> int \<Rightarrow> bool" where
  "moves p n k' n' =
     (phased p k' \<and> n' = n
      \<or> p = Idle \<and> phased Armed k' \<and> n' = 1
      \<or> n = 0 \<and> n' = 0 \<and> phased Idle k' \<and> p \<noteq> Working
      \<or> p = Working \<and> k' = [] \<and> n' = n - 1)"

lemma run_cmd_moves:
  assumes "phased p (c # k)" and "run_cmd c k n s = Next k' n' s'"
  shows "moves p n k' n'"
proof (cases c)
  case (Exec q)
  then show ?thesis using assms
    by (auto simp: moves_def raise_def elim!: phased_exec split: prod.splits outcome.splits option.splits)
next
  case (Destroy q)
  then show ?thesis using assms
    by (auto simp: moves_def elim!: phased_destroy split: prod.splits outcome.splits)
next
  case (Try b u h)
  then show ?thesis using assms by (auto simp: moves_def elim!: phased_try)
next
  case (EndTry u h)
  then show ?thesis using assms by (auto simp: moves_def elim!: phased_endtry)
next
  case (While cond b)
  have "phased p (b @ While cond b # k)" using phased_while_body assms(1) While by blast
  moreover have "phased p k" "\<And>e k'. caught_at e k = Some k' \<Longrightarrow> phased p k'"
    using assms(1) While by (auto elim: phased_while)
  ultimately show ?thesis using assms(2) While
    by (auto simp: moves_def raise_def split: prod.splits outcome.splits option.splits bool.splits)
next
  case (SetThreads i)
  then show ?thesis using assms by (auto simp: moves_def elim!: phased_set)
next
  case EndThread
  then show ?thesis using assms by (auto simp: moves_def elim!: phased_end split: if_splits)
next
  case (StartThread t)
  then show ?thesis using assms by simp
next
  case WaitThreads
  then show ?thesis using assms by (auto simp: moves_def elim!: phased_wait intro: ph_wait split: if_splits)
qed

lemma run_cmd_begins:
  assumes "phased p (c # k)" and "run_cmd c k n s = Begin t k'"
  shows "p = Armed \<and> phased Working t \<and> phased Busy k'"
proof -
  have "c = StartThread t \<and> k' = k"
    using assms(2) by (cases c) (auto simp: raise_def split: prod.splits outcome.splits option.splits bool.splits if_splits)
  then show ?thesis using assms(1) by (auto elim: phased_start)
qed

text \<open>
  The invariant of a program whose threads keep the discipline; \<open>all\<close> says that no start of a thread
  has failed.
\<close>

definition phase_ok :: "bool \<Rightarrow> phase \<Rightarrow> ('own, 'shared, 'e) config \<Rightarrow> bool" where
  "phase_ok all p C =
     (phased p (fst (threads C ! 0)) \<and>
      (case p of
         Idle \<Rightarrow> nThreads C = 0 \<and> live_threads C = 0
       | Armed \<Rightarrow> nThreads C = 1 \<and> live_threads C = 0
       | Busy \<Rightarrow> int (live_threads C) \<le> nThreads C \<and> nThreads C \<le> 1 \<and>
                 (all \<longrightarrow> int (live_threads C) = nThreads C)
       | Working \<Rightarrow> False))"

definition disciplined :: "bool \<Rightarrow> ('own, 'shared, 'e) config \<Rightarrow> bool" where
  "disciplined all C =
     (threads C \<noteq> [] \<and> (\<forall>t \<in> set (tl (threads C)). fst t = [] \<or> phased Working (fst t)) \<and> (\<exists>p. phase_ok all p C))"

lemma phase_okD:
  assumes "phase_ok all p C"
  shows "phased p (fst (threads C ! 0))" "p \<noteq> Working" "0 \<le> nThreads C" "nThreads C \<le> 1"
    "int (live_threads C) \<le> nThreads C"
  using assms by (cases p; simp add: phase_ok_def)+

lemma length_filter_update:
  "j < length ys \<Longrightarrow>
   length (filter P (ys[j := y])) + (if P (ys ! j) then 1 else 0) = length (filter P ys) + (if P y then 1 else 0)"
proof (induction ys arbitrary: j)
  case (Cons z ys)
  then show ?case by (cases j) auto
qed simp

lemma live_update:
  assumes "i < length (threads C)" and "i \<noteq> 0" and "fst (threads C ! i) \<noteq> []"
  shows "live_threads (C\<lparr>threads := (threads C)[i := (k, l)], nThreads := n, shared := s\<rparr>) + 1 =
           live_threads C + (if k = [] then 0 else 1) \<and> 0 < live_threads C"
proof -
  obtain m xs where c: "threads C = m # xs" and i: "i = Suc (i - 1)" "i - 1 < length xs"
    using assms(1,2) by (cases "threads C") auto
  have x: "fst (xs ! (i - 1)) \<noteq> []" using assms(3) c i(1) by (metis nth_Cons_Suc)
  have u: "tl ((threads C)[i := (k, l)]) = xs[i - 1 := (k, l)]"
    by (subst c, subst i(1)) simp
  have "xs ! (i - 1) \<in> set (filter (\<lambda>t. fst t \<noteq> []) xs)" using x i(2) by simp
  then have "filter (\<lambda>t. fst t \<noteq> []) xs \<noteq> []" by force
  then show ?thesis
    using length_filter_update[OF i(2), of "\<lambda>t. fst t \<noteq> []" "(k, l)"] x
    by (simp add: live_threads_def u) (simp add: c)
qed

lemma live_main:
  "live_threads (C\<lparr>threads := (threads C)[0 := x], nThreads := n, shared := s\<rparr>) = live_threads C"
  by (cases "threads C") (simp_all add: live_threads_def)

lemma live_started:
  assumes "threads C \<noteq> []" and "fst t \<noteq> []"
  shows "live_threads (C\<lparr>threads := (threads C)[0 := x] @ [t]\<rparr>) = Suc (live_threads C)"
  using assms by (cases "threads C") (simp_all add: live_threads_def)

lemma disciplined_next:
  assumes "disciplined all C" and "i < length (threads C)" and "threads C ! i = (c # k, l)"
    and "run_cmd c k (nThreads C) s = Next k' n s'"
  shows "disciplined all (C\<lparr>threads := (threads C)[i := (k', l')], nThreads := n, shared := x\<rparr>)"
proof (cases "i = 0")
  case True
  from assms(1) obtain p where p: "phase_ok all p C" by (auto simp: disciplined_def)
  have "moves p (nThreads C) k' n"
    using run_cmd_moves[OF _ assms(4)] phase_okD(1)[OF p] assms(3) True by simp
  then have "\<exists>p'. phase_ok all p' (C\<lparr>threads := (threads C)[0 := (k', l')], nThreads := n, shared := x\<rparr>)"
    using p phase_okD[OF p] assms(2)[unfolded True] live_main[where C = C and x = "(k', l')" and n = n and s = x]
    by (cases p) (auto simp: moves_def phase_ok_def ex_phase)
  with assms(1,2) True show ?thesis
    by (cases "threads C") (auto simp: disciplined_def)
next
  case False
  from assms(1) obtain p where p: "phase_ok all p C" by (auto simp: disciplined_def)
  have "threads C ! i \<in> set (tl (threads C))"
    using False assms(2) by (cases "threads C"; cases i) auto
  with assms(1,3) have "phased Working (c # k)" by (auto simp: disciplined_def)
  from run_cmd_moves[OF this assms(4)]
  have m: "phased Working k' \<and> n = nThreads C \<or> k' = [] \<and> n = nThreads C - 1" by (auto simp: moves_def)
  moreover have "\<not> phased Working ([] :: ('a \<times> 'b, 'c) cmd list)" by (auto elim: phased_working_nil)
  ultimately have ph: "k' \<noteq> [] \<and> phased Working k' \<and> n = nThreads C \<or> k' = [] \<and> n = nThreads C - 1" by auto
  note l = live_update[OF assms(2) False, where k = k' and l = l' and n = n and s = x, unfolded assms(3), simplified]
  have "p = Busy" using p l phase_okD[OF p] by (cases p) (auto simp: phase_ok_def)
  with p l ph assms(2) False have "phase_ok all Busy (C\<lparr>threads := (threads C)[i := (k', l')], nThreads := n, shared := x\<rparr>)"
    by (auto simp: phase_ok_def)
  moreover have "set (tl ((threads C)[i := (k', l')])) \<subseteq> insert (k', l') (set (tl (threads C)))"
    using False by (cases "threads C"; cases i) (auto dest: subsetD[OF set_update_subset_insert])
  ultimately show ?thesis using assms(1,2) ph
    by (auto simp: disciplined_def)
qed

text \<open>Only the main thread starts others.\<close>

lemma only_main_begins:
  assumes "disciplined all C" and "i < length (threads C)" and "threads C ! i = (c # k, l)"
    and "run_cmd c k (nThreads C) s = Begin t k'"
  shows "i = 0"
proof (rule ccontr)
  assume "i \<noteq> 0"
  then have "threads C ! i \<in> set (tl (threads C))" using assms(2) by (cases "threads C"; cases i) auto
  with assms(1,3) have "phased Working (c # k)" by (auto simp: disciplined_def)
  from run_cmd_begins[OF this assms(4)] show False by simp
qed

lemma disciplined_begin:
  assumes "disciplined all C" and "i < length (threads C)" and "threads C ! i = (c # k, l)"
    and "run_cmd c k (nThreads C) s = Begin t k'"
  shows "disciplined all (C\<lparr>threads := (threads C)[i := (k', l)] @ [(t, own)]\<rparr>)"
    "disciplined False (C\<lparr>threads := (threads C)[i := (k', l)]\<rparr>)"
proof -
  from assms(1) obtain p where p: "phase_ok all p C" by (auto simp: disciplined_def)
  have i: "i = 0" by (rule only_main_begins[OF assms])
  from run_cmd_begins[OF _ assms(4)] phase_okD(1)[OF p] assms(3) i
  have b: "p = Armed" "phased Working t" "phased Busy k'" by auto
  have t: "t \<noteq> []" using b(2) by (auto elim: phased_working_nil)
  have c: "threads C \<noteq> []" using assms(2) by auto
  have l: "live_threads C = 0" "nThreads C = 1" using p b(1) by (simp_all add: phase_ok_def)
  have "phase_ok all Busy (C\<lparr>threads := (threads C)[i := (k', l)] @ [(t, own)]\<rparr>)"
    using b(3) l c t live_started[of C "(t, own)"] by (simp add: phase_ok_def i nth_append)
  then show "disciplined all (C\<lparr>threads := (threads C)[i := (k', l)] @ [(t, own)]\<rparr>)"
    using assms(1) c b(2) i by (cases "threads C") (auto simp: disciplined_def)
  have "live_threads (C\<lparr>threads := (threads C)[0 := (k', l)]\<rparr>) = live_threads C"
    using c by (cases "threads C") (simp_all add: live_threads_def)
  then have "phase_ok False Busy (C\<lparr>threads := (threads C)[i := (k', l)]\<rparr>)"
    using b(3) l c by (simp add: phase_ok_def i)
  then show "disciplined False (C\<lparr>threads := (threads C)[i := (k', l)]\<rparr>)"
    using assms(1) c i by (cases "threads C") (auto simp: disciplined_def)
qed

lemma disciplined_weaken: "disciplined all C \<Longrightarrow> disciplined False C"
  by (force simp: disciplined_def phase_ok_def ex_phase)

lemma disciplined_step:
  assumes "step a C C'" and "disciplined all C"
  shows "disciplined (all \<and> (\<forall>i. a \<noteq> NoThread i)) C'"
  using assms by (cases rule: step.cases) (simp_all add: disciplined_next disciplined_begin)

lemma disciplined_run:
  "run C ls C' \<Longrightarrow> disciplined True C \<Longrightarrow> disciplined (\<forall>i. NoThread i \<notin> set ls) C'"
proof (induction rule: run.induct)
  case (run_snoc C ls C' a C'')
  from disciplined_step[OF run_snoc.hyps(2) run_snoc.IH[OF run_snoc.prems]]
  show ?case by (rule back_subst[of "\<lambda>b. disciplined b C''"]) auto
qed simp

text \<open>What the discipline says of a configuration.\<close>

definition starts_next :: "('s, 'e) cmd list \<Rightarrow> bool" where
  "starts_next k = (case k of SetThreads n # _ \<Rightarrow> True | StartThread t # _ \<Rightarrow> True | _ \<Rightarrow> False)"

definition waits :: "('s, 'e) cmd list \<Rightarrow> bool" where
  "waits k = (case k of WaitThreads # _ \<Rightarrow> True | _ \<Rightarrow> False)"

lemma disciplinedD:
  assumes "disciplined all C"
  shows "int (live_threads C) \<le> nThreads C" "nThreads C \<le> 1"
    "starts_next (fst (threads C ! 0)) \<Longrightarrow> live_threads C = 0"
    "all \<Longrightarrow> waits (fst (threads C ! 0)) \<Longrightarrow> int (live_threads C) = nThreads C"
proof -
  from assms obtain p where p: "phase_ok all p C" by (auto simp: disciplined_def)
  note d = phase_okD[OF p]
  show "int (live_threads C) \<le> nThreads C" "nThreads C \<le> 1" by (rule d)+
  show "live_threads C = 0" if "starts_next (fst (threads C ! 0))"
    using that d(1) p
    by (auto simp: starts_next_def phase_ok_def elim!: phased_set phased_start split: list.splits cmd.splits)
  show "int (live_threads C) = nThreads C" if "all" "waits (fst (threads C ! 0))"
    using that d(1) p
    by (auto simp: waits_def phase_ok_def elim!: phased_wait split: list.splits cmd.splits)
qed

section \<open>Bounded threads\<close>

text \<open>A thread that has at most \<open>n\<close> steps left, whatever the other threads do in between.\<close>

fun ends_within :: "nat \<Rightarrow> ('s, 'e) cmd list \<Rightarrow> bool" where
  "ends_within n [] = True"
| "ends_within 0 (c # k) = False"
| "ends_within (Suc n) (c # k) =
     (case c of
        Exec p \<Rightarrow> ends_within n k \<and> (\<forall>e k'. caught_at e k = Some k' \<longrightarrow> ends_within n k')
      | Destroy p \<Rightarrow> ends_within n k
      | Try b u h \<Rightarrow> ends_within n (b @ EndTry u h # k)
      | EndTry u h \<Rightarrow> ends_within n (Exec u # k)
      | While cond b \<Rightarrow> False
      | SetThreads i \<Rightarrow> ends_within n k
      | EndThread \<Rightarrow> ends_within n k
      | StartThread t \<Rightarrow> ends_within n k
      | WaitThreads \<Rightarrow> False)"

lemma ends_within_next:
  assumes "ends_within (Suc n) (c # k)" and "run_cmd c k m s = Next k' m' s'"
  shows "ends_within n k'"
  using assms by (cases c) (auto simp: raise_def split: prod.splits outcome.splits option.splits if_splits)

lemma ends_within_begin:
  assumes "ends_within (Suc n) (c # k)" and "run_cmd c k m s = Begin t k'"
  shows "ends_within n k'"
  using assms
  by (cases c) (auto simp: raise_def split: prod.splits outcome.splits option.splits bool.splits if_splits)

lemma ends_within_step:
  assumes "ends_within n (c # k)"
    and "run_cmd c k m s = Next k' m' s' \<or> run_cmd c k m s = Begin t k'"
  shows "0 < n \<and> ends_within (n - 1) k'"
  using assms ends_within_next[of "n - 1" c k] ends_within_begin[of "n - 1" c k] by (cases n) auto

fun label_of :: "label \<Rightarrow> nat" where
  "label_of (Turn i) = i"
| "label_of (NoThread i) = i"

lemma step_length: "step a C C' \<Longrightarrow> length (threads C) \<le> length (threads C')"
  by (cases rule: step.cases) auto

lemma step_bounded:
  assumes "step a C C'" and "j < length (threads C)" and "ends_within n (fst (threads C ! j))"
  shows "if label_of a = j then 0 < n \<and> ends_within (n - 1) (fst (threads C' ! j))
         else fst (threads C' ! j) = fst (threads C ! j)"
  using assms(1)
proof (cases rule: step.cases)
  case (step_next i c k l k' m l' s)
  then show ?thesis using assms(2,3) ends_within_step[of n c k, OF _ disjI1] by (auto simp: nth_list_update)
next
  case (step_begin i c k l t k')
  then show ?thesis using assms(2,3) ends_within_step[of n c k, OF _ disjI2] by (auto simp: nth_append nth_list_update)
next
  case (step_no_thread i c k l t k')
  then show ?thesis using assms(2,3) ends_within_step[of n c k, OF _ disjI2] by (auto simp: nth_list_update)
qed

lemma run_length: "run C ls C' \<Longrightarrow> length (threads C) \<le> length (threads C')"
  by (induction rule: run.induct) (auto dest: step_length)

text \<open>In a run, such a thread takes at most \<open>n\<close> steps, and has as many fewer left.\<close>

lemma run_bounded:
  assumes "run C ls C'" and "j < length (threads C)" and "ends_within n (fst (threads C ! j))"
  shows "length (filter (\<lambda>a. label_of a = j) ls) \<le> n \<and>
         ends_within (n - length (filter (\<lambda>a. label_of a = j) ls)) (fst (threads C' ! j))"
  using assms
proof (induction rule: run.induct)
  case (run_snoc C ls C' a C'')
  let ?m = "length (filter (\<lambda>a. label_of a = j) ls)"
  from run_snoc.IH[OF run_snoc.prems] have m: "?m \<le> n" "ends_within (n - ?m) (fst (threads C' ! j))" by auto
  have "j < length (threads C')" using run_length[OF run_snoc.hyps(1)] run_snoc.prems(1) by simp
  from step_bounded[OF run_snoc.hyps(2) this m(2)] m show ?case by (auto split: if_splits)
qed simp

text \<open>A thread can always go on, unless the program has undefined behaviour or is terminated.\<close>

definition stuck :: "nat \<Rightarrow> ('own, 'shared, 'e) config \<Rightarrow> bool" where
  "stuck i C =
     (case threads C ! i of
        ([], l) \<Rightarrow> False
      | (c # k, l) \<Rightarrow>
          (case run_cmd c k (nThreads C) (l, shared C) of
             Fault u \<Rightarrow> True | Terminate \<Rightarrow> True | _ \<Rightarrow> False))"

lemma can_step:
  assumes "fst (threads C ! 0) \<noteq> []" and "i < length (threads C)" and "fst (threads C ! i) \<noteq> []" and "\<not> stuck i C"
  shows "\<exists>C'. step (Turn i) C C'"
proof -
  obtain c k l where t: "threads C ! i = (c # k, l)"
    using assms(3) by (cases "threads C ! i"; cases "fst (threads C ! i)") auto
  show ?thesis
  proof (cases "run_cmd c k (nThreads C) (l, shared C)")
    case (Next k' n s)
    then show ?thesis using step_next[OF assms(1,2) t, of k' n "fst s" "snd s"] by auto
  next
    case (Begin t' k')
    then show ?thesis using step_begin[OF assms(1,2) t] by blast
  qed (use assms(4) t in \<open>auto simp: stuck_def\<close>)
qed

end
