(* ===== verification/DemoMT.thy ===== *)
theory DemoMT
  imports DemoBackends Threads "HOL-Library.Signed_Division"
begin

text \<open>
  The multithreaded demonstration program \<open>Demos/CppDBDemoMT.cpp\<close>: its main thread starts another
  thread three times, works on the database while that one holds a lock, and waits for the counter
  \<open>nThreads\<close> to become 0.  All threads use the one global object \<open>db\<close>.
\<close>

section \<open>What the build selects\<close>

text \<open>
  Beyond what \<open>backend\<close> has: SQLite's \<open>setBusyTimeout\<close>, called under \<open>#ifdef _SQLITE3_DB\<close>, and the
  statement executed after opening under \<open>#ifdef _MySQL_DB\<close>.
\<close>

record ('m, 'd, 'q, 't, 'st, 'e, 'p) mt_backend =
  mb_base :: "('m, 'd, 'q, 't, 'st, 'e, 'p) backend"
  mb_setBusyTimeout :: "(int \<Rightarrow> ('d \<times> 'm, 'e, unit) prog) option"
  mb_session :: "string option"

definition sqlite_mt :: "(string \<Rightarrow> 'w \<Rightarrow> 'w) \<Rightarrow> 'w sqlite3_lib \<Rightarrow>
    ('w sq_mach, sq_db, sq_query, sq_rset, sq_stmt, sq_exn, string option) mt_backend" where
  "sqlite_mt remove_file lb =
     \<lparr>mb_base = (sqlite_backend remove_file lb)\<lparr>be_gszDB := ''CppSQLite3DemoMT.db''\<rparr>,
      mb_setBusyTimeout = Some (CppSQLite3DB_setBusyTimeout lb), mb_session = None\<rparr>"

definition mysql_mt :: "nat \<Rightarrow> 'w mysql_lib \<Rightarrow>
    ('w my_mach, my_db, my_query, my_rset, my_stmt, my_exn, nat option) mt_backend" where
  "mysql_mt fuel lb =
     \<lparr>mb_base = (mysql_backend fuel lb)\<lparr>be_gszDB := ''CppMySQLDemoMT''\<rparr>,
      mb_setBusyTimeout = None, mb_session = Some ''set interactive_timeout=24*3600''\<rparr>"

section \<open>State\<close>

text \<open>
  Each thread has the local query, the loop counter and the number of changed rows.  The threads share
  the rest: the library, \<open>db\<close> and the output (the \<open>demo\<close> record of the other program), the input, the
  character read last and how many numbers \<open>rand\<close> has given.
\<close>

record 'q own =
  own_q :: "'q option"
  own_fld :: int
  own_nRows :: int

record ('m, 'd, 'q, 't, 'st) mt =
  mt_demo :: "('m, 'd, 'q, 't, 'st) demo"
  mt_input :: string
  mt_c :: char
  mt_drawn :: nat

type_synonym ('m, 'd, 'q, 't, 'st) mt_state = "'q own \<times> ('m, 'd, 'q, 't, 'st) mt"

text \<open>A statement of the other program, with the thread's own query.\<close>

definition stmt_of ::
  "(('m, 'd, 'q, 't, 'st) demo, 'e, 'a) prog \<Rightarrow> (('m, 'd, 'q, 't, 'st) mt_state, 'e, 'a) prog" where
  "stmt_of p s =
     (case p ((mt_demo (snd s))\<lparr>dm_q := own_q (fst s)\<rparr>) of
        (r, d) \<Rightarrow> (r, ((fst s)\<lparr>own_q := dm_q d\<rparr>, (snd s)\<lparr>mt_demo := d\<lparr>dm_q := None\<rparr>\<rparr>)))"

definition do_it ::
  "(('m, 'd, 'q, 't, 'st) demo, 'e, unit) prog \<Rightarrow> (('m, 'd, 'q, 't, 'st) mt_state, 'e) cmd" where
  "do_it p = Exec (stmt_of p)"

definition set_fld :: "(int \<Rightarrow> int) \<Rightarrow> (('m, 'd, 'q, 't, 'st) mt_state, 'e, unit) prog" where
  "set_fld f s = bindP (int_arith (f (own_fld (fst s)))) (\<lambda>i s. (Ret (), ((fst s)\<lparr>own_fld := i\<rparr>, snd s))) s"

text \<open>Time is not modelled: another thread may run at any point, asleep or not.\<close>

definition Sleep :: "int \<Rightarrow> (('m, 'd, 'q, 't, 'st) mt_state, 'e) cmd" where
  "Sleep ms = Exec (ret ())"

section \<open>The threads\<close>

text \<open>\<open>cout << prefix << e.errorCode() << ":" << e.errorMessage() << endl\<close>, then \<open>e\<close> is destroyed.\<close>

definition report ::
  "('m, 'd, 'q, 't, 'st, 'e, 'p) backend \<Rightarrow> string \<Rightarrow> 'e \<Rightarrow> (('m, 'd, 'q, 't, 'st) mt_state, 'e) cmd list" where
  "report B prefix e =
     [do_it (bindP (exn_do (Exception_errorCode (be_exn B)) e) (\<lambda>n.
             bindP (exn_do (Exception_errorMessage (be_exn B)) e) (\<lambda>t.
             seqP (cout (prefix @ show_int n @ '':'' @ t @ endl)) (exn_do (be_exn_destroy B) e))))]"

text \<open>The destructor of the local query, if it has been constructed.\<close>

definition destroy_q ::
  "('m, 'd, 'q, 't, 'st, 'e, 'p) backend \<Rightarrow> (('m, 'd, 'q, 't, 'st) mt_state, 'e, unit) prog" where
  "destroy_q B = stmt_of (destroy_local dm_q (\<lambda>x. dm_q_update (\<lambda>_. x)) (be_query_destroy B))"

definition query_from ::
  "('m, 'd, 'q, 't, 'st, 'e, 'p) backend \<Rightarrow> string \<Rightarrow> (('m, 'd, 'q, 't, 'st) mt_state, 'e) cmd" where
  "query_from B sql = do_it (construct (\<lambda>x. dm_q_update (\<lambda>_. x)) (db_do (DB_execQuery (be_db B) sql)))"

definition long_sql :: string where
  "long_sql =
     ''select d.dayno, sum(numcalls) '' @
     ''from details d '' @
     ''where dayno+numcalls in '' @
     ''(select d2.dayno+d2.numcalls from details d2) '' @
     ''group by dayno order by 1;''"

definition LongQueryThreadProc ::
  "('m, 'd, 'q, 't, 'st, 'e, 'p) mt_backend \<Rightarrow> (('m, 'd, 'q, 't, 'st) mt_state, 'e) cmd list" where
  "LongQueryThreadProc M =
     (let B = mb_base M; q = be_query B in
      [Try
         [do_it (cout (''LongQueryThreadProc: starting query'' @ endl)),
          query_from B long_sql,
          do_it (cout ''LongQueryThreadProc: ''),
          Exec (set_fld (\<lambda>_. 0)),
          While (\<lambda>s. bindP (stmt_of (q_do (Query_numFields q))) (\<lambda>n. ret (own_fld (fst s) < n)) s)
            [Exec (\<lambda>s. stmt_of (print_cell (q_do (Query_fieldName q (own_fld (fst s)))) ''|'') s),
             Exec (set_fld (\<lambda>fld. fld + 1))],
          do_it (cout endl),
          While (stmt_of (bindP (q_do (Query_eof q)) (\<lambda>b. ret (\<not> b))))
            [do_it (cout ''LongQueryThreadProc: ''),
             do_it (print_cell (q_do (Query_fieldValue q 0)) ''|''),
             do_it (print_cell (q_do (Query_fieldValue q 1)) (''|'' @ endl)),
             do_it (q_do (Query_nextRow q))]]
         (destroy_q B)
         (report B ''LongQueryThreadProc: ''),
       EndThread])"

definition ReadLockThreadProc ::
  "('m, 'd, 'q, 't, 'st, 'e, 'p) mt_backend \<Rightarrow> (('m, 'd, 'q, 't, 'st) mt_state, 'e) cmd list" where
  "ReadLockThreadProc M =
     (let B = mb_base M in
      [Try
         ([do_it (db_do (DB_open (be_db B) (be_gszDB B))),
           do_it (cout (''ReadLockThreadProc: creating read lock'' @ endl)),
           query_from B ''select * from details where dayno = 1;''] @
          replicate 5 (Sleep 1000) @
          [do_it (cout (''ReadLockThreadProc: released read lock'' @ endl))])
         (destroy_q B)
         (report B ''ReadLockThreadProc: ''),
       EndThread])"

text \<open>\<open>db.setBusyTimeout(ms);\<close>, which only the SQLite build has.\<close>

definition busy_timeout ::
  "('m, 'd, 'q, 't, 'st, 'e, 'p) mt_backend \<Rightarrow> int \<Rightarrow> (('m, 'd, 'q, 't, 'st) mt_state, 'e) cmd list" where
  "busy_timeout M ms = (case mb_setBusyTimeout M of None \<Rightarrow> [] | Some f \<Rightarrow> [do_it (db_do (f ms))])"

definition WriteLockThreadProc ::
  "('m, 'd, 'q, 't, 'st, 'e, 'p) mt_backend \<Rightarrow> (('m, 'd, 'q, 't, 'st) mt_state, 'e) cmd list" where
  "WriteLockThreadProc M =
     (let B = mb_base M in
      [Try
         ([do_it (db_do (DB_open (be_db B) (be_gszDB B)))] @ busy_timeout M 20000 @
          [do_it (cout (''WriteLockThreadProc: creating write lock'' @ endl)),
           do_it (db_do (DB_startTransaction (be_db B))),
           do_it (db_exec B ''update details set numcalls = 10 where dayno = 1;'')] @
          replicate 20 (Sleep 1000) @
          [do_it (db_do (DB_commitTransaction (be_db B))),
           do_it (cout (''WriteLockThreadProc: released write lock'' @ endl))])
         (ret ())
         (report B ''WriteLockThreadProc: ''),
       EndThread])"

section \<open>The main thread\<close>

definition details_sql :: "int \<Rightarrow> int \<Rightarrow> string" where
  "details_sql a b = ''insert into details values ('' @ show_int a @ '', '' @ show_int b @ '');''"

text \<open>
  \<open>rnd\<close> gives the numbers of \<open>rand\<close> after \<open>srand(time(0))\<close>.  The two calls are arguments of one call of
  \<open>sprintf\<close>, which C++ evaluates in either order: \<open>left_first\<close> is what the compiler does.
\<close>

definition details_row ::
  "(nat \<Rightarrow> int) \<Rightarrow> bool \<Rightarrow> ('m, 'd, 'q, 't, 'st, 'e, 'p) backend \<Rightarrow> (('m, 'd, 'q, 't, 'st) mt_state, 'e) cmd" where
  "details_row rnd left_first B =
     Exec (\<lambda>s.
       let n = mt_drawn (snd s); x = rnd n; y = rnd (Suc n);
           sql = (if left_first then details_sql (x smod 7) y else details_sql (y smod 7) x)
       in stmt_of (bindP (format_buf 128 sql) (db_exec B)) (fst s, (snd s)\<lparr>mt_drawn := n + 2\<rparr>))"

text \<open>One of the three rounds: lines 171 to 188, 191 to 208 and 211 to 228.\<close>

definition mt_round ::
  "('m, 'd, 'q, 't, 'st, 'e, 'p) mt_backend \<Rightarrow> string \<Rightarrow> (('m, 'd, 'q, 't, 'st) mt_state, 'e) cmd list \<Rightarrow> int \<Rightarrow>
   string \<Rightarrow> (('m, 'd, 'q, 't, 'st) mt_state, 'e) cmd list" where
  "mt_round M banner proc ms sql =
     (let B = mb_base M in
      [do_it (cout (endl @ banner @ endl)),
       SetThreads 1,
       StartThread proc,
       Sleep 2000,
       Try
         (busy_timeout M ms @
          [Exec (bindP (stmt_of (db_do (DB_execDML (be_db B) sql))) (\<lambda>n s. (Ret (), ((fst s)\<lparr>own_nRows := n\<rparr>, snd s)))),
           Exec (\<lambda>s. stmt_of (cout (''Main thread: updated '' @ show_int (own_nRows (fst s)) @ '' rows'' @ endl)) s)])
         (ret ())
         (report B ''Main thread: ''),
       WaitThreads])"

definition mt_create ::
  "(nat \<Rightarrow> int) \<Rightarrow> bool \<Rightarrow> nat \<Rightarrow> ('m, 'd, 'q, 't, 'st, 'e, 'p) mt_backend \<Rightarrow> (('m, 'd, 'q, 't, 'st) mt_state, 'e) cmd list" where
  "mt_create rnd left_first nRows M =
     (let B = mb_base M in
      [do_it (db_do (be_setup B (be_gszDB B))),
       do_it (db_do (DB_open (be_db B) (be_gszDB B)))] @
      (case mb_session M of None \<Rightarrow> [] | Some sql \<Rightarrow> [do_it (db_exec B sql)]) @
      [do_it (cout (''Main thread: Opened DB.'' @ endl)),
       do_it (cout (endl @ ''Main thread: creating '' @ show_int (int nRows) @ '' rows'' @ endl)),
       do_it (db_exec B ''create table details (dayno int, numcalls int);''),
       do_it (db_do (DB_startTransaction (be_db B))),
       Exec (\<lambda>s. (Ret (), (fst s, (snd s)\<lparr>mt_drawn := 0\<rparr>)))] @
      replicate nRows (details_row rnd left_first B) @
      [do_it (db_do (DB_commitTransaction (be_db B))),
       do_it (cout (''Main thread: created '' @ show_int (int nRows) @ '' rows'' @ endl))])"

text \<open>
  The last loop; \<open>cin >> c\<close> skips white space and leaves \<open>c\<close> unchanged at the end of the input.
\<close>

definition read_char :: "(('m, 'd, 'q, 't, 'st) mt_state, 'e, unit) prog" where
  "read_char s =
     (Ret (), (fst s,
        case dropWhile isspace (mt_input (snd s)) of
          [] \<Rightarrow> (snd s)\<lparr>mt_input := []\<rparr>
        | c # cs \<Rightarrow> (snd s)\<lparr>mt_input := cs, mt_c := c\<rparr>))"

definition mt_quit :: "(('m, 'd, 'q, 't, 'st) mt_state, 'e) cmd list" where
  "mt_quit =
     [Exec (\<lambda>s. (Ret (), (fst s, (snd s)\<lparr>mt_c := CHR '' ''\<rparr>))),
      While (\<lambda>s. (Ret (mt_c (snd s) \<noteq> CHR ''q'' \<and> mt_c (snd s) \<noteq> CHR ''Q''), s))
        [do_it (cout ''Press q then enter to quit: ''), Exec read_char]]"

text \<open>\<open>main\<close> with \<open>nRows\<close> rows (100000 in the source), and the destructor of \<open>db\<close> at exit.\<close>

definition mt_main ::
  "(nat \<Rightarrow> int) \<Rightarrow> bool \<Rightarrow> nat \<Rightarrow> ('m, 'd, 'q, 't, 'st, 'e, 'p) mt_backend \<Rightarrow> (('m, 'd, 'q, 't, 'st) mt_state, 'e) cmd list" where
  "mt_main rnd left_first nRows M =
     [Try
        (mt_create rnd left_first nRows M @
         mt_round M ''======Main times out BUSY======'' (WriteLockThreadProc M) 10000
           ''update details set numcalls = 101 where dayno = 1;'' @
         mt_round M ''======Thread times out BUSY======'' (WriteLockThreadProc M) 30000
           ''update details set numcalls = 102 where dayno = 1;'' @
         mt_round M ''======Main waits until thread complete======'' (ReadLockThreadProc M) 10000
           ''update details set numcalls = 103 where dayno = 1;'' @
         [do_it (cout (endl @ ''End of tests'' @ endl))])
        (ret ())
        (report (mb_base M) [])] @
     mt_quit @
     [do_it (db_do (be_db_destroy (mb_base M)))]"

text \<open>The process when \<open>main\<close> begins: \<open>db\<close> has been constructed, \<open>nThreads\<close> is 0.\<close>

definition no_own :: "'q own" where
  "no_own = \<lparr>own_q = None, own_fld = 0, own_nRows = 0\<rparr>"

definition mt_start ::
  "('m, 'd, 'q, 't, 'st, 'e, 'p) mt_backend \<Rightarrow> (('m, 'd, 'q, 't, 'st) mt_state, 'e) cmd list \<Rightarrow> string \<Rightarrow> 'm \<Rightarrow>
   ('q own, ('m, 'd, 'q, 't, 'st) mt, 'e) config option" where
  "mt_start M main input m =
     (case be_db_new (mb_base M) m of
        (Ret d, m') \<Rightarrow>
          Some \<lparr>threads = [(main, no_own)], nThreads = 0,
                shared = \<lparr>mt_demo = \<lparr>dm_mach = m', dm_db = Some d, dm_q = None, dm_t = None, dm_stmt = None,
                                      dm_out = [], dm_err = []\<rparr>,
                          mt_input = input, mt_c = CHR '' '', mt_drawn = 0\<rparr>,
                fresh_own = no_own\<rparr>
      | _ \<Rightarrow> None)"

end
