(* ===== verification/ThreadProgress.thy ===== *)
theory ThreadProgress
  imports Threads
begin

text \<open>
  Progress of a program whose main thread starts only bounded threads: however it is scheduled, every
  other thread has a bound on its steps that the steps it has taken use up, so that the loop in which
  the main thread waits for the counter ends unless a thread is stuck.
\<close>

section \<open>A main thread that starts bounded threads\<close>

inductive starts_ok :: "nat \<Rightarrow> ('s, 'e) cmd \<Rightarrow> bool" where
  "starts_ok n (Exec p)"
| "starts_ok n (Destroy p)"
| "\<lbrakk>\<forall>c \<in> set b. starts_ok n c; \<forall>e. \<forall>c \<in> set (h e). starts_ok n c\<rbrakk> \<Longrightarrow> starts_ok n (Try b u h)"
| "\<forall>e. \<forall>c \<in> set (h e). starts_ok n c \<Longrightarrow> starts_ok n (EndTry u h)"
| "\<forall>c \<in> set b. starts_ok n c \<Longrightarrow> starts_ok n (While cond b)"
| "starts_ok n (SetThreads i)"
| "starts_ok n EndThread"
| "ends_within n t \<Longrightarrow> starts_ok n (StartThread t)"
| "starts_ok n WaitThreads"

inductive_simps starts_ok_simps:
  "starts_ok n (Exec p)" "starts_ok n (Destroy p)" "starts_ok n (Try b u h)" "starts_ok n (EndTry u h)"
  "starts_ok n (While cond b)" "starts_ok n (SetThreads i)" "starts_ok n EndThread" "starts_ok n (StartThread t)"
  "starts_ok n WaitThreads"

definition all_start_ok :: "nat \<Rightarrow> ('s, 'e) cmd list \<Rightarrow> bool" where
  "all_start_ok n k = list_all (starts_ok n) k"

lemma all_start_ok_simps [simp]:
  "all_start_ok n []" "all_start_ok n (c # k) \<longleftrightarrow> starts_ok n c \<and> all_start_ok n k"
  "all_start_ok n (k @ k') \<longleftrightarrow> all_start_ok n k \<and> all_start_ok n k'"
  by (simp_all add: all_start_ok_def)

lemma all_start_ok_set: "all_start_ok n k \<longleftrightarrow> (\<forall>c \<in> set k. starts_ok n c)"
  by (simp add: all_start_ok_def list_all_iff)

lemma starts_ok_cmd [simp]:
  "starts_ok n (Exec p)" "starts_ok n (Destroy p)" "starts_ok n (SetThreads i)" "starts_ok n EndThread"
  "starts_ok n WaitThreads" "starts_ok n (StartThread t) \<longleftrightarrow> ends_within n t"
  "starts_ok n (Try b u h) \<longleftrightarrow> all_start_ok n b \<and> (\<forall>e. all_start_ok n (h e))"
  "starts_ok n (EndTry u h) \<longleftrightarrow> (\<forall>e. all_start_ok n (h e))"
  "starts_ok n (While cond b) \<longleftrightarrow> all_start_ok n b"
  by (simp_all add: starts_ok_simps all_start_ok_set)

lemma caught_start_ok: "caught_at e k = Some k' \<Longrightarrow> all_start_ok n k \<Longrightarrow> all_start_ok n k'"
proof (induction e k rule: caught_at.induct)
  case (2 e c h k)
  then have "k' = Destroy c # h e @ k" by simp
  with 2 show ?case by simp
qed auto

lemma run_cmd_start_ok:
  assumes "run_cmd c k m s = Next k' m' s'" and "all_start_ok n (c # k)"
  shows "all_start_ok n k'"
  using assms
  by (cases c) (auto simp: raise_def split: prod.splits outcome.splits option.splits bool.splits if_splits
      dest: caught_start_ok)

lemma run_cmd_start_begin:
  assumes "run_cmd c k m s = Begin t k'" and "all_start_ok n (c # k)"
  shows "ends_within n t \<and> all_start_ok n k'"
  using assms
  by (cases c) (auto simp: raise_def split: prod.splits outcome.splits option.splits bool.splits if_splits)

section \<open>Steps taken and steps left\<close>

definition taken :: "nat \<Rightarrow> label list \<Rightarrow> nat" where
  "taken j ls = length (filter (\<lambda>a. label_of a = j) ls)"

lemma taken_simps [simp]:
  "taken j [] = 0" "taken j (ls @ [a]) = taken j ls + (if label_of a = j then 1 else 0)"
  by (simp_all add: taken_def)

definition within_bounds :: "nat \<Rightarrow> label list \<Rightarrow> ('own, 'shared, 'e) config \<Rightarrow> bool" where
  "within_bounds n ls C \<longleftrightarrow>
     all_start_ok n (fst (threads C ! 0)) \<and>
     (\<forall>j. 0 < j \<and> j < length (threads C) \<longrightarrow>
        taken j ls \<le> n \<and> ends_within (n - taken j ls) (fst (threads C ! j))) \<and>
     (\<forall>j. length (threads C) \<le> j \<longrightarrow> taken j ls = 0)"

lemma within_bounds_old:
  assumes "within_bounds n ls C" and "step a C C'" and "0 < j" and "j < length (threads C)"
  shows "taken j (ls @ [a]) \<le> n \<and> ends_within (n - taken j (ls @ [a])) (fst (threads C' ! j))"
proof -
  have "taken j ls \<le> n" "ends_within (n - taken j ls) (fst (threads C ! j))"
    using assms(1,3,4) by (auto simp: within_bounds_def)
  with step_bounded[OF assms(2,4) this(2)] show ?thesis by (auto split: if_splits)
qed

lemma main_start_ok:
  assumes "step a C C'" and "disciplined all C" and "all_start_ok n (fst (threads C ! 0))"
  shows "all_start_ok n (fst (threads C' ! 0)) \<and>
    (\<forall>j. length (threads C) \<le> j \<and> j < length (threads C') \<longrightarrow> ends_within n (fst (threads C' ! j))) \<and>
    label_of a < length (threads C)"
  using assms(1)
proof (cases rule: step.cases)
  case (step_next i c k l k' m l' s)
  then show ?thesis using assms(3) run_cmd_start_ok[of c k _ _ k' _ _ n] by (cases "i = 0") auto
next
  case (step_begin i c k l t k')
  have i: "i = 0" by (rule only_main_begins[OF assms(2)]) (use step_begin in auto)
  then have "ends_within n t \<and> all_start_ok n k'"
    using run_cmd_start_begin[of c k _ _ t k' n] step_begin assms(3) by auto
  then show ?thesis using step_begin i
    by (auto simp: nth_append nth_list_update not_less le_less_Suc_eq dest: le_antisym)
next
  case (step_no_thread i c k l t k')
  then show ?thesis using assms(3) run_cmd_start_begin[of c k _ _ t k' n] by (cases "i = 0") auto
qed

lemma within_bounds_step:
  assumes "within_bounds n ls C" and "step a C C'" and "disciplined all C"
  shows "within_bounds n (ls @ [a]) C'"
proof -
  have w: "all_start_ok n (fst (threads C ! 0))" "\<And>j. length (threads C) \<le> j \<Longrightarrow> taken j ls = 0"
    using assms(1) by (auto simp: within_bounds_def)
  note m = main_start_ok[OF assms(2,3) w(1)]
  have "taken j (ls @ [a]) = 0" if "length (threads C) \<le> j" for j
    using w(2)[OF that] m that by auto
  moreover have "taken j (ls @ [a]) \<le> n \<and> ends_within (n - taken j (ls @ [a])) (fst (threads C' ! j))"
    if "0 < j" "j < length (threads C')" for j
  proof (cases "j < length (threads C)")
    case True
    then show ?thesis using within_bounds_old[OF assms(1,2)] that by blast
  next
    case False
    then have "taken j (ls @ [a]) = 0" using calculation by simp
    then show ?thesis using m that False by simp
  qed
  ultimately show ?thesis
    unfolding within_bounds_def using m step_length[OF assms(2)] by auto
qed

lemma within_bounds_run:
  assumes "run C ls C'" and "disciplined True C" and "all_start_ok n (fst (threads C ! 0))" and "length (threads C) = 1"
  shows "within_bounds n ls C'"
  using assms
proof (induction rule: run.induct)
  case (run_nil C)
  then show ?case by (auto simp: within_bounds_def)
next
  case (run_snoc C ls C' a C'')
  from within_bounds_step[OF run_snoc.IH[OF run_snoc.prems] run_snoc.hyps(2) disciplined_run[OF run_snoc.hyps(1) run_snoc.prems(1)]]
  show ?case .
qed

section \<open>The wait ends\<close>

lemma wait_progress:
  assumes "run C0 ls C" and "disciplined True C0" and "all_start_ok n (fst (threads C0 ! 0))" and "length (threads C0) = 1"
    and "\<forall>i. NoThread i \<notin> set ls" and "waits (fst (threads C ! 0))"
  shows "(\<exists>C'. step (Turn 0) C C' \<and> fst (threads C' ! 0) = tl (fst (threads C ! 0))) \<or>
         (\<exists>j. 0 < j \<and> j < length (threads C) \<and> fst (threads C ! j) \<noteq> [] \<and> taken j ls < n \<and>
              (stuck j C \<or> (\<exists>C'. step (Turn j) C C')))"
proof -
  have d: "disciplined True C" using disciplined_run[OF assms(1,2)] assms(5) by simp
  have w: "within_bounds n ls C" by (rule within_bounds_run[OF assms(1-4)])
  obtain k l where m: "threads C ! 0 = (WaitThreads # k, l)"
    using assms(6) by (cases "threads C ! 0") (auto simp: waits_def split: list.splits cmd.splits)
  have len: "0 < length (threads C)" using d by (simp add: disciplined_def)
  show ?thesis
  proof (cases "live_threads C = 0")
    case True
    then have n0: "nThreads C = 0" using disciplinedD(4)[OF d] assms(6) by simp
    have "run_cmd WaitThreads k (nThreads C) (l, shared C) = Next k 0 (l, shared C)" using n0 by simp
    from step_next[OF _ len m this] m len show ?thesis by fastforce
  next
    case False
    then have "filter (\<lambda>t. fst t \<noteq> []) (tl (threads C)) \<noteq> []" by (simp add: live_threads_def)
    then obtain t where "t \<in> set (tl (threads C))" "fst t \<noteq> []" by (auto simp: filter_empty_conv)
    then obtain i where "i < length (tl (threads C))" "fst (tl (threads C) ! i) \<noteq> []" by (metis in_set_conv_nth)
    then have j: "Suc i < length (threads C)" "fst (threads C ! Suc i) \<noteq> []" by (simp_all add: nth_tl)
    have "taken (Suc i) ls \<le> n" "ends_within (n - taken (Suc i) ls) (fst (threads C ! Suc i))"
      using w j(1) by (auto simp: within_bounds_def)
    then have "taken (Suc i) ls < n" using j(2) by (cases "n - taken (Suc i) ls"; cases "fst (threads C ! Suc i)") auto
    moreover have "stuck (Suc i) C \<or> (\<exists>C'. step (Turn (Suc i)) C C')"
      using can_step[of C "Suc i"] m j by auto
    ultimately show ?thesis using j by blast
  qed
qed

end
