(* ===== verification/DemoMTProofs.thy ===== *)
theory DemoMTProofs
  imports DemoMT ThreadProgress
begin

text \<open>
  The threads of the multithreaded demonstration program keep the discipline of \<open>Threads\<close>, the two
  threads it starts are bounded, and it starts no others.
\<close>

section \<open>Blocks\<close>

text \<open>Statements that neither touch the counter nor open a \<open>try\<close> block.\<close>

fun is_simple :: "('s, 'e) cmd \<Rightarrow> bool" where
  "is_simple (Exec p) = True"
| "is_simple (While cond b) = list_all is_exec b"
| "is_simple _ = False"

definition catch_phased :: "phase \<Rightarrow> ('s, 'e) cmd list \<Rightarrow> bool" where
  "catch_phased p k = (\<forall>e k'. caught_at e k = Some k' \<longrightarrow> phased p k')"

lemma caught_at_simple: "list_all is_simple b \<Longrightarrow> caught_at e (b @ k) = caught_at e k"
proof (induction b)
  case (Cons c b)
  then show ?case by (cases c) simp_all
qed simp

lemma phased_simple:
  "\<lbrakk>p \<noteq> Armed; list_all is_simple b; phased p k; catch_phased p k\<rbrakk> \<Longrightarrow> phased p (b @ k)"
proof (induction b)
  case (Cons c b)
  then show ?case by (cases c) (auto simp: caught_at_simple catch_phased_def intro!: ph_exec ph_while)
qed simp

lemma simple_do_it [simp]: "is_simple (do_it p)"
  by (simp add: do_it_def)

lemma simple_Sleep [simp]: "is_simple (Sleep n)"
  by (simp add: Sleep_def)

lemma simple_query_from [simp]: "is_simple (query_from B sql)"
  by (simp add: query_from_def)

lemma simple_details_row [simp]: "is_simple (details_row rnd lf B)"
  by (simp add: details_row_def)

lemma exec_do_it [simp]: "is_exec (do_it p)"
  by (simp add: do_it_def)

lemma simple_report [simp]: "list_all is_simple (report B t e)"
  by (simp add: report_def)

lemma simple_busy_timeout [simp]: "list_all is_simple (busy_timeout M ms)"
  by (simp add: busy_timeout_def split: option.split)

lemma simple_replicate [simp]: "is_simple c \<Longrightarrow> list_all is_simple (replicate n c)"
  by (induction n) simp_all

lemma simple_mt_create [simp]: "list_all is_simple (mt_create rnd lf n M)"
  by (simp add: mt_create_def Let_def split: option.split)

lemma simple_mt_quit [simp]: "list_all is_simple mt_quit"
  by (simp add: mt_quit_def)

lemma phased_Try:
  assumes "p \<noteq> Armed" and "list_all is_simple b" and "\<And>e. list_all is_simple (h e)"
    and "phased p k" and "catch_phased p k"
  shows "phased p (Try b c h # k)"
proof (rule ph_try[OF assms(1) phased_simple[OF assms(1,2)]])
  show "phased p (EndTry c h # k)"
    using assms(1,4,5) by (auto simp: catch_phased_def intro!: ph_endtry ph_exec)
  show "catch_phased p (EndTry c h # k)"
    using assms phased_simple[OF assms(1,3) assms(4,5)] by (auto simp: catch_phased_def intro!: ph_destroy)
qed

section \<open>The program\<close>

lemma catch_phased_end: "catch_phased Working [EndThread]"
  by (simp add: catch_phased_def)

lemma thread_procs_phased:
  "phased Working (LongQueryThreadProc M)" "phased Working (ReadLockThreadProc M)"
  "phased Working (WriteLockThreadProc M)"
  by (auto simp: LongQueryThreadProc_def ReadLockThreadProc_def WriteLockThreadProc_def Let_def
      intro!: phased_Try ph_end catch_phased_end)

lemma caught_at_round: "caught_at e (mt_round M banner proc ms sql @ k) = caught_at e k"
  by (simp add: mt_round_def Let_def do_it_def Sleep_def)

lemma phased_round:
  assumes "phased Working proc" and "phased Idle k" and "catch_phased Idle k" and "catch_phased Busy k"
  shows "phased Idle (mt_round M banner proc ms sql @ k)"
proof -
  let ?upd = "[Exec p, Exec q]"
  have wait: "phased Busy (WaitThreads # k)" "catch_phased Busy (WaitThreads # k)"
    using assms(2,4) by (auto simp: catch_phased_def intro: ph_wait)
  have work: "phased Busy (Try (busy_timeout M ms @ [Exec p, Exec q]) c (report B t) # WaitThreads # k)" for p q c B t
    by (rule phased_Try) (use wait in simp_all)
  have sleep: "phased Busy (Sleep n # Try b c h # WaitThreads # k)"
    if "phased Busy (Try b c h # WaitThreads # k)" for n b c h
    using that assms(4) by (auto simp: Sleep_def catch_phased_def intro!: ph_exec)
  have banner: "phased Idle (do_it p # SetThreads 1 # StartThread proc # r)"
    if "phased Busy r" "\<And>e. caught_at e r = caught_at e k" for p r
    using that assms(1,3) by (auto simp: do_it_def catch_phased_def intro!: ph_exec ph_set ph_start)
  show ?thesis
    by (simp add: mt_round_def Let_def)
       (rule banner[OF sleep[OF work]], simp add: Sleep_def)
qed

lemma phased_main:
  fixes M :: "('m, 'd, 'q, 't, 'st, 'e, 'p) mt_backend"
  shows "phased Idle (mt_main rnd lf n M)"
proof -
  let ?rest = "mt_quit @ [do_it (db_do (be_db_destroy (mb_base M)))] :: (('m, 'd, 'q, 't, 'st) mt_state, 'e) cmd list"
  let ?after = "EndTry (ret ()) (report (mb_base M) []) # ?rest"
  have rest: "phased p (b @ ?rest)" "catch_phased p ?rest" if "p = Idle \<or> p = Busy" "list_all is_simple b" for p b
    using that phased_simple[of p "b @ ?rest" "[]"] caught_at_simple[of ?rest _ "[]"]
    by (auto simp: catch_phased_def intro: ph_nil)
  have caught: "catch_phased p ?after" if "p = Idle \<or> p = Busy" for p
    using that rest(1)[OF that] by (auto simp: catch_phased_def intro!: ph_destroy)
  have fin: "phased Idle ?after"
    using rest(1)[of Idle "[]"] rest(2)[of Idle "[]"] by (auto simp: catch_phased_def intro!: ph_endtry ph_exec)
  have last: "phased Idle (do_it p # ?after)" "catch_phased Idle (do_it p # ?after)" "catch_phased Busy (do_it p # ?after)" for p
    using phased_simple[of Idle "[do_it p]" ?after] fin caught[of Idle] caught[of Busy]
    by (simp_all add: catch_phased_def do_it_def)
  have round: "phased Idle (mt_round M b1 t1 m1 s1 @ k) \<and> catch_phased Idle (mt_round M b1 t1 m1 s1 @ k) \<and>
      catch_phased Busy (mt_round M b1 t1 m1 s1 @ k)"
    if "phased Working t1" "phased Idle k" "catch_phased Idle k" "catch_phased Busy k" for b1 t1 m1 s1 k
    using phased_round[OF that] that(3,4) by (simp add: catch_phased_def caught_at_round)
  have rounds: "phased Idle (mt_round M b1 t1 m1 s1 @ mt_round M b2 t2 m2 s2 @ mt_round M b3 t3 m3 s3 @ do_it p # ?after)"
      "catch_phased Idle (mt_round M b1 t1 m1 s1 @ mt_round M b2 t2 m2 s2 @ mt_round M b3 t3 m3 s3 @ do_it p # ?after)"
    if "phased Working t1" "phased Working t2" "phased Working t3" for b1 b2 b3 t1 t2 t3 m1 m2 m3 s1 s2 s3 p
    using round[OF that(1)] round[OF that(2)] round[OF that(3) last] by blast+
  show ?thesis
    unfolding mt_main_def
    by (simp, rule ph_try, simp, simp, rule phased_simple, simp, simp)
       (rule rounds; rule thread_procs_phased)+
qed

lemma mt_start_disciplined:
  assumes "mt_start M main input m = Some C" and "phased Idle main"
  shows "disciplined True C"
proof -
  have c: "threads C = [(main, no_own)]" "nThreads C = 0"
    using assms(1) by (auto simp: mt_start_def split: prod.splits outcome.splits)
  then have "phase_ok True Idle C" using assms(2) by (simp add: phase_ok_def live_threads_def)
  then show ?thesis using c by (auto simp: disciplined_def)
qed

section \<open>The lock threads are bounded\<close>

lemma ends_within_mono: "ends_within n k \<Longrightarrow> n \<le> m \<Longrightarrow> ends_within m k"
proof (induction n arbitrary: k m)
  case 0
  then show ?case by (cases k; cases m) simp_all
next
  case (Suc n)
  then obtain m' where "m = Suc m'" "n \<le> m'" by (cases m) auto
  with Suc show ?case by (cases k) (auto split: cmd.splits)
qed

lemma ends_within_execs:
  assumes "list_all is_exec b" and "ends_within n k" and "\<And>e k'. caught_at e k = Some k' \<Longrightarrow> ends_within n k'"
  shows "ends_within (length b + n) (b @ k)"
  using assms(1)
proof (induction b)
  case (Cons c b)
  then show ?case
    by (cases c) (auto simp: caught_at_execs intro: ends_within_mono[OF assms(3)])
qed (simp add: assms(2))

lemma ends_within_try:
  assumes "list_all is_exec b" and "\<And>e. list_all is_exec (h e) \<and> length (h e) = 1"
  shows "ends_within (length b + 4) [Try b c h, EndThread]"
proof -
  have "ends_within 3 (Destroy c # h e @ [EndThread])" for e
    using assms(2)[of e] by (cases "h e" rule: list.exhaust; cases "hd (h e)") (auto simp: numeral_3_eq_3)
  moreover have "ends_within 3 [EndTry c h, EndThread]"
    by (simp add: numeral_3_eq_3)
  ultimately have "ends_within (length b + 3) (b @ [EndTry c h, EndThread])"
    using ends_within_execs[OF assms(1), of 3 "[EndTry c h, EndThread]"] by auto
  then show ?thesis by (simp add: numeral_eq_Suc)
qed

lemma exec_busy_timeout: "list_all is_exec (busy_timeout M ms)" "length (busy_timeout M ms) \<le> 1"
  by (simp_all add: busy_timeout_def split: option.split)

lemma exec_parts [simp]: "is_exec (query_from B sql)" "list_all is_exec (replicate n (Sleep ms))"
  "list_all is_exec (report B t e)" "length (report B t e) = 1"
  by (simp add: query_from_def, induction n, simp_all add: Sleep_def report_def)

lemma lock_threads_bounded:
  "ends_within 31 (WriteLockThreadProc M)" "ends_within 31 (ReadLockThreadProc M)"
  unfolding WriteLockThreadProc_def ReadLockThreadProc_def Let_def
  by (rule ends_within_mono[OF ends_within_try]; simp add: exec_busy_timeout[unfolded One_nat_def])+

text \<open>The main thread starts no others.\<close>

lemma simple_starts_ok: "list_all is_simple b \<Longrightarrow> all_start_ok n b"
proof (induction b)
  case (Cons c b)
  have "starts_ok n a" if "is_exec a" for a :: "('a, 'b) cmd" using that by (cases a) simp_all
  with Cons show ?case by (cases c) (auto simp: all_start_ok_set list_all_iff)
qed simp

lemma round_starts_ok: "ends_within n proc \<Longrightarrow> all_start_ok n (mt_round M banner proc ms sql)"
  by (simp add: mt_round_def Let_def do_it_def Sleep_def simple_starts_ok)

lemma main_starts_ok: "all_start_ok 31 (mt_main rnd lf n M)"
  by (simp add: mt_main_def do_it_def simple_starts_ok round_starts_ok lock_threads_bounded)

end
