(* ===== verification/DemoMTProperties.thy ===== *)
theory DemoMTProperties
  imports DemoMTProofs SqliteSample
begin

text \<open>
  Properties of the multithreaded demonstration program, for every schedule of its threads and with
  either library.
\<close>

section \<open>A run\<close>

text \<open>The program over a SQLite library that accepts every text, in the file \<open>unit\<close> stands for.\<close>

type_synonym sample_shared = "(unit sq_mach, sq_db, sq_query, sq_rset, sq_stmt) mt"
type_synonym sample_config = "(sq_query own, sample_shared, sq_exn) config"

definition sample_mt :: "(unit sq_mach, sq_db, sq_query, sq_rset, sq_stmt, sq_exn, string option) mt_backend" where
  "sample_mt = sqlite_mt (\<lambda>_ w. w) inert_lib"

definition sample_main :: "((unit sq_mach, sq_db, sq_query, sq_rset, sq_stmt) mt_state, sq_exn) cmd list" where
  "sample_main = mt_main (\<lambda>_. 4) True 0 sample_mt"

text \<open>The object \<open>db\<close> is open.\<close>

definition sample_open :: "sample_shared \<Rightarrow> bool" where
  "sample_open s =
     (\<exists>db d. dm_db (mt_demo s) = Some db \<and> db_m_pDB db = Some d \<and> d \<in> live_db (dm_mach (mt_demo s)))"

definition goes :: "((unit sq_mach, sq_db, sq_query, sq_rset, sq_stmt) mt_state, sq_exn) cmd \<Rightarrow> bool" where
  "goes c =
     (\<forall>k n l s. sample_open s \<longrightarrow> (\<exists>l' s'. run_cmd c k n (l, s) = Next k n (l', s') \<and> sample_open s'))"

lemmas sample_defs =
  do_it_def stmt_of_def sample_open_def no_own_def sample_mt_def sqlite_mt_def sqlite_backend_def
  CppSQLite3DB_members_def DatabaseLayer_class.defs object_do_def inert_lib_def

lemma goes_cout: "goes (do_it (cout t))"
  by (auto simp: goes_def cout_def sample_defs)

lemma goes_exec: "goes (do_it (db_exec (mb_base sample_mt) sql))"
  by (auto simp: goes_def sample_defs db_exec_def CppSQLite3DB_execDML_def CppSQLite3DB_checkDB_def
      call_exec_def prog_simps bindP_def seqP_def alloc_msg_def)

lemma goes_transaction:
  "goes (do_it (db_do (DB_startTransaction (be_db (mb_base sample_mt)))))"
  "goes (do_it (db_do (DB_commitTransaction (be_db (mb_base sample_mt)))))"
  by (auto simp: goes_def sample_defs CppSQLite3DB_startTransaction_def CppSQLite3DB_commitTransaction_def
      CppSQLite3DB_execDML_def CppSQLite3DB_checkDB_def call_exec_def prog_simps bindP_def seqP_def alloc_msg_def)

lemma goes_srand: "goes (Exec (\<lambda>s. (Ret (), (fst s, (snd s)\<lparr>mt_drawn := 0\<rparr>))))"
  by (simp add: goes_def sample_open_def)

lemma goes_busy_timeout: "list_all goes (busy_timeout sample_mt ms)"
  by (auto simp: busy_timeout_def goes_def sample_defs CppSQLite3DB_setBusyTimeout_def lib_call_def prog_simps
      bindP_def seqP_def)

lemma goes_update:
  "goes (Exec (bindP (stmt_of (db_do (DB_execDML (be_db (mb_base sample_mt)) sql)))
                 (\<lambda>n s. (Ret (), ((fst s)\<lparr>own_nRows := n\<rparr>, snd s)))))"
  "goes (Exec (\<lambda>s. stmt_of (cout (t (own_nRows (fst s)))) s))"
  by (auto simp: goes_def sample_defs cout_def CppSQLite3DB_execDML_def CppSQLite3DB_checkDB_def
      call_exec_def prog_simps bindP_def seqP_def alloc_msg_def)

text \<open>The main thread with \<open>k\<close> left, and the other threads.\<close>

abbreviation main_at :: "((unit sq_mach, sq_db, sq_query, sq_rset, sq_stmt) mt_state, sq_exn) cmd list \<Rightarrow> sq_query own \<Rightarrow>
    (((unit sq_mach, sq_db, sq_query, sq_rset, sq_stmt) mt_state, sq_exn) cmd list \<times> sq_query own) list \<Rightarrow>
    int \<Rightarrow> sample_shared \<Rightarrow> sample_config" where
  "main_at k l ts n s \<equiv> \<lparr>threads = (k, l) # ts, nThreads = n, shared = s, fresh_own = no_own\<rparr>"

lemma run_goes:
  assumes "list_all goes cs" and "sample_open s" and "run C ls (main_at (cs @ k) l ts n s)"
  shows "\<exists>l' s'. run C (ls @ replicate (length cs) (Turn 0)) (main_at k l' ts n s') \<and> sample_open s'"
  using assms
proof (induction cs arbitrary: l s ls)
  case (Cons c cs)
  then have "goes c" by simp
  then obtain l1 s1 where s1: "run_cmd c (cs @ k) n (l, s) = Next (cs @ k) n (l1, s1)" "sample_open s1"
    using Cons.prems(2) unfolding goes_def by blast
  then have "turn 0 (main_at (c # cs @ k) l ts n s) = Some (main_at (cs @ k) l1 ts n s1)"
    by (simp add: turn.simps)
  then have "run C (ls @ [Turn 0]) (main_at (cs @ k) l1 ts n s1)"
    using run_snoc[of C ls, OF _ turn_step] Cons.prems(3) by fastforce
  from Cons.IH[OF _ s1(2) this] Cons.prems(1) show ?case by simp
qed auto

lemma sample_starts:
  "\<exists>s. mt_start sample_mt main input (one_conn ()) = Some (main_at main no_own [] 0 s) \<and>
     dm_db (mt_demo s) = Some CppSQLite3DB_default"
  by (simp add: mt_start_def sample_mt_def sqlite_mt_def sqlite_backend_def CppSQLite3DB_members_def)

lemma sample_opens:
  assumes "dm_db (mt_demo s) = Some db"
  shows "\<exists>s'. turns [0, 0] (main_at (do_it (db_do (be_setup (mb_base sample_mt) x)) #
                                    do_it (db_do (DB_open (be_db (mb_base sample_mt)) y)) # k) no_own ts n s) =
           Some (main_at k no_own ts n s') \<and> sample_open s'"
  using assms
  by (auto simp: turn.simps sample_defs CppSQLite3DB_open_def call_open_def fresh_id_def lib_call_def prog_simps
      bindP_def seqP_def)

text \<open>It gets to where the first other thread has begun to work.\<close>

abbreviation sample_proc :: "((unit sq_mach, sq_db, sq_query, sq_rset, sq_stmt) mt_state, sq_exn) cmd list" where
  "sample_proc \<equiv> WriteLockThreadProc sample_mt"

lemma goes_nothing: "goes (Exec (ret ()))"
  by (simp add: goes_def prog_simps)

lemma sample_round:
  "\<exists>t b c h. mt_round sample_mt banner proc ms sql =
      do_it (cout t) # SetThreads 1 # StartThread proc # Sleep 2000 # Try b c h # [WaitThreads] \<and>
     list_all goes b \<and> goes (Exec c)"
proof -
  let ?upd = "Exec (bindP (stmt_of (db_do (DB_execDML (be_db (mb_base sample_mt)) sql)))
      (\<lambda>n s. (Ret (), ((fst s)\<lparr>own_nRows := n\<rparr>, snd s))))"
  let ?tell = "Exec (\<lambda>s. stmt_of (cout (''Main thread: updated '' @ show_int (own_nRows (fst s)) @ '' rows'' @ endl)) s)"
  have "list_all goes (busy_timeout sample_mt ms @ [?upd, ?tell])"
    using goes_busy_timeout goes_update(1) goes_update(2)[of "\<lambda>n. ''Main thread: updated '' @ show_int n @ '' rows'' @ endl"]
    by simp
  with goes_nothing show ?thesis unfolding mt_round_def Let_def by blast
qed

lemma sample_begins:
  "\<exists>C0 ls b c h k l s. mt_start sample_mt sample_main ''q'' (one_conn ()) = Some C0 \<and> (\<forall>i. NoThread i \<notin> set ls) \<and>
     run C0 ls (main_at (Sleep 2000 # Try b c h # WaitThreads # k) l [(sample_proc, no_own)] 1 s) \<and>
     list_all goes b \<and> goes (Exec c) \<and> sample_open s"
proof -
  let ?B = "mb_base sample_mt"
  let ?prepare = "do_it (db_do (be_setup ?B (be_gszDB ?B)))"
  let ?open = "do_it (db_do (DB_open (be_db ?B) (be_gszDB ?B)))"
  obtain mid where mid: "mt_create (\<lambda>_. 4) True 0 sample_mt = ?prepare # ?open # mid" "list_all goes mid"
    by (simp add: mt_create_def Let_def sample_mt_def sqlite_mt_def goes_cout goes_srand
        goes_exec[unfolded sample_mt_def sqlite_mt_def, simplified]
        goes_transaction[unfolded sample_mt_def sqlite_mt_def, simplified])
  obtain banner b c h where round: "mt_round sample_mt ''======Main times out BUSY======'' sample_proc 10000
        ''update details set numcalls = 101 where dayno = 1;'' =
      do_it (cout banner) # SetThreads 1 # StartThread sample_proc # Sleep 2000 # Try b c h # [WaitThreads]"
    and b: "list_all goes b" "goes (Exec c)"
    using sample_round by blast
  obtain ms u g where main: "sample_main =
      Try (?prepare # ?open # mid @ do_it (cout banner) # SetThreads 1 # StartThread sample_proc #
             Sleep 2000 # Try b c h # WaitThreads # ms) u g # tl sample_main"
    by (simp add: sample_main_def mt_main_def mid(1) round)
  let ?rest = "Sleep 2000 # Try b c h # WaitThreads # ms @ EndTry u g # tl sample_main"
  obtain s0 where s0: "mt_start sample_mt sample_main ''q'' (one_conn ()) = Some (main_at sample_main no_own [] 0 s0)"
      "dm_db (mt_demo s0) = Some CppSQLite3DB_default"
    using sample_starts by blast
  let ?init = "main_at sample_main no_own [] 0 s0"
  let ?later = "(mid @ [do_it (cout banner)]) @ SetThreads 1 # StartThread sample_proc # ?rest"
  have "turn 0 ?init = Some (main_at (?prepare # ?open # ?later) no_own [] 0 s0)"
    by (subst main) (simp add: turn.simps)
  moreover obtain s1 where "turns [0, 0] (main_at (?prepare # ?open # ?later) no_own [] 0 s0) =
      Some (main_at ?later no_own [] 0 s1)" "sample_open s1"
    using sample_opens[OF s0(2)] by blast
  ultimately have "turns [0, 0, 0] ?init = Some (main_at ?later no_own [] 0 s1)" by simp
  from run_goes[OF _ \<open>sample_open s1\<close> turns_run[OF this]] mid(2) goes_cout obtain l s2 where
    r: "run ?init (replicate 3 (Turn 0) @ replicate (length mid + 1) (Turn 0))
          (main_at (SetThreads 1 # StartThread sample_proc # ?rest) l [] 0 s2)" and o: "sample_open s2"
    by (auto simp: numeral_3_eq_3)
  have "turns [0, 0] (main_at (SetThreads 1 # StartThread sample_proc # ?rest) l [] 0 s2) =
      Some (main_at ?rest l [(sample_proc, no_own)] 1 s2)"
    by (simp add: turn.simps)
  from run_trans[OF turns_run[OF this] r] have
    "run ?init (replicate 3 (Turn 0) @ replicate (length mid + 1) (Turn 0) @ [Turn 0, Turn 0])
       (main_at ?rest l [(sample_proc, no_own)] 1 s2)" by simp
  moreover have "NoThread i \<notin> set (replicate 3 (Turn 0) @ replicate (length mid + 1) (Turn 0) @ [Turn 0, Turn 0])" for i
    by auto
  ultimately show ?thesis using s0(1) b o by blast
qed

lemma sample_run:
  "\<exists>C0 C ls. mt_start sample_mt sample_main ''q'' (one_conn ()) = Some C0 \<and> run C0 ls C \<and>
     (\<forall>i. NoThread i \<notin> set ls) \<and> live_threads C = 1 \<and> length (threads C) = 2 \<and>
     fst (threads C ! 0) \<noteq> [] \<and> fst (threads C ! 1) = sample_proc"
proof -
  obtain C0 ls k l s where r: "mt_start sample_mt sample_main ''q'' (one_conn ()) = Some C0"
      "\<forall>i. NoThread i \<notin> set ls" "run C0 ls (main_at (Sleep 2000 # k) l [(sample_proc, no_own)] 1 s)"
    using sample_begins by blast
  have "live_threads (main_at (Sleep 2000 # k) l [(sample_proc, no_own)] 1 s) = 1"
    by (simp add: live_threads_def WriteLockThreadProc_def Let_def)
  with r show ?thesis by fastforce
qed


section \<open>One other thread at a time\<close>

text \<open>
  C8: whatever the library does and however the threads are scheduled: \<open>nThreads\<close> is 0 or 1 and at most
  one thread besides the main one is unfinished, and only while it is 1; when the main thread is about
  to set the counter or to start a thread, every thread it started before has finished; and while it
  waits, the counter is the number of unfinished threads, unless a thread could not be started.
\<close>

theorem mt_one_thread_at_a_time:
  assumes "mt_start M (mt_main rnd left_first nRows M) input m = Some C0" and "run C0 ls C"
  shows "(nThreads C = 0 \<or> nThreads C = 1) \<and> int (live_threads C) \<le> nThreads C \<and>
         (starts_next (fst (threads C ! 0)) \<longrightarrow> live_threads C = 0) \<and>
         (waits (fst (threads C ! 0)) \<and> (\<forall>i. NoThread i \<notin> set ls) \<longrightarrow> int (live_threads C) = nThreads C)"
proof -
  have "disciplined (\<forall>i. NoThread i \<notin> set ls) C"
    by (rule disciplined_run[OF assms(2) mt_start_disciplined[OF assms(1) phased_main]])
  note d = disciplinedD[OF this]
  show ?thesis using d by auto
qed

lemma mt_one_thread_at_a_time_witness:
  "\<exists>C0 C ls. mt_start sample_mt (mt_main (\<lambda>_. 4) True 0 sample_mt) ''q'' (one_conn ()) = Some C0 \<and> run C0 ls C \<and>
     live_threads C = 1 \<and> nThreads C = 1"
proof -
  obtain C0 C ls where r: "mt_start sample_mt (mt_main (\<lambda>_. 4) True 0 sample_mt) ''q'' (one_conn ()) = Some C0"
      "run C0 ls C" "live_threads C = 1"
    using sample_run by (auto simp: sample_main_def)
  from mt_one_thread_at_a_time[OF r(1,2)] r show ?thesis by fastforce
qed

section \<open>The other threads end\<close>



section \<open>The wait ends\<close>



end
