(* ===== verification/Spec2Isabelle.thy ===== *)
theory Spec2Isabelle
  imports HeaderProperties SqliteProperties MysqlProperties DemoProperties DemoMTProperties
begin

text \<open>
  A model of DatabaseLayer: two sets of C++ classes with one interface, \<open>src/src/CppSQLite3.cpp\<close> over
  SQLite and \<open>src/src/CppMySQL.cpp\<close> over the MySQL client library, and the programs of \<open>src/Demos\<close>
  that use them.

  \<^bold>\<open>The program.\<close>  \<open>include/DatabaseLayer.h\<close> declares five abstract classes (exception, connection, query
  cursor, result set held in memory, prepared statement) and typedefs that select one implementation
  at compile time.  A connection makes the other objects; each of them owns a handle of the library
  (or heap memory) that its destructor releases, copying moves the handle (the source loses it), and
  every error of the library becomes an exception with a code and a text.

  \<^bold>\<open>How it is modelled.\<close>  A member function is a program \<open>'s \<Rightarrow> ('e, 'a) outcome \<times> 's\<close> over the object and
  the machine, with three outcomes: a value, a thrown exception, or undefined behaviour of a named
  kind (theory Prelude).  The object is a record of its members, a member that no constructor sets is
  a \<open>cell\<close> that may be uninitialised, the machine records which handles, tables and heap blocks are
  live, so that double free, use after free, invalid free, array overflow, reads of uninitialised
  memory, null dereference and overflow of \<open>int\<close> are outcomes of the model wherever the code can do
  them.  \<open>int\<close> is \<open>int\<close> with the range checked, \<open>unsigned long\<close> is a 64 bit word, a \<open>double\<close> is its bits.
  The two libraries are parameters: records of functions over an arbitrary world (\<open>sqlite3_lib\<close>,
  \<open>mysql_lib\<close>).  What a property needs of them is a named hypothesis over a \<^emph>\<open>view\<close> of that world (a
  statement gives these rows in order; a bound value is kept until the statement runs), and every
  property with hypotheses has an instance on a concrete library (SqliteSample, MysqlSample).

  \<^bold>\<open>The theories.\<close>
  \<^item> Prelude: outcomes, programs, integers.  CStrings: character arrays, \<open>snprintf\<close> of C99 and of Microsoft,
    \<open>sprintf\<close>, \<open>atoi\<close>, \<open>strtol\<close>, decimal printing and its inverse.
  \<^item> DatabaseLayer: what the interface promises, as locales: a \<open>cursor\<close> (the loop \<open>while (!eof)\<close> reads
    the pending rows in order and ends), random access to rows, and the transaction protocol as an
    abstract two-state machine.  Ownership: objects at addresses that are constructed, moved,
    assigned, cleared and destroyed in any order, as a step relation; a locale whose laws a class
    proves of its own operations, and the invariant that follows (one owner, no fault, no leak).
  \<^item> SqliteApi, SqliteException, SqliteQuery, SqliteResultSet, SqliteStatement, SqliteDB: the classes
    of \<open>CppSQLite3.cpp\<close>, one theory each, function by function; SqliteContract: the documented
    behaviour of the library as views.  MysqlApi, MysqlException, MysqlQuery, MysqlResultSet,
    MysqlStatement, ConnString (the connection string parser), MysqlDB: the same for \<open>CppMySQL.cpp\<close>.
  \<^item> ClassInterfaces, SqliteClasses, MysqlClasses: the class declarations of the headers as records
    of member functions, with the values of omitted arguments.
  \<^item> Demo: \<open>CppDBDemo.cpp\<close>, the whole of \<open>main\<close> over a \<open>backend\<close>, the record of what the typedefs select;
    DemoBackends: the two backends, and the interpretations of the locales of DemoProofs on them.
  \<^item> Triples: weakest preconditions of programs and triples that account for every way out of one;
    DemoSafety: the demonstration program over a backend that keeps its books, as a locale;
    SqliteSafety: the member functions of the SQLite classes keep them, whatever the library answers;
    SqliteDemoSafety: the interpretation of the locale on the SQLite backend.
  \<^item> MysqlMemory: what is live with MySQL, as a set of numbers of seven kinds, and what each call of the
    library does to it; MysqlSafety, MysqlHeapSafety: every member function leaves what is beside its
    object as it was, and what a throw loses is counted; MysqlDemoSafety: the program's four objects as
    instances of one locale, and the interpretation of the locale of DemoSafety on the MySQL backend.
  \<^item> Threads: commands, threads, their interleaving and the discipline on the counter; ThreadProgress: steps
    taken and steps left of bounded threads; DemoMT: \<open>CppDBDemoMT.cpp\<close> over them; DemoMTProofs: its threads
    keep the discipline and end.
  \<^item> The headers of the libraries: SqliteCodes, the result codes of \<open>sqlite3.h\<close>; MysqlErrorTable and
    MysqlErrors, the error codes and states of \<open>include/MySQL/mysqld_error.h\<close>, \<open>mysqld_ername.h\<close>,
    \<open>errmsg.h\<close> and \<open>sql_state.h\<close>, row by row; MysqlBytes, the byte order macros of \<open>my_global.h\<close>.
  \<^item> SqliteProperties, MysqlProperties, DemoProperties, DemoMTProperties, HeaderProperties: the properties.

  \<^bold>\<open>What the theorems show.\<close>
  \<^item> Reading: a query gives exactly the rows of its statement, in order, and ends; a result set gives
    any rows in any order; columns are found by name and checked against their number; scalars.
  \<^item> Writing: what is bound is what runs, once per row; transactions follow the protocol (SQLite) or do
    as long as they are paired (MySQL, which counts them).
  \<^item> Ownership: for every sequence of operations on the objects of a class each handle has one owner,
    nothing is released twice or used afterwards, and nothing leaks, except by the assignment of the
    two statement classes.
  \<^item> Errors: what is thrown, with which text, and what has been released then; closed connections;
    rejected connection strings; the error paths that are undefined behaviour.
  \<^item> Connection strings: written pairs are read back, and make exactly the calls they ask for.
  \<^item> Programs: the demonstration program prints the same and sends the same with either library.  Whatever
    the library answers, no way through it is a memory fault: with SQLite it leaves no statement, table or
    message behind; with MySQL it closes its connection and loses at most the two results of
    \<open>getResultSet\<close>, and more only when a constructor throws.  In
    the multithreaded one at most one other thread is unfinished, however threads are scheduled, and the
    main thread does not wait for ever.
  \<^item> Headers: no code of a library is taken for one of the wrappers' own; the error tables fit together;
    what the byte order macros write they read, and the two sets of them agree.

  \<^bold>\<open>Bounds.\<close>  Loops whose end depends on the library (the row loops, \<open>buildResultSet\<close>, the loops of
  the demonstration program) take fuel and give \<open>Undef OutOfFuel\<close> without it; the theorems show that
  one turn more than there are rows is enough.  The loops of the threads take single steps and need
  none.  All other loops are structural, or have a measure (the parser of connection strings, the
  loop that waits for \<open>q\<close>, which gives \<open>None\<close> when it never ends).

  \<^bold>\<open>Not modelled.\<close>
  \<^item> What the two libraries do: \<open>sqlite3.h\<close> and the MySQL headers declare them, and no source is in the
    repository.  Of \<open>sqlite3.h\<close> and \<open>mysql.h\<close> the constants the wrappers use and the result codes are
    definitions.  The other MySQL headers declare the internals of the client library and configure
    compilers and systems; but for the error tables and the byte order macros they are left out.
  \<^item> The CppUnit tests, the project files and the compiler pragmas of \<open>Platform_WIN32.h\<close>.
  \<^item> Failing allocation (\<open>std::bad_alloc\<close>); floating point arithmetic (a \<open>double\<close> is only passed on); locales
    other than the C locale in \<open>isspace\<close>; results with 2^31 columns or more; copies of returned objects that
    a compiler may leave out, which are left out here; time, and the data races of the multithreaded program, whose
    statements are atomic steps here.
\<close>

end
